(* ===== verification/Prelude.thy ===== *)
theory Prelude
  imports Main "HOL-Library.Word"
begin

text \<open>
  Shared base of the library: the machine types of the C code (\<open>uint32\<close>, \<open>uint64\<close>, bytes),
  C strings and nullable \<open>char *\<close> values, memory that \<open>memset\<close> has cleared (the value
  \<^const>\<open>default\<close> of every type of the model), big-endian byte conversions, the padding of
  XDR, and the collections of rewrite and introduction rules the components fill.
\<close>

unbundle bit_operations_syntax

named_theorems c_consts \<open>unfolds the numeric constants of the headers\<close>
named_theorems xdr_defs \<open>definitions of the XDR filters\<close>
named_theorems xdr_framed \<open>every filter keeps its stream discipline\<close>
named_theorems xdr_rt \<open>encode, then decode, of the filters\<close>
named_theorems zero_mem \<open>the cleared value of each structure\<close>

section \<open>Machine integers, strings\<close>

type_synonym byte = "8 word"
type_synonym u16 = "16 word"
type_synonym u32 = "32 word"
type_synonym u64 = "64 word"

text \<open>
  A C string is the list of its characters up to the terminating NUL; a \<open>char *\<close> that may
  be \<open>NULL\<close> is an option. The C type \<open>int\<close> (and every C \<open>enum\<close>, which is an
  \<open>int\<close>) is a 32-bit pattern; where its sign matters it is read with \<^const>\<open>sint\<close>.
\<close>

type_synonym cstring = string
type_synonym charptr = "string option"
type_synonym cint = "32 word"
type_synonym bool_t = "32 word"

definition TRUE :: bool_t where
  "TRUE = 1"

definition FALSE :: bool_t where
  "FALSE = 0"

lemma TRUE_neq_FALSE [simp]: "TRUE \<noteq> FALSE" "FALSE \<noteq> TRUE"
  by (simp_all add: TRUE_def FALSE_def)

lemma FALSE_0 [simp]: "(FALSE = 0) = True" "(0 = FALSE) = True" "(TRUE = 0) = False"
  by (simp_all add: TRUE_def FALSE_def)

definition byte_of_char :: "char \<Rightarrow> byte" where
  "byte_of_char c = word_of_nat (of_char c)"

definition char_of_byte :: "byte \<Rightarrow> char" where
  "char_of_byte b = char_of (unat b)"

lemma of_char_less_256: "of_char c < (256 :: nat)"
  by (metis of_char_mod_256 mod_less_divisor zero_less_numeral)

lemma char_of_byte_of_char [simp]: "char_of_byte (byte_of_char c) = c"
proof -
  have "unat (word_of_nat (of_char c) :: byte) = of_char c"
    using of_char_less_256 [of c] by (simp add: unat_of_nat)
  then show ?thesis by (simp add: byte_of_char_def char_of_byte_def)
qed

lemma byte_of_char_of_byte [simp]: "byte_of_char (char_of_byte b) = b"
proof -
  have "unat b < 256" using unsigned_less [of b] by simp
  then show ?thesis by (simp add: byte_of_char_def char_of_byte_def)
qed

text \<open>The NUL character, and the part of a buffer that the C string functions see.\<close>

definition NUL :: char where
  "NUL = CHR 0x00"

definition nul_free :: "string \<Rightarrow> bool" where
  "nul_free s \<longleftrightarrow> NUL \<notin> set s"

definition cstr :: "string \<Rightarrow> cstring" where
  "cstr s = takeWhile (\<lambda>c. c \<noteq> NUL) s"

lemma cstr_nul_free_id [simp]: "nul_free s \<Longrightarrow> cstr s = s"
  unfolding nul_free_def cstr_def by (subst takeWhile_eq_all_conv) auto

lemma nul_free_cstr [simp]: "nul_free (cstr s)"
  unfolding nul_free_def cstr_def by (metis (mono_tags, lifting) set_takeWhileD)

lemma length_cstr: "length (cstr s) \<le> length s"
  unfolding cstr_def by (rule length_takeWhile_le)

lemma nul_free_append [simp]: "nul_free (s @ t) \<longleftrightarrow> nul_free s \<and> nul_free t"
  by (auto simp: nul_free_def)

lemma nul_free_Cons [simp]: "nul_free (c # t) \<longleftrightarrow> c \<noteq> NUL \<and> nul_free t"
  by (auto simp: nul_free_def)

lemma nul_free_Nil [simp]: "nul_free []"
  by (simp add: nul_free_def)

section \<open>Cleared memory\<close>

text \<open>
  \<open>memset (&x, 0, sizeof (x))\<close> leaves the value \<^const>\<open>default\<close> of the type of \<open>x\<close>:
  zero for an integer, \<open>NULL\<close> for a pointer, no bytes behind a cleared counted buffer.
  Each structure of the protocol is an instance, field by field.
\<close>

instantiation word :: (len) default
begin

definition default_word :: "'a word" where
  "default_word = 0"

instance ..

end

instantiation list :: (type) default
begin

definition default_list :: "'a list" where
  "default_list = []"

instance ..

end

instantiation option :: (type) default
begin

definition default_option :: "'a option" where
  "default_option = None"

instance ..

end

declare default_word_def [zero_mem] default_list_def [zero_mem] default_option_def [zero_mem]

section \<open>Big-endian bytes\<close>

definition be32 :: "u32 \<Rightarrow> byte list" where
  "be32 w = [ucast (drop_bit 24 w), ucast (drop_bit 16 w), ucast (drop_bit 8 w), ucast w]"

definition rd_be32 :: "byte list \<Rightarrow> u32" where
  "rd_be32 bs = push_bit 24 (ucast (bs ! 0)) OR push_bit 16 (ucast (bs ! 1))
     OR push_bit 8 (ucast (bs ! 2)) OR ucast (bs ! 3)"

lemma length_be32 [simp]: "length (be32 w) = 4"
  by (simp add: be32_def)

lemma rd_be32_be32_append [simp]: "rd_be32 (be32 w @ r) = w"
proof (rule bit_word_eqI)
  fix n :: nat
  assume "n < LENGTH(32)"
  then consider "n < 8" | "8 \<le> n" "n < 16" | "16 \<le> n" "n < 24" | "24 \<le> n" "n < 32"
    by force
  then show "bit (rd_be32 (be32 w @ r)) n = bit w n"
    by cases (auto simp: rd_be32_def be32_def bit_simps)
qed

lemma rd_be32_be32 [simp]: "rd_be32 (be32 w) = w"
  using rd_be32_be32_append [of w "[]"] by simp

lemma be32_inject [simp]: "be32 v = be32 w \<longleftrightarrow> v = w"
  by (metis rd_be32_be32)

section \<open>Padding\<close>

text \<open>XDR pads every variable-length item to a multiple of four bytes.\<close>

definition xdr_pad :: "nat \<Rightarrow> nat" where
  "xdr_pad n = (4 - n mod 4) mod 4"

lemma xdr_pad_aligned: "4 dvd (n + xdr_pad n)"
proof -
  have "(n + xdr_pad n) mod 4 = (n mod 4 + (4 - n mod 4)) mod 4"
    unfolding xdr_pad_def by (metis mod_add_left_eq mod_add_right_eq)
  also have "n mod 4 + (4 - n mod 4) = 4" by (simp add: mod_le_divisor order_less_imp_le)
  finally show ?thesis by (simp add: dvd_eq_mod_eq_0)
qed

lemma xdr_pad_less: "xdr_pad n < 4"
  unfolding xdr_pad_def by simp

lemma xdr_pad_aligned_id [simp]: "4 dvd n \<Longrightarrow> xdr_pad n = 0"
  unfolding xdr_pad_def by (simp add: dvd_eq_mod_eq_0)

section \<open>Small generic facts\<close>

lemma take_append_length [simp]: "length xs = n \<Longrightarrow> take n (xs @ ys) = xs"
  by simp

lemma drop_append_length [simp]: "length xs = n \<Longrightarrow> drop n (xs @ ys) = ys"
  by simp


end
