(* ===== verification/Rpc_Xdr.thy ===== *)
theory Rpc_Xdr
  imports Prelude
begin

text \<open>
  The XDR streams and primitive filters that \<open>unfs3/xdr.c\<close> takes from the C library
  (\<open>rpc/rpc.h\<close>), and the shape of the filters built from them. One C function
  \<open>bool_t xdr_T (XDR *, T *)\<close> encodes, decodes or frees, as \<open>x_op\<close> says; it is one HOL
  function here: \<^const>\<open>None\<close> is the result \<open>FALSE\<close>, \<open>Some (xdrs', obj')\<close> is \<open>TRUE\<close> with
  the stream and the object the call leaves behind. The output of a stream is not bounded;
  the sizes of replies are bounded by theorems of the components that send them.
\<close>

section \<open>Streams\<close>

datatype xdr_op = XDR_ENCODE | XDR_DECODE | XDR_FREE

record XDR =
  x_op :: xdr_op
  x_out :: "byte list"
  x_in :: "byte list"

type_synonym 'a xdrproc = "XDR \<Rightarrow> 'a \<Rightarrow> (XDR \<times> 'a) option"

definition x_putbytes :: "XDR \<Rightarrow> byte list \<Rightarrow> XDR" where
  "x_putbytes xdrs bs = xdrs\<lparr>x_out := x_out xdrs @ bs\<rparr>"

definition x_getbytes :: "XDR \<Rightarrow> nat \<Rightarrow> (XDR \<times> byte list) option" where
  "x_getbytes xdrs n =
     (if n \<le> length (x_in xdrs)
      then Some (xdrs\<lparr>x_in := drop n (x_in xdrs)\<rparr>, take n (x_in xdrs)) else None)"

definition encoder :: "byte list \<Rightarrow> byte list \<Rightarrow> XDR" where
  "encoder out inp = \<lparr>x_op = XDR_ENCODE, x_out = out, x_in = inp\<rparr>"

definition decoder :: "byte list \<Rightarrow> byte list \<Rightarrow> XDR" where
  "decoder out inp = \<lparr>x_op = XDR_DECODE, x_out = out, x_in = inp\<rparr>"

lemma encoder_sel [simp]:
  "x_op (encoder out inp) = XDR_ENCODE" "x_out (encoder out inp) = out"
  "x_in (encoder out inp) = inp"
  by (simp_all add: encoder_def)

lemma decoder_sel [simp]:
  "x_op (decoder out inp) = XDR_DECODE" "x_out (decoder out inp) = out"
  "x_in (decoder out inp) = inp"
  by (simp_all add: decoder_def)

lemma encoder_put [simp]: "x_putbytes (encoder out inp) bs = encoder (out @ bs) inp"
  by (simp add: x_putbytes_def encoder_def)

lemma decoder_get [simp]:
  "length bs = n \<Longrightarrow> x_getbytes (decoder out (bs @ r)) n = Some (decoder out r, bs)"
  by (auto simp: x_getbytes_def decoder_def)

lemma decoder_get_all [simp]:
  "length bs = n \<Longrightarrow> x_getbytes (decoder out bs) n = Some (decoder out [], bs)"
  using decoder_get [of bs n out "[]"] by simp

lemma decoder_get_0 [simp]: "x_getbytes (decoder out bs) 0 = Some (decoder out bs, [])"
  by (simp add: x_getbytes_def decoder_def)

section \<open>Primitive filters of the C library\<close>

definition xdr_void :: "unit xdrproc" where
  "xdr_void xdrs u = Some (xdrs, u)"

definition xdr_u_int :: "u32 xdrproc" where
  "xdr_u_int xdrs v =
     (case x_op xdrs of
        XDR_ENCODE \<Rightarrow> Some (x_putbytes xdrs (be32 v), v)
      | XDR_DECODE \<Rightarrow>
          (case x_getbytes xdrs 4 of None \<Rightarrow> None | Some (xdrs', bs) \<Rightarrow> Some (xdrs', rd_be32 bs))
      | XDR_FREE \<Rightarrow> Some (xdrs, v))"

text \<open>On the machines the program runs on, these three move the same four bytes.\<close>

definition xdr_uint32_t :: "u32 xdrproc" where
  "xdr_uint32_t = xdr_u_int"

definition xdr_int :: "cint xdrproc" where
  "xdr_int = xdr_u_int"

definition xdr_enum :: "cint xdrproc" where
  "xdr_enum = xdr_u_int"

definition xdr_bool :: "bool_t xdrproc" where
  "xdr_bool xdrs b =
     (case x_op xdrs of
        XDR_ENCODE \<Rightarrow> Some (x_putbytes xdrs (be32 (if b = FALSE then 0 else 1)), b)
      | XDR_DECODE \<Rightarrow>
          (case x_getbytes xdrs 4 of None \<Rightarrow> None
           | Some (xdrs', bs) \<Rightarrow> Some (xdrs', if rd_be32 bs = 0 then FALSE else TRUE))
      | XDR_FREE \<Rightarrow> Some (xdrs, b))"

text \<open>
  \<open>xdr_opaque (xdrs, p, cnt)\<close>: \<open>cnt\<close> bytes at \<open>p\<close> and their padding. The buffer is the
  memory from \<open>p\<close> on; encoding more than there is would read out of bounds and has no result.
\<close>

definition xdr_opaque :: "nat \<Rightarrow> byte list xdrproc" where
  "xdr_opaque cnt xdrs p =
     (case x_op xdrs of
        XDR_ENCODE \<Rightarrow>
          (if cnt \<le> length p
           then Some (x_putbytes xdrs (take cnt p @ replicate (xdr_pad cnt) 0), p) else None)
      | XDR_DECODE \<Rightarrow>
          (case x_getbytes xdrs cnt of None \<Rightarrow> None
           | Some (xdrs', bs) \<Rightarrow>
               (case x_getbytes xdrs' (xdr_pad cnt) of None \<Rightarrow> None
                | Some (xdrs'', _) \<Rightarrow> Some (xdrs'', bs @ drop cnt p)))
      | XDR_FREE \<Rightarrow> Some (xdrs, p))"

text \<open>
  Counted data: a length and a pointer. The list holds the memory the pointer gives access
  to; on decoding it is allocated by the filter and holds exactly the counted bytes.
\<close>

record 'a counted =
  counted_len :: u32
  counted_val :: "'a list"

definition xdr_bytes :: "u32 \<Rightarrow> byte counted xdrproc" where
  "xdr_bytes maxsize xdrs c =
     (case xdr_u_int xdrs (counted_len c) of None \<Rightarrow> None
      | Some (xdrs', n) \<Rightarrow>
          if maxsize < n \<and> x_op xdrs \<noteq> XDR_FREE then None
          else (case x_op xdrs of
              XDR_ENCODE \<Rightarrow>
                (case xdr_opaque (unat n) xdrs' (counted_val c) of None \<Rightarrow> None
                 | Some (xdrs'', _) \<Rightarrow> Some (xdrs'', c))
            | XDR_DECODE \<Rightarrow>
                (if n = 0 then Some (xdrs', c\<lparr>counted_len := n\<rparr>)
                 else case xdr_opaque (unat n) xdrs' [] of None \<Rightarrow> None
                   | Some (xdrs'', bs) \<Rightarrow> Some (xdrs'', c\<lparr>counted_len := n, counted_val := bs\<rparr>))
            | XDR_FREE \<Rightarrow> Some (xdrs', c\<lparr>counted_val := []\<rparr>)))"

definition xdr_string :: "u32 \<Rightarrow> charptr xdrproc" where
  "xdr_string maxsize xdrs p =
     (case x_op xdrs of
        XDR_FREE \<Rightarrow> Some (xdrs, None)
      | XDR_ENCODE \<Rightarrow>
          (case p of None \<Rightarrow> None
           | Some s \<Rightarrow>
               (let nbytes = word_of_nat (length s) :: u32
                in if maxsize < nbytes \<or> nbytes + 1 = 0 then None
                   else (case xdr_u_int xdrs nbytes of None \<Rightarrow> None
                     | Some (xdrs', _) \<Rightarrow>
                         (case xdr_opaque (unat nbytes) xdrs' (map byte_of_char s) of None \<Rightarrow> None
                          | Some (xdrs'', _) \<Rightarrow> Some (xdrs'', p)))))
      | XDR_DECODE \<Rightarrow>
          (case xdr_u_int xdrs 0 of None \<Rightarrow> None
           | Some (xdrs', nbytes) \<Rightarrow>
               if maxsize < nbytes \<or> nbytes + 1 = 0 then None
               else (case xdr_opaque (unat nbytes) xdrs' [] of None \<Rightarrow> None
                 | Some (xdrs'', bs) \<Rightarrow> Some (xdrs'', Some (cstr (map char_of_byte bs))))))"

fun xdr_elems :: "'a xdrproc \<Rightarrow> nat \<Rightarrow> 'a list xdrproc" where
  "xdr_elems elproc 0 xdrs xs = Some (xdrs, xs)"
| "xdr_elems elproc (Suc n) xdrs [] = None"
| "xdr_elems elproc (Suc n) xdrs (x # xs) =
     (case elproc xdrs x of None \<Rightarrow> None
      | Some (xdrs', x') \<Rightarrow>
          (case xdr_elems elproc n xdrs' xs of None \<Rightarrow> None
           | Some (xdrs'', xs') \<Rightarrow> Some (xdrs'', x' # xs')))"

definition xdr_array :: "u32 \<Rightarrow> u32 \<Rightarrow> 'a xdrproc \<Rightarrow> ('a::default) counted xdrproc" where
  "xdr_array maxsize elsize elproc xdrs c =
     (case xdr_u_int xdrs (counted_len c) of None \<Rightarrow> None
      | Some (xdrs', n) \<Rightarrow>
          if (maxsize < n \<or> 0xFFFFFFFF div elsize < n) \<and> x_op xdrs \<noteq> XDR_FREE then None
          else (let mem = (if x_op xdrs = XDR_DECODE then replicate (unat n) default
                           else counted_val c)
                in case xdr_elems elproc (unat n) xdrs' mem of None \<Rightarrow> None
                   | Some (xdrs'', xs) \<Rightarrow>
                       Some (xdrs'', c\<lparr>counted_len := n,
                         counted_val := (if x_op xdrs = XDR_FREE then [] else xs)\<rparr>)))"

text \<open>
  \<open>xdr_pointer\<close> sends whether the pointer is there, then, through \<open>xdr_reference\<close>, the
  object; on decoding it allocates cleared memory where the pointer is \<open>NULL\<close>.
\<close>

definition xdr_pointer :: "'a xdrproc \<Rightarrow> ('a::default) option xdrproc" where
  "xdr_pointer proc xdrs p =
     (case xdr_bool xdrs (if p = None then FALSE else TRUE) of None \<Rightarrow> None
      | Some (xdrs', more_data) \<Rightarrow>
          if more_data = FALSE then Some (xdrs', None)
          else (case proc xdrs' (case p of None \<Rightarrow> default | Some v \<Rightarrow> v) of None \<Rightarrow> None
            | Some (xdrs'', v) \<Rightarrow> Some (xdrs'', if x_op xdrs = XDR_FREE then None else Some v)))"

lemma xdr_pointer_cong [fundef_cong]:
  assumes "xdrs = xdrs2" and "p = p2"
    and "\<And>x1 b. xdr_bool xdrs2 (if p2 = None then FALSE else TRUE) = Some (x1, b) \<Longrightarrow> b \<noteq> FALSE \<Longrightarrow>
      proc x1 (case p2 of None \<Rightarrow> default | Some v \<Rightarrow> v) =
      proc2 x1 (case p2 of None \<Rightarrow> default | Some v \<Rightarrow> v)"
  shows "xdr_pointer proc xdrs p = xdr_pointer proc2 xdrs2 p2"
  unfolding xdr_pointer_def assms(1,2)
  using assms(3) by (auto split: option.split)

section \<open>Filters of structures and unions\<close>

text \<open>
  \<open>if (!xdr_T (xdrs, &objp->m)) return FALSE;\<close> is \<open>field xdr_T m m_update\<close>; the statements
  of a filter, ended by \<open>return TRUE\<close>, are an \<open>xseq\<close>; a \<open>switch\<close> on a member that has just
  been transferred picks the filter by the object as it is then.
\<close>

definition field ::
  "'a xdrproc \<Rightarrow> ('r \<Rightarrow> 'a) \<Rightarrow> (('a \<Rightarrow> 'a) \<Rightarrow> 'r \<Rightarrow> 'r) \<Rightarrow> 'r xdrproc" where
  "field f sel upd xdrs objp =
     (case f xdrs (sel objp) of None \<Rightarrow> None
      | Some (xdrs', v) \<Rightarrow> Some (xdrs', upd (\<lambda>_. v) objp))"

fun xseq :: "'r xdrproc list \<Rightarrow> 'r xdrproc" where
  "xseq [] xdrs objp = Some (xdrs, objp)"
| "xseq (f # fs) xdrs objp =
     (case f xdrs objp of None \<Rightarrow> None | Some (xdrs', objp') \<Rightarrow> xseq fs xdrs' objp')"

definition xdr_switch :: "('r \<Rightarrow> 'r xdrproc) \<Rightarrow> 'r xdrproc" where
  "xdr_switch k xdrs objp = k objp xdrs objp"

definition xdr_break :: "'r xdrproc" where
  "xdr_break xdrs objp = Some (xdrs, objp)"

definition xdr_return_FALSE :: "'r xdrproc" where
  "xdr_return_FALSE xdrs objp = None"

section \<open>Stream discipline\<close>

text \<open>
  A filter is \<open>framed\<close> when, wherever it succeeds, it only appends to the output while
  encoding and leaves the object alone, only consumes a prefix of the input while decoding,
  moves whole multiples of four bytes, and never changes the direction of the stream.
\<close>

definition stream_step :: "XDR \<Rightarrow> XDR \<Rightarrow> bool" where
  "stream_step xdrs xdrs' \<longleftrightarrow>
     x_op xdrs' = x_op xdrs \<and>
     (case x_op xdrs of
        XDR_ENCODE \<Rightarrow> x_in xdrs' = x_in xdrs \<and>
          (\<exists>bs. 4 dvd length bs \<and> x_out xdrs' = x_out xdrs @ bs)
      | XDR_DECODE \<Rightarrow> x_out xdrs' = x_out xdrs \<and>
          (\<exists>bs. 4 dvd length bs \<and> x_in xdrs = bs @ x_in xdrs')
      | XDR_FREE \<Rightarrow> xdrs' = xdrs)"

definition framed :: "'a xdrproc \<Rightarrow> bool" where
  "framed f \<longleftrightarrow> (\<forall>xdrs obj xdrs' obj'. f xdrs obj = Some (xdrs', obj') \<longrightarrow>
     stream_step xdrs xdrs' \<and> (x_op xdrs = XDR_ENCODE \<longrightarrow> obj' = obj))"

lemma framedI:
  assumes "\<And>xdrs obj xdrs' obj'. f xdrs obj = Some (xdrs', obj') \<Longrightarrow>
    stream_step xdrs xdrs' \<and> (x_op xdrs = XDR_ENCODE \<longrightarrow> obj' = obj)"
  shows "framed f"
  using assms by (auto simp: framed_def)

lemma framedD:
  assumes "framed f" and "f xdrs obj = Some (xdrs', obj')"
  shows "stream_step xdrs xdrs'" and "x_op xdrs = XDR_ENCODE \<Longrightarrow> obj' = obj"
  using assms by (auto simp: framed_def)

lemma stream_step_refl [simp]: "stream_step xdrs xdrs"
  by (auto simp: stream_step_def split: xdr_op.split)

lemma stream_step_op: "stream_step xdrs xdrs' \<Longrightarrow> x_op xdrs' = x_op xdrs"
  by (simp add: stream_step_def)

lemma stream_step_trans:
  assumes "stream_step a b" and "stream_step b c"
  shows "stream_step a c"
proof (cases "x_op a")
  case XDR_ENCODE
  with assms obtain bs cs where
    "4 dvd length bs" "x_out b = x_out a @ bs" "4 dvd length cs" "x_out c = x_out b @ cs"
    and same: "x_in c = x_in a" "x_op c = x_op a"
    by (auto simp: stream_step_def)
  then have "4 dvd length (bs @ cs) \<and> x_out c = x_out a @ bs @ cs" by simp
  with same XDR_ENCODE show ?thesis by (auto simp: stream_step_def)
next
  case XDR_DECODE
  with assms obtain bs cs where
    "4 dvd length bs" "x_in a = bs @ x_in b" "4 dvd length cs" "x_in b = cs @ x_in c"
    and same: "x_out c = x_out a" "x_op c = x_op a"
    by (auto simp: stream_step_def)
  then have "4 dvd length (bs @ cs) \<and> x_in a = (bs @ cs) @ x_in c" by simp
  with same XDR_DECODE show ?thesis unfolding stream_step_def by fastforce
next
  case XDR_FREE
  with assms show ?thesis by (auto simp: stream_step_def)
qed

lemma framed_shrinks:
  assumes "framed f" and "f xdrs obj = Some (xdrs', obj')"
  shows "x_op xdrs' = x_op xdrs" and "length (x_in xdrs') \<le> length (x_in xdrs)"
  using framedD(1) [OF assms] by (auto simp: stream_step_def split: xdr_op.splits)

lemma stream_step_put:
  "x_op xdrs = XDR_ENCODE \<Longrightarrow> 4 dvd length bs \<Longrightarrow> stream_step xdrs (x_putbytes xdrs bs)"
  by (auto simp: stream_step_def x_putbytes_def)

lemma stream_step_get:
  assumes "x_op xdrs = XDR_DECODE" and "x_getbytes xdrs n = Some (xdrs', bs)" and "4 dvd n"
  shows "stream_step xdrs xdrs'"
proof -
  from assms(2) have n: "n \<le> length (x_in xdrs)"
    and x: "xdrs' = xdrs\<lparr>x_in := drop n (x_in xdrs)\<rparr>"
    by (auto simp: x_getbytes_def split: if_splits)
  have "4 dvd length (take n (x_in xdrs))" using n assms(3) by simp
  then show ?thesis using x assms(1) unfolding stream_step_def
    by (auto intro!: exI [of _ "take n (x_in xdrs)"])
qed

lemma stream_step_get2:
  assumes "x_op xdrs = XDR_DECODE" and "x_getbytes xdrs n = Some (xdrs', bs)"
    and "x_getbytes xdrs' m = Some (xdrs'', cs)" and "4 dvd (n + m)"
  shows "stream_step xdrs xdrs''"
proof -
  from assms(2,3) have "x_getbytes xdrs (n + m) = Some (xdrs'', take (n + m) (x_in xdrs))"
    by (auto simp: x_getbytes_def add.commute split: if_splits)
  then show ?thesis using assms(1,4) by (blast intro: stream_step_get)
qed

lemma xdr_void_framed [xdr_framed]: "framed xdr_void"
  by (auto simp: framed_def xdr_void_def)

lemma xdr_u_int_framed [xdr_framed]: "framed xdr_u_int"
  by (rule framedI)
    (auto simp: xdr_u_int_def stream_step_put split: xdr_op.splits option.splits
      intro: stream_step_get)

lemma xdr_uint32_t_framed [xdr_framed]: "framed xdr_uint32_t"
  and xdr_int_framed [xdr_framed]: "framed xdr_int"
  and xdr_enum_framed [xdr_framed]: "framed xdr_enum"
  by (simp_all add: xdr_uint32_t_def xdr_int_def xdr_enum_def xdr_u_int_framed)

lemma xdr_bool_framed [xdr_framed]: "framed xdr_bool"
  by (rule framedI)
    (auto simp: xdr_bool_def stream_step_put split: xdr_op.splits option.splits
      intro: stream_step_get)

lemma xdr_opaque_framed [xdr_framed]: "framed (xdr_opaque n)"
proof (rule framedI)
  fix xdrs obj xdrs' obj'
  assume "xdr_opaque n xdrs obj = Some (xdrs', obj')"
  then show "stream_step xdrs xdrs' \<and> (x_op xdrs = XDR_ENCODE \<longrightarrow> obj' = obj)"
    using xdr_pad_aligned [of n] by (cases "x_op xdrs")
      (auto simp: xdr_opaque_def split: option.splits if_splits
        intro!: stream_step_put intro: stream_step_get2)
qed

lemma xdr_bytes_framed [xdr_framed]: "framed (xdr_bytes m)"
proof (rule framedI)
  fix xdrs obj xdrs' obj'
  assume run: "xdr_bytes m xdrs obj = Some (xdrs', obj')"
  then obtain x1 n where x1: "xdr_u_int xdrs (counted_len obj) = Some (x1, n)"
    by (auto simp: xdr_bytes_def split: option.splits)
  note s1 = framedD(1) [OF xdr_u_int_framed x1]
  have s2: "stream_step xdrs x2" if "xdr_opaque k x1 p = Some (x2, q)" for k p x2 q
    using s1 framedD(1) [OF xdr_opaque_framed that] by (rule stream_step_trans)
  from run x1 s1 show "stream_step xdrs xdrs' \<and> (x_op xdrs = XDR_ENCODE \<longrightarrow> obj' = obj)"
    by (auto simp: xdr_bytes_def split: option.splits xdr_op.splits if_splits dest: s2)
qed

lemma xdr_string_framed [xdr_framed]: "framed (xdr_string m)"
proof (rule framedI)
  fix xdrs obj xdrs' obj'
  assume run: "xdr_string m xdrs obj = Some (xdrs', obj')"
  have s: "stream_step xdrs x2"
    if "xdr_u_int xdrs v = Some (x1, n)" and "xdr_opaque k x1 p = Some (x2, q)"
    for v x1 n k p x2 q
    using framedD(1) [OF xdr_u_int_framed that(1)] framedD(1) [OF xdr_opaque_framed that(2)]
    by (rule stream_step_trans)
  from run show "stream_step xdrs xdrs' \<and> (x_op xdrs = XDR_ENCODE \<longrightarrow> obj' = obj)"
    by (auto simp: xdr_string_def Let_def split: option.splits xdr_op.splits if_splits dest: s)
qed

lemma xdr_elems_framed [xdr_framed]:
  assumes f: "framed f"
  shows "framed (xdr_elems f n)"
proof (rule framedI)
  fix xdrs obj xdrs' obj'
  assume "xdr_elems f n xdrs obj = Some (xdrs', obj')"
  then show "stream_step xdrs xdrs' \<and> (x_op xdrs = XDR_ENCODE \<longrightarrow> obj' = obj)"
  proof (induction n arbitrary: xdrs obj obj')
    case (Suc n)
    then obtain x xs x1 v xs1 where obj: "obj = x # xs" "obj' = v # xs1"
      and a: "f xdrs x = Some (x1, v)" and b: "xdr_elems f n x1 xs = Some (xdrs', xs1)"
      by (cases obj) (auto split: option.splits)
    note fa = framedD [OF f a]
    note ib = Suc.IH [OF b]
    show ?case
      using obj fa ib stream_step_trans [OF fa(1)] stream_step_op [OF fa(1)] by auto
  qed auto
qed

lemma xdr_array_framed [xdr_framed]:
  assumes f: "framed f"
  shows "framed (xdr_array m e f)"
proof (rule framedI)
  fix xdrs obj xdrs' obj'
  assume run: "xdr_array m e f xdrs obj = Some (xdrs', obj')"
  then obtain x1 n mem xs where a: "xdr_u_int xdrs (counted_len obj) = Some (x1, n)"
    and b: "xdr_elems f (unat n) x1 mem = Some (xdrs', xs)"
    and mem: "x_op xdrs = XDR_ENCODE \<Longrightarrow> mem = counted_val obj"
    and obj': "obj' = obj\<lparr>counted_len := n,
      counted_val := (if x_op xdrs = XDR_FREE then [] else xs)\<rparr>"
    by (auto simp: xdr_array_def Let_def split: option.splits if_splits)
  note fa = framedD [OF xdr_u_int_framed a]
  note fb = framedD [OF xdr_elems_framed [OF f] b]
  show "stream_step xdrs xdrs' \<and> (x_op xdrs = XDR_ENCODE \<longrightarrow> obj' = obj)"
    using stream_step_trans [OF fa(1) fb(1)] fa(2) fb(2) stream_step_op [OF fa(1)] obj' mem
    by auto
qed

lemma xdr_pointer_step:
  assumes run: "xdr_pointer f xdrs obj = Some (xdrs', obj')"
    and f: "\<And>x1 b x2 v. xdr_bool xdrs (if obj = None then FALSE else TRUE) = Some (x1, b) \<Longrightarrow>
      b \<noteq> FALSE \<Longrightarrow> f x1 (case obj of None \<Rightarrow> default | Some v \<Rightarrow> v) = Some (x2, v) \<Longrightarrow>
      stream_step x1 x2 \<and> (x_op x1 = XDR_ENCODE \<longrightarrow> v = (case obj of None \<Rightarrow> default | Some v \<Rightarrow> v))"
  shows "stream_step xdrs xdrs' \<and> (x_op xdrs = XDR_ENCODE \<longrightarrow> obj' = obj)"
proof -
  from run obtain x1 b where a: "xdr_bool xdrs (if obj = None then FALSE else TRUE) = Some (x1, b)"
    by (auto simp: xdr_pointer_def split: option.splits)
  note fa = framedD [OF xdr_bool_framed a]
  show ?thesis
  proof (cases "b = FALSE")
    case True
    with run a fa show ?thesis by (auto simp: xdr_pointer_def split: if_splits)
  next
    case False
    with run a obtain v where
      c: "f x1 (case obj of None \<Rightarrow> default | Some v \<Rightarrow> v) = Some (xdrs', v)"
      and obj': "obj' = (if x_op xdrs = XDR_FREE then None else Some v)"
      by (auto simp: xdr_pointer_def split: option.splits)
    note fc = f [OF a False c]
    have "x_op xdrs = XDR_ENCODE \<Longrightarrow> obj \<noteq> None"
      using fa(2) False by (auto split: if_splits)
    then show ?thesis
      using stream_step_trans [OF fa(1)] fc stream_step_op [OF fa(1)] obj' by auto
  qed
qed

lemma xdr_pointer_framed [xdr_framed]: "framed f \<Longrightarrow> framed (xdr_pointer f)"
  by (rule framedI, erule xdr_pointer_step) (auto dest: framedD)

lemma field_framed [xdr_framed]:
  assumes f: "framed f" and upd: "\<And>r. upd (\<lambda>_. sel r) r = r"
  shows "framed (field f sel upd)"
proof (rule framedI)
  fix xdrs obj xdrs' obj'
  assume "field f sel upd xdrs obj = Some (xdrs', obj')"
  then obtain v where a: "f xdrs (sel obj) = Some (xdrs', v)" and "obj' = upd (\<lambda>_. v) obj"
    by (auto simp: field_def split: option.splits)
  with framedD [OF f a] upd
  show "stream_step xdrs xdrs' \<and> (x_op xdrs = XDR_ENCODE \<longrightarrow> obj' = obj)" by auto
qed

lemma xseq_framed [xdr_framed]:
  assumes "list_all framed fs"
  shows "framed (xseq fs)"
proof (rule framedI)
  fix xdrs obj xdrs' obj'
  assume "xseq fs xdrs obj = Some (xdrs', obj')"
  with assms show "stream_step xdrs xdrs' \<and> (x_op xdrs = XDR_ENCODE \<longrightarrow> obj' = obj)"
  proof (induction fs arbitrary: xdrs obj)
    case (Cons f fs)
    then obtain x1 o1 where a: "f xdrs obj = Some (x1, o1)" and b: "xseq fs x1 o1 = Some (xdrs', obj')"
      by (auto split: option.splits)
    have "framed f" and fs: "list_all framed fs" using Cons.prems by auto
    note fa = framedD [of f, OF \<open>framed f\<close> a]
    note ib = Cons.IH [OF fs b]
    show ?case
      using fa ib stream_step_trans [OF fa(1)] stream_step_op [OF fa(1)] by auto
  qed auto
qed

lemma xdr_switch_framed [xdr_framed]:
  assumes "\<And>r. framed (k r)"
  shows "framed (xdr_switch k)"
  using assms by (auto simp: framed_def xdr_switch_def)

lemma if_framed [xdr_framed]: "framed f \<Longrightarrow> framed g \<Longrightarrow> framed (if c then f else g)"
  by simp

lemma xdr_break_framed [xdr_framed]: "framed xdr_break"
  and xdr_return_FALSE_framed [xdr_framed]: "framed xdr_return_FALSE"
  by (auto simp: framed_def xdr_break_def xdr_return_FALSE_def)

section \<open>Encoding, then decoding\<close>

text \<open>
  \<open>encodes f x bs\<close>: encoding \<open>x\<close> succeeds and appends exactly \<open>bs\<close>.
  \<open>decodes f bs y y'\<close>: decoding input that starts with \<open>bs\<close> into memory that holds \<open>y\<close>
  consumes exactly \<open>bs\<close> and leaves \<open>y'\<close>. \<open>rtrip f y x y'\<close>: what \<open>f\<close> encodes of \<open>x\<close>,
  \<open>f\<close> decodes over \<open>y\<close> to \<open>y'\<close>.
\<close>

definition encodes :: "'a xdrproc \<Rightarrow> 'a \<Rightarrow> byte list \<Rightarrow> bool" where
  "encodes f x bs \<longleftrightarrow> (\<forall>out inp. f (encoder out inp) x = Some (encoder (out @ bs) inp, x))"

definition decodes :: "'a xdrproc \<Rightarrow> byte list \<Rightarrow> 'a \<Rightarrow> 'a \<Rightarrow> bool" where
  "decodes f bs y y' \<longleftrightarrow> (\<forall>out rest. f (decoder out (bs @ rest)) y = Some (decoder out rest, y'))"

definition rtrip :: "'a xdrproc \<Rightarrow> 'a \<Rightarrow> 'a \<Rightarrow> 'a \<Rightarrow> bool" where
  "rtrip f y x y' \<longleftrightarrow> (\<exists>bs. 4 dvd length bs \<and> encodes f x bs \<and> decodes f bs y y')"

lemma rtripI:
  assumes "4 dvd length bs"
    and "\<And>out inp. f (encoder out inp) x = Some (encoder (out @ bs) inp, x)"
    and "\<And>out rest. f (decoder out (bs @ rest)) y = Some (decoder out rest, y')"
  shows "rtrip f y x y'"
  using assms by (auto simp: rtrip_def encodes_def decodes_def)

lemma rtripE:
  assumes "rtrip f y x y'"
  obtains bs where "4 dvd length bs"
    and "\<And>out inp. f (encoder out inp) x = Some (encoder (out @ bs) inp, x)"
    and "\<And>out rest. f (decoder out (bs @ rest)) y = Some (decoder out rest, y')"
  using assms by (auto simp: rtrip_def encodes_def decodes_def)

lemma encodes_unique: "encodes f x bs \<Longrightarrow> encodes f x cs \<Longrightarrow> bs = cs"
  unfolding encodes_def by (metis encoder_sel(2) option.inject prod.inject same_append_eq)

lemma xdr_void_rtrip [xdr_rt]: "rtrip xdr_void y x x"
  by (rule rtripI [of "[]"]) (auto simp: xdr_void_def)

lemma xdr_u_int_rtrip [xdr_rt]: "rtrip xdr_u_int y x x"
  by (rule rtripI [of "be32 x"]) (auto simp: xdr_u_int_def)

lemma xdr_uint32_t_rtrip [xdr_rt]: "rtrip xdr_uint32_t y x x"
  and xdr_int_rtrip [xdr_rt]: "rtrip xdr_int y x x"
  and xdr_enum_rtrip [xdr_rt]: "rtrip xdr_enum y x x"
  by (simp_all add: xdr_uint32_t_def xdr_int_def xdr_enum_def xdr_u_int_rtrip)

lemma xdr_bool_rtrip [xdr_rt]: "x = TRUE \<or> x = FALSE \<Longrightarrow> rtrip xdr_bool y x x"
  by (rule rtripI [of "be32 (if x = FALSE then 0 else 1)"])
    (auto simp: xdr_bool_def TRUE_def FALSE_def)

lemma xdr_opaque_decode:
  assumes "length bs = n"
  shows "xdr_opaque n (decoder out ((bs @ replicate (xdr_pad n) 0) @ rest)) y =
    Some (decoder out rest, bs @ drop n y)"
  using assms by (simp add: xdr_opaque_def)

lemma xdr_opaque_encode:
  assumes "n \<le> length x"
  shows "xdr_opaque n (encoder out inp) x =
    Some (encoder (out @ take n x @ replicate (xdr_pad n) 0) inp, x)"
  using assms by (simp add: xdr_opaque_def)

lemma xdr_opaque_rtrip [xdr_rt]:
  assumes "length x = n" and "length y \<le> n"
  shows "rtrip (xdr_opaque n) y x x"
proof (rule rtripI [of "x @ replicate (xdr_pad n) 0"])
  show "4 dvd length (x @ replicate (xdr_pad n) 0)" using assms xdr_pad_aligned [of n] by simp
qed (use assms in \<open>auto simp: xdr_opaque_encode xdr_opaque_decode simp del: append_assoc\<close>)

definition counted_ok :: "u32 \<Rightarrow> 'a counted \<Rightarrow> bool" where
  "counted_ok m c \<longleftrightarrow> counted_len c \<le> m \<and> length (counted_val c) = unat (counted_len c)"

text \<open>The buffer behind the pointer may be longer than what is sent of it.\<close>

definition counted_fits :: "u32 \<Rightarrow> 'a counted \<Rightarrow> bool" where
  "counted_fits m c \<longleftrightarrow> counted_len c \<le> m \<and> unat (counted_len c) \<le> length (counted_val c)"

definition counted_vis :: "'a counted \<Rightarrow> 'a counted" where
  "counted_vis c = c\<lparr>counted_val := take (unat (counted_len c)) (counted_val c)\<rparr>"

lemma counted_ok_fits: "counted_ok m c \<Longrightarrow> counted_fits m c \<and> counted_vis c = c"
  by (simp add: counted_ok_def counted_fits_def counted_vis_def)

lemma xdr_bytes_rtrip_vis:
  assumes ok: "counted_fits m x" and y: "counted_val y = []"
  shows "rtrip (xdr_bytes m) y x (counted_vis x)"
proof (rule rtripI)
  let ?n = "unat (counted_len x)" and ?v = "take (unat (counted_len x)) (counted_val x)"
  let ?bs = "be32 (counted_len x) @ ?v @ replicate (xdr_pad ?n) 0"
  have len: "length ?v = ?n" and m: "\<not> m < counted_len x" and n: "?n \<le> length (counted_val x)"
    using ok by (auto simp: counted_fits_def)
  show "4 dvd length ?bs" using len xdr_pad_aligned [of ?n] by simp
  show "xdr_bytes m (encoder out inp) x = Some (encoder (out @ ?bs) inp, x)" for out inp
    using n m by (simp add: xdr_bytes_def xdr_u_int_def xdr_opaque_encode)
  show "xdr_bytes m (decoder out (?bs @ rest)) y = Some (decoder out rest, counted_vis x)"
    for out rest
    using m y xdr_opaque_decode [OF len, of out rest "[]"]
    by (cases x, cases y) (auto simp: xdr_bytes_def xdr_u_int_def counted_vis_def)
qed

lemma xdr_bytes_rtrip [xdr_rt]:
  "counted_ok m x \<Longrightarrow> counted_val y = [] \<Longrightarrow> rtrip (xdr_bytes m) y x x"
  using xdr_bytes_rtrip_vis [of m x y] counted_ok_fits [of m x] by simp

definition str_ok :: "u32 \<Rightarrow> charptr \<Rightarrow> bool" where
  "str_ok m p \<longleftrightarrow>
     (case p of None \<Rightarrow> False
      | Some s \<Rightarrow> nul_free s \<and> length s \<le> unat m \<and> length s < 0xFFFFFFFF)"

lemma map_byte_char [simp]: "map (char_of_byte \<circ> byte_of_char) s = s"
  by (induction s) auto

lemma word_length_add_1_neq_0:
  assumes "n < 0xFFFFFFFF"
  shows "(word_of_nat n :: u32) + 1 \<noteq> 0" and "unat (word_of_nat n :: u32) = n"
proof -
  show u: "unat (word_of_nat n :: u32) = n" using assms by (simp add: unat_of_nat)
  show "(word_of_nat n :: u32) + 1 \<noteq> 0"
  proof
    assume "(word_of_nat n :: u32) + 1 = 0"
    then have "(word_of_nat n :: u32) = -1" by (simp add: add_eq_0_iff2)
    then have "n = unat (-1 :: u32)" using u by metis
    with assms show False by (simp add: unsigned_minus_1_eq_mask mask_eq_exp_minus_1)
  qed
qed

lemma xdr_string_rtrip [xdr_rt]:
  assumes "str_ok m x"
  shows "rtrip (xdr_string m) y x x"
proof -
  obtain s where x: "x = Some s" and nul: "nul_free s" and sm: "length s \<le> unat m"
    and small: "length s < 0xFFFFFFFF"
    using assms by (auto simp: str_ok_def split: option.splits)
  let ?n = "word_of_nat (length s) :: u32"
  note nz = word_length_add_1_neq_0 [OF small]
  have m: "\<not> m < ?n" using sm nz(2) by (simp add: word_less_nat_alt)
  let ?data = "map byte_of_char s @ replicate (xdr_pad (length s)) 0"
  have dec: "xdr_opaque (length s) (decoder out (?data @ rest)) [] =
      Some (decoder out rest, map byte_of_char s)" for out rest
    using xdr_opaque_decode [of "map byte_of_char s" "length s" out rest "[]"] by simp
  show ?thesis
  proof (rule rtripI)
    show "4 dvd length (be32 ?n @ ?data)" using xdr_pad_aligned [of "length s"] by simp
    show "xdr_string m (encoder out inp) x = Some (encoder (out @ be32 ?n @ ?data) inp, x)"
      for out inp
      using m nz x by (simp add: xdr_string_def Let_def xdr_u_int_def xdr_opaque_encode)
    show "xdr_string m (decoder out ((be32 ?n @ ?data) @ rest)) y = Some (decoder out rest, x)"
      for out rest
      using m nz x nul dec [of out rest] by (simp add: xdr_string_def xdr_u_int_def)
  qed
qed

lemma xdr_pointer_rtrip_None [xdr_rt]: "rtrip (xdr_pointer f) y None None"
  by (rule rtripI [of "be32 0"]) (auto simp: xdr_pointer_def xdr_bool_def TRUE_def FALSE_def)

lemma xdr_pointer_rtrip_Some:
  assumes "rtrip f (case y of None \<Rightarrow> default | Some v \<Rightarrow> v) x x'"
  shows "rtrip (xdr_pointer f) y (Some x) (Some x')"
  using assms
proof (rule rtripE)
  fix bs
  assume "4 dvd length bs"
    and "\<And>out inp. f (encoder out inp) x = Some (encoder (out @ bs) inp, x)"
    and "\<And>out rest. f (decoder out (bs @ rest)) (case y of None \<Rightarrow> default | Some v \<Rightarrow> v) =
      Some (decoder out rest, x')"
  then show ?thesis
    by (intro rtripI [of "be32 1 @ bs"])
      (auto simp: xdr_pointer_def xdr_bool_def TRUE_def FALSE_def)
qed

lemma field_rtrip_at:
  assumes f: "rtrip f (sel y) (sel x) v"
    and upd: "upd (\<lambda>_. sel x) x = x" and z: "upd (\<lambda>_. v) y = z"
  shows "rtrip (field f sel upd) y x z"
  using f
proof (rule rtripE)
  fix bs
  assume "4 dvd length bs"
    and "\<And>out inp. f (encoder out inp) (sel x) = Some (encoder (out @ bs) inp, sel x)"
    and "\<And>out rest. f (decoder out (bs @ rest)) (sel y) = Some (decoder out rest, v)"
  then show ?thesis
    using upd z by (intro rtripI [of bs]) (auto simp: field_def)
qed

lemma field_rtrip:
  assumes "rtrip f default (sel x) v" and "sel y = default"
    and "upd (\<lambda>_. sel x) x = x" and "upd (\<lambda>_. v) y = z"
  shows "rtrip (field f sel upd) y x z"
  using assms by (auto intro: field_rtrip_at)

lemma xseq_rtrip_Nil: "y = z \<Longrightarrow> rtrip (xseq []) y x z"
  by (rule rtripI [of "[]"]) auto

lemma xseq_rtrip_Cons:
  assumes f: "rtrip f y x y1" and fs: "rtrip (xseq fs) y1 x y2"
  shows "rtrip (xseq (f # fs)) y x y2"
  using f
proof (rule rtripE)
  fix bs
  assume f1: "4 dvd length bs"
    "\<And>out inp. f (encoder out inp) x = Some (encoder (out @ bs) inp, x)"
    "\<And>out rest. f (decoder out (bs @ rest)) y = Some (decoder out rest, y1)"
  show ?thesis using fs
  proof (rule rtripE)
    fix cs
    assume "4 dvd length cs"
      "\<And>out inp. xseq fs (encoder out inp) x = Some (encoder (out @ cs) inp, x)"
      "\<And>out rest. xseq fs (decoder out (cs @ rest)) y1 = Some (decoder out rest, y2)"
    with f1 show ?thesis by (intro rtripI [of "bs @ cs"]) auto
  qed
qed

lemma xdr_switch_rtrip:
  assumes "rtrip (k x) y x y'" and "k y = k x"
  shows "rtrip (xdr_switch k) y x y'"
  using assms by (auto simp: rtrip_def encodes_def decodes_def xdr_switch_def)

lemma xdr_break_rtrip: "y = z \<Longrightarrow> rtrip xdr_break y x z"
  by (rule rtripI [of "[]"]) (auto simp: xdr_break_def)

text \<open>
  The rules that run through the statements of a filter, left to right; the memory after
  each statement is what the next one starts from.
\<close>

lemmas rtrip_steps =
  xseq_rtrip_Cons xseq_rtrip_Nil field_rtrip xdr_switch_rtrip xdr_break_rtrip

section \<open>The contract of a filter\<close>

text \<open>
  What the dispatcher, and a peer, rely on for a message type: the filter keeps the stream
  discipline, and of every value that satisfies \<open>ok\<close> the part that is sent, \<open>vis\<close>,
  survives encoding followed by decoding into cleared memory (\<open>vis\<close> clears the members
  that a union's tag hides). The encoding is then a prefix-free code of what is visible.
\<close>

locale xdr_codec =
  fixes f :: "'a::default xdrproc" and ok :: "'a \<Rightarrow> bool" and vis :: "'a \<Rightarrow> 'a"
  assumes framed: "framed f"
    and codec: "ok x \<Longrightarrow> rtrip f default x (vis x)"
begin

lemma encode_decode:
  assumes "ok x"
  obtains bs where "4 dvd length bs"
    and "\<And>out inp. f (encoder out inp) x = Some (encoder (out @ bs) inp, x)"
    and "\<And>out rest. f (decoder out (bs @ rest)) default = Some (decoder out rest, vis x)"
  using codec [OF assms] by (rule rtripE) auto

lemma decode_of_encode:
  assumes "ok x" and "f (encoder [] []) x = Some (xe, x')"
  shows "f (decoder out (x_out xe @ rest)) default = Some (decoder out rest, vis x)"
proof -
  obtain bs where "\<And>out inp. f (encoder out inp) x = Some (encoder (out @ bs) inp, x)"
    and d: "\<And>out rest. f (decoder out (bs @ rest)) default = Some (decoder out rest, vis x)"
    using assms(1) by (rule encode_decode) auto
  with assms(2) have "x_out xe = bs" by auto
  with d show ?thesis by simp
qed

lemma prefix_free:
  assumes "ok x" and "ok y"
    and "f (encoder [] []) x = Some (xe, x')" and "f (encoder [] []) y = Some (ye, y')"
    and "x_out xe @ r = x_out ye @ s"
  shows "vis x = vis y \<and> r = s"
proof -
  have "f (decoder [] (x_out xe @ r)) default = Some (decoder [] r, vis x)"
    using assms(1,3) by (rule decode_of_encode)
  moreover have "f (decoder [] (x_out ye @ s)) default = Some (decoder [] s, vis y)"
    using assms(2,4) by (rule decode_of_encode)
  ultimately show ?thesis using assms(5) by (auto simp: decoder_def)
qed

lemma decode_consumes:
  assumes "f (decoder out inp) y = Some (xdrs', x)"
  shows "\<exists>bs. 4 dvd length bs \<and> inp = bs @ x_in xdrs' \<and> xdrs' = decoder out (x_in xdrs')"
  using framedD(1) [OF framed assms] by (auto simp: stream_step_def decoder_def)

end

end
