(* ===== verification/Nfs_Prot.thy ===== *)
theory Nfs_Prot
  imports Rpc_Xdr
begin

text \<open>
  The protocol definitions of \<open>unfs3/nfs.h\<close>: its numeric constants, its enumerations (a C
  \<open>enum\<close> holds any \<open>int\<close>, so each is a 32-bit pattern with named values) and its structures.
  A field \<open>m\<close> of \<open>struct s\<close> is \<open>s_m\<close>. The members \<open>resok\<close> and \<open>resfail\<close> of a result
  union share their memory and \<open>resfail\<close> is a common initial sequence of \<open>resok\<close>: \<open>resok\<close> is
  a record that extends \<open>resfail\<close>, and the union \<open>X3res_u\<close> is the extended record, so a
  handler's store through \<open>resok\<close> is what the filter of \<open>resfail\<close> reads (``overlaps with
  resfail'' in the code). Members of the other unions are never read under another member's
  tag and are separate fields. A linked list is a datatype whose \<open>next\<close> pointer is an option.
  The value \<^const>\<open>default\<close> of a structure is its memory after \<open>memset (.., 0, ..)\<close>.
\<close>

section \<open>Types\<close>

type_synonym filename = charptr
type_synonym nfspath = charptr
type_synonym filename3 = charptr
type_synonym nfspath3 = charptr
type_synonym fileid3 = u64
type_synonym cookie3 = u64
type_synonym cookieverf3 = "byte list"
type_synonym createverf3 = "byte list"
type_synonym writeverf3 = "byte list"
type_synonym uid3 = u32
type_synonym gid3 = u32
type_synonym size3 = u64
type_synonym offset3 = u64
type_synonym mode3 = u32
type_synonym count3 = u32
type_synonym nfsstat3 = cint
type_synonym ftype3 = cint
type_synonym time_how = cint
type_synonym stable_how = cint
type_synonym createmode3 = cint

section \<open>Constants\<close>

definition NFS_MAXDATA_TCP :: u32 where
  [c_consts]: "NFS_MAXDATA_TCP = 524288"

definition NFS_MAXDATA_UDP :: u32 where
  [c_consts]: "NFS_MAXDATA_UDP = 32768"

definition NFS_MAXPATHLEN :: u32 where
  [c_consts]: "NFS_MAXPATHLEN = 1024"

definition NFS_MAXNAMLEN :: u32 where
  [c_consts]: "NFS_MAXNAMLEN = 255"

definition NFS3_FHSIZE :: u32 where
  [c_consts]: "NFS3_FHSIZE = 64"

definition NFS3_COOKIEVERFSIZE :: u32 where
  [c_consts]: "NFS3_COOKIEVERFSIZE = 8"

definition NFS3_CREATEVERFSIZE :: u32 where
  [c_consts]: "NFS3_CREATEVERFSIZE = 8"

definition NFS3_WRITEVERFSIZE :: u32 where
  [c_consts]: "NFS3_WRITEVERFSIZE = 8"

definition NFS3_OK :: nfsstat3 where
  [c_consts]: "NFS3_OK = 0"

definition NFS3ERR_PERM :: nfsstat3 where
  [c_consts]: "NFS3ERR_PERM = 1"

definition NFS3ERR_NOENT :: nfsstat3 where
  [c_consts]: "NFS3ERR_NOENT = 2"

definition NFS3ERR_IO :: nfsstat3 where
  [c_consts]: "NFS3ERR_IO = 5"

definition NFS3ERR_NXIO :: nfsstat3 where
  [c_consts]: "NFS3ERR_NXIO = 6"

definition NFS3ERR_ACCES :: nfsstat3 where
  [c_consts]: "NFS3ERR_ACCES = 13"

definition NFS3ERR_EXIST :: nfsstat3 where
  [c_consts]: "NFS3ERR_EXIST = 17"

definition NFS3ERR_XDEV :: nfsstat3 where
  [c_consts]: "NFS3ERR_XDEV = 18"

definition NFS3ERR_NODEV :: nfsstat3 where
  [c_consts]: "NFS3ERR_NODEV = 19"

definition NFS3ERR_NOTDIR :: nfsstat3 where
  [c_consts]: "NFS3ERR_NOTDIR = 20"

definition NFS3ERR_ISDIR :: nfsstat3 where
  [c_consts]: "NFS3ERR_ISDIR = 21"

definition NFS3ERR_INVAL :: nfsstat3 where
  [c_consts]: "NFS3ERR_INVAL = 22"

definition NFS3ERR_FBIG :: nfsstat3 where
  [c_consts]: "NFS3ERR_FBIG = 27"

definition NFS3ERR_NOSPC :: nfsstat3 where
  [c_consts]: "NFS3ERR_NOSPC = 28"

definition NFS3ERR_ROFS :: nfsstat3 where
  [c_consts]: "NFS3ERR_ROFS = 30"

definition NFS3ERR_MLINK :: nfsstat3 where
  [c_consts]: "NFS3ERR_MLINK = 31"

definition NFS3ERR_NAMETOOLONG :: nfsstat3 where
  [c_consts]: "NFS3ERR_NAMETOOLONG = 63"

definition NFS3ERR_NOTEMPTY :: nfsstat3 where
  [c_consts]: "NFS3ERR_NOTEMPTY = 66"

definition NFS3ERR_DQUOT :: nfsstat3 where
  [c_consts]: "NFS3ERR_DQUOT = 69"

definition NFS3ERR_STALE :: nfsstat3 where
  [c_consts]: "NFS3ERR_STALE = 70"

definition NFS3ERR_REMOTE :: nfsstat3 where
  [c_consts]: "NFS3ERR_REMOTE = 71"

definition NFS3ERR_BADHANDLE :: nfsstat3 where
  [c_consts]: "NFS3ERR_BADHANDLE = 10001"

definition NFS3ERR_NOT_SYNC :: nfsstat3 where
  [c_consts]: "NFS3ERR_NOT_SYNC = 10002"

definition NFS3ERR_BAD_COOKIE :: nfsstat3 where
  [c_consts]: "NFS3ERR_BAD_COOKIE = 10003"

definition NFS3ERR_NOTSUPP :: nfsstat3 where
  [c_consts]: "NFS3ERR_NOTSUPP = 10004"

definition NFS3ERR_TOOSMALL :: nfsstat3 where
  [c_consts]: "NFS3ERR_TOOSMALL = 10005"

definition NFS3ERR_SERVERFAULT :: nfsstat3 where
  [c_consts]: "NFS3ERR_SERVERFAULT = 10006"

definition NFS3ERR_BADTYPE :: nfsstat3 where
  [c_consts]: "NFS3ERR_BADTYPE = 10007"

definition NFS3ERR_JUKEBOX :: nfsstat3 where
  [c_consts]: "NFS3ERR_JUKEBOX = 10008"

definition NF3REG :: ftype3 where
  [c_consts]: "NF3REG = 1"

definition NF3DIR :: ftype3 where
  [c_consts]: "NF3DIR = 2"

definition NF3BLK :: ftype3 where
  [c_consts]: "NF3BLK = 3"

definition NF3CHR :: ftype3 where
  [c_consts]: "NF3CHR = 4"

definition NF3LNK :: ftype3 where
  [c_consts]: "NF3LNK = 5"

definition NF3SOCK :: ftype3 where
  [c_consts]: "NF3SOCK = 6"

definition NF3FIFO :: ftype3 where
  [c_consts]: "NF3FIFO = 7"

definition DONT_CHANGE :: time_how where
  [c_consts]: "DONT_CHANGE = 0"

definition SET_TO_SERVER_TIME :: time_how where
  [c_consts]: "SET_TO_SERVER_TIME = 1"

definition SET_TO_CLIENT_TIME :: time_how where
  [c_consts]: "SET_TO_CLIENT_TIME = 2"

definition ACCESS3_READ :: u32 where
  [c_consts]: "ACCESS3_READ = 1"

definition ACCESS3_LOOKUP :: u32 where
  [c_consts]: "ACCESS3_LOOKUP = 2"

definition ACCESS3_MODIFY :: u32 where
  [c_consts]: "ACCESS3_MODIFY = 4"

definition ACCESS3_EXTEND :: u32 where
  [c_consts]: "ACCESS3_EXTEND = 8"

definition ACCESS3_DELETE :: u32 where
  [c_consts]: "ACCESS3_DELETE = 16"

definition ACCESS3_EXECUTE :: u32 where
  [c_consts]: "ACCESS3_EXECUTE = 32"

definition UNSTABLE :: stable_how where
  [c_consts]: "UNSTABLE = 0"

definition DATA_SYNC :: stable_how where
  [c_consts]: "DATA_SYNC = 1"

definition FILE_SYNC :: stable_how where
  [c_consts]: "FILE_SYNC = 2"

definition UNCHECKED :: createmode3 where
  [c_consts]: "UNCHECKED = 0"

definition GUARDED :: createmode3 where
  [c_consts]: "GUARDED = 1"

definition EXCLUSIVE :: createmode3 where
  [c_consts]: "EXCLUSIVE = 2"

definition FSF3_LINK :: u32 where
  [c_consts]: "FSF3_LINK = 1"

definition FSF3_SYMLINK :: u32 where
  [c_consts]: "FSF3_SYMLINK = 2"

definition FSF3_HOMOGENEOUS :: u32 where
  [c_consts]: "FSF3_HOMOGENEOUS = 8"

definition FSF3_CANSETTIME :: u32 where
  [c_consts]: "FSF3_CANSETTIME = 16"

definition NFS3_PROGRAM :: u32 where
  [c_consts]: "NFS3_PROGRAM = 100003"

definition NFS_V3 :: u32 where
  [c_consts]: "NFS_V3 = 3"

definition NFSPROC3_NULL :: u32 where
  [c_consts]: "NFSPROC3_NULL = 0"

definition NFSPROC3_GETATTR :: u32 where
  [c_consts]: "NFSPROC3_GETATTR = 1"

definition NFSPROC3_SETATTR :: u32 where
  [c_consts]: "NFSPROC3_SETATTR = 2"

definition NFSPROC3_LOOKUP :: u32 where
  [c_consts]: "NFSPROC3_LOOKUP = 3"

definition NFSPROC3_ACCESS :: u32 where
  [c_consts]: "NFSPROC3_ACCESS = 4"

definition NFSPROC3_READLINK :: u32 where
  [c_consts]: "NFSPROC3_READLINK = 5"

definition NFSPROC3_READ :: u32 where
  [c_consts]: "NFSPROC3_READ = 6"

definition NFSPROC3_WRITE :: u32 where
  [c_consts]: "NFSPROC3_WRITE = 7"

definition NFSPROC3_CREATE :: u32 where
  [c_consts]: "NFSPROC3_CREATE = 8"

definition NFSPROC3_MKDIR :: u32 where
  [c_consts]: "NFSPROC3_MKDIR = 9"

definition NFSPROC3_SYMLINK :: u32 where
  [c_consts]: "NFSPROC3_SYMLINK = 10"

definition NFSPROC3_MKNOD :: u32 where
  [c_consts]: "NFSPROC3_MKNOD = 11"

definition NFSPROC3_REMOVE :: u32 where
  [c_consts]: "NFSPROC3_REMOVE = 12"

definition NFSPROC3_RMDIR :: u32 where
  [c_consts]: "NFSPROC3_RMDIR = 13"

definition NFSPROC3_RENAME :: u32 where
  [c_consts]: "NFSPROC3_RENAME = 14"

definition NFSPROC3_LINK :: u32 where
  [c_consts]: "NFSPROC3_LINK = 15"

definition NFSPROC3_READDIR :: u32 where
  [c_consts]: "NFSPROC3_READDIR = 16"

definition NFSPROC3_READDIRPLUS :: u32 where
  [c_consts]: "NFSPROC3_READDIRPLUS = 17"

definition NFSPROC3_FSSTAT :: u32 where
  [c_consts]: "NFSPROC3_FSSTAT = 18"

definition NFSPROC3_FSINFO :: u32 where
  [c_consts]: "NFSPROC3_FSINFO = 19"

definition NFSPROC3_PATHCONF :: u32 where
  [c_consts]: "NFSPROC3_PATHCONF = 20"

definition NFSPROC3_COMMIT :: u32 where
  [c_consts]: "NFSPROC3_COMMIT = 21"

definition MAX_ENTRIES :: u32 where
  [c_consts]: "MAX_ENTRIES = 170"

definition RESOK_SIZE :: u32 where
  [c_consts]: "RESOK_SIZE = 104"

section \<open>Structures\<close>

instantiation counted_ext :: (type, default) default
begin

definition default_counted_ext :: "('a, 'b) counted_scheme" where
  "default_counted_ext = \<lparr>counted_len = 0, counted_val = [], \<dots> = default\<rparr>"

instance ..

end

declare default_counted_ext_def [zero_mem]

record specdata3 =
  specdata3_specdata1 :: u32
  specdata3_specdata2 :: u32

instantiation specdata3_ext :: (default) default
begin

definition default_specdata3_ext :: "'a specdata3_scheme" where
  "default_specdata3_ext =
    \<lparr>specdata3_specdata1 = default,
     specdata3_specdata2 = default, \<dots> = default\<rparr>"

instance ..

end

declare default_specdata3_ext_def [zero_mem]

record nfs_fh3 =
  nfs_fh3_data :: "byte counted"

instantiation nfs_fh3_ext :: (default) default
begin

definition default_nfs_fh3_ext :: "'a nfs_fh3_scheme" where
  "default_nfs_fh3_ext =
    \<lparr>nfs_fh3_data = default, \<dots> = default\<rparr>"

instance ..

end

declare default_nfs_fh3_ext_def [zero_mem]

record nfstime3 =
  nfstime3_seconds :: u32
  nfstime3_nseconds :: u32

instantiation nfstime3_ext :: (default) default
begin

definition default_nfstime3_ext :: "'a nfstime3_scheme" where
  "default_nfstime3_ext =
    \<lparr>nfstime3_seconds = default,
     nfstime3_nseconds = default, \<dots> = default\<rparr>"

instance ..

end

declare default_nfstime3_ext_def [zero_mem]

record fattr3 =
  fattr3_type :: ftype3
  fattr3_mode :: mode3
  fattr3_nlink :: u32
  fattr3_uid :: uid3
  fattr3_gid :: gid3
  fattr3_size :: size3
  fattr3_used :: size3
  fattr3_rdev :: specdata3
  fattr3_fsid :: u64
  fattr3_fileid :: fileid3
  fattr3_atime :: nfstime3
  fattr3_mtime :: nfstime3
  fattr3_ctime :: nfstime3

instantiation fattr3_ext :: (default) default
begin

definition default_fattr3_ext :: "'a fattr3_scheme" where
  "default_fattr3_ext =
    \<lparr>fattr3_type = default,
     fattr3_mode = default,
     fattr3_nlink = default,
     fattr3_uid = default,
     fattr3_gid = default,
     fattr3_size = default,
     fattr3_used = default,
     fattr3_rdev = default,
     fattr3_fsid = default,
     fattr3_fileid = default,
     fattr3_atime = default,
     fattr3_mtime = default,
     fattr3_ctime = default, \<dots> = default\<rparr>"

instance ..

end

declare default_fattr3_ext_def [zero_mem]

record post_op_attr =
  post_op_attr_attributes_follow :: bool_t
  post_op_attr_attributes :: fattr3

instantiation post_op_attr_ext :: (default) default
begin

definition default_post_op_attr_ext :: "'a post_op_attr_scheme" where
  "default_post_op_attr_ext =
    \<lparr>post_op_attr_attributes_follow = default,
     post_op_attr_attributes = default, \<dots> = default\<rparr>"

instance ..

end

declare default_post_op_attr_ext_def [zero_mem]

record wcc_attr =
  wcc_attr_size :: size3
  wcc_attr_mtime :: nfstime3
  wcc_attr_ctime :: nfstime3

instantiation wcc_attr_ext :: (default) default
begin

definition default_wcc_attr_ext :: "'a wcc_attr_scheme" where
  "default_wcc_attr_ext =
    \<lparr>wcc_attr_size = default,
     wcc_attr_mtime = default,
     wcc_attr_ctime = default, \<dots> = default\<rparr>"

instance ..

end

declare default_wcc_attr_ext_def [zero_mem]

record pre_op_attr =
  pre_op_attr_attributes_follow :: bool_t
  pre_op_attr_attributes :: wcc_attr

instantiation pre_op_attr_ext :: (default) default
begin

definition default_pre_op_attr_ext :: "'a pre_op_attr_scheme" where
  "default_pre_op_attr_ext =
    \<lparr>pre_op_attr_attributes_follow = default,
     pre_op_attr_attributes = default, \<dots> = default\<rparr>"

instance ..

end

declare default_pre_op_attr_ext_def [zero_mem]

record wcc_data =
  wcc_data_before :: pre_op_attr
  wcc_data_after :: post_op_attr

instantiation wcc_data_ext :: (default) default
begin

definition default_wcc_data_ext :: "'a wcc_data_scheme" where
  "default_wcc_data_ext =
    \<lparr>wcc_data_before = default,
     wcc_data_after = default, \<dots> = default\<rparr>"

instance ..

end

declare default_wcc_data_ext_def [zero_mem]

record post_op_fh3 =
  post_op_fh3_handle_follows :: bool_t
  post_op_fh3_handle :: nfs_fh3

instantiation post_op_fh3_ext :: (default) default
begin

definition default_post_op_fh3_ext :: "'a post_op_fh3_scheme" where
  "default_post_op_fh3_ext =
    \<lparr>post_op_fh3_handle_follows = default,
     post_op_fh3_handle = default, \<dots> = default\<rparr>"

instance ..

end

declare default_post_op_fh3_ext_def [zero_mem]

record set_mode3 =
  set_mode3_set_it :: bool_t
  set_mode3_mode :: mode3

instantiation set_mode3_ext :: (default) default
begin

definition default_set_mode3_ext :: "'a set_mode3_scheme" where
  "default_set_mode3_ext =
    \<lparr>set_mode3_set_it = default,
     set_mode3_mode = default, \<dots> = default\<rparr>"

instance ..

end

declare default_set_mode3_ext_def [zero_mem]

record set_uid3 =
  set_uid3_set_it :: bool_t
  set_uid3_uid :: uid3

instantiation set_uid3_ext :: (default) default
begin

definition default_set_uid3_ext :: "'a set_uid3_scheme" where
  "default_set_uid3_ext =
    \<lparr>set_uid3_set_it = default,
     set_uid3_uid = default, \<dots> = default\<rparr>"

instance ..

end

declare default_set_uid3_ext_def [zero_mem]

record set_gid3 =
  set_gid3_set_it :: bool_t
  set_gid3_gid :: gid3

instantiation set_gid3_ext :: (default) default
begin

definition default_set_gid3_ext :: "'a set_gid3_scheme" where
  "default_set_gid3_ext =
    \<lparr>set_gid3_set_it = default,
     set_gid3_gid = default, \<dots> = default\<rparr>"

instance ..

end

declare default_set_gid3_ext_def [zero_mem]

record set_size3 =
  set_size3_set_it :: bool_t
  set_size3_size :: size3

instantiation set_size3_ext :: (default) default
begin

definition default_set_size3_ext :: "'a set_size3_scheme" where
  "default_set_size3_ext =
    \<lparr>set_size3_set_it = default,
     set_size3_size = default, \<dots> = default\<rparr>"

instance ..

end

declare default_set_size3_ext_def [zero_mem]

record set_atime =
  set_atime_set_it :: time_how
  set_atime_atime :: nfstime3

instantiation set_atime_ext :: (default) default
begin

definition default_set_atime_ext :: "'a set_atime_scheme" where
  "default_set_atime_ext =
    \<lparr>set_atime_set_it = default,
     set_atime_atime = default, \<dots> = default\<rparr>"

instance ..

end

declare default_set_atime_ext_def [zero_mem]

record set_mtime =
  set_mtime_set_it :: time_how
  set_mtime_mtime :: nfstime3

instantiation set_mtime_ext :: (default) default
begin

definition default_set_mtime_ext :: "'a set_mtime_scheme" where
  "default_set_mtime_ext =
    \<lparr>set_mtime_set_it = default,
     set_mtime_mtime = default, \<dots> = default\<rparr>"

instance ..

end

declare default_set_mtime_ext_def [zero_mem]

record sattr3 =
  sattr3_mode :: set_mode3
  sattr3_uid :: set_uid3
  sattr3_gid :: set_gid3
  sattr3_size :: set_size3
  sattr3_atime :: set_atime
  sattr3_mtime :: set_mtime

instantiation sattr3_ext :: (default) default
begin

definition default_sattr3_ext :: "'a sattr3_scheme" where
  "default_sattr3_ext =
    \<lparr>sattr3_mode = default,
     sattr3_uid = default,
     sattr3_gid = default,
     sattr3_size = default,
     sattr3_atime = default,
     sattr3_mtime = default, \<dots> = default\<rparr>"

instance ..

end

declare default_sattr3_ext_def [zero_mem]

record diropargs3 =
  diropargs3_dir :: nfs_fh3
  diropargs3_name :: filename3

instantiation diropargs3_ext :: (default) default
begin

definition default_diropargs3_ext :: "'a diropargs3_scheme" where
  "default_diropargs3_ext =
    \<lparr>diropargs3_dir = default,
     diropargs3_name = default, \<dots> = default\<rparr>"

instance ..

end

declare default_diropargs3_ext_def [zero_mem]

record GETATTR3args =
  GETATTR3args_object :: nfs_fh3

instantiation GETATTR3args_ext :: (default) default
begin

definition default_GETATTR3args_ext :: "'a GETATTR3args_scheme" where
  "default_GETATTR3args_ext =
    \<lparr>GETATTR3args_object = default, \<dots> = default\<rparr>"

instance ..

end

declare default_GETATTR3args_ext_def [zero_mem]

record GETATTR3resok =
  GETATTR3resok_obj_attributes :: fattr3

instantiation GETATTR3resok_ext :: (default) default
begin

definition default_GETATTR3resok_ext :: "'a GETATTR3resok_scheme" where
  "default_GETATTR3resok_ext =
    \<lparr>GETATTR3resok_obj_attributes = default, \<dots> = default\<rparr>"

instance ..

end

declare default_GETATTR3resok_ext_def [zero_mem]

record GETATTR3res =
  GETATTR3res_status :: nfsstat3
  GETATTR3res_u :: GETATTR3resok

instantiation GETATTR3res_ext :: (default) default
begin

definition default_GETATTR3res_ext :: "'a GETATTR3res_scheme" where
  "default_GETATTR3res_ext =
    \<lparr>GETATTR3res_status = default,
     GETATTR3res_u = default, \<dots> = default\<rparr>"

instance ..

end

declare default_GETATTR3res_ext_def [zero_mem]

record sattrguard3 =
  sattrguard3_check :: bool_t
  sattrguard3_obj_ctime :: nfstime3

instantiation sattrguard3_ext :: (default) default
begin

definition default_sattrguard3_ext :: "'a sattrguard3_scheme" where
  "default_sattrguard3_ext =
    \<lparr>sattrguard3_check = default,
     sattrguard3_obj_ctime = default, \<dots> = default\<rparr>"

instance ..

end

declare default_sattrguard3_ext_def [zero_mem]

record SETATTR3args =
  SETATTR3args_object :: nfs_fh3
  SETATTR3args_new_attributes :: sattr3
  SETATTR3args_guard :: sattrguard3

instantiation SETATTR3args_ext :: (default) default
begin

definition default_SETATTR3args_ext :: "'a SETATTR3args_scheme" where
  "default_SETATTR3args_ext =
    \<lparr>SETATTR3args_object = default,
     SETATTR3args_new_attributes = default,
     SETATTR3args_guard = default, \<dots> = default\<rparr>"

instance ..

end

declare default_SETATTR3args_ext_def [zero_mem]

record SETATTR3resfail =
  SETATTR3resfail_obj_wcc :: wcc_data

instantiation SETATTR3resfail_ext :: (default) default
begin

definition default_SETATTR3resfail_ext :: "'a SETATTR3resfail_scheme" where
  "default_SETATTR3resfail_ext =
    \<lparr>SETATTR3resfail_obj_wcc = default, \<dots> = default\<rparr>"

instance ..

end

declare default_SETATTR3resfail_ext_def [zero_mem]

type_synonym SETATTR3resok = SETATTR3resfail

record SETATTR3res =
  SETATTR3res_status :: nfsstat3
  SETATTR3res_u :: SETATTR3resok

instantiation SETATTR3res_ext :: (default) default
begin

definition default_SETATTR3res_ext :: "'a SETATTR3res_scheme" where
  "default_SETATTR3res_ext =
    \<lparr>SETATTR3res_status = default,
     SETATTR3res_u = default, \<dots> = default\<rparr>"

instance ..

end

declare default_SETATTR3res_ext_def [zero_mem]

record LOOKUP3args =
  LOOKUP3args_what :: diropargs3

instantiation LOOKUP3args_ext :: (default) default
begin

definition default_LOOKUP3args_ext :: "'a LOOKUP3args_scheme" where
  "default_LOOKUP3args_ext =
    \<lparr>LOOKUP3args_what = default, \<dots> = default\<rparr>"

instance ..

end

declare default_LOOKUP3args_ext_def [zero_mem]

record LOOKUP3resfail =
  LOOKUP3resfail_dir_attributes :: post_op_attr

instantiation LOOKUP3resfail_ext :: (default) default
begin

definition default_LOOKUP3resfail_ext :: "'a LOOKUP3resfail_scheme" where
  "default_LOOKUP3resfail_ext =
    \<lparr>LOOKUP3resfail_dir_attributes = default, \<dots> = default\<rparr>"

instance ..

end

declare default_LOOKUP3resfail_ext_def [zero_mem]

record LOOKUP3resok = LOOKUP3resfail +
  LOOKUP3resok_object :: nfs_fh3
  LOOKUP3resok_obj_attributes :: post_op_attr

instantiation LOOKUP3resok_ext :: (default) default
begin

definition default_LOOKUP3resok_ext :: "'a LOOKUP3resok_ext" where
  "default_LOOKUP3resok_ext = LOOKUP3resok_ext default default default"

instance ..

end

declare default_LOOKUP3resok_ext_def [zero_mem]

record LOOKUP3res =
  LOOKUP3res_status :: nfsstat3
  LOOKUP3res_u :: LOOKUP3resok

instantiation LOOKUP3res_ext :: (default) default
begin

definition default_LOOKUP3res_ext :: "'a LOOKUP3res_scheme" where
  "default_LOOKUP3res_ext =
    \<lparr>LOOKUP3res_status = default,
     LOOKUP3res_u = default, \<dots> = default\<rparr>"

instance ..

end

declare default_LOOKUP3res_ext_def [zero_mem]

record ACCESS3args =
  ACCESS3args_object :: nfs_fh3
  ACCESS3args_access :: u32

instantiation ACCESS3args_ext :: (default) default
begin

definition default_ACCESS3args_ext :: "'a ACCESS3args_scheme" where
  "default_ACCESS3args_ext =
    \<lparr>ACCESS3args_object = default,
     ACCESS3args_access = default, \<dots> = default\<rparr>"

instance ..

end

declare default_ACCESS3args_ext_def [zero_mem]

record ACCESS3resfail =
  ACCESS3resfail_obj_attributes :: post_op_attr

instantiation ACCESS3resfail_ext :: (default) default
begin

definition default_ACCESS3resfail_ext :: "'a ACCESS3resfail_scheme" where
  "default_ACCESS3resfail_ext =
    \<lparr>ACCESS3resfail_obj_attributes = default, \<dots> = default\<rparr>"

instance ..

end

declare default_ACCESS3resfail_ext_def [zero_mem]

record ACCESS3resok = ACCESS3resfail +
  ACCESS3resok_access :: u32

instantiation ACCESS3resok_ext :: (default) default
begin

definition default_ACCESS3resok_ext :: "'a ACCESS3resok_ext" where
  "default_ACCESS3resok_ext = ACCESS3resok_ext default default"

instance ..

end

declare default_ACCESS3resok_ext_def [zero_mem]

record ACCESS3res =
  ACCESS3res_status :: nfsstat3
  ACCESS3res_u :: ACCESS3resok

instantiation ACCESS3res_ext :: (default) default
begin

definition default_ACCESS3res_ext :: "'a ACCESS3res_scheme" where
  "default_ACCESS3res_ext =
    \<lparr>ACCESS3res_status = default,
     ACCESS3res_u = default, \<dots> = default\<rparr>"

instance ..

end

declare default_ACCESS3res_ext_def [zero_mem]

record READLINK3args =
  READLINK3args_symlink :: nfs_fh3

instantiation READLINK3args_ext :: (default) default
begin

definition default_READLINK3args_ext :: "'a READLINK3args_scheme" where
  "default_READLINK3args_ext =
    \<lparr>READLINK3args_symlink = default, \<dots> = default\<rparr>"

instance ..

end

declare default_READLINK3args_ext_def [zero_mem]

record READLINK3resfail =
  READLINK3resfail_symlink_attributes :: post_op_attr

instantiation READLINK3resfail_ext :: (default) default
begin

definition default_READLINK3resfail_ext :: "'a READLINK3resfail_scheme" where
  "default_READLINK3resfail_ext =
    \<lparr>READLINK3resfail_symlink_attributes = default, \<dots> = default\<rparr>"

instance ..

end

declare default_READLINK3resfail_ext_def [zero_mem]

record READLINK3resok = READLINK3resfail +
  READLINK3resok_data :: nfspath3

instantiation READLINK3resok_ext :: (default) default
begin

definition default_READLINK3resok_ext :: "'a READLINK3resok_ext" where
  "default_READLINK3resok_ext = READLINK3resok_ext default default"

instance ..

end

declare default_READLINK3resok_ext_def [zero_mem]

record READLINK3res =
  READLINK3res_status :: nfsstat3
  READLINK3res_u :: READLINK3resok

instantiation READLINK3res_ext :: (default) default
begin

definition default_READLINK3res_ext :: "'a READLINK3res_scheme" where
  "default_READLINK3res_ext =
    \<lparr>READLINK3res_status = default,
     READLINK3res_u = default, \<dots> = default\<rparr>"

instance ..

end

declare default_READLINK3res_ext_def [zero_mem]

record READ3args =
  READ3args_file :: nfs_fh3
  READ3args_offset :: offset3
  READ3args_count :: count3

instantiation READ3args_ext :: (default) default
begin

definition default_READ3args_ext :: "'a READ3args_scheme" where
  "default_READ3args_ext =
    \<lparr>READ3args_file = default,
     READ3args_offset = default,
     READ3args_count = default, \<dots> = default\<rparr>"

instance ..

end

declare default_READ3args_ext_def [zero_mem]

record READ3resfail =
  READ3resfail_file_attributes :: post_op_attr

instantiation READ3resfail_ext :: (default) default
begin

definition default_READ3resfail_ext :: "'a READ3resfail_scheme" where
  "default_READ3resfail_ext =
    \<lparr>READ3resfail_file_attributes = default, \<dots> = default\<rparr>"

instance ..

end

declare default_READ3resfail_ext_def [zero_mem]

record READ3resok = READ3resfail +
  READ3resok_count :: count3
  READ3resok_eof :: bool_t
  READ3resok_data :: "byte counted"

instantiation READ3resok_ext :: (default) default
begin

definition default_READ3resok_ext :: "'a READ3resok_ext" where
  "default_READ3resok_ext = READ3resok_ext default default default default"

instance ..

end

declare default_READ3resok_ext_def [zero_mem]

record READ3res =
  READ3res_status :: nfsstat3
  READ3res_u :: READ3resok

instantiation READ3res_ext :: (default) default
begin

definition default_READ3res_ext :: "'a READ3res_scheme" where
  "default_READ3res_ext =
    \<lparr>READ3res_status = default,
     READ3res_u = default, \<dots> = default\<rparr>"

instance ..

end

declare default_READ3res_ext_def [zero_mem]

record WRITE3args =
  WRITE3args_file :: nfs_fh3
  WRITE3args_offset :: offset3
  WRITE3args_count :: count3
  WRITE3args_stable :: stable_how
  WRITE3args_data :: "byte counted"

instantiation WRITE3args_ext :: (default) default
begin

definition default_WRITE3args_ext :: "'a WRITE3args_scheme" where
  "default_WRITE3args_ext =
    \<lparr>WRITE3args_file = default,
     WRITE3args_offset = default,
     WRITE3args_count = default,
     WRITE3args_stable = default,
     WRITE3args_data = default, \<dots> = default\<rparr>"

instance ..

end

declare default_WRITE3args_ext_def [zero_mem]

record WRITE3resfail =
  WRITE3resfail_file_wcc :: wcc_data

instantiation WRITE3resfail_ext :: (default) default
begin

definition default_WRITE3resfail_ext :: "'a WRITE3resfail_scheme" where
  "default_WRITE3resfail_ext =
    \<lparr>WRITE3resfail_file_wcc = default, \<dots> = default\<rparr>"

instance ..

end

declare default_WRITE3resfail_ext_def [zero_mem]

record WRITE3resok = WRITE3resfail +
  WRITE3resok_count :: count3
  WRITE3resok_committed :: stable_how
  WRITE3resok_verf :: writeverf3

instantiation WRITE3resok_ext :: (default) default
begin

definition default_WRITE3resok_ext :: "'a WRITE3resok_ext" where
  "default_WRITE3resok_ext = WRITE3resok_ext default default (replicate (unat NFS3_WRITEVERFSIZE) 0) default"

instance ..

end

declare default_WRITE3resok_ext_def [zero_mem]

record WRITE3res =
  WRITE3res_status :: nfsstat3
  WRITE3res_u :: WRITE3resok

instantiation WRITE3res_ext :: (default) default
begin

definition default_WRITE3res_ext :: "'a WRITE3res_scheme" where
  "default_WRITE3res_ext =
    \<lparr>WRITE3res_status = default,
     WRITE3res_u = default, \<dots> = default\<rparr>"

instance ..

end

declare default_WRITE3res_ext_def [zero_mem]

record createhow3 =
  createhow3_mode :: createmode3
  createhow3_obj_attributes :: sattr3
  createhow3_verf :: createverf3

instantiation createhow3_ext :: (default) default
begin

definition default_createhow3_ext :: "'a createhow3_scheme" where
  "default_createhow3_ext =
    \<lparr>createhow3_mode = default,
     createhow3_obj_attributes = default,
     createhow3_verf = replicate (unat NFS3_CREATEVERFSIZE) 0, \<dots> = default\<rparr>"

instance ..

end

declare default_createhow3_ext_def [zero_mem]

record CREATE3args =
  CREATE3args_where :: diropargs3
  CREATE3args_how :: createhow3

instantiation CREATE3args_ext :: (default) default
begin

definition default_CREATE3args_ext :: "'a CREATE3args_scheme" where
  "default_CREATE3args_ext =
    \<lparr>CREATE3args_where = default,
     CREATE3args_how = default, \<dots> = default\<rparr>"

instance ..

end

declare default_CREATE3args_ext_def [zero_mem]

record CREATE3resfail =
  CREATE3resfail_dir_wcc :: wcc_data

instantiation CREATE3resfail_ext :: (default) default
begin

definition default_CREATE3resfail_ext :: "'a CREATE3resfail_scheme" where
  "default_CREATE3resfail_ext =
    \<lparr>CREATE3resfail_dir_wcc = default, \<dots> = default\<rparr>"

instance ..

end

declare default_CREATE3resfail_ext_def [zero_mem]

record CREATE3resok = CREATE3resfail +
  CREATE3resok_obj :: post_op_fh3
  CREATE3resok_obj_attributes :: post_op_attr

instantiation CREATE3resok_ext :: (default) default
begin

definition default_CREATE3resok_ext :: "'a CREATE3resok_ext" where
  "default_CREATE3resok_ext = CREATE3resok_ext default default default"

instance ..

end

declare default_CREATE3resok_ext_def [zero_mem]

record CREATE3res =
  CREATE3res_status :: nfsstat3
  CREATE3res_u :: CREATE3resok

instantiation CREATE3res_ext :: (default) default
begin

definition default_CREATE3res_ext :: "'a CREATE3res_scheme" where
  "default_CREATE3res_ext =
    \<lparr>CREATE3res_status = default,
     CREATE3res_u = default, \<dots> = default\<rparr>"

instance ..

end

declare default_CREATE3res_ext_def [zero_mem]

record MKDIR3args =
  MKDIR3args_where :: diropargs3
  MKDIR3args_attributes :: sattr3

instantiation MKDIR3args_ext :: (default) default
begin

definition default_MKDIR3args_ext :: "'a MKDIR3args_scheme" where
  "default_MKDIR3args_ext =
    \<lparr>MKDIR3args_where = default,
     MKDIR3args_attributes = default, \<dots> = default\<rparr>"

instance ..

end

declare default_MKDIR3args_ext_def [zero_mem]

record MKDIR3resfail =
  MKDIR3resfail_dir_wcc :: wcc_data

instantiation MKDIR3resfail_ext :: (default) default
begin

definition default_MKDIR3resfail_ext :: "'a MKDIR3resfail_scheme" where
  "default_MKDIR3resfail_ext =
    \<lparr>MKDIR3resfail_dir_wcc = default, \<dots> = default\<rparr>"

instance ..

end

declare default_MKDIR3resfail_ext_def [zero_mem]

record MKDIR3resok = MKDIR3resfail +
  MKDIR3resok_obj :: post_op_fh3
  MKDIR3resok_obj_attributes :: post_op_attr

instantiation MKDIR3resok_ext :: (default) default
begin

definition default_MKDIR3resok_ext :: "'a MKDIR3resok_ext" where
  "default_MKDIR3resok_ext = MKDIR3resok_ext default default default"

instance ..

end

declare default_MKDIR3resok_ext_def [zero_mem]

record MKDIR3res =
  MKDIR3res_status :: nfsstat3
  MKDIR3res_u :: MKDIR3resok

instantiation MKDIR3res_ext :: (default) default
begin

definition default_MKDIR3res_ext :: "'a MKDIR3res_scheme" where
  "default_MKDIR3res_ext =
    \<lparr>MKDIR3res_status = default,
     MKDIR3res_u = default, \<dots> = default\<rparr>"

instance ..

end

declare default_MKDIR3res_ext_def [zero_mem]

record symlinkdata3 =
  symlinkdata3_symlink_attributes :: sattr3
  symlinkdata3_symlink_data :: nfspath3

instantiation symlinkdata3_ext :: (default) default
begin

definition default_symlinkdata3_ext :: "'a symlinkdata3_scheme" where
  "default_symlinkdata3_ext =
    \<lparr>symlinkdata3_symlink_attributes = default,
     symlinkdata3_symlink_data = default, \<dots> = default\<rparr>"

instance ..

end

declare default_symlinkdata3_ext_def [zero_mem]

record SYMLINK3args =
  SYMLINK3args_where :: diropargs3
  SYMLINK3args_symlink :: symlinkdata3

instantiation SYMLINK3args_ext :: (default) default
begin

definition default_SYMLINK3args_ext :: "'a SYMLINK3args_scheme" where
  "default_SYMLINK3args_ext =
    \<lparr>SYMLINK3args_where = default,
     SYMLINK3args_symlink = default, \<dots> = default\<rparr>"

instance ..

end

declare default_SYMLINK3args_ext_def [zero_mem]

record SYMLINK3resfail =
  SYMLINK3resfail_dir_wcc :: wcc_data

instantiation SYMLINK3resfail_ext :: (default) default
begin

definition default_SYMLINK3resfail_ext :: "'a SYMLINK3resfail_scheme" where
  "default_SYMLINK3resfail_ext =
    \<lparr>SYMLINK3resfail_dir_wcc = default, \<dots> = default\<rparr>"

instance ..

end

declare default_SYMLINK3resfail_ext_def [zero_mem]

record SYMLINK3resok = SYMLINK3resfail +
  SYMLINK3resok_obj :: post_op_fh3
  SYMLINK3resok_obj_attributes :: post_op_attr

instantiation SYMLINK3resok_ext :: (default) default
begin

definition default_SYMLINK3resok_ext :: "'a SYMLINK3resok_ext" where
  "default_SYMLINK3resok_ext = SYMLINK3resok_ext default default default"

instance ..

end

declare default_SYMLINK3resok_ext_def [zero_mem]

record SYMLINK3res =
  SYMLINK3res_status :: nfsstat3
  SYMLINK3res_u :: SYMLINK3resok

instantiation SYMLINK3res_ext :: (default) default
begin

definition default_SYMLINK3res_ext :: "'a SYMLINK3res_scheme" where
  "default_SYMLINK3res_ext =
    \<lparr>SYMLINK3res_status = default,
     SYMLINK3res_u = default, \<dots> = default\<rparr>"

instance ..

end

declare default_SYMLINK3res_ext_def [zero_mem]

record devicedata3 =
  devicedata3_dev_attributes :: sattr3
  devicedata3_spec :: specdata3

instantiation devicedata3_ext :: (default) default
begin

definition default_devicedata3_ext :: "'a devicedata3_scheme" where
  "default_devicedata3_ext =
    \<lparr>devicedata3_dev_attributes = default,
     devicedata3_spec = default, \<dots> = default\<rparr>"

instance ..

end

declare default_devicedata3_ext_def [zero_mem]

record mknoddata3 =
  mknoddata3_type :: ftype3
  mknoddata3_device :: devicedata3
  mknoddata3_pipe_attributes :: sattr3

instantiation mknoddata3_ext :: (default) default
begin

definition default_mknoddata3_ext :: "'a mknoddata3_scheme" where
  "default_mknoddata3_ext =
    \<lparr>mknoddata3_type = default,
     mknoddata3_device = default,
     mknoddata3_pipe_attributes = default, \<dots> = default\<rparr>"

instance ..

end

declare default_mknoddata3_ext_def [zero_mem]

record MKNOD3args =
  MKNOD3args_where :: diropargs3
  MKNOD3args_what :: mknoddata3

instantiation MKNOD3args_ext :: (default) default
begin

definition default_MKNOD3args_ext :: "'a MKNOD3args_scheme" where
  "default_MKNOD3args_ext =
    \<lparr>MKNOD3args_where = default,
     MKNOD3args_what = default, \<dots> = default\<rparr>"

instance ..

end

declare default_MKNOD3args_ext_def [zero_mem]

record MKNOD3resfail =
  MKNOD3resfail_dir_wcc :: wcc_data

instantiation MKNOD3resfail_ext :: (default) default
begin

definition default_MKNOD3resfail_ext :: "'a MKNOD3resfail_scheme" where
  "default_MKNOD3resfail_ext =
    \<lparr>MKNOD3resfail_dir_wcc = default, \<dots> = default\<rparr>"

instance ..

end

declare default_MKNOD3resfail_ext_def [zero_mem]

record MKNOD3resok = MKNOD3resfail +
  MKNOD3resok_obj :: post_op_fh3
  MKNOD3resok_obj_attributes :: post_op_attr

instantiation MKNOD3resok_ext :: (default) default
begin

definition default_MKNOD3resok_ext :: "'a MKNOD3resok_ext" where
  "default_MKNOD3resok_ext = MKNOD3resok_ext default default default"

instance ..

end

declare default_MKNOD3resok_ext_def [zero_mem]

record MKNOD3res =
  MKNOD3res_status :: nfsstat3
  MKNOD3res_u :: MKNOD3resok

instantiation MKNOD3res_ext :: (default) default
begin

definition default_MKNOD3res_ext :: "'a MKNOD3res_scheme" where
  "default_MKNOD3res_ext =
    \<lparr>MKNOD3res_status = default,
     MKNOD3res_u = default, \<dots> = default\<rparr>"

instance ..

end

declare default_MKNOD3res_ext_def [zero_mem]

record REMOVE3args =
  REMOVE3args_object :: diropargs3

instantiation REMOVE3args_ext :: (default) default
begin

definition default_REMOVE3args_ext :: "'a REMOVE3args_scheme" where
  "default_REMOVE3args_ext =
    \<lparr>REMOVE3args_object = default, \<dots> = default\<rparr>"

instance ..

end

declare default_REMOVE3args_ext_def [zero_mem]

record REMOVE3resfail =
  REMOVE3resfail_dir_wcc :: wcc_data

instantiation REMOVE3resfail_ext :: (default) default
begin

definition default_REMOVE3resfail_ext :: "'a REMOVE3resfail_scheme" where
  "default_REMOVE3resfail_ext =
    \<lparr>REMOVE3resfail_dir_wcc = default, \<dots> = default\<rparr>"

instance ..

end

declare default_REMOVE3resfail_ext_def [zero_mem]

type_synonym REMOVE3resok = REMOVE3resfail

record REMOVE3res =
  REMOVE3res_status :: nfsstat3
  REMOVE3res_u :: REMOVE3resok

instantiation REMOVE3res_ext :: (default) default
begin

definition default_REMOVE3res_ext :: "'a REMOVE3res_scheme" where
  "default_REMOVE3res_ext =
    \<lparr>REMOVE3res_status = default,
     REMOVE3res_u = default, \<dots> = default\<rparr>"

instance ..

end

declare default_REMOVE3res_ext_def [zero_mem]

record RMDIR3args =
  RMDIR3args_object :: diropargs3

instantiation RMDIR3args_ext :: (default) default
begin

definition default_RMDIR3args_ext :: "'a RMDIR3args_scheme" where
  "default_RMDIR3args_ext =
    \<lparr>RMDIR3args_object = default, \<dots> = default\<rparr>"

instance ..

end

declare default_RMDIR3args_ext_def [zero_mem]

record RMDIR3resfail =
  RMDIR3resfail_dir_wcc :: wcc_data

instantiation RMDIR3resfail_ext :: (default) default
begin

definition default_RMDIR3resfail_ext :: "'a RMDIR3resfail_scheme" where
  "default_RMDIR3resfail_ext =
    \<lparr>RMDIR3resfail_dir_wcc = default, \<dots> = default\<rparr>"

instance ..

end

declare default_RMDIR3resfail_ext_def [zero_mem]

type_synonym RMDIR3resok = RMDIR3resfail

record RMDIR3res =
  RMDIR3res_status :: nfsstat3
  RMDIR3res_u :: RMDIR3resok

instantiation RMDIR3res_ext :: (default) default
begin

definition default_RMDIR3res_ext :: "'a RMDIR3res_scheme" where
  "default_RMDIR3res_ext =
    \<lparr>RMDIR3res_status = default,
     RMDIR3res_u = default, \<dots> = default\<rparr>"

instance ..

end

declare default_RMDIR3res_ext_def [zero_mem]

record RENAME3args =
  RENAME3args_from :: diropargs3
  RENAME3args_to :: diropargs3

instantiation RENAME3args_ext :: (default) default
begin

definition default_RENAME3args_ext :: "'a RENAME3args_scheme" where
  "default_RENAME3args_ext =
    \<lparr>RENAME3args_from = default,
     RENAME3args_to = default, \<dots> = default\<rparr>"

instance ..

end

declare default_RENAME3args_ext_def [zero_mem]

record RENAME3resfail =
  RENAME3resfail_fromdir_wcc :: wcc_data
  RENAME3resfail_todir_wcc :: wcc_data

instantiation RENAME3resfail_ext :: (default) default
begin

definition default_RENAME3resfail_ext :: "'a RENAME3resfail_scheme" where
  "default_RENAME3resfail_ext =
    \<lparr>RENAME3resfail_fromdir_wcc = default,
     RENAME3resfail_todir_wcc = default, \<dots> = default\<rparr>"

instance ..

end

declare default_RENAME3resfail_ext_def [zero_mem]

type_synonym RENAME3resok = RENAME3resfail

record RENAME3res =
  RENAME3res_status :: nfsstat3
  RENAME3res_u :: RENAME3resok

instantiation RENAME3res_ext :: (default) default
begin

definition default_RENAME3res_ext :: "'a RENAME3res_scheme" where
  "default_RENAME3res_ext =
    \<lparr>RENAME3res_status = default,
     RENAME3res_u = default, \<dots> = default\<rparr>"

instance ..

end

declare default_RENAME3res_ext_def [zero_mem]

record LINK3args =
  LINK3args_file :: nfs_fh3
  LINK3args_link :: diropargs3

instantiation LINK3args_ext :: (default) default
begin

definition default_LINK3args_ext :: "'a LINK3args_scheme" where
  "default_LINK3args_ext =
    \<lparr>LINK3args_file = default,
     LINK3args_link = default, \<dots> = default\<rparr>"

instance ..

end

declare default_LINK3args_ext_def [zero_mem]

record LINK3resfail =
  LINK3resfail_file_attributes :: post_op_attr
  LINK3resfail_linkdir_wcc :: wcc_data

instantiation LINK3resfail_ext :: (default) default
begin

definition default_LINK3resfail_ext :: "'a LINK3resfail_scheme" where
  "default_LINK3resfail_ext =
    \<lparr>LINK3resfail_file_attributes = default,
     LINK3resfail_linkdir_wcc = default, \<dots> = default\<rparr>"

instance ..

end

declare default_LINK3resfail_ext_def [zero_mem]

type_synonym LINK3resok = LINK3resfail

record LINK3res =
  LINK3res_status :: nfsstat3
  LINK3res_u :: LINK3resok

instantiation LINK3res_ext :: (default) default
begin

definition default_LINK3res_ext :: "'a LINK3res_scheme" where
  "default_LINK3res_ext =
    \<lparr>LINK3res_status = default,
     LINK3res_u = default, \<dots> = default\<rparr>"

instance ..

end

declare default_LINK3res_ext_def [zero_mem]

record READDIR3args =
  READDIR3args_dir :: nfs_fh3
  READDIR3args_cookie :: cookie3
  READDIR3args_cookieverf :: cookieverf3
  READDIR3args_count :: count3

instantiation READDIR3args_ext :: (default) default
begin

definition default_READDIR3args_ext :: "'a READDIR3args_scheme" where
  "default_READDIR3args_ext =
    \<lparr>READDIR3args_dir = default,
     READDIR3args_cookie = default,
     READDIR3args_cookieverf = replicate (unat NFS3_COOKIEVERFSIZE) 0,
     READDIR3args_count = default, \<dots> = default\<rparr>"

instance ..

end

declare default_READDIR3args_ext_def [zero_mem]

datatype entry3 =
  Entry3
    (entry3_fileid: fileid3)
    (entry3_name: filename3)
    (entry3_cookie: cookie3)
    (entry3_nextentry: "entry3 option")

instantiation entry3 :: default
begin

definition default_entry3 :: entry3 where
  "default_entry3 = Entry3 default default default default"

instance ..

end

declare default_entry3_def [zero_mem]

record dirlist3 =
  dirlist3_entries :: "entry3 option"
  dirlist3_eof :: bool_t

instantiation dirlist3_ext :: (default) default
begin

definition default_dirlist3_ext :: "'a dirlist3_scheme" where
  "default_dirlist3_ext =
    \<lparr>dirlist3_entries = default,
     dirlist3_eof = default, \<dots> = default\<rparr>"

instance ..

end

declare default_dirlist3_ext_def [zero_mem]

record READDIR3resfail =
  READDIR3resfail_dir_attributes :: post_op_attr

instantiation READDIR3resfail_ext :: (default) default
begin

definition default_READDIR3resfail_ext :: "'a READDIR3resfail_scheme" where
  "default_READDIR3resfail_ext =
    \<lparr>READDIR3resfail_dir_attributes = default, \<dots> = default\<rparr>"

instance ..

end

declare default_READDIR3resfail_ext_def [zero_mem]

record READDIR3resok = READDIR3resfail +
  READDIR3resok_cookieverf :: cookieverf3
  READDIR3resok_reply :: dirlist3

instantiation READDIR3resok_ext :: (default) default
begin

definition default_READDIR3resok_ext :: "'a READDIR3resok_ext" where
  "default_READDIR3resok_ext = READDIR3resok_ext (replicate (unat NFS3_COOKIEVERFSIZE) 0) default default"

instance ..

end

declare default_READDIR3resok_ext_def [zero_mem]

record READDIR3res =
  READDIR3res_status :: nfsstat3
  READDIR3res_u :: READDIR3resok

instantiation READDIR3res_ext :: (default) default
begin

definition default_READDIR3res_ext :: "'a READDIR3res_scheme" where
  "default_READDIR3res_ext =
    \<lparr>READDIR3res_status = default,
     READDIR3res_u = default, \<dots> = default\<rparr>"

instance ..

end

declare default_READDIR3res_ext_def [zero_mem]

record READDIRPLUS3args =
  READDIRPLUS3args_dir :: nfs_fh3
  READDIRPLUS3args_cookie :: cookie3
  READDIRPLUS3args_cookieverf :: cookieverf3
  READDIRPLUS3args_dircount :: count3
  READDIRPLUS3args_maxcount :: count3

instantiation READDIRPLUS3args_ext :: (default) default
begin

definition default_READDIRPLUS3args_ext :: "'a READDIRPLUS3args_scheme" where
  "default_READDIRPLUS3args_ext =
    \<lparr>READDIRPLUS3args_dir = default,
     READDIRPLUS3args_cookie = default,
     READDIRPLUS3args_cookieverf = replicate (unat NFS3_COOKIEVERFSIZE) 0,
     READDIRPLUS3args_dircount = default,
     READDIRPLUS3args_maxcount = default, \<dots> = default\<rparr>"

instance ..

end

declare default_READDIRPLUS3args_ext_def [zero_mem]

datatype entryplus3 =
  Entryplus3
    (entryplus3_fileid: fileid3)
    (entryplus3_name: filename3)
    (entryplus3_cookie: cookie3)
    (entryplus3_name_attributes: post_op_attr)
    (entryplus3_name_handle: post_op_fh3)
    (entryplus3_nextentry: "entryplus3 option")

instantiation entryplus3 :: default
begin

definition default_entryplus3 :: entryplus3 where
  "default_entryplus3 = Entryplus3 default default default default default default"

instance ..

end

declare default_entryplus3_def [zero_mem]

record dirlistplus3 =
  dirlistplus3_entries :: "entryplus3 option"
  dirlistplus3_eof :: bool_t

instantiation dirlistplus3_ext :: (default) default
begin

definition default_dirlistplus3_ext :: "'a dirlistplus3_scheme" where
  "default_dirlistplus3_ext =
    \<lparr>dirlistplus3_entries = default,
     dirlistplus3_eof = default, \<dots> = default\<rparr>"

instance ..

end

declare default_dirlistplus3_ext_def [zero_mem]

record READDIRPLUS3resfail =
  READDIRPLUS3resfail_dir_attributes :: post_op_attr

instantiation READDIRPLUS3resfail_ext :: (default) default
begin

definition default_READDIRPLUS3resfail_ext :: "'a READDIRPLUS3resfail_scheme" where
  "default_READDIRPLUS3resfail_ext =
    \<lparr>READDIRPLUS3resfail_dir_attributes = default, \<dots> = default\<rparr>"

instance ..

end

declare default_READDIRPLUS3resfail_ext_def [zero_mem]

record READDIRPLUS3resok = READDIRPLUS3resfail +
  READDIRPLUS3resok_cookieverf :: cookieverf3
  READDIRPLUS3resok_reply :: dirlistplus3

instantiation READDIRPLUS3resok_ext :: (default) default
begin

definition default_READDIRPLUS3resok_ext :: "'a READDIRPLUS3resok_ext" where
  "default_READDIRPLUS3resok_ext = READDIRPLUS3resok_ext (replicate (unat NFS3_COOKIEVERFSIZE) 0) default default"

instance ..

end

declare default_READDIRPLUS3resok_ext_def [zero_mem]

record READDIRPLUS3res =
  READDIRPLUS3res_status :: nfsstat3
  READDIRPLUS3res_u :: READDIRPLUS3resok

instantiation READDIRPLUS3res_ext :: (default) default
begin

definition default_READDIRPLUS3res_ext :: "'a READDIRPLUS3res_scheme" where
  "default_READDIRPLUS3res_ext =
    \<lparr>READDIRPLUS3res_status = default,
     READDIRPLUS3res_u = default, \<dots> = default\<rparr>"

instance ..

end

declare default_READDIRPLUS3res_ext_def [zero_mem]

record FSSTAT3args =
  FSSTAT3args_fsroot :: nfs_fh3

instantiation FSSTAT3args_ext :: (default) default
begin

definition default_FSSTAT3args_ext :: "'a FSSTAT3args_scheme" where
  "default_FSSTAT3args_ext =
    \<lparr>FSSTAT3args_fsroot = default, \<dots> = default\<rparr>"

instance ..

end

declare default_FSSTAT3args_ext_def [zero_mem]

record FSSTAT3resfail =
  FSSTAT3resfail_obj_attributes :: post_op_attr

instantiation FSSTAT3resfail_ext :: (default) default
begin

definition default_FSSTAT3resfail_ext :: "'a FSSTAT3resfail_scheme" where
  "default_FSSTAT3resfail_ext =
    \<lparr>FSSTAT3resfail_obj_attributes = default, \<dots> = default\<rparr>"

instance ..

end

declare default_FSSTAT3resfail_ext_def [zero_mem]

record FSSTAT3resok = FSSTAT3resfail +
  FSSTAT3resok_tbytes :: size3
  FSSTAT3resok_fbytes :: size3
  FSSTAT3resok_abytes :: size3
  FSSTAT3resok_tfiles :: size3
  FSSTAT3resok_ffiles :: size3
  FSSTAT3resok_afiles :: size3
  FSSTAT3resok_invarsec :: u32

instantiation FSSTAT3resok_ext :: (default) default
begin

definition default_FSSTAT3resok_ext :: "'a FSSTAT3resok_ext" where
  "default_FSSTAT3resok_ext = FSSTAT3resok_ext default default default default default default default default"

instance ..

end

declare default_FSSTAT3resok_ext_def [zero_mem]

record FSSTAT3res =
  FSSTAT3res_status :: nfsstat3
  FSSTAT3res_u :: FSSTAT3resok

instantiation FSSTAT3res_ext :: (default) default
begin

definition default_FSSTAT3res_ext :: "'a FSSTAT3res_scheme" where
  "default_FSSTAT3res_ext =
    \<lparr>FSSTAT3res_status = default,
     FSSTAT3res_u = default, \<dots> = default\<rparr>"

instance ..

end

declare default_FSSTAT3res_ext_def [zero_mem]

record FSINFO3args =
  FSINFO3args_fsroot :: nfs_fh3

instantiation FSINFO3args_ext :: (default) default
begin

definition default_FSINFO3args_ext :: "'a FSINFO3args_scheme" where
  "default_FSINFO3args_ext =
    \<lparr>FSINFO3args_fsroot = default, \<dots> = default\<rparr>"

instance ..

end

declare default_FSINFO3args_ext_def [zero_mem]

record FSINFO3resfail =
  FSINFO3resfail_obj_attributes :: post_op_attr

instantiation FSINFO3resfail_ext :: (default) default
begin

definition default_FSINFO3resfail_ext :: "'a FSINFO3resfail_scheme" where
  "default_FSINFO3resfail_ext =
    \<lparr>FSINFO3resfail_obj_attributes = default, \<dots> = default\<rparr>"

instance ..

end

declare default_FSINFO3resfail_ext_def [zero_mem]

record FSINFO3resok = FSINFO3resfail +
  FSINFO3resok_rtmax :: u32
  FSINFO3resok_rtpref :: u32
  FSINFO3resok_rtmult :: u32
  FSINFO3resok_wtmax :: u32
  FSINFO3resok_wtpref :: u32
  FSINFO3resok_wtmult :: u32
  FSINFO3resok_dtpref :: u32
  FSINFO3resok_maxfilesize :: size3
  FSINFO3resok_time_delta :: nfstime3
  FSINFO3resok_properties :: u32

instantiation FSINFO3resok_ext :: (default) default
begin

definition default_FSINFO3resok_ext :: "'a FSINFO3resok_ext" where
  "default_FSINFO3resok_ext = FSINFO3resok_ext default default default default default default default default default default default"

instance ..

end

declare default_FSINFO3resok_ext_def [zero_mem]

record FSINFO3res =
  FSINFO3res_status :: nfsstat3
  FSINFO3res_u :: FSINFO3resok

instantiation FSINFO3res_ext :: (default) default
begin

definition default_FSINFO3res_ext :: "'a FSINFO3res_scheme" where
  "default_FSINFO3res_ext =
    \<lparr>FSINFO3res_status = default,
     FSINFO3res_u = default, \<dots> = default\<rparr>"

instance ..

end

declare default_FSINFO3res_ext_def [zero_mem]

record PATHCONF3args =
  PATHCONF3args_object :: nfs_fh3

instantiation PATHCONF3args_ext :: (default) default
begin

definition default_PATHCONF3args_ext :: "'a PATHCONF3args_scheme" where
  "default_PATHCONF3args_ext =
    \<lparr>PATHCONF3args_object = default, \<dots> = default\<rparr>"

instance ..

end

declare default_PATHCONF3args_ext_def [zero_mem]

record PATHCONF3resfail =
  PATHCONF3resfail_obj_attributes :: post_op_attr

instantiation PATHCONF3resfail_ext :: (default) default
begin

definition default_PATHCONF3resfail_ext :: "'a PATHCONF3resfail_scheme" where
  "default_PATHCONF3resfail_ext =
    \<lparr>PATHCONF3resfail_obj_attributes = default, \<dots> = default\<rparr>"

instance ..

end

declare default_PATHCONF3resfail_ext_def [zero_mem]

record PATHCONF3resok = PATHCONF3resfail +
  PATHCONF3resok_linkmax :: u32
  PATHCONF3resok_name_max :: u32
  PATHCONF3resok_no_trunc :: bool_t
  PATHCONF3resok_chown_restricted :: bool_t
  PATHCONF3resok_case_insensitive :: bool_t
  PATHCONF3resok_case_preserving :: bool_t

instantiation PATHCONF3resok_ext :: (default) default
begin

definition default_PATHCONF3resok_ext :: "'a PATHCONF3resok_ext" where
  "default_PATHCONF3resok_ext = PATHCONF3resok_ext default default default default default default default"

instance ..

end

declare default_PATHCONF3resok_ext_def [zero_mem]

record PATHCONF3res =
  PATHCONF3res_status :: nfsstat3
  PATHCONF3res_u :: PATHCONF3resok

instantiation PATHCONF3res_ext :: (default) default
begin

definition default_PATHCONF3res_ext :: "'a PATHCONF3res_scheme" where
  "default_PATHCONF3res_ext =
    \<lparr>PATHCONF3res_status = default,
     PATHCONF3res_u = default, \<dots> = default\<rparr>"

instance ..

end

declare default_PATHCONF3res_ext_def [zero_mem]

record COMMIT3args =
  COMMIT3args_file :: nfs_fh3
  COMMIT3args_offset :: offset3
  COMMIT3args_count :: count3

instantiation COMMIT3args_ext :: (default) default
begin

definition default_COMMIT3args_ext :: "'a COMMIT3args_scheme" where
  "default_COMMIT3args_ext =
    \<lparr>COMMIT3args_file = default,
     COMMIT3args_offset = default,
     COMMIT3args_count = default, \<dots> = default\<rparr>"

instance ..

end

declare default_COMMIT3args_ext_def [zero_mem]

record COMMIT3resfail =
  COMMIT3resfail_file_wcc :: wcc_data

instantiation COMMIT3resfail_ext :: (default) default
begin

definition default_COMMIT3resfail_ext :: "'a COMMIT3resfail_scheme" where
  "default_COMMIT3resfail_ext =
    \<lparr>COMMIT3resfail_file_wcc = default, \<dots> = default\<rparr>"

instance ..

end

declare default_COMMIT3resfail_ext_def [zero_mem]

record COMMIT3resok = COMMIT3resfail +
  COMMIT3resok_verf :: writeverf3

instantiation COMMIT3resok_ext :: (default) default
begin

definition default_COMMIT3resok_ext :: "'a COMMIT3resok_ext" where
  "default_COMMIT3resok_ext = COMMIT3resok_ext (replicate (unat NFS3_WRITEVERFSIZE) 0) default"

instance ..

end

declare default_COMMIT3resok_ext_def [zero_mem]

record COMMIT3res =
  COMMIT3res_status :: nfsstat3
  COMMIT3res_u :: COMMIT3resok

instantiation COMMIT3res_ext :: (default) default
begin

definition default_COMMIT3res_ext :: "'a COMMIT3res_scheme" where
  "default_COMMIT3res_ext =
    \<lparr>COMMIT3res_status = default,
     COMMIT3res_u = default, \<dots> = default\<rparr>"

instance ..

end

declare default_COMMIT3res_ext_def [zero_mem]

end
