(* ===== verification/Go_Path.thy ===== *)
theory Go_Path
  imports Prelude "HOL-Library.Sublist"
begin

text \<open>
  The string functions of the Go standard library that \<open>unfs2go_exports.go\<close> uses on paths:
  \<open>path.Clean\<close>, \<open>strings.HasPrefix\<close> (\<^const>\<open>prefix\<close>), \<open>strings.Replace\<close> with count 1,
  \<open>strings.Contains\<close> (\<^const>\<open>sublist\<close>) and \<open>strings.ToLower\<close> on ASCII. The lemmas show
  that a cleaned rooted path is a list of proper names joined by slashes, so no path that
  reaches the backend can climb out of the shared directory.
\<close>

section \<open>Splitting and joining at slashes\<close>

fun split_slash :: "string \<Rightarrow> string list" where
  "split_slash [] = [[]]"
| "split_slash (c # cs) =
     (if c = CHR ''/'' then [] # split_slash cs
      else (case split_slash cs of [] \<Rightarrow> [[c]] | x # xs \<Rightarrow> (c # x) # xs))"

fun join_slash :: "string list \<Rightarrow> string" where
  "join_slash [] = []"
| "join_slash [x] = x"
| "join_slash (x # y # xs) = x @ CHR ''/'' # join_slash (y # xs)"

lemma split_slash_nonempty [simp]: "split_slash s \<noteq> []"
  by (induction s) (auto split: list.splits)

lemma split_slash_no_slash: "x \<in> set (split_slash s) \<Longrightarrow> CHR ''/'' \<notin> set x"
  by (induction s arbitrary: x) (auto split: if_splits list.splits)

lemma split_slash_single [simp]: "CHR ''/'' \<notin> set x \<Longrightarrow> split_slash x = [x]"
  by (induction x) auto

lemma split_slash_append [simp]:
  "CHR ''/'' \<notin> set x \<Longrightarrow> split_slash (x @ CHR ''/'' # s) = x # split_slash s"
  by (induction x) auto

lemma split_slash_append2:
  "split_slash (s @ CHR ''/'' # t) = split_slash s @ split_slash t"
proof (induction s)
  case (Cons c s)
  then show ?case by (cases "split_slash s") auto
qed simp

lemma split_join_slash:
  "xs \<noteq> [] \<Longrightarrow> \<forall>x \<in> set xs. CHR ''/'' \<notin> set x \<Longrightarrow> split_slash (join_slash xs) = xs"
  by (induction xs rule: join_slash.induct) auto

section \<open>path.Clean\<close>

text \<open>
  \<open>path.Clean\<close> drops empty and \<open>.\<close> elements and lets \<open>..\<close> remove the element before it;
  at the root \<open>..\<close> has nothing to remove. The elements kept so far are a stack.
\<close>

fun clean_step :: "bool \<Rightarrow> string list \<Rightarrow> string \<Rightarrow> string list" where
  "clean_step rooted st c =
     (if c = [] \<or> c = ''.'' then st
      else if c = ''..'' then
        (case st of
           [] \<Rightarrow> if rooted then [] else [''..'']
         | t # ts \<Rightarrow> if t = ''..'' then ''..'' # st else ts)
      else c # st)"

declare clean_step.simps [simp del]

definition path_Clean :: "string \<Rightarrow> string" where
  "path_Clean p =
     (if p = [] then ''.''
      else let rooted = (hd p = CHR ''/'');
               body = join_slash (rev (foldl (clean_step rooted) [] (split_slash p)))
           in if rooted then CHR ''/'' # body else if body = [] then ''.'' else body)"

text \<open>
  What a cleaned rooted path is: a slash and proper names with single slashes in between.
\<close>

definition good_name :: "string \<Rightarrow> bool" where
  "good_name c \<longleftrightarrow> c \<noteq> [] \<and> c \<noteq> ''.'' \<and> c \<noteq> ''..'' \<and> CHR ''/'' \<notin> set c"

definition abs_path :: "string list \<Rightarrow> string" where
  "abs_path cs = CHR ''/'' # join_slash cs"

definition clean_path :: "string \<Rightarrow> bool" where
  "clean_path p \<longleftrightarrow> (\<exists>cs. list_all good_name cs \<and> p = abs_path cs)"

lemma clean_step_good:
  assumes "list_all good_name st" and "CHR ''/'' \<notin> set c"
  shows "list_all good_name (clean_step True st c)"
  using assms by (cases st) (auto simp: clean_step.simps good_name_def)

lemma clean_steps_good:
  "list_all good_name st \<Longrightarrow> \<forall>c \<in> set xs. CHR ''/'' \<notin> set c \<Longrightarrow>
   list_all good_name (foldl (clean_step True) st xs)"
  by (induction xs arbitrary: st) (auto simp: clean_step_good)

lemma clean_steps_id:
  "list_all good_name xs \<Longrightarrow> foldl (clean_step True) st xs = rev xs @ st"
  by (induction xs arbitrary: st) (auto simp: clean_step.simps good_name_def)

lemma good_name_no_slash: "list_all good_name cs \<Longrightarrow> \<forall>c \<in> set cs. CHR ''/'' \<notin> set c"
  by (auto simp: list_all_iff good_name_def)

lemma path_Clean_rooted:
  "path_Clean (CHR ''/'' # s) =
     abs_path (rev (foldl (clean_step True) [] (split_slash s)))"
  by (simp add: path_Clean_def abs_path_def Let_def clean_step.simps)

lemma path_Clean_clean: "clean_path (path_Clean (CHR ''/'' # s))"
proof -
  have "list_all good_name (rev (foldl (clean_step True) [] (split_slash s)))"
    using clean_steps_good [of "[]" "split_slash s"] split_slash_no_slash by simp
  then show ?thesis unfolding clean_path_def path_Clean_rooted by blast
qed

lemma foldl_clean_join:
  assumes "list_all good_name cs"
  shows "foldl (clean_step True) st (split_slash (join_slash cs)) = rev cs @ st"
proof (cases "cs = []")
  case True
  then show ?thesis by (simp add: clean_step.simps)
next
  case False
  then show ?thesis
    using assms good_name_no_slash [OF assms] by (simp add: split_join_slash clean_steps_id)
qed

lemma path_Clean_abs_path [simp]:
  "list_all good_name cs \<Longrightarrow> path_Clean (abs_path cs) = abs_path cs"
  using foldl_clean_join [of cs "[]"] by (simp add: path_Clean_rooted abs_path_def)

lemma path_Clean_id: "clean_path p \<Longrightarrow> path_Clean p = p"
  by (auto simp: clean_path_def)

text \<open>Adding an element to a cleaned path; also with the second root slash the code puts first.\<close>

lemma path_Clean_slash_slash: "path_Clean (CHR ''/'' # CHR ''/'' # s) = path_Clean (CHR ''/'' # s)"
  by (simp add: path_Clean_rooted clean_step.simps)

lemma path_Clean_child:
  assumes "list_all good_name cs" and "CHR ''/'' \<notin> set n"
  shows "path_Clean (abs_path cs @ CHR ''/'' # n) = abs_path (rev (clean_step True (rev cs) n))"
  using assms foldl_clean_join [of cs "[]"]
  by (simp add: path_Clean_rooted abs_path_def split_slash_append2)

lemma path_Clean_child_good:
  assumes "list_all good_name cs" and "good_name n"
  shows "path_Clean (abs_path cs @ CHR ''/'' # n) = abs_path (cs @ [n])"
  using assms path_Clean_child [OF assms(1), of n] by (auto simp: good_name_def clean_step.simps)

lemma path_Clean_parent:
  assumes "list_all good_name cs"
  shows "path_Clean (abs_path cs @ ''/..'') = abs_path (butlast cs)"
proof -
  have "path_Clean (abs_path cs @ CHR ''/'' # ''..'') = abs_path (rev (clean_step True (rev cs) ''..''))"
    by (rule path_Clean_child) (use assms in auto)
  moreover have "clean_step True (rev cs) ''..'' = rev (butlast cs)"
  proof (cases cs rule: rev_cases)
    case (snoc ys y)
    with assms have "y \<noteq> ''..''" by (simp add: good_name_def)
    with snoc show ?thesis by (simp add: clean_step.simps)
  qed (simp add: clean_step.simps)
  ultimately show ?thesis by simp
qed

lemma abs_path_inject:
  assumes "list_all good_name cs" and "list_all good_name ds" and "abs_path cs = abs_path ds"
  shows "cs = ds"
proof -
  have "foldl (clean_step True) [] (split_slash (join_slash cs)) =
      foldl (clean_step True) [] (split_slash (join_slash ds))"
    using assms(3) by (simp add: abs_path_def)
  then show ?thesis using assms(1,2) by (simp add: foldl_clean_join)
qed

lemma abs_path_nul_free: "list_all nul_free cs \<Longrightarrow> nul_free (abs_path cs)"
proof -
  assume "list_all nul_free cs"
  then have "nul_free (join_slash cs)"
    by (induction cs rule: join_slash.induct) (auto simp: NUL_def)
  then show ?thesis by (simp add: abs_path_def NUL_def)
qed

section \<open>Paths as the exported functions see them\<close>

text \<open>\<open>C.GoString\<close> of a null pointer is the empty string.\<close>

definition GoString :: "charptr \<Rightarrow> string" where
  "GoString p = (case p of None \<Rightarrow> [] | Some s \<Rightarrow> s)"

definition go_path :: "charptr \<Rightarrow> string" where
  "go_path p = path_Clean (''/'' @ GoString p)"

lemma go_path_clean: "clean_path (go_path p)"
  by (simp add: go_path_def path_Clean_clean)

lemma go_path_None: "go_path None = ''/''"
  by (simp add: go_path_def GoString_def path_Clean_rooted clean_step.simps abs_path_def)

lemma go_path_id: "clean_path p \<Longrightarrow> go_path (Some p) = p"
  by (auto simp: go_path_def GoString_def clean_path_def abs_path_def path_Clean_slash_slash)
    (simp flip: abs_path_def)

section \<open>strings.Replace (s, old, new, 1) and strings.ToLower\<close>

fun strings_Replace1 :: "string \<Rightarrow> string \<Rightarrow> string \<Rightarrow> string" where
  "strings_Replace1 [] old new = (if old = [] then new else [])"
| "strings_Replace1 (c # cs) old new =
     (if prefix old (c # cs) then new @ drop (length old) (c # cs)
      else c # strings_Replace1 cs old new)"

lemma strings_Replace1_prefix [simp]: "strings_Replace1 (old @ s) old new = new @ s"
proof (cases "old @ s")
  case (Cons c cs)
  then have "prefix old (c # cs)" and "drop (length old) (c # cs) = s"
    by (metis prefixI, metis append_eq_conv_conj)
  with Cons show ?thesis by simp
qed simp

definition to_lower :: "char \<Rightarrow> char" where
  "to_lower c = (if 65 \<le> (of_char c :: nat) \<and> (of_char c :: nat) \<le> 90
                 then char_of ((of_char c :: nat) + 32) else c)"

definition strings_ToLower :: "string \<Rightarrow> string" where
  "strings_ToLower = map to_lower"

end
