(* ===== verification/Fd_Cache.thy ===== *)
theory Fd_Cache
  imports Go_Path "HOL-Library.List_Lexorder" "HOL-Library.Char_ord"
begin

text \<open>
  The translator between paths and file identifiers of \<open>unfs2go_exports.go\<close>
  (\<open>type fdCache\<close>): \<open>PathMapA\<close> from paths to identifiers, \<open>PathMapB\<close> back, and the counter
  the identifiers come from. The lock is not modelled: the RPC loop of \<open>unfs3/daemon.c\<close>
  serves one call at a time. A Go map that has no entry for a key reads as the zero value.
\<close>

section \<open>State and operations\<close>

record fdCache =
  PathMapA :: "string \<rightharpoonup> int"
  PathMapB :: "int \<rightharpoonup> string"
  FDcounter :: int

definition init_fdCache :: fdCache where
  "init_fdCache = \<lparr>PathMapA = Map.empty, PathMapB = Map.empty, FDcounter = 100\<rparr>"

text \<open>\<^const>\<open>None\<close> stands for the error \<open>os.ErrInvalid\<close>.\<close>

definition GetPath :: "fdCache \<Rightarrow> int \<Rightarrow> string option" where
  "GetPath f fd =
     (if fd < 100 then None
      else (case PathMapB f fd of Some path \<Rightarrow> Some path | None \<Rightarrow> None))"

definition GetFD :: "fdCache \<Rightarrow> string \<Rightarrow> fdCache \<times> int" where
  "GetFD f path =
     (case PathMapA f path of
        Some i \<Rightarrow> (f, i)
      | None \<Rightarrow>
          (let newFD = FDcounter f + 1
           in (f\<lparr>FDcounter := newFD, PathMapA := (PathMapA f)(path \<mapsto> newFD),
                 PathMapB := (PathMapB f)(newFD \<mapsto> path)\<rparr>, newFD)))"

text \<open>
  \<open>ReplacePath\<close> walks over \<open>PathMapA\<close> with \<open>range\<close> while it changes it. Go leaves the order
  open, skips entries deleted before their turn, and may or may not produce entries added
  on the way: \<open>walk m\<close> is the sequence of keys that a walk over \<open>m\<close> produces or finds deleted.
\<close>

definition replace_step :: "string \<Rightarrow> string \<Rightarrow> fdCache \<Rightarrow> string \<Rightarrow> fdCache" where
  "replace_step op np f path =
     (case PathMapA f path of
        None \<Rightarrow> f
      | Some fh \<Rightarrow>
          if prefix op path then
            (let A1 = (PathMapA f)(path := None);
                 B1 = (PathMapB f)(fh := None);
                 path' = strings_Replace1 path op np
             in f\<lparr>PathMapA := A1(path' \<mapsto> fh), PathMapB := B1(fh \<mapsto> path')\<rparr>)
          else f)"

definition ReplacePath :: "((string \<rightharpoonup> int) \<Rightarrow> string list) \<Rightarrow> fdCache \<Rightarrow> string \<Rightarrow> string \<Rightarrow> bool \<Rightarrow> fdCache" where
  "ReplacePath walk f oldpath newpath isdir =
     (let fd = (case PathMapA f oldpath of Some i \<Rightarrow> i | None \<Rightarrow> 0);
          A1 = (PathMapA f)(oldpath := None);
          B1 = (PathMapB f)(fd := None);
          f1 = f\<lparr>PathMapA := A1(newpath \<mapsto> fd), PathMapB := B1(fd \<mapsto> newpath)\<rparr>
      in if isdir then foldl (replace_step (oldpath @ ''/'') (newpath @ ''/'')) f1 (walk (PathMapA f1))
         else f1)"

text \<open>One of the orders: by key.\<close>

definition sorted_walk :: "(string \<rightharpoonup> int) \<Rightarrow> string list" where
  "sorted_walk m = sorted_list_of_set (dom m)"

text \<open>The walk produces, in some order, at least every key that is there when it starts.\<close>

definition range_order :: "((string \<rightharpoonup> int) \<Rightarrow> string list) \<Rightarrow> bool" where
  "range_order walk \<longleftrightarrow> (\<forall>m. finite (dom m) \<longrightarrow> dom m \<subseteq> set (walk m))"

lemma range_order_sorted_walk: "range_order sorted_walk"
  by (simp add: range_order_def sorted_walk_def)

section \<open>The invariant\<close>

text \<open>
  The identifier that a path is filed under is above 100 and at most the counter, and leads back
  to the path. The entry 0 is what \<open>ReplacePath\<close> stores when the old path was never given an
  identifier; \<open>fd_known\<close> excludes it. The converse does not hold: after a rename onto a path that
  had an identifier, that one still leads to the path, which is now filed under another.
\<close>

definition fd_inv :: "fdCache \<Rightarrow> bool" where
  "fd_inv f \<longleftrightarrow> 100 \<le> FDcounter f \<and> finite (dom (PathMapA f)) \<and>
     (\<forall>p fd. PathMapA f p = Some fd \<longrightarrow>
        fd = 0 \<or> 100 < fd \<and> fd \<le> FDcounter f \<and> PathMapB f fd = Some p) \<and>
     (\<forall>fd p. PathMapB f fd = Some p \<longrightarrow> fd = 0 \<or> 100 < fd \<and> fd \<le> FDcounter f)"

definition fd_known :: "fdCache \<Rightarrow> bool" where
  "fd_known f \<longleftrightarrow> (\<forall>p. PathMapA f p \<noteq> Some 0)"

definition fd_strict :: "fdCache \<Rightarrow> bool" where
  "fd_strict f \<longleftrightarrow> fd_inv f \<and> fd_known f"

lemma fd_strict_inv: "fd_strict f \<Longrightarrow> fd_inv f"
  by (simp add: fd_strict_def)

lemma fd_inv_A:
  "fd_inv f \<Longrightarrow> PathMapA f p = Some fd \<Longrightarrow>
   fd = 0 \<or> 100 < fd \<and> fd \<le> FDcounter f \<and> PathMapB f fd = Some p"
  by (simp add: fd_inv_def)

lemma fd_strict_A:
  assumes "fd_strict f" and "PathMapA f p = Some fd"
  shows "100 < fd" and "fd \<le> FDcounter f" and "PathMapB f fd = Some p"
  using assms fd_inv_A [of f p fd] by (auto simp: fd_strict_def fd_known_def)

lemma fd_inv_B:
  "fd_inv f \<Longrightarrow> PathMapB f fd = Some p \<Longrightarrow> fd = 0 \<or> 100 < fd \<and> fd \<le> FDcounter f"
  by (auto simp: fd_inv_def)

lemma fd_inv_init: "fd_inv init_fdCache"
  by (simp add: fd_inv_def init_fdCache_def)

lemma fd_strict_init: "fd_strict init_fdCache"
  using fd_inv_init by (simp add: fd_strict_def fd_known_def) (simp add: init_fdCache_def)

section \<open>GetFD\<close>

lemma GetFD_inv:
  assumes "fd_inv f" shows "fd_inv (fst (GetFD f p))"
proof (cases "PathMapA f p")
  case None
  with assms show ?thesis by (force simp: GetFD_def Let_def fd_inv_def)
qed (use assms in \<open>simp add: GetFD_def\<close>)

lemma GetFD_known:
  assumes "fd_inv f" and "fd_known f" shows "fd_known (fst (GetFD f p))"
  using assms by (auto simp: GetFD_def Let_def fd_known_def fd_inv_def split: option.splits)

lemma GetFD_strict: "fd_strict f \<Longrightarrow> fd_strict (fst (GetFD f p))"
  by (simp add: fd_strict_def GetFD_inv GetFD_known)

lemma GetFD_resolves:
  assumes "fd_strict f" and "GetFD f p = (f', fd)"
  shows "GetPath f' fd = Some p"
proof (cases "PathMapA f p")
  case None
  with assms show ?thesis by (auto simp: GetFD_def Let_def GetPath_def fd_strict_def fd_inv_def)
next
  case (Some i)
  with assms fd_strict_A [OF assms(1) Some] show ?thesis by (auto simp: GetFD_def GetPath_def)
qed

lemma GetFD_keeps:
  assumes "fd_inv f" and "GetPath f fd = Some q"
  shows "GetPath (fst (GetFD f p)) fd = Some q"
proof -
  have "100 \<le> fd" and B: "PathMapB f fd = Some q"
    using assms(2) by (auto simp: GetPath_def split: if_splits option.splits)
  then have "fd \<le> FDcounter f" using fd_inv_B [OF assms(1) B] by auto
  with assms(2) show ?thesis
    by (auto simp: GetFD_def GetPath_def Let_def split: option.splits if_splits)
qed

lemma GetFD_again:
  assumes "GetFD f p = (f', fd)"
  shows "GetFD f' p = (f', fd)"
  using assms by (auto simp: GetFD_def Let_def split: option.splits)

section \<open>ReplacePath keeps the invariant\<close>

lemma fd_inv_move:
  assumes inv: "fd_inv f" and fh: "fh = 0 \<or> PathMapA f p = Some fh"
  shows "fd_inv (f\<lparr>PathMapA := (PathMapA f)(p := None, q \<mapsto> fh),
                   PathMapB := (PathMapB f)(fh := None, fh \<mapsto> q)\<rparr>)"
proof -
  have range: "fh = 0 \<or> 100 < fh \<and> fh \<le> FDcounter f"
    using fh fd_inv_A [OF inv] by blast
  have other: "fd = 0 \<or> fd \<noteq> fh" if "PathMapA f r = Some fd" "r \<noteq> p" for r fd
    using fd_inv_A [OF inv that(1)] fd_inv_A [OF inv, of p fh] fh that by auto
  show ?thesis
    using inv range other unfolding fd_inv_def by (auto split: if_splits)
qed

lemma replace_step_inv: "fd_inv f \<Longrightarrow> fd_inv (replace_step op np f p)"
  by (auto simp: replace_step_def Let_def split: option.split intro!: fd_inv_move [simplified])

lemma replace_steps_inv: "fd_inv f \<Longrightarrow> fd_inv (foldl (replace_step op np) f ks)"
  by (induction ks arbitrary: f) (auto simp: replace_step_inv)

lemma ReplacePath_inv: "fd_inv f \<Longrightarrow> fd_inv (ReplacePath walk f old new isdir)"
  using fd_inv_move [of f "case PathMapA f old of Some i \<Rightarrow> i | None \<Rightarrow> 0" old new]
  by (auto simp: ReplacePath_def Let_def split: option.split intro!: replace_steps_inv)

section \<open>What ReplacePath does to a directory tree\<close>

text \<open>The path an old path is renamed to, and the effect on the whole table.\<close>

definition renamed :: "string \<Rightarrow> string \<Rightarrow> string \<Rightarrow> string" where
  "renamed op np p = (if prefix op p then np @ drop (length op) p else p)"

definition move_tree :: "string \<Rightarrow> string \<Rightarrow> string set \<Rightarrow> fdCache \<Rightarrow> fdCache" where
  "move_tree op np K f = f\<lparr>
     PathMapA := (\<lambda>q. if prefix np q \<and> op @ drop (length np) q \<in> K \<and>
                          PathMapA f (op @ drop (length np) q) \<noteq> None
                       then PathMapA f (op @ drop (length np) q)
                       else if prefix op q \<and> q \<in> K then None else PathMapA f q),
     PathMapB := (\<lambda>fd. case PathMapB f fd of None \<Rightarrow> None
                  | Some p \<Rightarrow> if PathMapA f p = Some fd \<and> p \<in> K then Some (renamed op np p)
                              else Some p)\<rparr>"

text \<open>
  The old and the new prefix are not prefixes of each other: the move is neither into the
  directory itself nor onto one of its ancestors, which no file system allows.
\<close>

definition apart :: "string \<Rightarrow> string \<Rightarrow> bool" where
  "apart op np \<longleftrightarrow> \<not> prefix op np \<and> \<not> prefix np op"

lemma apart_disjoint: "apart op np \<Longrightarrow> prefix op q \<Longrightarrow> \<not> prefix np q"
  unfolding apart_def using prefix_same_cases by blast

lemma move_tree_skip:
  assumes "\<not> prefix op k \<or> PathMapA f k = None"
  shows "move_tree op np (insert k K) f = move_tree op np K f"
proof -
  have A: "(if prefix np q \<and> op @ drop (length np) q \<in> insert k K \<and>
                PathMapA f (op @ drop (length np) q) \<noteq> None
             then PathMapA f (op @ drop (length np) q)
             else if prefix op q \<and> q \<in> insert k K then None else PathMapA f q) =
            (if prefix np q \<and> op @ drop (length np) q \<in> K \<and>
                PathMapA f (op @ drop (length np) q) \<noteq> None
             then PathMapA f (op @ drop (length np) q)
             else if prefix op q \<and> q \<in> K then None else PathMapA f q)" for q
    using assms by auto
  have B: "(if PathMapA f p = Some fd \<and> p \<in> insert k K then Some (renamed op np p) else Some p) =
            (if PathMapA f p = Some fd \<and> p \<in> K then Some (renamed op np p) else Some p)" for p fd
    using assms by (auto simp: renamed_def)
  show ?thesis unfolding move_tree_def A B by (rule refl)
qed

lemma move_tree_empty: "move_tree op np {} f = f"
proof -
  have "(\<lambda>fd. case PathMapB f fd of None \<Rightarrow> None
      | Some p \<Rightarrow> if PathMapA f p = Some fd \<and> p \<in> {} then Some (renamed op np p) else Some p) =
    PathMapB f"
    by (auto simp: fun_eq_iff split: option.split)
  then show ?thesis unfolding move_tree_def by simp
qed

text \<open>
  The entry for 0 in \<open>PathMapB\<close> says nothing, since \<open>GetPath\<close> refuses 0: tables are compared up
  to it.
\<close>

definition tab_eq :: "fdCache \<Rightarrow> fdCache \<Rightarrow> bool" where
  "tab_eq f g \<longleftrightarrow> PathMapA f = PathMapA g \<and> FDcounter f = FDcounter g \<and>
     (\<forall>fd. fd \<noteq> 0 \<longrightarrow> PathMapB f fd = PathMapB g fd)"

lemma tab_eq_refl [simp]: "tab_eq f f"
  by (simp add: tab_eq_def)

lemma tab_eq_trans: "tab_eq f g \<Longrightarrow> tab_eq g h \<Longrightarrow> tab_eq f h"
  by (simp add: tab_eq_def)

lemma tab_eq_GetPath: "tab_eq f g \<Longrightarrow> GetPath f fd = GetPath g fd"
  by (simp add: tab_eq_def GetPath_def)

lemma tab_eq_step: "tab_eq f g \<Longrightarrow> tab_eq (replace_step op np f k) (replace_step op np g k)"
  by (cases "PathMapA g k") (auto simp: tab_eq_def replace_step_def Let_def)

lemma replace_step_move:
  assumes f: "fd_inv f" and apart: "apart op np"
  shows "tab_eq (replace_step op np (move_tree op np K f) k) (move_tree op np (insert k K) f)"
proof (cases "prefix op k \<and> k \<notin> K \<and> PathMapA f k \<noteq> None")
  case False
  let ?g = "move_tree op np K f"
  have "prefix op k \<Longrightarrow> PathMapA ?g k = (if k \<in> K then None else PathMapA f k)"
    using apart_disjoint [OF apart] by (simp add: move_tree_def)
  then have "replace_step op np ?g k = ?g"
    using False by (auto simp: replace_step_def split: option.split)
  moreover have "move_tree op np (insert k K) f = ?g"
    using False move_tree_skip by (cases "k \<in> K") (auto simp: insert_absorb)
  ultimately show ?thesis by simp
next
  case True
  then obtain fh r where k: "k = op @ r" "k \<notin> K" and fh: "PathMapA f k = Some fh"
    by (auto elim: prefixE)
  have not_np: "\<not> prefix np k" using True apart_disjoint [OF apart] by blast
  have Bk: "fh \<noteq> 0 \<Longrightarrow> PathMapB f fh = Some k" using fd_inv_A [OF f fh] by simp
  let ?g = "move_tree op np K f"
  have gk: "PathMapA ?g k = Some fh" using not_np k fh by (simp add: move_tree_def)
  have A: "(PathMapA ?g)(k := None, np @ r \<mapsto> fh) = PathMapA (move_tree op np (insert k K) f)"
  proof
    fix q
    show "((PathMapA ?g)(k := None, np @ r \<mapsto> fh)) q = PathMapA (move_tree op np (insert k K) f) q"
    proof (cases "q = np @ r")
      case True
      then show ?thesis using k fh by (simp add: move_tree_def)
    next
      case False
      then have "prefix np q \<Longrightarrow> op @ drop (length np) q \<noteq> k"
        using k by (auto elim!: prefixE)
      with False not_np True k show ?thesis by (auto simp: move_tree_def)
    qed
  qed
  have B: "((PathMapB ?g)(fh \<mapsto> np @ r)) fd = PathMapB (move_tree op np (insert k K) f) fd"
    if "fd \<noteq> 0" for fd
  proof (cases "fd = fh")
    case True
    with that Bk fh k show ?thesis by (simp add: move_tree_def renamed_def)
  next
    case False
    then have "PathMapA f p = Some fd \<Longrightarrow> p \<noteq> k" for p using fh by auto
    with False show ?thesis by (auto simp: move_tree_def split: option.split)
  qed
  have "replace_step op np ?g k =
      ?g\<lparr>PathMapA := (PathMapA ?g)(k := None, np @ r \<mapsto> fh), PathMapB := (PathMapB ?g)(fh \<mapsto> np @ r)\<rparr>"
    using gk k by (simp add: replace_step_def Let_def)
  moreover have "FDcounter (move_tree op np L f) = FDcounter f" for L by (simp add: move_tree_def)
  ultimately show ?thesis using A B by (simp add: tab_eq_def)
qed

lemma replace_steps_move:
  assumes "fd_inv f" and "apart op np"
  shows "tab_eq (foldl (replace_step op np) f ks) (move_tree op np (set ks) f)"
proof (induction ks rule: rev_induct)
  case Nil
  show ?case by (simp add: move_tree_empty)
next
  case (snoc k ks)
  from tab_eq_trans [OF tab_eq_step [OF snoc] replace_step_move [OF assms]] show ?case by simp
qed

lemma move_tree_all:
  assumes "dom (PathMapA f) \<subseteq> K"
  shows "move_tree op np K f = move_tree op np UNIV f"
proof -
  have A: "(prefix np q \<and> op @ drop (length np) q \<in> K \<and>
                PathMapA f (op @ drop (length np) q) \<noteq> None) =
           (prefix np q \<and> op @ drop (length np) q \<in> UNIV \<and>
                PathMapA f (op @ drop (length np) q) \<noteq> None)" for q
    using assms by auto
  have A2: "(if prefix op q \<and> q \<in> K then None else PathMapA f q) =
            (if prefix op q \<and> q \<in> UNIV then None else PathMapA f q)" for q
    using assms by auto
  have B: "(if PathMapA f p = Some fd \<and> p \<in> K then Some (renamed op np p) else Some p) =
           (if PathMapA f p = Some fd \<and> p \<in> UNIV then Some (renamed op np p) else Some p)" for p fd
    using assms by auto
  show ?thesis unfolding move_tree_def A A2 B by (rule refl)
qed

section \<open>The effect of a rename on identifiers\<close>

definition renamed_path :: "string \<Rightarrow> string \<Rightarrow> bool \<Rightarrow> string \<Rightarrow> string" where
  "renamed_path old new isdir q =
     (if q = old then new else if isdir then renamed (old @ ''/'') (new @ ''/'') q else q)"

definition move_one :: "string \<Rightarrow> string \<Rightarrow> int \<Rightarrow> fdCache \<Rightarrow> fdCache" where
  "move_one old new fd f = f\<lparr>PathMapA := (PathMapA f)(old := None, new \<mapsto> fd),
     PathMapB := (PathMapB f)(fd := None, fd \<mapsto> new)\<rparr>"

text \<open>The identifier that a walk finds under a path, 0 when there is none.\<close>

definition filed :: "fdCache \<Rightarrow> string \<Rightarrow> int" where
  "filed f p = (case PathMapA f p of Some i \<Rightarrow> i | None \<Rightarrow> 0)"

lemma filed_nonzero: "filed f p \<noteq> 0 \<Longrightarrow> PathMapA f p = Some (filed f p)"
  by (simp add: filed_def split: option.splits)

lemma ReplacePath_steps:
  "ReplacePath walk f old new isdir =
     (if isdir then foldl (replace_step (old @ ''/'') (new @ ''/'')) (move_one old new (filed f old) f)
       (walk (PathMapA (move_one old new (filed f old) f)))
      else move_one old new (filed f old) f)"
  by (simp add: ReplacePath_def move_one_def filed_def Let_def)

lemma move_one_inv: "fd_inv f \<Longrightarrow> fd_inv (move_one old new (filed f old) f)"
  using fd_inv_move [of f "filed f old" old new] filed_nonzero [of f old] by (auto simp: move_one_def)

lemma ReplacePath_tree:
  assumes "fd_inv f" and apart: "apart (old @ ''/'') (new @ ''/'')" and order: "range_order walk"
  shows "tab_eq (ReplacePath walk f old new True)
    (move_tree (old @ ''/'') (new @ ''/'') UNIV (move_one old new (filed f old) f))"
proof -
  let ?f1 = "move_one old new (filed f old) f"
  have inv: "fd_inv ?f1" by (rule move_one_inv [OF assms(1)])
  then have "dom (PathMapA ?f1) \<subseteq> set (walk (PathMapA ?f1))"
    using order by (simp add: range_order_def fd_inv_def)
  from move_tree_all [OF this, of "old @ ''/''" "new @ ''/''"] show ?thesis
    using replace_steps_move [OF inv apart, of "walk (PathMapA ?f1)"] by (simp add: ReplacePath_steps)
qed

text \<open>What becomes of an identifier: it moves with the path that is filed under it.\<close>

lemma ReplacePath_GetPath:
  assumes f: "fd_inv f" and apart: "isdir \<Longrightarrow> apart (old @ ''/'') (new @ ''/'')"
    and order: "range_order walk"
  shows "GetPath (ReplacePath walk f old new isdir) fd =
    map_option (\<lambda>q. if PathMapA f q = Some fd then renamed_path old new isdir q else q) (GetPath f fd)"
proof (cases "GetPath f fd")
  case None
  let ?f1 = "move_one old new (filed f old) f" and ?op = "old @ ''/''" and ?np = "new @ ''/''"
  show ?thesis
  proof (cases "fd < 100")
    case True
    then show ?thesis by (simp add: GetPath_def)
  next
    case False
    then have B: "PathMapB f fd = None" using None by (auto simp: GetPath_def split: option.splits)
    then have "filed f old \<noteq> fd"
      using False filed_nonzero [of f old] fd_inv_A [OF f, of old fd] by fastforce
    then have B1: "PathMapB ?f1 fd = None" using B by (simp add: move_one_def)
    then have "GetPath (move_tree ?op ?np UNIV ?f1) fd = None" "GetPath ?f1 fd = None"
      by (simp_all add: move_tree_def GetPath_def)
    then show ?thesis
      using None tab_eq_GetPath [OF ReplacePath_tree [OF f apart order], of fd]
      by (cases isdir) (simp_all add: ReplacePath_steps)
  qed
next
  case (Some q)
  let ?f1 = "move_one old new (filed f old) f" and ?op = "old @ ''/''" and ?np = "new @ ''/''"
  have fd: "\<not> fd < 100" and Bfd: "PathMapB f fd = Some q"
    using Some by (auto simp: GetPath_def split: if_splits option.splits)
  have own: "filed f old = fd \<longleftrightarrow> q = old \<and> PathMapA f q = Some fd"
    using fd Bfd filed_nonzero [of f old] fd_inv_A [OF f, of old fd] by (auto simp: filed_def)
  have B1: "PathMapB ?f1 fd = Some (if q = old \<and> PathMapA f q = Some fd then new else q)"
    using own Bfd by (auto simp: move_one_def)
  show ?thesis
  proof (cases isdir)
    case False
    then show ?thesis using B1 fd Some by (auto simp: ReplacePath_steps GetPath_def renamed_path_def)
  next
    case True
    note a = apart [OF True]
    have not_new: "\<not> prefix ?op new"
      using a by (auto simp: apart_def intro: prefix_order.trans)
    have not_old: "\<not> prefix ?op old" by (auto dest: prefix_length_le)
    have "PathMapB (move_tree ?op ?np UNIV ?f1) fd =
        Some (if PathMapA f q = Some fd then renamed_path old new isdir q else q)"
    proof (cases "q = old \<and> PathMapA f q = Some fd")
      case True
      then show ?thesis
        using B1 not_new by (simp add: move_tree_def renamed_path_def renamed_def)
    next
      case False
      then have "PathMapA ?f1 q = Some fd \<longleftrightarrow> PathMapA f q = Some fd \<and> q \<noteq> new"
        using own by (auto simp: move_one_def)
      with False B1 True not_new not_old show ?thesis
        by (auto simp: move_tree_def renamed_path_def renamed_def)
    qed
    then show ?thesis
      using True Some fd tab_eq_GetPath [OF ReplacePath_tree [OF f a order], of fd] by (simp add: GetPath_def)
  qed
qed

section \<open>The contract of the translator\<close>

text \<open>
  What the file handles of \<open>unfs3/fh.c\<close> rely on: an identifier handed out for a path leads
  back to it, and later requests for identifiers do not disturb it.
\<close>

locale handle_table =
  fixes inv :: "'t \<Rightarrow> bool" and get_fd :: "'t \<Rightarrow> string \<Rightarrow> 't \<times> int"
    and get_path :: "'t \<Rightarrow> int \<Rightarrow> string option"
  assumes get_fd_inv: "inv t \<Longrightarrow> inv (fst (get_fd t p))"
    and get_fd_resolves: "inv t \<Longrightarrow> get_fd t p = (t', fd) \<Longrightarrow> get_path t' fd = Some p"
    and get_fd_keeps: "inv t \<Longrightarrow> get_path t fd = Some q \<Longrightarrow>
      get_path (fst (get_fd t p)) fd = Some q"
begin

fun issue :: "'t \<Rightarrow> string list \<Rightarrow> 't \<times> int list" where
  "issue t [] = (t, [])"
| "issue t (p # ps) =
     (let (t1, fd) = get_fd t p; (t2, fds) = issue t1 ps in (t2, fd # fds))"

lemma issue_inv: "inv t \<Longrightarrow> inv (fst (issue t ps))"
  by (induction ps arbitrary: t) (auto simp: Let_def split: prod.splits dest: get_fd_inv, metis fst_conv get_fd_inv)

lemma issue_keeps:
  "inv t \<Longrightarrow> get_path t fd = Some q \<Longrightarrow> get_path (fst (issue t ps)) fd = Some q"
proof (induction ps arbitrary: t)
  case (Cons p ps)
  obtain t1 fd1 where g: "get_fd t p = (t1, fd1)" by fastforce
  then have "inv t1" and "get_path t1 fd = Some q"
    using get_fd_inv [OF Cons.prems(1), of p] get_fd_keeps [OF Cons.prems, of p] by auto
  with Cons.IH [of t1] g show ?case by (auto simp: Let_def split: prod.splits)
qed simp

lemma issue_resolves:
  "inv t \<Longrightarrow> issue t ps = (t', fds) \<Longrightarrow> map (get_path t') fds = map Some ps"
proof (induction ps arbitrary: t fds)
  case (Cons p ps)
  obtain t1 fd1 where g: "get_fd t p = (t1, fd1)" by fastforce
  obtain fds1 where i: "issue t1 ps = (t', fds1)" and fds: "fds = fd1 # fds1"
    using Cons.prems(2) g by (auto simp: Let_def split: prod.splits)
  have t1: "inv t1" using get_fd_inv [OF Cons.prems(1), of p] g by simp
  have "get_path t' fd1 = Some p"
    using issue_keeps [OF t1 get_fd_resolves [OF Cons.prems(1) g], of ps] i by simp
  with Cons.IH [OF t1 i] fds show ?case by simp
qed simp

lemma issue_distinct:
  assumes "inv t" and "issue t ps = (t', fds)" and "distinct ps"
  shows "distinct fds"
proof -
  have "distinct (map (get_path t') fds)"
    using issue_resolves [OF assms(1,2)] assms(3) by (simp add: distinct_map)
  then show ?thesis by (simp add: distinct_map)
qed

end

interpretation fds: handle_table fd_strict GetFD GetPath
  by unfold_locales (blast intro: GetFD_strict GetFD_resolves GetFD_keeps dest: fd_strict_inv)+

fun GetFDs :: "fdCache \<Rightarrow> string list \<Rightarrow> fdCache \<times> int list" where
  "GetFDs t [] = (t, [])"
| "GetFDs t (p # ps) = (let (t1, fd) = GetFD t p; (t2, fds) = GetFDs t1 ps in (t2, fd # fds))"

lemma issue_GetFDs: "fds.issue = GetFDs"
proof (intro ext)
  show "fds.issue t ps = GetFDs t ps" for t ps
    by (induction ps arbitrary: t) (auto simp: Let_def)
qed

section \<open>Properties\<close>

text \<open>
  C9: Identifiers are one to one with paths. Whatever sequence of different paths the server
  asks identifiers for, the identifiers are all different, and afterwards every one of them
  leads back to the path it was handed out for.
\<close>

theorem identifiers_one_to_one:
  assumes "fd_strict t" and "distinct ps" and "GetFDs t ps = (t', ids)"
  shows "distinct ids \<and> map (GetPath t') ids = map Some ps"
  using assms fds.issue_distinct [of t ps t' ids] fds.issue_resolves [of t ps t' ids]
  by (simp add: issue_GetFDs)

theorem identifiers_one_to_one_witness:
  "distinct [101, 102 :: int] \<and>
   map (GetPath (fst (GetFDs init_fdCache [''/a'', ''/b'']))) [101, 102] = map Some [''/a'', ''/b'']"
  by (rule identifiers_one_to_one [OF fd_strict_init])
    (simp_all add: GetFD_def init_fdCache_def)

text \<open>
  C8: What a rename does to every identifier. In any table that keeps the invariant, whatever
  the paths, the order in which Go walks the map, and whether or not the old path has an
  identifier: an identifier under which its path is filed moves with the path, when that is
  \<open>old\<close> or, for a directory, lies inside it, and leads where it led otherwise; an identifier that
  leads to a path which is filed under another one, because an earlier rename replaced it,
  still leads to that path; and one that led nowhere leads nowhere. A directory is not moved
  into itself or onto one that holds it.
\<close>

theorem rename_moves_identifiers:
  assumes "fd_inv f" and "range_order walk"
    and "isdir \<Longrightarrow> apart (old @ ''/'') (new @ ''/'')"
  shows "GetPath (ReplacePath walk f old new isdir) fd =
    (case GetPath f fd of
       None \<Rightarrow> None
     | Some q \<Rightarrow> Some (
         if PathMapA f q \<noteq> Some fd then q
         else if q = old then new
         else if isdir \<and> prefix (old @ ''/'') q then new @ drop (length old) q
         else q))"
proof -
  have "(new @ ''/'') @ drop (length (old @ ''/'')) q = new @ drop (length old) q"
    if "prefix (old @ ''/'') q" for q
    using that by (auto elim!: prefixE)
  then show ?thesis
    using ReplacePath_GetPath [OF assms(1,3,2)]
    by (auto simp: renamed_path_def renamed_def split: option.split)
qed

definition two_files :: fdCache where
  "two_files = fst (GetFDs init_fdCache [''/d'', ''/d/x''])"

lemma two_files_strict: "fd_strict two_files"
  unfolding two_files_def by (simp add: case_prod_beta Let_def GetFD_strict fd_strict_init)

lemma two_files_A: "PathMapA two_files = [''/d'' \<mapsto> 101, ''/d/x'' \<mapsto> 102]"
  and two_files_path: "GetPath two_files 101 = Some ''/d''" "GetPath two_files 102 = Some ''/d/x''"
  by (simp_all add: two_files_def GetFD_def init_fdCache_def GetPath_def)

theorem rename_moves_identifiers_witness:
  "GetPath (ReplacePath sorted_walk two_files ''/d'' ''/e'' True) 102 = Some ''/e/x''"
  using rename_moves_identifiers [of two_files sorted_walk True "''/d''" "''/e''" 102]
  by (simp add: range_order_sorted_walk apart_def fd_strict_inv two_files_strict two_files_A two_files_path)

text \<open>
  C34: A rename onto another file strands its identifier. When the path \<open>a\<close>, filed under \<open>i\<close>, is
  renamed to \<open>b\<close>, filed under another identifier \<open>j\<close>, and \<open>b\<close> is then renamed to \<open>c\<close>, the file
  takes \<open>i\<close> along, but \<open>j\<close>, which led to the same file after the first rename, is left with the
  path \<open>b\<close>, where there is nothing.
\<close>

theorem rename_strands_identifier:
  assumes "fd_inv f" and "range_order walk" and "PathMapA f a = Some i" and "PathMapA f b = Some j"
    and "i \<noteq> 0" and "j \<noteq> 0" and "a \<noteq> b" and "b \<noteq> c"
  shows "let f1 = ReplacePath walk f a b False; f2 = ReplacePath walk f1 b c False in
    GetPath f1 i = Some b \<and> GetPath f1 j = Some b \<and> GetPath f2 i = Some c \<and> GetPath f2 j = Some b"
proof -
  let ?f1 = "ReplacePath walk f a b False"
  note move = ReplacePath_GetPath [where isdir = False, OF _ _ assms(2), simplified]
  have ij: "GetPath f i = Some a" "GetPath f j = Some b" "i \<noteq> j"
    using fd_inv_A [OF assms(1,3)] fd_inv_A [OF assms(1,4)] assms(5-7) by (auto simp: GetPath_def)
  have 1: "GetPath ?f1 i = Some b" "GetPath ?f1 j = Some b"
    using ij assms(3,4,7) by (simp_all add: move [OF assms(1)] renamed_path_def)
  have "PathMapA ?f1 b = Some i" using assms(3) by (simp add: ReplacePath_def Let_def)
  then show ?thesis
    using 1 ij(3) by (simp add: move [OF ReplacePath_inv [OF assms(1)]] renamed_path_def)
qed

theorem rename_strands_identifier_witness:
  "let f1 = ReplacePath sorted_walk two_files ''/d'' ''/d/x'' False;
       f2 = ReplacePath sorted_walk f1 ''/d/x'' ''/c'' False in
    GetPath f1 101 = Some ''/d/x'' \<and> GetPath f1 102 = Some ''/d/x'' \<and>
    GetPath f2 101 = Some ''/c'' \<and> GetPath f2 102 = Some ''/d/x''"
  by (rule rename_strands_identifier)
    (simp_all add: fd_strict_inv two_files_strict range_order_sorted_walk two_files_A)

end
