(* ===== verification/Go_Backend.thy ===== *)
theory Go_Backend
  imports Nfs_Prot Fd_Cache "HOL-Library.State_Monad"
begin

text \<open>
  The exported functions of \<open>unfs2go_exports.go\<close>, over the file system the server shares.
  That file system is the value \<open>ns\<close> of the interface \<open>minfs.MinFS\<close>, whose packages are not
  part of the repository: it is the parameter \<open>'fs minfs\<close>, one function per method, over a
  state \<open>'fs\<close>. The functions run in the state monad over the \<^emph>\<open>world\<close>: the backend's state,
  the table \<open>fddb\<close>, and what the code does not determine (the clock, the contents of
  uninitialised locals, the order of a Go map's \<open>range\<close>).
\<close>

section \<open>Errors\<close>

datatype go_error = ErrPermission | ErrNotExist | ErrInvalid | ErrExist | OtherErr string

fun Error :: "go_error \<Rightarrow> string" where
  "Error ErrPermission = ''permission denied''"
| "Error ErrNotExist = ''file does not exist''"
| "Error ErrInvalid = ''invalid argument''"
| "Error ErrExist = ''file already exists''"
| "Error (OtherErr msg) = msg"

definition errTranslator :: "go_error option \<Rightarrow> cint \<times> bool" where
  "errTranslator err =
     (case err of
        None \<Rightarrow> (NFS3_OK, True)
      | Some ErrPermission \<Rightarrow> (NFS3ERR_ACCES, True)
      | Some ErrNotExist \<Rightarrow> (NFS3ERR_NOENT, True)
      | Some ErrInvalid \<Rightarrow> (NFS3ERR_INVAL, True)
      | Some ErrExist \<Rightarrow> (NFS3ERR_EXIST, True)
      | Some e \<Rightarrow>
          if sublist ''not empty'' (Error e) then (NFS3ERR_NOTEMPTY, True)
          else (NFS3ERR_IO, False))"

text \<open>The status a C caller gets; the flag only decides about a line of log output.\<close>

definition errno :: "go_error option \<Rightarrow> cint" where
  "errno err = fst (errTranslator err)"

definition is_eof :: "go_error \<Rightarrow> bool" where
  "is_eof err \<longleftrightarrow> sublist ''eof'' (strings_ToLower (Error err))"

lemma errno_None [simp]: "errno None = NFS3_OK"
  by (simp add: errno_def errTranslator_def)

lemma errno_range: "errno err \<in> {NFS3_OK, NFS3ERR_ACCES, NFS3ERR_NOENT, NFS3ERR_INVAL,
    NFS3ERR_EXIST, NFS3ERR_NOTEMPTY, NFS3ERR_IO}"
  by (auto simp: errno_def errTranslator_def split: option.split go_error.split)

lemma errno_Some: "errno (Some e) \<in> {NFS3ERR_ACCES, NFS3ERR_NOENT, NFS3ERR_INVAL,
    NFS3ERR_EXIST, NFS3ERR_NOTEMPTY, NFS3ERR_IO}"
  by (auto simp: errno_def errTranslator_def split: go_error.split)

lemma errno_OK_iff [simp]: "errno err = NFS3_OK \<longleftrightarrow> err = None"
proof (cases err)
  case (Some e)
  then show ?thesis using errno_Some [of e] by (auto simp: c_consts)
qed simp

section \<open>The shared file system\<close>

record FileInfo =
  fi_Name :: string
  fi_Size :: int
  fi_Mode :: u32
  fi_ModTime :: int
  fi_IsDir :: bool

text \<open>
  \<open>SetAttribute (path, name, value)\<close> is called with \<open>"mode"\<close>, \<open>"size"\<close> or \<open>"modtime"\<close>;
  the attribute with its value is one constructor.
\<close>

datatype fattribute = Attr_mode u32 | Attr_size int | Attr_modtime int

record 'fs minfs =
  fs_ReadFile :: "'fs \<Rightarrow> string \<Rightarrow> byte list \<Rightarrow> int \<Rightarrow> 'fs \<times> byte list \<times> int \<times> go_error option"
  fs_WriteFile :: "'fs \<Rightarrow> string \<Rightarrow> byte list \<Rightarrow> int \<Rightarrow> 'fs \<times> int \<times> go_error option"
  fs_CreateFile :: "'fs \<Rightarrow> string \<Rightarrow> 'fs \<times> go_error option"
  fs_CreateDirectory :: "'fs \<Rightarrow> string \<Rightarrow> 'fs \<times> go_error option"
  fs_Move :: "'fs \<Rightarrow> string \<Rightarrow> string \<Rightarrow> 'fs \<times> go_error option"
  fs_ReadDirectory :: "'fs \<Rightarrow> string \<Rightarrow> 'fs \<times> (go_error + FileInfo list)"
  fs_Remove :: "'fs \<Rightarrow> string \<Rightarrow> 'fs \<times> go_error option"
  fs_SetAttribute :: "'fs \<Rightarrow> string \<Rightarrow> fattribute \<Rightarrow> 'fs \<times> go_error option"
  fs_Stat :: "'fs \<Rightarrow> string \<Rightarrow> 'fs \<times> (go_error + FileInfo)"

section \<open>The world of a call\<close>

text \<open>The stat structure of \<open>gosupport.h\<close>.\<close>

record go_statstruct =
  st_dev :: u32
  st_ino :: u64
  st_mode :: u16
  st_nlink :: u16
  st_uid :: u32
  st_gid :: u32
  st_rdev :: u32
  st_size :: u64
  st_blksize :: u16
  st_blocks :: u32
  st_atime :: u64
  st_mtime :: u64
  st_ctime :: u64

text \<open>
  What the code leaves open, as streams: the \<open>n\<close>-th choice of a run is the \<open>n\<close>-th element.
  The \<open>e_un_\<close> streams are what the stack holds where a local variable of the C code is not
  initialised; \<open>e_after_fh\<close> is the byte that follows the static file handle in memory;
  \<open>e_malloc\<close> is what \<open>malloc\<close> gives when the addresses of the predicate are in use, and
  \<open>e_malloc_str\<close> whether there is memory for a string.
\<close>

record env =
  e_time :: "nat \<Rightarrow> int"
  e_walk :: "nat \<Rightarrow> (string \<rightharpoonup> int) \<Rightarrow> string list"
  e_after_fh :: "nat \<Rightarrow> byte"
  e_un_stat :: "nat \<Rightarrow> go_statstruct"
  e_un_sattr :: "nat \<Rightarrow> sattr3"
  e_un_path :: "nat \<Rightarrow> cstring"
  e_un_pre :: "nat \<Rightarrow> pre_op_attr"
  e_un_post :: "nat \<Rightarrow> post_op_attr"
  e_un_fh :: "nat \<Rightarrow> post_op_fh3"
  e_un_readdir :: "nat \<Rightarrow> READDIR3resok"
  e_malloc :: "nat \<Rightarrow> (nat \<Rightarrow> bool) \<Rightarrow> nat option"
  e_malloc_str :: "nat \<Rightarrow> bool"

record 'fs world =
  w_fs :: 'fs
  w_fddb :: fdCache
  w_env :: env
  w_step :: nat

text \<open>
  The promises of the run-time systems: \<open>malloc\<close> gives no address that is in use, and a
  \<open>range\<close> over a map reaches every key that is there when it starts.
\<close>

definition env_ok :: "env \<Rightarrow> bool" where
  "env_ok e \<longleftrightarrow> (\<forall>n used a. e_malloc e n used = Some a \<longrightarrow> \<not> used a) \<and>
     (\<forall>n. range_order (e_walk e n))"

type_synonym ('fs, 'a) act = "('fs world, 'a) state"

abbreviation ret :: "'a \<Rightarrow> ('fs, 'a) act" where
  "ret \<equiv> State_Monad.return"

definition choice :: "(env \<Rightarrow> nat \<Rightarrow> 'a) \<Rightarrow> ('fs, 'a) act" where
  "choice f = State (\<lambda>w. (f (w_env w) (w_step w), w\<lparr>w_step := Suc (w_step w)\<rparr>))"

definition backend :: "('fs \<Rightarrow> 'fs \<times> 'a) \<Rightarrow> ('fs, 'a) act" where
  "backend f = State (\<lambda>w. (snd (f (w_fs w)), w\<lparr>w_fs := fst (f (w_fs w))\<rparr>))"

definition on_fddb :: "(fdCache \<Rightarrow> fdCache \<times> 'a) \<Rightarrow> ('fs, 'a) act" where
  "on_fddb f = State (\<lambda>w. (snd (f (w_fddb w)), w\<lparr>w_fddb := fst (f (w_fddb w))\<rparr>))"

named_theorems run_act \<open>runs the actions of the state monad\<close>

lemma run_bind [run_act]:
  "run_state (State_Monad.bind m f) w = (case run_state m w of (a, w') \<Rightarrow> run_state (f a) w')"
  by (simp add: State_Monad.bind_def)

lemma run_return [run_act]: "run_state (State_Monad.return a) w = (a, w)"
  by (simp add: State_Monad.return_def)

lemma run_choice [run_act]:
  "run_state (choice f) w = (f (w_env w) (w_step w), w\<lparr>w_step := Suc (w_step w)\<rparr>)"
  by (simp add: choice_def)

lemma run_backend [run_act]:
  "run_state (backend f) w = (snd (f (w_fs w)), w\<lparr>w_fs := fst (f (w_fs w))\<rparr>)"
  by (simp add: backend_def)

lemma run_on_fddb [run_act]:
  "run_state (on_fddb f) w = (snd (f (w_fddb w)), w\<lparr>w_fddb := fst (f (w_fddb w))\<rparr>)"
  by (simp add: on_fddb_def)

section \<open>Start and identifiers\<close>

definition go_init :: "('fs, cint) act" where
  "go_init = do { _ \<leftarrow> on_fddb (\<lambda>_. (init_fdCache, ())); ret 1 }"

definition go_fgetpath :: "cint \<Rightarrow> ('fs, charptr) act" where
  "go_fgetpath fd = on_fddb (\<lambda>t. (t, GetPath t (sint fd)))"

section \<open>Attributes\<close>

definition S_IFMT :: u32 where
  [c_consts]: "S_IFMT = 0xF000"

definition S_IFSOCK :: u32 where
  [c_consts]: "S_IFSOCK = 0xC000"

definition S_IFLNK :: u32 where
  [c_consts]: "S_IFLNK = 0xA000"

definition S_IFREG :: u32 where
  [c_consts]: "S_IFREG = 0x8000"

definition S_IFBLK :: u32 where
  [c_consts]: "S_IFBLK = 0x6000"

definition S_IFDIR :: u32 where
  [c_consts]: "S_IFDIR = 0x4000"

definition S_IFCHR :: u32 where
  [c_consts]: "S_IFCHR = 0x2000"

definition S_IFIFO :: u32 where
  [c_consts]: "S_IFIFO = 0x1000"

definition statTranslator :: "FileInfo \<Rightarrow> int \<Rightarrow> int \<Rightarrow> go_statstruct \<Rightarrow> go_statstruct" where
  "statTranslator fi fd_ino now buf = buf\<lparr>
     st_dev := 1,
     st_ino := word_of_int fd_ino,
     st_size := word_of_int (fi_Size fi),
     st_atime := word_of_int now,
     st_mtime := word_of_int (fi_ModTime fi),
     st_ctime := word_of_int (fi_ModTime fi),
     st_mode := (if fi_IsDir fi then ucast (fi_Mode fi OR S_IFDIR)
                 else ucast (fi_Mode fi OR S_IFREG))\<rparr>"

definition go_lstat :: "'fs minfs \<Rightarrow> charptr \<Rightarrow> go_statstruct \<Rightarrow> ('fs, cint \<times> go_statstruct) act" where
  "go_lstat ns path buf = do {
     let pp = go_path path;
     st \<leftarrow> backend (\<lambda>s. fs_Stat ns s pp);
     case st of
       Inl err \<Rightarrow> ret (errno (Some err), buf)
     | Inr fi \<Rightarrow> do {
         fd \<leftarrow> on_fddb (\<lambda>t. GetFD t pp);
         now \<leftarrow> choice e_time;
         ret (errno None, statTranslator fi fd now buf) } }"

text \<open>\<open>go_sync\<close> is the same code as \<open>go_lstat\<close> but for the text of its log line.\<close>

definition go_sync :: "'fs minfs \<Rightarrow> charptr \<Rightarrow> go_statstruct \<Rightarrow> ('fs, cint \<times> go_statstruct) act" where
  "go_sync ns path buf = do {
     let pp = go_path path;
     st \<leftarrow> backend (\<lambda>s. fs_Stat ns s pp);
     case st of
       Inl err \<Rightarrow> ret (errno (Some err), buf)
     | Inr fi \<Rightarrow> do {
         fd \<leftarrow> on_fddb (\<lambda>t. GetFD t pp);
         now \<leftarrow> choice e_time;
         ret (errno None, statTranslator fi fd now buf) } }"

definition go_chmod :: "'fs minfs \<Rightarrow> charptr \<Rightarrow> u32 \<Rightarrow> ('fs, cint) act" where
  "go_chmod ns path mode = do {
     let pp = go_path path;
     err \<leftarrow> backend (\<lambda>s. fs_SetAttribute ns s pp (Attr_mode mode));
     ret (errno err) }"

definition go_truncate :: "'fs minfs \<Rightarrow> charptr \<Rightarrow> u64 \<Rightarrow> ('fs, cint) act" where
  "go_truncate ns path offset3 = do {
     let pp = go_path path;
     let off = sint offset3;
     err \<leftarrow> backend (\<lambda>s. fs_SetAttribute ns s pp (Attr_size off));
     ret (errno err) }"

definition go_modtime :: "'fs minfs \<Rightarrow> charptr \<Rightarrow> u32 \<Rightarrow> ('fs, cint) act" where
  "go_modtime ns path modtime = do {
     let pp = go_path path;
     let secs = uint modtime;
     err \<leftarrow> backend (\<lambda>s. fs_SetAttribute ns s pp (Attr_modtime secs));
     ret (errno err) }"

section \<open>Names\<close>

definition go_rename :: "'fs minfs \<Rightarrow> charptr \<Rightarrow> charptr \<Rightarrow> ('fs, cint) act" where
  "go_rename ns oldpath newpath = do {
     let op = go_path oldpath;
     let np = go_path newpath;
     st \<leftarrow> backend (\<lambda>s. fs_Stat ns s op);
     case st of
       Inl err \<Rightarrow> ret (errno (Some err))
     | Inr fi \<Rightarrow> do {
         err \<leftarrow> backend (\<lambda>s. fs_Move ns s op np);
         case err of
           Some _ \<Rightarrow> ret (errno err)
         | None \<Rightarrow> do {
             walk \<leftarrow> choice e_walk;
             _ \<leftarrow> on_fddb (\<lambda>t. (ReplacePath walk t op np (fi_IsDir fi), ()));
             ret NFS3_OK } } }"

definition go_create :: "'fs minfs \<Rightarrow> charptr \<Rightarrow> u32 \<Rightarrow> ('fs, cint) act" where
  "go_create ns pathname mode = do {
     let pp = go_path pathname;
     err \<leftarrow> backend (\<lambda>s. fs_CreateFile ns s pp);
     case err of
       Some _ \<Rightarrow> ret (errno err)
     | None \<Rightarrow> do {
         err \<leftarrow> backend (\<lambda>s. fs_SetAttribute ns s pp (Attr_mode mode));
         ret (errno err) } }"

definition go_createover :: "'fs minfs \<Rightarrow> charptr \<Rightarrow> u32 \<Rightarrow> ('fs, cint) act" where
  "go_createover ns pathname mode = do {
     let pp = go_path pathname;
     st \<leftarrow> backend (\<lambda>s. fs_Stat ns s pp);
     removed \<leftarrow> (case st of
         Inl _ \<Rightarrow> ret NFS3_OK
       | Inr fi \<Rightarrow>
           if fi_IsDir fi then ret NFS3ERR_ISDIR
           else do { err \<leftarrow> backend (\<lambda>s. fs_Remove ns s pp); ret (errno err) });
     if removed \<noteq> NFS3_OK then ret removed
     else do {
       err \<leftarrow> backend (\<lambda>s. fs_CreateFile ns s pp);
       case err of
         Some _ \<Rightarrow> ret (errno err)
       | None \<Rightarrow> do {
           err \<leftarrow> backend (\<lambda>s. fs_SetAttribute ns s pp (Attr_mode mode));
           ret (errno err) } } }"

definition go_remove :: "'fs minfs \<Rightarrow> charptr \<Rightarrow> ('fs, cint) act" where
  "go_remove ns path = do {
     let pp = go_path path;
     st \<leftarrow> backend (\<lambda>s. fs_Stat ns s pp);
     case st of
       Inl err \<Rightarrow> ret (errno (Some err))
     | Inr fi \<Rightarrow>
         if fi_IsDir fi then ret NFS3ERR_ISDIR
         else do { err \<leftarrow> backend (\<lambda>s. fs_Remove ns s pp); ret (errno err) } }"

definition go_rmdir :: "'fs minfs \<Rightarrow> charptr \<Rightarrow> ('fs, cint) act" where
  "go_rmdir ns path = do {
     let pp = go_path path;
     st \<leftarrow> backend (\<lambda>s. fs_Stat ns s pp);
     case st of
       Inl err \<Rightarrow> ret (errno (Some err))
     | Inr fi \<Rightarrow>
         if \<not> fi_IsDir fi then ret NFS3ERR_NOTDIR
         else do { err \<leftarrow> backend (\<lambda>s. fs_Remove ns s pp); ret (errno err) } }"

definition go_mkdir :: "'fs minfs \<Rightarrow> charptr \<Rightarrow> u32 \<Rightarrow> ('fs, cint) act" where
  "go_mkdir ns path mode = do {
     let pp = go_path path;
     err \<leftarrow> backend (\<lambda>s. fs_CreateDirectory ns s pp);
     ret (errno err) }"

section \<open>Data\<close>

text \<open>
  The C buffer is handed over as a Go slice of \<open>count\<close> bytes over its memory; a slice that
  is longer than the memory behind the pointer is an access out of bounds, \<^const>\<open>None\<close>.
  Errors are returned negated, so that they differ from byte counts.
\<close>

definition overlay :: "byte list \<Rightarrow> byte list \<Rightarrow> byte list" where
  "overlay bs buf = take (length buf) bs @ drop (length bs) buf"

lemma length_overlay [simp]: "length (overlay bs buf) = length buf"
  by (simp add: overlay_def)

definition go_pwrite ::
    "'fs minfs \<Rightarrow> charptr \<Rightarrow> byte list \<Rightarrow> u32 \<Rightarrow> u64 \<Rightarrow> ('fs, cint option) act" where
  "go_pwrite ns path buf count offset =
     (if length buf < unat count then ret None
      else do {
        let pp = go_path path;
        let off = sint offset;
        (copiedBytes, err) \<leftarrow> backend (\<lambda>s. fs_WriteFile ns s pp (take (unat count) buf) off);
        ret (Some (if err \<noteq> None \<and> \<not> is_eof (the err) then - errno err
                   else word_of_int copiedBytes)) })"

definition go_pread ::
    "'fs minfs \<Rightarrow> charptr \<Rightarrow> byte list \<Rightarrow> u32 \<Rightarrow> u64 \<Rightarrow> ('fs, (cint \<times> byte list) option) act" where
  "go_pread ns path buf count offset =
     (if length buf < unat count then ret None
      else do {
        let pp = go_path path;
        let off = sint offset;
        (slice, copiedBytes, err) \<leftarrow> backend (\<lambda>s. fs_ReadFile ns s pp (take (unat count) buf) off);
        let buf' = overlay (take (unat count) slice) buf;
        ret (Some (if err \<noteq> None \<and> \<not> is_eof (the err) then - errno err
                   else word_of_int copiedBytes, buf')) })"

end
