(* ===== verification/Hosts.thy ===== *)
theory Hosts
  imports Go_Backend
begin

text \<open>
  Host addresses as the code prints and compares them: \<open>inet_ntoa\<close> in \<open>unfs3/mount.c\<close>,
  \<open>fmt.Sprintf ("%d.%d.%d.%d")\<close> in \<open>go_accept_mount\<close>. An \<open>in_addr\<close> is a 32-bit value whose
  lowest byte is the first number of the address. The lemmas show that different addresses
  have different names, so comparing names compares hosts.
\<close>

section \<open>Decimal numbers\<close>

fun dec :: "nat \<Rightarrow> string" where
  "dec n = (if n < 10 then [char_of (48 + n)] else dec (n div 10) @ [char_of (48 + n mod 10)])"

declare dec.simps [simp del]

definition undec :: "string \<Rightarrow> nat" where
  "undec s = foldl (\<lambda>a c. 10 * a + (of_char c - 48)) 0 s"

lemma of_digit: "d < 10 \<Longrightarrow> of_char (char_of (48 + d) :: char) = (48 + d :: nat)"
  by simp

lemma undec_dec [simp]: "undec (dec n) = n"
proof (induction n rule: dec.induct)
  case (1 n)
  then show ?case
    by (subst dec.simps) (auto simp: undec_def)
qed

lemma dec_inject [simp]: "dec m = dec n \<longleftrightarrow> m = n"
  by (metis undec_dec)

lemma dec_digits: "c \<in> set (dec n) \<Longrightarrow> 48 \<le> (of_char c :: nat) \<and> (of_char c :: nat) \<le> 57"
proof (induction n rule: dec.induct)
  case (1 n)
  have d: "n mod 10 < 10" by simp
  show ?case
  proof (cases "n < 10")
    case True
    then show ?thesis using "1.prems" by (subst (asm) dec.simps) auto
  next
    case False
    then have "c \<in> set (dec (n div 10)) \<or> c = char_of (48 + n mod 10)"
      using "1.prems" by (subst (asm) dec.simps) auto
    then show ?thesis
    proof
      assume "c \<in> set (dec (n div 10))"
      then show ?thesis using "1.IH" [OF False] by simp
    next
      assume "c = char_of (48 + n mod 10)"
      then show ?thesis using of_digit [OF d] d by simp
    qed
  qed
qed

lemma dec_no_dot: "CHR ''.'' \<notin> set (dec n)"
  using dec_digits [of "CHR ''.''" n] by auto

section \<open>Dotted quads\<close>

definition dotted_quad :: "u32 \<Rightarrow> string" where
  "dotted_quad a = dec (unat (ucast a :: byte)) @ ''.'' @
     dec (unat (ucast (drop_bit 8 a) :: byte)) @ ''.'' @
     dec (unat (ucast (drop_bit 16 a) :: byte)) @ ''.'' @
     dec (unat (ucast (drop_bit 24 a) :: byte))"

lemma append_dot_inject:
  assumes "s @ CHR ''.'' # t = s' @ CHR ''.'' # t'"
    and "CHR ''.'' \<notin> set s" and "CHR ''.'' \<notin> set s'"
  shows "s = s' \<and> t = t'"
  using assms
proof (induction s arbitrary: s')
  case Nil
  then show ?case by (cases s') auto
next
  case (Cons c s)
  then show ?case by (cases s') auto
qed

lemma dotted_quad_inject: "dotted_quad a = dotted_quad b \<longleftrightarrow> a = b"
proof
  assume eq: "dotted_quad a = dotted_quad b"
  have part: "(ucast a :: byte) = ucast b \<and> (ucast (drop_bit 8 a) :: byte) = ucast (drop_bit 8 b) \<and>
    (ucast (drop_bit 16 a) :: byte) = ucast (drop_bit 16 b) \<and>
    (ucast (drop_bit 24 a) :: byte) = ucast (drop_bit 24 b)"
    using eq unfolding dotted_quad_def append_Cons append_Nil append_assoc
    by (auto dest!: append_dot_inject [OF _ dec_no_dot dec_no_dot] simp: word_unat_eq_iff)
  show "a = b"
  proof (rule bit_word_eqI)
    fix n :: nat
    assume n: "n < LENGTH(32)"
    have low: "bit (ucast (drop_bit k a) :: byte) (n - k) = bit (ucast (drop_bit k b) :: byte) (n - k)"
      if "k \<in> {0, 8, 16, 24}" for k
      using that part by auto
    from n consider "n < 8" | "8 \<le> n" "n < 16" | "16 \<le> n" "n < 24" | "24 \<le> n" "n < 32"
      by force
    then show "bit a n = bit b n"
      using low [of 0] low [of 8] low [of 16] low [of 24]
      by cases (simp_all add: bit_simps less_diff_conv2)
  qed
qed simp

definition inet_ntoa :: "u32 \<Rightarrow> cstring" where
  "inet_ntoa a = dotted_quad a"

section \<open>Who may mount\<close>

text \<open>
  \<open>strings.EqualFold\<close> on the ASCII strings at hand compares them without case. The path is
  only printed.
\<close>

definition EqualFold :: "string \<Rightarrow> string \<Rightarrow> bool" where
  "EqualFold s t \<longleftrightarrow> strings_ToLower s = strings_ToLower t"

definition go_accept_mount :: "u32 \<Rightarrow> charptr \<Rightarrow> cint" where
  "go_accept_mount addr path =
     (let hostaddress = dotted_quad addr;
          retVal = errno None
      in if EqualFold hostaddress ''127.0.0.1'' then retVal else errno (Some ErrPermission))"

definition localhost :: u32 where
  "localhost = 0x0100007F"

lemma dotted_quad_localhost: "dotted_quad localhost = ''127.0.0.1''"
  by code_simp

lemma to_lower_low: "(of_char c :: nat) < 65 \<Longrightarrow> to_lower c = c"
  by (simp add: to_lower_def)

lemma strings_ToLower_quad [simp]: "strings_ToLower (dotted_quad a) = dotted_quad a"
proof -
  have dec: "map to_lower (dec n) = dec n" for n
    by (intro map_idI to_lower_low) (use dec_digits [of _ n] in fastforce)
  have dot: "to_lower CHR ''.'' = CHR ''.''" by (simp add: to_lower_low)
  show ?thesis by (simp add: strings_ToLower_def dotted_quad_def dec dot)
qed

lemma go_accept_mount_iff: "go_accept_mount addr path = NFS3_OK \<longleftrightarrow> addr = localhost"
  using strings_ToLower_quad [of localhost]
  by (auto simp: go_accept_mount_def EqualFold_def Let_def dotted_quad_localhost
      simp flip: dotted_quad_localhost dest: dotted_quad_inject [THEN iffD1])

end
