(* ===== verification/Contract.thy ===== *)
theory Contract
  imports Hosts
begin

text \<open>
  The contract between the server and the shared file system. The server promises to call the
  backend with cleaned rooted paths only; a backend that keeps an invariant under such calls
  then keeps it under every request. The lemmas for the exported Go functions are here, those
  for the C handlers in their theories. The promise is observed on \<open>logged ns\<close>, any backend
  with a record of the paths it was called with.
\<close>

section \<open>Actions that keep an invariant\<close>

definition keeps :: "('s \<Rightarrow> bool) \<Rightarrow> ('s, 'a) state \<Rightarrow> bool" where
  "keeps I m \<longleftrightarrow> (\<forall>w. I w \<longrightarrow> I (snd (run_state m w)))"

named_theorems keeps_rules \<open>which actions keep the invariant\<close>

lemma keepsD: "keeps I m \<Longrightarrow> I w \<Longrightarrow> I (snd (run_state m w))"
  by (simp add: keeps_def)

lemma keeps_bind [keeps_rules]: "keeps I m \<Longrightarrow> (\<And>a. keeps I (f a)) \<Longrightarrow> keeps I (State_Monad.bind m f)"
  unfolding keeps_def run_bind by (metis (mono_tags, lifting) case_prod_beta)

lemma keeps_return [keeps_rules]: "keeps I (State_Monad.return a)"
  by (simp add: keeps_def run_return)

lemma keeps_if [keeps_rules]: "(b \<Longrightarrow> keeps I m) \<Longrightarrow> (\<not> b \<Longrightarrow> keeps I n) \<Longrightarrow> keeps I (if b then m else n)"
  by simp

lemma keeps_let [keeps_rules]: "(\<And>x. keeps I (f x)) \<Longrightarrow> keeps I (Let e f)"
  by (simp add: Let_def)

lemma keeps_option [keeps_rules]:
  "keeps I m \<Longrightarrow> (\<And>x. keeps I (f x)) \<Longrightarrow> keeps I (case e of None \<Rightarrow> m | Some x \<Rightarrow> f x)"
  by (cases e) auto

lemma keeps_sum [keeps_rules]:
  "(\<And>x. keeps I (f x)) \<Longrightarrow> (\<And>x. keeps I (g x)) \<Longrightarrow> keeps I (case e of Inl x \<Rightarrow> f x | Inr x \<Rightarrow> g x)"
  by (cases e) auto

lemma keeps_prod [keeps_rules]: "(\<And>x y. keeps I (f x y)) \<Longrightarrow> keeps I (case e of (x, y) \<Rightarrow> f x y)"
  by (cases e) auto

section \<open>Predicates on the world that calls keep\<close>

text \<open>
  What a predicate has to tolerate for the procedures that only read to keep it: queries of the
  backend with clean paths, new identifiers, and steps through the choices of the environment.
\<close>

locale reader_contract =
  fixes ns :: "'fs minfs" and W :: "'fs world \<Rightarrow> bool"
  assumes W_ReadFile: "W w \<Longrightarrow> clean_path p \<Longrightarrow> W (w\<lparr>w_fs := fst (fs_ReadFile ns (w_fs w) p b off)\<rparr>)"
    and W_ReadDirectory: "W w \<Longrightarrow> clean_path p \<Longrightarrow> W (w\<lparr>w_fs := fst (fs_ReadDirectory ns (w_fs w) p)\<rparr>)"
    and W_Stat: "W w \<Longrightarrow> clean_path p \<Longrightarrow> W (w\<lparr>w_fs := fst (fs_Stat ns (w_fs w) p)\<rparr>)"
    and new_fd: "W w \<Longrightarrow> W (w\<lparr>w_fddb := fst (GetFD (w_fddb w) p)\<rparr>)"
    and any_step: "W w \<Longrightarrow> W (w\<lparr>w_step := n\<rparr>)"
begin

lemma keeps_choice [keeps_rules]: "keeps W (choice f)"
  by (simp add: keeps_def run_choice any_step)

lemma keeps_GetFD [keeps_rules]: "keeps W (on_fddb (\<lambda>t. GetFD t p))"
  by (simp add: keeps_def run_on_fddb new_fd)

lemma keeps_go_fgetpath [keeps_rules]: "keeps W (go_fgetpath fd)"
  by (simp add: keeps_def go_fgetpath_def run_on_fddb)

lemma backend_queries:
  "keeps W (backend (\<lambda>s. fs_ReadFile ns s (go_path p) b off))"
  "keeps W (backend (\<lambda>s. fs_ReadDirectory ns s (go_path p)))"
  "keeps W (backend (\<lambda>s. fs_Stat ns s (go_path p)))"
  by (simp_all add: keeps_def run_backend W_ReadFile W_ReadDirectory W_Stat go_path_clean)

lemma go_lstat_keeps [keeps_rules]: "keeps W (go_lstat ns path buf)"
  unfolding go_lstat_def Let_def by (intro keeps_rules backend_queries)

lemma go_sync_keeps [keeps_rules]: "keeps W (go_sync ns path buf)"
  unfolding go_sync_def Let_def by (intro keeps_rules backend_queries)

lemma go_pread_keeps [keeps_rules]: "keeps W (go_pread ns path buf count offset)"
  unfolding go_pread_def Let_def by (intro keeps_rules backend_queries)

end

text \<open>Calls that change the file system; RENAME moves identifiers as well.\<close>

locale world_contract = reader_contract +
  assumes W_WriteFile: "W w \<Longrightarrow> clean_path p \<Longrightarrow> W (w\<lparr>w_fs := fst (fs_WriteFile ns (w_fs w) p b off)\<rparr>)"
    and W_CreateFile: "W w \<Longrightarrow> clean_path p \<Longrightarrow> W (w\<lparr>w_fs := fst (fs_CreateFile ns (w_fs w) p)\<rparr>)"
    and W_CreateDirectory: "W w \<Longrightarrow> clean_path p \<Longrightarrow> W (w\<lparr>w_fs := fst (fs_CreateDirectory ns (w_fs w) p)\<rparr>)"
    and W_Move: "W w \<Longrightarrow> clean_path p \<Longrightarrow> clean_path q \<Longrightarrow> W (w\<lparr>w_fs := fst (fs_Move ns (w_fs w) p q)\<rparr>)"
    and W_Remove: "W w \<Longrightarrow> clean_path p \<Longrightarrow> W (w\<lparr>w_fs := fst (fs_Remove ns (w_fs w) p)\<rparr>)"
    and W_SetAttribute: "W w \<Longrightarrow> clean_path p \<Longrightarrow> W (w\<lparr>w_fs := fst (fs_SetAttribute ns (w_fs w) p a)\<rparr>)"
begin

lemma backend_calls:
  "keeps W (backend (\<lambda>s. fs_WriteFile ns s (go_path p) b off))"
  "keeps W (backend (\<lambda>s. fs_CreateFile ns s (go_path p)))"
  "keeps W (backend (\<lambda>s. fs_CreateDirectory ns s (go_path p)))"
  "keeps W (backend (\<lambda>s. fs_Move ns s (go_path p) (go_path q)))"
  "keeps W (backend (\<lambda>s. fs_Remove ns s (go_path p)))"
  "keeps W (backend (\<lambda>s. fs_SetAttribute ns s (go_path p) a))"
  by (simp_all add: keeps_def run_backend W_WriteFile W_CreateFile W_CreateDirectory W_Move
      W_Remove W_SetAttribute go_path_clean)

lemma go_chmod_keeps [keeps_rules]: "keeps W (go_chmod ns path mode)"
  unfolding go_chmod_def Let_def by (intro keeps_rules backend_queries backend_calls)

lemma go_truncate_keeps [keeps_rules]: "keeps W (go_truncate ns path offset)"
  unfolding go_truncate_def Let_def by (intro keeps_rules backend_queries backend_calls)

lemma go_modtime_keeps [keeps_rules]: "keeps W (go_modtime ns path modtime)"
  unfolding go_modtime_def Let_def by (intro keeps_rules backend_queries backend_calls)

lemma go_create_keeps [keeps_rules]: "keeps W (go_create ns path mode)"
  unfolding go_create_def Let_def by (intro keeps_rules backend_queries backend_calls)

lemma go_createover_keeps [keeps_rules]: "keeps W (go_createover ns path mode)"
  unfolding go_createover_def Let_def by (intro keeps_rules backend_queries backend_calls)

lemma go_remove_keeps [keeps_rules]: "keeps W (go_remove ns path)"
  unfolding go_remove_def Let_def by (intro keeps_rules backend_queries backend_calls)

lemma go_rmdir_keeps [keeps_rules]: "keeps W (go_rmdir ns path)"
  unfolding go_rmdir_def Let_def by (intro keeps_rules backend_queries backend_calls)

lemma go_mkdir_keeps [keeps_rules]: "keeps W (go_mkdir ns path mode)"
  unfolding go_mkdir_def Let_def by (intro keeps_rules backend_queries backend_calls)

lemma go_pwrite_keeps [keeps_rules]: "keeps W (go_pwrite ns path buf count offset)"
  unfolding go_pwrite_def Let_def by (intro keeps_rules backend_queries backend_calls)

end

locale renaming_contract = world_contract +
  assumes W_ReplacePath: "W w \<Longrightarrow> W (w\<lparr>w_fddb := ReplacePath walk (w_fddb w) op np isdir\<rparr>)"
begin

lemma keeps_ReplacePath [keeps_rules]:
  "keeps W (on_fddb (\<lambda>t. (ReplacePath walk t op np isdir, ())))"
  by (simp add: keeps_def run_on_fddb W_ReplacePath)

lemma go_rename_keeps [keeps_rules]: "keeps W (go_rename ns oldpath newpath)"
  unfolding go_rename_def Let_def by (intro keeps_rules backend_queries backend_calls)

end

section \<open>The invariant of the world\<close>

definition world_inv :: "('fs \<Rightarrow> bool) \<Rightarrow> 'fs world \<Rightarrow> bool" where
  "world_inv I w \<longleftrightarrow> I (w_fs w) \<and> fd_inv (w_fddb w) \<and> env_ok (w_env w)"

lemma keeps_go_init: "keeps (world_inv I) go_init"
  by (simp add: keeps_def go_init_def run_act world_inv_def fd_inv_init)

section \<open>Backends that keep an invariant on clean paths\<close>

locale backend_contract =
  fixes ns :: "'fs minfs" and I :: "'fs \<Rightarrow> bool"
  assumes ReadFile: "I s \<Longrightarrow> clean_path p \<Longrightarrow> I (fst (fs_ReadFile ns s p b off))"
    and WriteFile: "I s \<Longrightarrow> clean_path p \<Longrightarrow> I (fst (fs_WriteFile ns s p b off))"
    and CreateFile: "I s \<Longrightarrow> clean_path p \<Longrightarrow> I (fst (fs_CreateFile ns s p))"
    and CreateDirectory: "I s \<Longrightarrow> clean_path p \<Longrightarrow> I (fst (fs_CreateDirectory ns s p))"
    and Move: "I s \<Longrightarrow> clean_path p \<Longrightarrow> clean_path q \<Longrightarrow> I (fst (fs_Move ns s p q))"
    and ReadDirectory: "I s \<Longrightarrow> clean_path p \<Longrightarrow> I (fst (fs_ReadDirectory ns s p))"
    and Remove: "I s \<Longrightarrow> clean_path p \<Longrightarrow> I (fst (fs_Remove ns s p))"
    and SetAttribute: "I s \<Longrightarrow> clean_path p \<Longrightarrow> I (fst (fs_SetAttribute ns s p a))"
    and Stat: "I s \<Longrightarrow> clean_path p \<Longrightarrow> I (fst (fs_Stat ns s p))"

sublocale backend_contract \<subseteq> renaming_contract ns "world_inv I"
  by unfold_locales
    (simp_all add: world_inv_def ReadFile WriteFile CreateFile CreateDirectory Move ReadDirectory
      Remove SetAttribute Stat GetFD_inv ReplacePath_inv)

text \<open>
  The tables that the code keeps, whatever the backend does: a table whose entries match stays
  one until a RENAME, and an identifier that resolves keeps resolving to its path.
\<close>

definition strict_table :: "'fs world \<Rightarrow> bool" where
  "strict_table w \<longleftrightarrow> fd_strict (w_fddb w)"

definition good_table :: "'fs world \<Rightarrow> bool" where
  "good_table w \<longleftrightarrow> fd_inv (w_fddb w)"

interpretation strict: world_contract ns strict_table for ns :: "'fs minfs"
  by unfold_locales (simp_all add: strict_table_def GetFD_strict)

interpretation good: renaming_contract ns good_table for ns :: "'fs minfs"
  by unfold_locales (simp_all add: good_table_def GetFD_inv ReplacePath_inv)

definition resolves :: "int \<Rightarrow> string \<Rightarrow> 'fs world \<Rightarrow> bool" where
  "resolves fd p w \<longleftrightarrow> fd_inv (w_fddb w) \<and> GetPath (w_fddb w) fd = Some p"

interpretation resolving: world_contract ns "resolves fd p" for ns :: "'fs minfs" and fd p
  by unfold_locales (auto simp: resolves_def GetFD_inv GetFD_keeps)

section \<open>A backend with a record of its calls\<close>

definition note_path :: "('fs \<Rightarrow> 'fs \<times> 'a) \<Rightarrow> string list \<Rightarrow> 'fs \<times> string list \<Rightarrow> ('fs \<times> string list) \<times> 'a" where
  "note_path f ps sl = ((fst (f (fst sl)), snd sl @ ps), snd (f (fst sl)))"

definition logged :: "'fs minfs \<Rightarrow> ('fs \<times> string list) minfs" where
  "logged ns = \<lparr>
     fs_ReadFile = (\<lambda>sl p b off. note_path (\<lambda>s. fs_ReadFile ns s p b off) [p] sl),
     fs_WriteFile = (\<lambda>sl p b off. note_path (\<lambda>s. fs_WriteFile ns s p b off) [p] sl),
     fs_CreateFile = (\<lambda>sl p. note_path (\<lambda>s. fs_CreateFile ns s p) [p] sl),
     fs_CreateDirectory = (\<lambda>sl p. note_path (\<lambda>s. fs_CreateDirectory ns s p) [p] sl),
     fs_Move = (\<lambda>sl p q. note_path (\<lambda>s. fs_Move ns s p q) [p, q] sl),
     fs_ReadDirectory = (\<lambda>sl p. note_path (\<lambda>s. fs_ReadDirectory ns s p) [p] sl),
     fs_Remove = (\<lambda>sl p. note_path (\<lambda>s. fs_Remove ns s p) [p] sl),
     fs_SetAttribute = (\<lambda>sl p a. note_path (\<lambda>s. fs_SetAttribute ns s p a) [p] sl),
     fs_Stat = (\<lambda>sl p. note_path (\<lambda>s. fs_Stat ns s p) [p] sl)\<rparr>"

definition confined :: "'fs \<times> string list \<Rightarrow> bool" where
  "confined sl \<longleftrightarrow> (\<forall>p \<in> set (snd sl). clean_path p)"

lemma note_path_confined:
  "confined sl \<Longrightarrow> (\<And>p. p \<in> set ps \<Longrightarrow> clean_path p) \<Longrightarrow> confined (fst (note_path f ps sl))"
  by (auto simp: confined_def note_path_def)

interpretation recorder: backend_contract "logged ns" confined for ns :: "'fs minfs"
  by unfold_locales (auto simp: logged_def intro!: note_path_confined)

section \<open>Backends that keep to the documented bounds\<close>

text \<open>
  \<open>ReadFile\<close> reads at most as many bytes as the buffer has (the contract of Go's
  \<open>io.ReaderAt\<close>), and names of directory entries are shorter than \<open>NFS_MAXPATHLEN\<close>.
\<close>

definition minfs_ok :: "'fs minfs \<Rightarrow> bool" where
  "minfs_ok ns \<longleftrightarrow>
     (\<forall>s p b off s' out n e. fs_ReadFile ns s p b off = (s', out, n, e) \<longrightarrow>
        0 \<le> n \<and> n \<le> int (length b)) \<and>
     (\<forall>s p s' arr. fs_ReadDirectory ns s p = (s', Inr arr) \<longrightarrow>
        (\<forall>fi \<in> set arr. length (fi_Name fi) < unat NFS_MAXPATHLEN))"

locale sane_backend = backend_contract +
  assumes reads: "fs_ReadFile ns s p b off = (s', out, n, e) \<Longrightarrow> 0 \<le> n \<and> n \<le> int (length b)"
    and names: "fs_ReadDirectory ns s p = (s', Inr arr) \<Longrightarrow> fi \<in> set arr \<Longrightarrow>
      length (fi_Name fi) < unat NFS_MAXPATHLEN"

text \<open>
  Any backend, made to keep to the bounds. It is the backend itself where the bounds hold
  anyway, so what is proved of clipped backends holds of every backend that satisfies
  \<^const>\<open>minfs_ok\<close>.
\<close>

definition clip_name :: "FileInfo \<Rightarrow> FileInfo" where
  "clip_name fi = fi\<lparr>fi_Name := take (unat NFS_MAXPATHLEN - 1) (fi_Name fi)\<rparr>"

definition clip :: "'fs minfs \<Rightarrow> 'fs minfs" where
  "clip ns = ns\<lparr>
     fs_ReadFile := (\<lambda>s p b off. case fs_ReadFile ns s p b off of (s', out, n, e) \<Rightarrow>
       (s', out, max 0 (min n (int (length b))), e)),
     fs_ReadDirectory := (\<lambda>s p. case fs_ReadDirectory ns s p of (s', listing) \<Rightarrow>
       (s', map_sum id (map clip_name) listing))\<rparr>"

lemma clip_id: "minfs_ok ns \<Longrightarrow> clip ns = ns"
proof -
  assume ok: "minfs_ok ns"
  have "max 0 (min n (int (length b))) = n"
    if "fs_ReadFile ns s p b off = (s', out, n, e)" for s p b off s' out n e
    using ok that by (fastforce simp: minfs_ok_def)
  then have 1: "(\<lambda>s p b off. case fs_ReadFile ns s p b off of (s', out, n, e) \<Rightarrow>
      (s', out, max 0 (min n (int (length b))), e)) = fs_ReadFile ns"
    by (intro ext) (auto split: prod.split)
  have "map_sum id (map clip_name) r = r" if "fs_ReadDirectory ns s p = (s', r)" for s p s' r
  proof (cases r)
    case (Inr arr)
    have "clip_name fi = fi" if "fi \<in> set arr" for fi
    proof -
      have "length (fi_Name fi) < unat NFS_MAXPATHLEN"
        using ok Inr that \<open>fs_ReadDirectory ns s p = (s', r)\<close> by (auto simp: minfs_ok_def)
      then show ?thesis by (simp add: clip_name_def)
    qed
    then have "map clip_name arr = arr" by (intro map_idI)
    with Inr show ?thesis by simp
  qed simp
  then have 2: "(\<lambda>s p. case fs_ReadDirectory ns s p of (s', listing) \<Rightarrow>
      (s', map_sum id (map clip_name) listing)) = fs_ReadDirectory ns"
    by (intro ext) (auto split: prod.split)
  show ?thesis unfolding clip_def 1 2 by simp
qed

interpretation clipped: sane_backend "clip ns" "\<lambda>_. True" for ns :: "'fs minfs"
proof unfold_locales
  show "0 \<le> n \<and> n \<le> int (length b)" if "fs_ReadFile (clip ns) s p b off = (s', out, n, e)"
    for s p b off s' out n e
    using that by (auto simp: clip_def split: prod.splits)
  show "length (fi_Name fi) < unat NFS_MAXPATHLEN"
    if "fs_ReadDirectory (clip ns) s p = (s', Inr arr)" "fi \<in> set arr" for s p s' arr fi
    using that by (auto simp: clip_def clip_name_def c_consts split: prod.splits)
      (auto simp: map_sum_def clip_name_def c_consts split: sum.splits)
qed simp_all

end
