(* ===== verification/Xdr_Types.thy ===== *)
theory Xdr_Types
  imports Nfs_Prot
begin

text \<open>
  The filters of \<open>unfs3/xdr.c\<close> for the scalar types, attributes, file handles and settable
  attributes of the NFS protocol, one definition per C function, statement by statement, each
  with the proof that it keeps the stream discipline of \<open>Rpc_Xdr\<close>. No configuration header
  is included, so none of the \<open>HAVE_XDR_..\<close> macros is defined: \<open>xdr_uint64\<close> is the version
  that assembles eight bytes, and \<open>xdr_int32\<close> is not compiled.
\<close>

section \<open>Integers\<close>

definition xdr_uint64 :: "u64 xdrproc" where
  [xdr_defs]: "xdr_uint64 xdrs objp =
     (if x_op xdrs = XDR_ENCODE then
        let buf = [ucast (drop_bit 56 objp AND 0xFF), ucast (drop_bit 48 objp AND 0xFF),
                   ucast (drop_bit 40 objp AND 0xFF), ucast (drop_bit 32 objp AND 0xFF),
                   ucast (drop_bit 24 objp AND 0xFF), ucast (drop_bit 16 objp AND 0xFF),
                   ucast (drop_bit 8 objp AND 0xFF), ucast (objp AND 0xFF)]
        in case xdr_opaque 8 xdrs buf of None \<Rightarrow> None | Some (xdrs', _) \<Rightarrow> Some (xdrs', objp)
      else if x_op xdrs = XDR_DECODE then
        (case xdr_opaque 8 xdrs [] of None \<Rightarrow> None
         | Some (xdrs', buf) \<Rightarrow>
             let top = rd_be32 (take 4 buf); bottom = rd_be32 (drop 4 buf)
             in Some (xdrs', push_bit 32 (ucast top) OR ucast bottom))
      else
        (case xdr_opaque 8 xdrs [] of None \<Rightarrow> None | Some (xdrs', _) \<Rightarrow> Some (xdrs', objp)))"

lemma xdr_uint64_framed [xdr_framed]: "framed xdr_uint64"
proof (rule framedI)
  fix xdrs obj xdrs' obj'
  assume "xdr_uint64 xdrs obj = Some (xdrs', obj')"
  then show "stream_step xdrs xdrs' \<and> (x_op xdrs = XDR_ENCODE \<longrightarrow> obj' = obj)"
    by (auto simp: xdr_uint64_def Let_def split: if_splits option.splits
        dest: framedD(1) [OF xdr_opaque_framed])
qed

definition xdr_uint32 :: "u32 xdrproc" where
  [xdr_defs]: "xdr_uint32 = xdr_uint32_t"

lemma xdr_uint32_framed [xdr_framed]: "framed xdr_uint32"
  by (auto simp: xdr_uint32_def intro!: xdr_framed)

section \<open>Names, identifiers, attributes, handles\<close>

definition xdr_filename :: "filename xdrproc" where
  [xdr_defs]: "xdr_filename = xdr_string NFS_MAXNAMLEN"

lemma xdr_filename_framed [xdr_framed]: "framed xdr_filename"
  by (auto simp: xdr_filename_def intro!: xdr_framed)

definition xdr_nfspath :: "nfspath xdrproc" where
  [xdr_defs]: "xdr_nfspath = xdr_string NFS_MAXPATHLEN"

lemma xdr_nfspath_framed [xdr_framed]: "framed xdr_nfspath"
  by (auto simp: xdr_nfspath_def intro!: xdr_framed)

definition xdr_filename3 :: "filename3 xdrproc" where
  [xdr_defs]: "xdr_filename3 = xdr_string (NOT 0)"

lemma xdr_filename3_framed [xdr_framed]: "framed xdr_filename3"
  by (auto simp: xdr_filename3_def intro!: xdr_framed)

definition xdr_nfspath3 :: "nfspath3 xdrproc" where
  [xdr_defs]: "xdr_nfspath3 = xdr_string (NOT 0)"

lemma xdr_nfspath3_framed [xdr_framed]: "framed xdr_nfspath3"
  by (auto simp: xdr_nfspath3_def intro!: xdr_framed)

definition xdr_fileid3 :: "fileid3 xdrproc" where
  [xdr_defs]: "xdr_fileid3 = xdr_uint64"

lemma xdr_fileid3_framed [xdr_framed]: "framed xdr_fileid3"
  by (auto simp: xdr_fileid3_def intro!: xdr_framed)

definition xdr_cookie3 :: "cookie3 xdrproc" where
  [xdr_defs]: "xdr_cookie3 = xdr_uint64"

lemma xdr_cookie3_framed [xdr_framed]: "framed xdr_cookie3"
  by (auto simp: xdr_cookie3_def intro!: xdr_framed)

definition xdr_cookieverf3 :: "cookieverf3 xdrproc" where
  [xdr_defs]: "xdr_cookieverf3 = xdr_opaque (unat NFS3_COOKIEVERFSIZE)"

lemma xdr_cookieverf3_framed [xdr_framed]: "framed xdr_cookieverf3"
  by (auto simp: xdr_cookieverf3_def intro!: xdr_framed)

definition xdr_createverf3 :: "createverf3 xdrproc" where
  [xdr_defs]: "xdr_createverf3 = xdr_opaque (unat NFS3_CREATEVERFSIZE)"

lemma xdr_createverf3_framed [xdr_framed]: "framed xdr_createverf3"
  by (auto simp: xdr_createverf3_def intro!: xdr_framed)

definition xdr_writeverf3 :: "writeverf3 xdrproc" where
  [xdr_defs]: "xdr_writeverf3 = xdr_opaque (unat NFS3_WRITEVERFSIZE)"

lemma xdr_writeverf3_framed [xdr_framed]: "framed xdr_writeverf3"
  by (auto simp: xdr_writeverf3_def intro!: xdr_framed)

definition xdr_uid3 :: "uid3 xdrproc" where
  [xdr_defs]: "xdr_uid3 = xdr_uint32"

lemma xdr_uid3_framed [xdr_framed]: "framed xdr_uid3"
  by (auto simp: xdr_uid3_def intro!: xdr_framed)

definition xdr_gid3 :: "gid3 xdrproc" where
  [xdr_defs]: "xdr_gid3 = xdr_uint32"

lemma xdr_gid3_framed [xdr_framed]: "framed xdr_gid3"
  by (auto simp: xdr_gid3_def intro!: xdr_framed)

definition xdr_size3 :: "size3 xdrproc" where
  [xdr_defs]: "xdr_size3 = xdr_uint64"

lemma xdr_size3_framed [xdr_framed]: "framed xdr_size3"
  by (auto simp: xdr_size3_def intro!: xdr_framed)

definition xdr_offset3 :: "offset3 xdrproc" where
  [xdr_defs]: "xdr_offset3 = xdr_uint64"

lemma xdr_offset3_framed [xdr_framed]: "framed xdr_offset3"
  by (auto simp: xdr_offset3_def intro!: xdr_framed)

definition xdr_mode3 :: "mode3 xdrproc" where
  [xdr_defs]: "xdr_mode3 = xdr_uint32"

lemma xdr_mode3_framed [xdr_framed]: "framed xdr_mode3"
  by (auto simp: xdr_mode3_def intro!: xdr_framed)

definition xdr_count3 :: "count3 xdrproc" where
  [xdr_defs]: "xdr_count3 = xdr_uint32"

lemma xdr_count3_framed [xdr_framed]: "framed xdr_count3"
  by (auto simp: xdr_count3_def intro!: xdr_framed)

definition xdr_nfsstat3 :: "nfsstat3 xdrproc" where
  [xdr_defs]: "xdr_nfsstat3 = xdr_enum"

lemma xdr_nfsstat3_framed [xdr_framed]: "framed xdr_nfsstat3"
  by (auto simp: xdr_nfsstat3_def intro!: xdr_framed)

definition xdr_ftype3 :: "ftype3 xdrproc" where
  [xdr_defs]: "xdr_ftype3 = xdr_enum"

lemma xdr_ftype3_framed [xdr_framed]: "framed xdr_ftype3"
  by (auto simp: xdr_ftype3_def intro!: xdr_framed)

definition xdr_specdata3 :: "specdata3 xdrproc" where
  [xdr_defs]: "xdr_specdata3 = xseq
     [field xdr_uint32 specdata3_specdata1 specdata3_specdata1_update,
      field xdr_uint32 specdata3_specdata2 specdata3_specdata2_update]"

lemma xdr_specdata3_framed [xdr_framed]: "framed xdr_specdata3"
  by (auto simp: xdr_specdata3_def intro!: xdr_framed)

definition xdr_nfs_fh3 :: "nfs_fh3 xdrproc" where
  [xdr_defs]: "xdr_nfs_fh3 = xseq
     [field (xdr_bytes NFS3_FHSIZE) nfs_fh3_data nfs_fh3_data_update]"

lemma xdr_nfs_fh3_framed [xdr_framed]: "framed xdr_nfs_fh3"
  by (auto simp: xdr_nfs_fh3_def intro!: xdr_framed)

definition xdr_nfstime3 :: "nfstime3 xdrproc" where
  [xdr_defs]: "xdr_nfstime3 = xseq
     [field xdr_uint32 nfstime3_seconds nfstime3_seconds_update,
      field xdr_uint32 nfstime3_nseconds nfstime3_nseconds_update]"

lemma xdr_nfstime3_framed [xdr_framed]: "framed xdr_nfstime3"
  by (auto simp: xdr_nfstime3_def intro!: xdr_framed)

definition xdr_fattr3 :: "fattr3 xdrproc" where
  [xdr_defs]: "xdr_fattr3 = xseq
     [field xdr_ftype3 fattr3_type fattr3_type_update,
      field xdr_mode3 fattr3_mode fattr3_mode_update,
      field xdr_uint32 fattr3_nlink fattr3_nlink_update,
      field xdr_uid3 fattr3_uid fattr3_uid_update,
      field xdr_gid3 fattr3_gid fattr3_gid_update,
      field xdr_size3 fattr3_size fattr3_size_update,
      field xdr_size3 fattr3_used fattr3_used_update,
      field xdr_specdata3 fattr3_rdev fattr3_rdev_update,
      field xdr_uint64 fattr3_fsid fattr3_fsid_update,
      field xdr_fileid3 fattr3_fileid fattr3_fileid_update,
      field xdr_nfstime3 fattr3_atime fattr3_atime_update,
      field xdr_nfstime3 fattr3_mtime fattr3_mtime_update,
      field xdr_nfstime3 fattr3_ctime fattr3_ctime_update]"

lemma xdr_fattr3_framed [xdr_framed]: "framed xdr_fattr3"
  by (auto simp: xdr_fattr3_def intro!: xdr_framed)

definition xdr_post_op_attr :: "post_op_attr xdrproc" where
  [xdr_defs]: "xdr_post_op_attr = xseq
     [field xdr_bool post_op_attr_attributes_follow post_op_attr_attributes_follow_update,
      xdr_switch (\<lambda>objp.
        if post_op_attr_attributes_follow objp = TRUE
        then field xdr_fattr3 post_op_attr_attributes post_op_attr_attributes_update
        else if post_op_attr_attributes_follow objp = FALSE
        then xdr_break
        else xdr_return_FALSE)]"

lemma xdr_post_op_attr_framed [xdr_framed]: "framed xdr_post_op_attr"
  by (auto simp: xdr_post_op_attr_def intro!: xdr_framed)

definition xdr_wcc_attr :: "wcc_attr xdrproc" where
  [xdr_defs]: "xdr_wcc_attr = xseq
     [field xdr_size3 wcc_attr_size wcc_attr_size_update,
      field xdr_nfstime3 wcc_attr_mtime wcc_attr_mtime_update,
      field xdr_nfstime3 wcc_attr_ctime wcc_attr_ctime_update]"

lemma xdr_wcc_attr_framed [xdr_framed]: "framed xdr_wcc_attr"
  by (auto simp: xdr_wcc_attr_def intro!: xdr_framed)

definition xdr_pre_op_attr :: "pre_op_attr xdrproc" where
  [xdr_defs]: "xdr_pre_op_attr = xseq
     [field xdr_bool pre_op_attr_attributes_follow pre_op_attr_attributes_follow_update,
      xdr_switch (\<lambda>objp.
        if pre_op_attr_attributes_follow objp = TRUE
        then field xdr_wcc_attr pre_op_attr_attributes pre_op_attr_attributes_update
        else if pre_op_attr_attributes_follow objp = FALSE
        then xdr_break
        else xdr_return_FALSE)]"

lemma xdr_pre_op_attr_framed [xdr_framed]: "framed xdr_pre_op_attr"
  by (auto simp: xdr_pre_op_attr_def intro!: xdr_framed)

definition xdr_wcc_data :: "wcc_data xdrproc" where
  [xdr_defs]: "xdr_wcc_data = xseq
     [field xdr_pre_op_attr wcc_data_before wcc_data_before_update,
      field xdr_post_op_attr wcc_data_after wcc_data_after_update]"

lemma xdr_wcc_data_framed [xdr_framed]: "framed xdr_wcc_data"
  by (auto simp: xdr_wcc_data_def intro!: xdr_framed)

definition xdr_post_op_fh3 :: "post_op_fh3 xdrproc" where
  [xdr_defs]: "xdr_post_op_fh3 = xseq
     [field xdr_bool post_op_fh3_handle_follows post_op_fh3_handle_follows_update,
      xdr_switch (\<lambda>objp.
        if post_op_fh3_handle_follows objp = TRUE
        then field xdr_nfs_fh3 post_op_fh3_handle post_op_fh3_handle_update
        else if post_op_fh3_handle_follows objp = FALSE
        then xdr_break
        else xdr_return_FALSE)]"

lemma xdr_post_op_fh3_framed [xdr_framed]: "framed xdr_post_op_fh3"
  by (auto simp: xdr_post_op_fh3_def intro!: xdr_framed)

definition xdr_time_how :: "time_how xdrproc" where
  [xdr_defs]: "xdr_time_how = xdr_enum"

lemma xdr_time_how_framed [xdr_framed]: "framed xdr_time_how"
  by (auto simp: xdr_time_how_def intro!: xdr_framed)

definition xdr_set_mode3 :: "set_mode3 xdrproc" where
  [xdr_defs]: "xdr_set_mode3 = xseq
     [field xdr_bool set_mode3_set_it set_mode3_set_it_update,
      xdr_switch (\<lambda>objp.
        if set_mode3_set_it objp = TRUE
        then field xdr_mode3 set_mode3_mode set_mode3_mode_update
        else xdr_break)]"

lemma xdr_set_mode3_framed [xdr_framed]: "framed xdr_set_mode3"
  by (auto simp: xdr_set_mode3_def intro!: xdr_framed)

definition xdr_set_uid3 :: "set_uid3 xdrproc" where
  [xdr_defs]: "xdr_set_uid3 = xseq
     [field xdr_bool set_uid3_set_it set_uid3_set_it_update,
      xdr_switch (\<lambda>objp.
        if set_uid3_set_it objp = TRUE
        then field xdr_uid3 set_uid3_uid set_uid3_uid_update
        else xdr_break)]"

lemma xdr_set_uid3_framed [xdr_framed]: "framed xdr_set_uid3"
  by (auto simp: xdr_set_uid3_def intro!: xdr_framed)

definition xdr_set_gid3 :: "set_gid3 xdrproc" where
  [xdr_defs]: "xdr_set_gid3 = xseq
     [field xdr_bool set_gid3_set_it set_gid3_set_it_update,
      xdr_switch (\<lambda>objp.
        if set_gid3_set_it objp = TRUE
        then field xdr_gid3 set_gid3_gid set_gid3_gid_update
        else xdr_break)]"

lemma xdr_set_gid3_framed [xdr_framed]: "framed xdr_set_gid3"
  by (auto simp: xdr_set_gid3_def intro!: xdr_framed)

definition xdr_set_size3 :: "set_size3 xdrproc" where
  [xdr_defs]: "xdr_set_size3 = xseq
     [field xdr_bool set_size3_set_it set_size3_set_it_update,
      xdr_switch (\<lambda>objp.
        if set_size3_set_it objp = TRUE
        then field xdr_size3 set_size3_size set_size3_size_update
        else xdr_break)]"

lemma xdr_set_size3_framed [xdr_framed]: "framed xdr_set_size3"
  by (auto simp: xdr_set_size3_def intro!: xdr_framed)

definition xdr_set_atime :: "set_atime xdrproc" where
  [xdr_defs]: "xdr_set_atime = xseq
     [field xdr_time_how set_atime_set_it set_atime_set_it_update,
      xdr_switch (\<lambda>objp.
        if set_atime_set_it objp = SET_TO_CLIENT_TIME
        then field xdr_nfstime3 set_atime_atime set_atime_atime_update
        else xdr_break)]"

lemma xdr_set_atime_framed [xdr_framed]: "framed xdr_set_atime"
  by (auto simp: xdr_set_atime_def intro!: xdr_framed)

definition xdr_set_mtime :: "set_mtime xdrproc" where
  [xdr_defs]: "xdr_set_mtime = xseq
     [field xdr_time_how set_mtime_set_it set_mtime_set_it_update,
      xdr_switch (\<lambda>objp.
        if set_mtime_set_it objp = SET_TO_CLIENT_TIME
        then field xdr_nfstime3 set_mtime_mtime set_mtime_mtime_update
        else xdr_break)]"

lemma xdr_set_mtime_framed [xdr_framed]: "framed xdr_set_mtime"
  by (auto simp: xdr_set_mtime_def intro!: xdr_framed)

definition xdr_sattr3 :: "sattr3 xdrproc" where
  [xdr_defs]: "xdr_sattr3 = xseq
     [field xdr_set_mode3 sattr3_mode sattr3_mode_update,
      field xdr_set_uid3 sattr3_uid sattr3_uid_update,
      field xdr_set_gid3 sattr3_gid sattr3_gid_update,
      field xdr_set_size3 sattr3_size sattr3_size_update,
      field xdr_set_atime sattr3_atime sattr3_atime_update,
      field xdr_set_mtime sattr3_mtime sattr3_mtime_update]"

lemma xdr_sattr3_framed [xdr_framed]: "framed xdr_sattr3"
  by (auto simp: xdr_sattr3_def intro!: xdr_framed)

definition xdr_diropargs3 :: "diropargs3 xdrproc" where
  [xdr_defs]: "xdr_diropargs3 = xseq
     [field xdr_nfs_fh3 diropargs3_dir diropargs3_dir_update,
      field xdr_filename3 diropargs3_name diropargs3_name_update]"

lemma xdr_diropargs3_framed [xdr_framed]: "framed xdr_diropargs3"
  by (auto simp: xdr_diropargs3_def intro!: xdr_framed)

end
