(* ===== verification/Xdr_Calls.thy ===== *)
theory Xdr_Calls
  imports Xdr_Types
begin

text \<open>
  The filters of \<open>unfs3/xdr.c\<close> for the arguments and results of the NFS procedures, other
  than the directory listings of \<open>Xdr_Dir\<close>. In a result, the filter of \<open>resfail\<close> reads
  the initial members of the union's memory, whatever follows them.
\<close>

definition xdr_GETATTR3args :: "GETATTR3args xdrproc" where
  [xdr_defs]: "xdr_GETATTR3args = xseq
     [field xdr_nfs_fh3 GETATTR3args_object GETATTR3args_object_update]"

lemma xdr_GETATTR3args_framed [xdr_framed]: "framed xdr_GETATTR3args"
  by (auto simp: xdr_GETATTR3args_def intro!: xdr_framed)

definition xdr_GETATTR3resok :: "GETATTR3resok xdrproc" where
  [xdr_defs]: "xdr_GETATTR3resok = xseq
     [field xdr_fattr3 GETATTR3resok_obj_attributes GETATTR3resok_obj_attributes_update]"

lemma xdr_GETATTR3resok_framed [xdr_framed]: "framed xdr_GETATTR3resok"
  by (auto simp: xdr_GETATTR3resok_def intro!: xdr_framed)

definition xdr_GETATTR3res :: "GETATTR3res xdrproc" where
  [xdr_defs]: "xdr_GETATTR3res = xseq
     [field xdr_nfsstat3 GETATTR3res_status GETATTR3res_status_update,
      xdr_switch (\<lambda>objp.
        if GETATTR3res_status objp = NFS3_OK
        then field xdr_GETATTR3resok GETATTR3res_u GETATTR3res_u_update
        else xdr_break)]"

lemma xdr_GETATTR3res_framed [xdr_framed]: "framed xdr_GETATTR3res"
  by (auto simp: xdr_GETATTR3res_def intro!: xdr_framed)

definition xdr_sattrguard3 :: "sattrguard3 xdrproc" where
  [xdr_defs]: "xdr_sattrguard3 = xseq
     [field xdr_bool sattrguard3_check sattrguard3_check_update,
      xdr_switch (\<lambda>objp.
        if sattrguard3_check objp = TRUE
        then field xdr_nfstime3 sattrguard3_obj_ctime sattrguard3_obj_ctime_update
        else if sattrguard3_check objp = FALSE
        then xdr_break
        else xdr_return_FALSE)]"

lemma xdr_sattrguard3_framed [xdr_framed]: "framed xdr_sattrguard3"
  by (auto simp: xdr_sattrguard3_def intro!: xdr_framed)

definition xdr_SETATTR3args :: "SETATTR3args xdrproc" where
  [xdr_defs]: "xdr_SETATTR3args = xseq
     [field xdr_nfs_fh3 SETATTR3args_object SETATTR3args_object_update,
      field xdr_sattr3 SETATTR3args_new_attributes SETATTR3args_new_attributes_update,
      field xdr_sattrguard3 SETATTR3args_guard SETATTR3args_guard_update]"

lemma xdr_SETATTR3args_framed [xdr_framed]: "framed xdr_SETATTR3args"
  by (auto simp: xdr_SETATTR3args_def intro!: xdr_framed)

definition xdr_SETATTR3resok :: "SETATTR3resok xdrproc" where
  [xdr_defs]: "xdr_SETATTR3resok = xseq
     [field xdr_wcc_data SETATTR3resfail_obj_wcc SETATTR3resfail_obj_wcc_update]"

lemma xdr_SETATTR3resok_framed [xdr_framed]: "framed xdr_SETATTR3resok"
  by (auto simp: xdr_SETATTR3resok_def intro!: xdr_framed)

definition xdr_SETATTR3resfail :: "'a SETATTR3resfail_scheme xdrproc" where
  [xdr_defs]: "xdr_SETATTR3resfail = xseq
     [field xdr_wcc_data SETATTR3resfail_obj_wcc SETATTR3resfail_obj_wcc_update]"

lemma xdr_SETATTR3resfail_framed [xdr_framed]: "framed xdr_SETATTR3resfail"
  by (auto simp: xdr_SETATTR3resfail_def intro!: xdr_framed)

definition xdr_SETATTR3res :: "SETATTR3res xdrproc" where
  [xdr_defs]: "xdr_SETATTR3res = xseq
     [field xdr_nfsstat3 SETATTR3res_status SETATTR3res_status_update,
      xdr_switch (\<lambda>objp.
        if SETATTR3res_status objp = NFS3_OK
        then field xdr_SETATTR3resok SETATTR3res_u SETATTR3res_u_update
        else field xdr_SETATTR3resfail SETATTR3res_u SETATTR3res_u_update)]"

lemma xdr_SETATTR3res_framed [xdr_framed]: "framed xdr_SETATTR3res"
  by (auto simp: xdr_SETATTR3res_def intro!: xdr_framed)

definition xdr_LOOKUP3args :: "LOOKUP3args xdrproc" where
  [xdr_defs]: "xdr_LOOKUP3args = xseq
     [field xdr_diropargs3 LOOKUP3args_what LOOKUP3args_what_update]"

lemma xdr_LOOKUP3args_framed [xdr_framed]: "framed xdr_LOOKUP3args"
  by (auto simp: xdr_LOOKUP3args_def intro!: xdr_framed)

definition xdr_LOOKUP3resok :: "LOOKUP3resok xdrproc" where
  [xdr_defs]: "xdr_LOOKUP3resok = xseq
     [field xdr_nfs_fh3 LOOKUP3resok_object LOOKUP3resok_object_update,
      field xdr_post_op_attr LOOKUP3resok_obj_attributes LOOKUP3resok_obj_attributes_update,
      field xdr_post_op_attr LOOKUP3resfail_dir_attributes LOOKUP3resfail_dir_attributes_update]"

lemma xdr_LOOKUP3resok_framed [xdr_framed]: "framed xdr_LOOKUP3resok"
  by (auto simp: xdr_LOOKUP3resok_def intro!: xdr_framed)

definition xdr_LOOKUP3resfail :: "'a LOOKUP3resfail_scheme xdrproc" where
  [xdr_defs]: "xdr_LOOKUP3resfail = xseq
     [field xdr_post_op_attr LOOKUP3resfail_dir_attributes LOOKUP3resfail_dir_attributes_update]"

lemma xdr_LOOKUP3resfail_framed [xdr_framed]: "framed xdr_LOOKUP3resfail"
  by (auto simp: xdr_LOOKUP3resfail_def intro!: xdr_framed)

definition xdr_LOOKUP3res :: "LOOKUP3res xdrproc" where
  [xdr_defs]: "xdr_LOOKUP3res = xseq
     [field xdr_nfsstat3 LOOKUP3res_status LOOKUP3res_status_update,
      xdr_switch (\<lambda>objp.
        if LOOKUP3res_status objp = NFS3_OK
        then field xdr_LOOKUP3resok LOOKUP3res_u LOOKUP3res_u_update
        else field xdr_LOOKUP3resfail LOOKUP3res_u LOOKUP3res_u_update)]"

lemma xdr_LOOKUP3res_framed [xdr_framed]: "framed xdr_LOOKUP3res"
  by (auto simp: xdr_LOOKUP3res_def intro!: xdr_framed)

definition xdr_ACCESS3args :: "ACCESS3args xdrproc" where
  [xdr_defs]: "xdr_ACCESS3args = xseq
     [field xdr_nfs_fh3 ACCESS3args_object ACCESS3args_object_update,
      field xdr_uint32 ACCESS3args_access ACCESS3args_access_update]"

lemma xdr_ACCESS3args_framed [xdr_framed]: "framed xdr_ACCESS3args"
  by (auto simp: xdr_ACCESS3args_def intro!: xdr_framed)

definition xdr_ACCESS3resok :: "ACCESS3resok xdrproc" where
  [xdr_defs]: "xdr_ACCESS3resok = xseq
     [field xdr_post_op_attr ACCESS3resfail_obj_attributes ACCESS3resfail_obj_attributes_update,
      field xdr_uint32 ACCESS3resok_access ACCESS3resok_access_update]"

lemma xdr_ACCESS3resok_framed [xdr_framed]: "framed xdr_ACCESS3resok"
  by (auto simp: xdr_ACCESS3resok_def intro!: xdr_framed)

definition xdr_ACCESS3resfail :: "'a ACCESS3resfail_scheme xdrproc" where
  [xdr_defs]: "xdr_ACCESS3resfail = xseq
     [field xdr_post_op_attr ACCESS3resfail_obj_attributes ACCESS3resfail_obj_attributes_update]"

lemma xdr_ACCESS3resfail_framed [xdr_framed]: "framed xdr_ACCESS3resfail"
  by (auto simp: xdr_ACCESS3resfail_def intro!: xdr_framed)

definition xdr_ACCESS3res :: "ACCESS3res xdrproc" where
  [xdr_defs]: "xdr_ACCESS3res = xseq
     [field xdr_nfsstat3 ACCESS3res_status ACCESS3res_status_update,
      xdr_switch (\<lambda>objp.
        if ACCESS3res_status objp = NFS3_OK
        then field xdr_ACCESS3resok ACCESS3res_u ACCESS3res_u_update
        else field xdr_ACCESS3resfail ACCESS3res_u ACCESS3res_u_update)]"

lemma xdr_ACCESS3res_framed [xdr_framed]: "framed xdr_ACCESS3res"
  by (auto simp: xdr_ACCESS3res_def intro!: xdr_framed)

definition xdr_READLINK3args :: "READLINK3args xdrproc" where
  [xdr_defs]: "xdr_READLINK3args = xseq
     [field xdr_nfs_fh3 READLINK3args_symlink READLINK3args_symlink_update]"

lemma xdr_READLINK3args_framed [xdr_framed]: "framed xdr_READLINK3args"
  by (auto simp: xdr_READLINK3args_def intro!: xdr_framed)

definition xdr_READLINK3resok :: "READLINK3resok xdrproc" where
  [xdr_defs]: "xdr_READLINK3resok = xseq
     [field xdr_post_op_attr READLINK3resfail_symlink_attributes READLINK3resfail_symlink_attributes_update,
      field xdr_nfspath3 READLINK3resok_data READLINK3resok_data_update]"

lemma xdr_READLINK3resok_framed [xdr_framed]: "framed xdr_READLINK3resok"
  by (auto simp: xdr_READLINK3resok_def intro!: xdr_framed)

definition xdr_READLINK3resfail :: "'a READLINK3resfail_scheme xdrproc" where
  [xdr_defs]: "xdr_READLINK3resfail = xseq
     [field xdr_post_op_attr READLINK3resfail_symlink_attributes READLINK3resfail_symlink_attributes_update]"

lemma xdr_READLINK3resfail_framed [xdr_framed]: "framed xdr_READLINK3resfail"
  by (auto simp: xdr_READLINK3resfail_def intro!: xdr_framed)

definition xdr_READLINK3res :: "READLINK3res xdrproc" where
  [xdr_defs]: "xdr_READLINK3res = xseq
     [field xdr_nfsstat3 READLINK3res_status READLINK3res_status_update,
      xdr_switch (\<lambda>objp.
        if READLINK3res_status objp = NFS3_OK
        then field xdr_READLINK3resok READLINK3res_u READLINK3res_u_update
        else field xdr_READLINK3resfail READLINK3res_u READLINK3res_u_update)]"

lemma xdr_READLINK3res_framed [xdr_framed]: "framed xdr_READLINK3res"
  by (auto simp: xdr_READLINK3res_def intro!: xdr_framed)

definition xdr_READ3args :: "READ3args xdrproc" where
  [xdr_defs]: "xdr_READ3args = xseq
     [field xdr_nfs_fh3 READ3args_file READ3args_file_update,
      field xdr_offset3 READ3args_offset READ3args_offset_update,
      field xdr_count3 READ3args_count READ3args_count_update]"

lemma xdr_READ3args_framed [xdr_framed]: "framed xdr_READ3args"
  by (auto simp: xdr_READ3args_def intro!: xdr_framed)

definition xdr_READ3resok :: "READ3resok xdrproc" where
  [xdr_defs]: "xdr_READ3resok = xseq
     [field xdr_post_op_attr READ3resfail_file_attributes READ3resfail_file_attributes_update,
      field xdr_count3 READ3resok_count READ3resok_count_update,
      field xdr_bool READ3resok_eof READ3resok_eof_update,
      field (xdr_bytes (NOT 0)) READ3resok_data READ3resok_data_update]"

lemma xdr_READ3resok_framed [xdr_framed]: "framed xdr_READ3resok"
  by (auto simp: xdr_READ3resok_def intro!: xdr_framed)

definition xdr_READ3resfail :: "'a READ3resfail_scheme xdrproc" where
  [xdr_defs]: "xdr_READ3resfail = xseq
     [field xdr_post_op_attr READ3resfail_file_attributes READ3resfail_file_attributes_update]"

lemma xdr_READ3resfail_framed [xdr_framed]: "framed xdr_READ3resfail"
  by (auto simp: xdr_READ3resfail_def intro!: xdr_framed)

definition xdr_READ3res :: "READ3res xdrproc" where
  [xdr_defs]: "xdr_READ3res = xseq
     [field xdr_nfsstat3 READ3res_status READ3res_status_update,
      xdr_switch (\<lambda>objp.
        if READ3res_status objp = NFS3_OK
        then field xdr_READ3resok READ3res_u READ3res_u_update
        else field xdr_READ3resfail READ3res_u READ3res_u_update)]"

lemma xdr_READ3res_framed [xdr_framed]: "framed xdr_READ3res"
  by (auto simp: xdr_READ3res_def intro!: xdr_framed)

definition xdr_stable_how :: "stable_how xdrproc" where
  [xdr_defs]: "xdr_stable_how = xdr_enum"

lemma xdr_stable_how_framed [xdr_framed]: "framed xdr_stable_how"
  by (auto simp: xdr_stable_how_def intro!: xdr_framed)

definition xdr_WRITE3args :: "WRITE3args xdrproc" where
  [xdr_defs]: "xdr_WRITE3args = xseq
     [field xdr_nfs_fh3 WRITE3args_file WRITE3args_file_update,
      field xdr_offset3 WRITE3args_offset WRITE3args_offset_update,
      field xdr_count3 WRITE3args_count WRITE3args_count_update,
      field xdr_stable_how WRITE3args_stable WRITE3args_stable_update,
      field (xdr_bytes (NOT 0)) WRITE3args_data WRITE3args_data_update]"

lemma xdr_WRITE3args_framed [xdr_framed]: "framed xdr_WRITE3args"
  by (auto simp: xdr_WRITE3args_def intro!: xdr_framed)

definition xdr_WRITE3resok :: "WRITE3resok xdrproc" where
  [xdr_defs]: "xdr_WRITE3resok = xseq
     [field xdr_wcc_data WRITE3resfail_file_wcc WRITE3resfail_file_wcc_update,
      field xdr_count3 WRITE3resok_count WRITE3resok_count_update,
      field xdr_stable_how WRITE3resok_committed WRITE3resok_committed_update,
      field xdr_writeverf3 WRITE3resok_verf WRITE3resok_verf_update]"

lemma xdr_WRITE3resok_framed [xdr_framed]: "framed xdr_WRITE3resok"
  by (auto simp: xdr_WRITE3resok_def intro!: xdr_framed)

definition xdr_WRITE3resfail :: "'a WRITE3resfail_scheme xdrproc" where
  [xdr_defs]: "xdr_WRITE3resfail = xseq
     [field xdr_wcc_data WRITE3resfail_file_wcc WRITE3resfail_file_wcc_update]"

lemma xdr_WRITE3resfail_framed [xdr_framed]: "framed xdr_WRITE3resfail"
  by (auto simp: xdr_WRITE3resfail_def intro!: xdr_framed)

definition xdr_WRITE3res :: "WRITE3res xdrproc" where
  [xdr_defs]: "xdr_WRITE3res = xseq
     [field xdr_nfsstat3 WRITE3res_status WRITE3res_status_update,
      xdr_switch (\<lambda>objp.
        if WRITE3res_status objp = NFS3_OK
        then field xdr_WRITE3resok WRITE3res_u WRITE3res_u_update
        else field xdr_WRITE3resfail WRITE3res_u WRITE3res_u_update)]"

lemma xdr_WRITE3res_framed [xdr_framed]: "framed xdr_WRITE3res"
  by (auto simp: xdr_WRITE3res_def intro!: xdr_framed)

definition xdr_createmode3 :: "createmode3 xdrproc" where
  [xdr_defs]: "xdr_createmode3 = xdr_enum"

lemma xdr_createmode3_framed [xdr_framed]: "framed xdr_createmode3"
  by (auto simp: xdr_createmode3_def intro!: xdr_framed)

definition xdr_createhow3 :: "createhow3 xdrproc" where
  [xdr_defs]: "xdr_createhow3 = xseq
     [field xdr_createmode3 createhow3_mode createhow3_mode_update,
      xdr_switch (\<lambda>objp.
        if createhow3_mode objp = UNCHECKED \<or> createhow3_mode objp = GUARDED
        then field xdr_sattr3 createhow3_obj_attributes createhow3_obj_attributes_update
        else if createhow3_mode objp = EXCLUSIVE
        then field xdr_createverf3 createhow3_verf createhow3_verf_update
        else xdr_return_FALSE)]"

lemma xdr_createhow3_framed [xdr_framed]: "framed xdr_createhow3"
  by (auto simp: xdr_createhow3_def intro!: xdr_framed)

definition xdr_CREATE3args :: "CREATE3args xdrproc" where
  [xdr_defs]: "xdr_CREATE3args = xseq
     [field xdr_diropargs3 CREATE3args_where CREATE3args_where_update,
      field xdr_createhow3 CREATE3args_how CREATE3args_how_update]"

lemma xdr_CREATE3args_framed [xdr_framed]: "framed xdr_CREATE3args"
  by (auto simp: xdr_CREATE3args_def intro!: xdr_framed)

definition xdr_CREATE3resok :: "CREATE3resok xdrproc" where
  [xdr_defs]: "xdr_CREATE3resok = xseq
     [field xdr_post_op_fh3 CREATE3resok_obj CREATE3resok_obj_update,
      field xdr_post_op_attr CREATE3resok_obj_attributes CREATE3resok_obj_attributes_update,
      field xdr_wcc_data CREATE3resfail_dir_wcc CREATE3resfail_dir_wcc_update]"

lemma xdr_CREATE3resok_framed [xdr_framed]: "framed xdr_CREATE3resok"
  by (auto simp: xdr_CREATE3resok_def intro!: xdr_framed)

definition xdr_CREATE3resfail :: "'a CREATE3resfail_scheme xdrproc" where
  [xdr_defs]: "xdr_CREATE3resfail = xseq
     [field xdr_wcc_data CREATE3resfail_dir_wcc CREATE3resfail_dir_wcc_update]"

lemma xdr_CREATE3resfail_framed [xdr_framed]: "framed xdr_CREATE3resfail"
  by (auto simp: xdr_CREATE3resfail_def intro!: xdr_framed)

definition xdr_CREATE3res :: "CREATE3res xdrproc" where
  [xdr_defs]: "xdr_CREATE3res = xseq
     [field xdr_nfsstat3 CREATE3res_status CREATE3res_status_update,
      xdr_switch (\<lambda>objp.
        if CREATE3res_status objp = NFS3_OK
        then field xdr_CREATE3resok CREATE3res_u CREATE3res_u_update
        else field xdr_CREATE3resfail CREATE3res_u CREATE3res_u_update)]"

lemma xdr_CREATE3res_framed [xdr_framed]: "framed xdr_CREATE3res"
  by (auto simp: xdr_CREATE3res_def intro!: xdr_framed)

definition xdr_MKDIR3args :: "MKDIR3args xdrproc" where
  [xdr_defs]: "xdr_MKDIR3args = xseq
     [field xdr_diropargs3 MKDIR3args_where MKDIR3args_where_update,
      field xdr_sattr3 MKDIR3args_attributes MKDIR3args_attributes_update]"

lemma xdr_MKDIR3args_framed [xdr_framed]: "framed xdr_MKDIR3args"
  by (auto simp: xdr_MKDIR3args_def intro!: xdr_framed)

definition xdr_MKDIR3resok :: "MKDIR3resok xdrproc" where
  [xdr_defs]: "xdr_MKDIR3resok = xseq
     [field xdr_post_op_fh3 MKDIR3resok_obj MKDIR3resok_obj_update,
      field xdr_post_op_attr MKDIR3resok_obj_attributes MKDIR3resok_obj_attributes_update,
      field xdr_wcc_data MKDIR3resfail_dir_wcc MKDIR3resfail_dir_wcc_update]"

lemma xdr_MKDIR3resok_framed [xdr_framed]: "framed xdr_MKDIR3resok"
  by (auto simp: xdr_MKDIR3resok_def intro!: xdr_framed)

definition xdr_MKDIR3resfail :: "'a MKDIR3resfail_scheme xdrproc" where
  [xdr_defs]: "xdr_MKDIR3resfail = xseq
     [field xdr_wcc_data MKDIR3resfail_dir_wcc MKDIR3resfail_dir_wcc_update]"

lemma xdr_MKDIR3resfail_framed [xdr_framed]: "framed xdr_MKDIR3resfail"
  by (auto simp: xdr_MKDIR3resfail_def intro!: xdr_framed)

definition xdr_MKDIR3res :: "MKDIR3res xdrproc" where
  [xdr_defs]: "xdr_MKDIR3res = xseq
     [field xdr_nfsstat3 MKDIR3res_status MKDIR3res_status_update,
      xdr_switch (\<lambda>objp.
        if MKDIR3res_status objp = NFS3_OK
        then field xdr_MKDIR3resok MKDIR3res_u MKDIR3res_u_update
        else field xdr_MKDIR3resfail MKDIR3res_u MKDIR3res_u_update)]"

lemma xdr_MKDIR3res_framed [xdr_framed]: "framed xdr_MKDIR3res"
  by (auto simp: xdr_MKDIR3res_def intro!: xdr_framed)

definition xdr_symlinkdata3 :: "symlinkdata3 xdrproc" where
  [xdr_defs]: "xdr_symlinkdata3 = xseq
     [field xdr_sattr3 symlinkdata3_symlink_attributes symlinkdata3_symlink_attributes_update,
      field xdr_nfspath3 symlinkdata3_symlink_data symlinkdata3_symlink_data_update]"

lemma xdr_symlinkdata3_framed [xdr_framed]: "framed xdr_symlinkdata3"
  by (auto simp: xdr_symlinkdata3_def intro!: xdr_framed)

definition xdr_SYMLINK3args :: "SYMLINK3args xdrproc" where
  [xdr_defs]: "xdr_SYMLINK3args = xseq
     [field xdr_diropargs3 SYMLINK3args_where SYMLINK3args_where_update,
      field xdr_symlinkdata3 SYMLINK3args_symlink SYMLINK3args_symlink_update]"

lemma xdr_SYMLINK3args_framed [xdr_framed]: "framed xdr_SYMLINK3args"
  by (auto simp: xdr_SYMLINK3args_def intro!: xdr_framed)

definition xdr_SYMLINK3resok :: "SYMLINK3resok xdrproc" where
  [xdr_defs]: "xdr_SYMLINK3resok = xseq
     [field xdr_post_op_fh3 SYMLINK3resok_obj SYMLINK3resok_obj_update,
      field xdr_post_op_attr SYMLINK3resok_obj_attributes SYMLINK3resok_obj_attributes_update,
      field xdr_wcc_data SYMLINK3resfail_dir_wcc SYMLINK3resfail_dir_wcc_update]"

lemma xdr_SYMLINK3resok_framed [xdr_framed]: "framed xdr_SYMLINK3resok"
  by (auto simp: xdr_SYMLINK3resok_def intro!: xdr_framed)

definition xdr_SYMLINK3resfail :: "'a SYMLINK3resfail_scheme xdrproc" where
  [xdr_defs]: "xdr_SYMLINK3resfail = xseq
     [field xdr_wcc_data SYMLINK3resfail_dir_wcc SYMLINK3resfail_dir_wcc_update]"

lemma xdr_SYMLINK3resfail_framed [xdr_framed]: "framed xdr_SYMLINK3resfail"
  by (auto simp: xdr_SYMLINK3resfail_def intro!: xdr_framed)

definition xdr_SYMLINK3res :: "SYMLINK3res xdrproc" where
  [xdr_defs]: "xdr_SYMLINK3res = xseq
     [field xdr_nfsstat3 SYMLINK3res_status SYMLINK3res_status_update,
      xdr_switch (\<lambda>objp.
        if SYMLINK3res_status objp = NFS3_OK
        then field xdr_SYMLINK3resok SYMLINK3res_u SYMLINK3res_u_update
        else field xdr_SYMLINK3resfail SYMLINK3res_u SYMLINK3res_u_update)]"

lemma xdr_SYMLINK3res_framed [xdr_framed]: "framed xdr_SYMLINK3res"
  by (auto simp: xdr_SYMLINK3res_def intro!: xdr_framed)

definition xdr_devicedata3 :: "devicedata3 xdrproc" where
  [xdr_defs]: "xdr_devicedata3 = xseq
     [field xdr_sattr3 devicedata3_dev_attributes devicedata3_dev_attributes_update,
      field xdr_specdata3 devicedata3_spec devicedata3_spec_update]"

lemma xdr_devicedata3_framed [xdr_framed]: "framed xdr_devicedata3"
  by (auto simp: xdr_devicedata3_def intro!: xdr_framed)

definition xdr_mknoddata3 :: "mknoddata3 xdrproc" where
  [xdr_defs]: "xdr_mknoddata3 = xseq
     [field xdr_ftype3 mknoddata3_type mknoddata3_type_update,
      xdr_switch (\<lambda>objp.
        if mknoddata3_type objp = NF3CHR \<or> mknoddata3_type objp = NF3BLK
        then field xdr_devicedata3 mknoddata3_device mknoddata3_device_update
        else if mknoddata3_type objp = NF3SOCK \<or> mknoddata3_type objp = NF3FIFO
        then field xdr_sattr3 mknoddata3_pipe_attributes mknoddata3_pipe_attributes_update
        else xdr_break)]"

lemma xdr_mknoddata3_framed [xdr_framed]: "framed xdr_mknoddata3"
  by (auto simp: xdr_mknoddata3_def intro!: xdr_framed)

definition xdr_MKNOD3args :: "MKNOD3args xdrproc" where
  [xdr_defs]: "xdr_MKNOD3args = xseq
     [field xdr_diropargs3 MKNOD3args_where MKNOD3args_where_update,
      field xdr_mknoddata3 MKNOD3args_what MKNOD3args_what_update]"

lemma xdr_MKNOD3args_framed [xdr_framed]: "framed xdr_MKNOD3args"
  by (auto simp: xdr_MKNOD3args_def intro!: xdr_framed)

definition xdr_MKNOD3resok :: "MKNOD3resok xdrproc" where
  [xdr_defs]: "xdr_MKNOD3resok = xseq
     [field xdr_post_op_fh3 MKNOD3resok_obj MKNOD3resok_obj_update,
      field xdr_post_op_attr MKNOD3resok_obj_attributes MKNOD3resok_obj_attributes_update,
      field xdr_wcc_data MKNOD3resfail_dir_wcc MKNOD3resfail_dir_wcc_update]"

lemma xdr_MKNOD3resok_framed [xdr_framed]: "framed xdr_MKNOD3resok"
  by (auto simp: xdr_MKNOD3resok_def intro!: xdr_framed)

definition xdr_MKNOD3resfail :: "'a MKNOD3resfail_scheme xdrproc" where
  [xdr_defs]: "xdr_MKNOD3resfail = xseq
     [field xdr_wcc_data MKNOD3resfail_dir_wcc MKNOD3resfail_dir_wcc_update]"

lemma xdr_MKNOD3resfail_framed [xdr_framed]: "framed xdr_MKNOD3resfail"
  by (auto simp: xdr_MKNOD3resfail_def intro!: xdr_framed)

definition xdr_MKNOD3res :: "MKNOD3res xdrproc" where
  [xdr_defs]: "xdr_MKNOD3res = xseq
     [field xdr_nfsstat3 MKNOD3res_status MKNOD3res_status_update,
      xdr_switch (\<lambda>objp.
        if MKNOD3res_status objp = NFS3_OK
        then field xdr_MKNOD3resok MKNOD3res_u MKNOD3res_u_update
        else field xdr_MKNOD3resfail MKNOD3res_u MKNOD3res_u_update)]"

lemma xdr_MKNOD3res_framed [xdr_framed]: "framed xdr_MKNOD3res"
  by (auto simp: xdr_MKNOD3res_def intro!: xdr_framed)

definition xdr_REMOVE3args :: "REMOVE3args xdrproc" where
  [xdr_defs]: "xdr_REMOVE3args = xseq
     [field xdr_diropargs3 REMOVE3args_object REMOVE3args_object_update]"

lemma xdr_REMOVE3args_framed [xdr_framed]: "framed xdr_REMOVE3args"
  by (auto simp: xdr_REMOVE3args_def intro!: xdr_framed)

definition xdr_REMOVE3resok :: "REMOVE3resok xdrproc" where
  [xdr_defs]: "xdr_REMOVE3resok = xseq
     [field xdr_wcc_data REMOVE3resfail_dir_wcc REMOVE3resfail_dir_wcc_update]"

lemma xdr_REMOVE3resok_framed [xdr_framed]: "framed xdr_REMOVE3resok"
  by (auto simp: xdr_REMOVE3resok_def intro!: xdr_framed)

definition xdr_REMOVE3resfail :: "'a REMOVE3resfail_scheme xdrproc" where
  [xdr_defs]: "xdr_REMOVE3resfail = xseq
     [field xdr_wcc_data REMOVE3resfail_dir_wcc REMOVE3resfail_dir_wcc_update]"

lemma xdr_REMOVE3resfail_framed [xdr_framed]: "framed xdr_REMOVE3resfail"
  by (auto simp: xdr_REMOVE3resfail_def intro!: xdr_framed)

definition xdr_REMOVE3res :: "REMOVE3res xdrproc" where
  [xdr_defs]: "xdr_REMOVE3res = xseq
     [field xdr_nfsstat3 REMOVE3res_status REMOVE3res_status_update,
      xdr_switch (\<lambda>objp.
        if REMOVE3res_status objp = NFS3_OK
        then field xdr_REMOVE3resok REMOVE3res_u REMOVE3res_u_update
        else field xdr_REMOVE3resfail REMOVE3res_u REMOVE3res_u_update)]"

lemma xdr_REMOVE3res_framed [xdr_framed]: "framed xdr_REMOVE3res"
  by (auto simp: xdr_REMOVE3res_def intro!: xdr_framed)

definition xdr_RMDIR3args :: "RMDIR3args xdrproc" where
  [xdr_defs]: "xdr_RMDIR3args = xseq
     [field xdr_diropargs3 RMDIR3args_object RMDIR3args_object_update]"

lemma xdr_RMDIR3args_framed [xdr_framed]: "framed xdr_RMDIR3args"
  by (auto simp: xdr_RMDIR3args_def intro!: xdr_framed)

definition xdr_RMDIR3resok :: "RMDIR3resok xdrproc" where
  [xdr_defs]: "xdr_RMDIR3resok = xseq
     [field xdr_wcc_data RMDIR3resfail_dir_wcc RMDIR3resfail_dir_wcc_update]"

lemma xdr_RMDIR3resok_framed [xdr_framed]: "framed xdr_RMDIR3resok"
  by (auto simp: xdr_RMDIR3resok_def intro!: xdr_framed)

definition xdr_RMDIR3resfail :: "'a RMDIR3resfail_scheme xdrproc" where
  [xdr_defs]: "xdr_RMDIR3resfail = xseq
     [field xdr_wcc_data RMDIR3resfail_dir_wcc RMDIR3resfail_dir_wcc_update]"

lemma xdr_RMDIR3resfail_framed [xdr_framed]: "framed xdr_RMDIR3resfail"
  by (auto simp: xdr_RMDIR3resfail_def intro!: xdr_framed)

definition xdr_RMDIR3res :: "RMDIR3res xdrproc" where
  [xdr_defs]: "xdr_RMDIR3res = xseq
     [field xdr_nfsstat3 RMDIR3res_status RMDIR3res_status_update,
      xdr_switch (\<lambda>objp.
        if RMDIR3res_status objp = NFS3_OK
        then field xdr_RMDIR3resok RMDIR3res_u RMDIR3res_u_update
        else field xdr_RMDIR3resfail RMDIR3res_u RMDIR3res_u_update)]"

lemma xdr_RMDIR3res_framed [xdr_framed]: "framed xdr_RMDIR3res"
  by (auto simp: xdr_RMDIR3res_def intro!: xdr_framed)

definition xdr_RENAME3args :: "RENAME3args xdrproc" where
  [xdr_defs]: "xdr_RENAME3args = xseq
     [field xdr_diropargs3 RENAME3args_from RENAME3args_from_update,
      field xdr_diropargs3 RENAME3args_to RENAME3args_to_update]"

lemma xdr_RENAME3args_framed [xdr_framed]: "framed xdr_RENAME3args"
  by (auto simp: xdr_RENAME3args_def intro!: xdr_framed)

definition xdr_RENAME3resok :: "RENAME3resok xdrproc" where
  [xdr_defs]: "xdr_RENAME3resok = xseq
     [field xdr_wcc_data RENAME3resfail_fromdir_wcc RENAME3resfail_fromdir_wcc_update,
      field xdr_wcc_data RENAME3resfail_todir_wcc RENAME3resfail_todir_wcc_update]"

lemma xdr_RENAME3resok_framed [xdr_framed]: "framed xdr_RENAME3resok"
  by (auto simp: xdr_RENAME3resok_def intro!: xdr_framed)

definition xdr_RENAME3resfail :: "'a RENAME3resfail_scheme xdrproc" where
  [xdr_defs]: "xdr_RENAME3resfail = xseq
     [field xdr_wcc_data RENAME3resfail_fromdir_wcc RENAME3resfail_fromdir_wcc_update,
      field xdr_wcc_data RENAME3resfail_todir_wcc RENAME3resfail_todir_wcc_update]"

lemma xdr_RENAME3resfail_framed [xdr_framed]: "framed xdr_RENAME3resfail"
  by (auto simp: xdr_RENAME3resfail_def intro!: xdr_framed)

definition xdr_RENAME3res :: "RENAME3res xdrproc" where
  [xdr_defs]: "xdr_RENAME3res = xseq
     [field xdr_nfsstat3 RENAME3res_status RENAME3res_status_update,
      xdr_switch (\<lambda>objp.
        if RENAME3res_status objp = NFS3_OK
        then field xdr_RENAME3resok RENAME3res_u RENAME3res_u_update
        else field xdr_RENAME3resfail RENAME3res_u RENAME3res_u_update)]"

lemma xdr_RENAME3res_framed [xdr_framed]: "framed xdr_RENAME3res"
  by (auto simp: xdr_RENAME3res_def intro!: xdr_framed)

definition xdr_LINK3args :: "LINK3args xdrproc" where
  [xdr_defs]: "xdr_LINK3args = xseq
     [field xdr_nfs_fh3 LINK3args_file LINK3args_file_update,
      field xdr_diropargs3 LINK3args_link LINK3args_link_update]"

lemma xdr_LINK3args_framed [xdr_framed]: "framed xdr_LINK3args"
  by (auto simp: xdr_LINK3args_def intro!: xdr_framed)

definition xdr_LINK3resok :: "LINK3resok xdrproc" where
  [xdr_defs]: "xdr_LINK3resok = xseq
     [field xdr_post_op_attr LINK3resfail_file_attributes LINK3resfail_file_attributes_update,
      field xdr_wcc_data LINK3resfail_linkdir_wcc LINK3resfail_linkdir_wcc_update]"

lemma xdr_LINK3resok_framed [xdr_framed]: "framed xdr_LINK3resok"
  by (auto simp: xdr_LINK3resok_def intro!: xdr_framed)

definition xdr_LINK3resfail :: "'a LINK3resfail_scheme xdrproc" where
  [xdr_defs]: "xdr_LINK3resfail = xseq
     [field xdr_post_op_attr LINK3resfail_file_attributes LINK3resfail_file_attributes_update,
      field xdr_wcc_data LINK3resfail_linkdir_wcc LINK3resfail_linkdir_wcc_update]"

lemma xdr_LINK3resfail_framed [xdr_framed]: "framed xdr_LINK3resfail"
  by (auto simp: xdr_LINK3resfail_def intro!: xdr_framed)

definition xdr_LINK3res :: "LINK3res xdrproc" where
  [xdr_defs]: "xdr_LINK3res = xseq
     [field xdr_nfsstat3 LINK3res_status LINK3res_status_update,
      xdr_switch (\<lambda>objp.
        if LINK3res_status objp = NFS3_OK
        then field xdr_LINK3resok LINK3res_u LINK3res_u_update
        else field xdr_LINK3resfail LINK3res_u LINK3res_u_update)]"

lemma xdr_LINK3res_framed [xdr_framed]: "framed xdr_LINK3res"
  by (auto simp: xdr_LINK3res_def intro!: xdr_framed)

definition xdr_FSSTAT3args :: "FSSTAT3args xdrproc" where
  [xdr_defs]: "xdr_FSSTAT3args = xseq
     [field xdr_nfs_fh3 FSSTAT3args_fsroot FSSTAT3args_fsroot_update]"

lemma xdr_FSSTAT3args_framed [xdr_framed]: "framed xdr_FSSTAT3args"
  by (auto simp: xdr_FSSTAT3args_def intro!: xdr_framed)

definition xdr_FSSTAT3resok :: "FSSTAT3resok xdrproc" where
  [xdr_defs]: "xdr_FSSTAT3resok = xseq
     [field xdr_post_op_attr FSSTAT3resfail_obj_attributes FSSTAT3resfail_obj_attributes_update,
      field xdr_size3 FSSTAT3resok_tbytes FSSTAT3resok_tbytes_update,
      field xdr_size3 FSSTAT3resok_fbytes FSSTAT3resok_fbytes_update,
      field xdr_size3 FSSTAT3resok_abytes FSSTAT3resok_abytes_update,
      field xdr_size3 FSSTAT3resok_tfiles FSSTAT3resok_tfiles_update,
      field xdr_size3 FSSTAT3resok_ffiles FSSTAT3resok_ffiles_update,
      field xdr_size3 FSSTAT3resok_afiles FSSTAT3resok_afiles_update,
      field xdr_uint32 FSSTAT3resok_invarsec FSSTAT3resok_invarsec_update]"

lemma xdr_FSSTAT3resok_framed [xdr_framed]: "framed xdr_FSSTAT3resok"
  by (auto simp: xdr_FSSTAT3resok_def intro!: xdr_framed)

definition xdr_FSSTAT3resfail :: "'a FSSTAT3resfail_scheme xdrproc" where
  [xdr_defs]: "xdr_FSSTAT3resfail = xseq
     [field xdr_post_op_attr FSSTAT3resfail_obj_attributes FSSTAT3resfail_obj_attributes_update]"

lemma xdr_FSSTAT3resfail_framed [xdr_framed]: "framed xdr_FSSTAT3resfail"
  by (auto simp: xdr_FSSTAT3resfail_def intro!: xdr_framed)

definition xdr_FSSTAT3res :: "FSSTAT3res xdrproc" where
  [xdr_defs]: "xdr_FSSTAT3res = xseq
     [field xdr_nfsstat3 FSSTAT3res_status FSSTAT3res_status_update,
      xdr_switch (\<lambda>objp.
        if FSSTAT3res_status objp = NFS3_OK
        then field xdr_FSSTAT3resok FSSTAT3res_u FSSTAT3res_u_update
        else field xdr_FSSTAT3resfail FSSTAT3res_u FSSTAT3res_u_update)]"

lemma xdr_FSSTAT3res_framed [xdr_framed]: "framed xdr_FSSTAT3res"
  by (auto simp: xdr_FSSTAT3res_def intro!: xdr_framed)

definition xdr_FSINFO3args :: "FSINFO3args xdrproc" where
  [xdr_defs]: "xdr_FSINFO3args = xseq
     [field xdr_nfs_fh3 FSINFO3args_fsroot FSINFO3args_fsroot_update]"

lemma xdr_FSINFO3args_framed [xdr_framed]: "framed xdr_FSINFO3args"
  by (auto simp: xdr_FSINFO3args_def intro!: xdr_framed)

definition xdr_FSINFO3resok :: "FSINFO3resok xdrproc" where
  [xdr_defs]: "xdr_FSINFO3resok = xseq
     [field xdr_post_op_attr FSINFO3resfail_obj_attributes FSINFO3resfail_obj_attributes_update,
      field xdr_uint32 FSINFO3resok_rtmax FSINFO3resok_rtmax_update,
      field xdr_uint32 FSINFO3resok_rtpref FSINFO3resok_rtpref_update,
      field xdr_uint32 FSINFO3resok_rtmult FSINFO3resok_rtmult_update,
      field xdr_uint32 FSINFO3resok_wtmax FSINFO3resok_wtmax_update,
      field xdr_uint32 FSINFO3resok_wtpref FSINFO3resok_wtpref_update,
      field xdr_uint32 FSINFO3resok_wtmult FSINFO3resok_wtmult_update,
      field xdr_uint32 FSINFO3resok_dtpref FSINFO3resok_dtpref_update,
      field xdr_size3 FSINFO3resok_maxfilesize FSINFO3resok_maxfilesize_update,
      field xdr_nfstime3 FSINFO3resok_time_delta FSINFO3resok_time_delta_update,
      field xdr_uint32 FSINFO3resok_properties FSINFO3resok_properties_update]"

lemma xdr_FSINFO3resok_framed [xdr_framed]: "framed xdr_FSINFO3resok"
  by (auto simp: xdr_FSINFO3resok_def intro!: xdr_framed)

definition xdr_FSINFO3resfail :: "'a FSINFO3resfail_scheme xdrproc" where
  [xdr_defs]: "xdr_FSINFO3resfail = xseq
     [field xdr_post_op_attr FSINFO3resfail_obj_attributes FSINFO3resfail_obj_attributes_update]"

lemma xdr_FSINFO3resfail_framed [xdr_framed]: "framed xdr_FSINFO3resfail"
  by (auto simp: xdr_FSINFO3resfail_def intro!: xdr_framed)

definition xdr_FSINFO3res :: "FSINFO3res xdrproc" where
  [xdr_defs]: "xdr_FSINFO3res = xseq
     [field xdr_nfsstat3 FSINFO3res_status FSINFO3res_status_update,
      xdr_switch (\<lambda>objp.
        if FSINFO3res_status objp = NFS3_OK
        then field xdr_FSINFO3resok FSINFO3res_u FSINFO3res_u_update
        else field xdr_FSINFO3resfail FSINFO3res_u FSINFO3res_u_update)]"

lemma xdr_FSINFO3res_framed [xdr_framed]: "framed xdr_FSINFO3res"
  by (auto simp: xdr_FSINFO3res_def intro!: xdr_framed)

definition xdr_PATHCONF3args :: "PATHCONF3args xdrproc" where
  [xdr_defs]: "xdr_PATHCONF3args = xseq
     [field xdr_nfs_fh3 PATHCONF3args_object PATHCONF3args_object_update]"

lemma xdr_PATHCONF3args_framed [xdr_framed]: "framed xdr_PATHCONF3args"
  by (auto simp: xdr_PATHCONF3args_def intro!: xdr_framed)

definition xdr_PATHCONF3resok :: "PATHCONF3resok xdrproc" where
  [xdr_defs]: "xdr_PATHCONF3resok = xseq
     [field xdr_post_op_attr PATHCONF3resfail_obj_attributes PATHCONF3resfail_obj_attributes_update,
      field xdr_uint32 PATHCONF3resok_linkmax PATHCONF3resok_linkmax_update,
      field xdr_uint32 PATHCONF3resok_name_max PATHCONF3resok_name_max_update,
      field xdr_bool PATHCONF3resok_no_trunc PATHCONF3resok_no_trunc_update,
      field xdr_bool PATHCONF3resok_chown_restricted PATHCONF3resok_chown_restricted_update,
      field xdr_bool PATHCONF3resok_case_insensitive PATHCONF3resok_case_insensitive_update,
      field xdr_bool PATHCONF3resok_case_preserving PATHCONF3resok_case_preserving_update]"

lemma xdr_PATHCONF3resok_framed [xdr_framed]: "framed xdr_PATHCONF3resok"
  by (auto simp: xdr_PATHCONF3resok_def intro!: xdr_framed)

definition xdr_PATHCONF3resfail :: "'a PATHCONF3resfail_scheme xdrproc" where
  [xdr_defs]: "xdr_PATHCONF3resfail = xseq
     [field xdr_post_op_attr PATHCONF3resfail_obj_attributes PATHCONF3resfail_obj_attributes_update]"

lemma xdr_PATHCONF3resfail_framed [xdr_framed]: "framed xdr_PATHCONF3resfail"
  by (auto simp: xdr_PATHCONF3resfail_def intro!: xdr_framed)

definition xdr_PATHCONF3res :: "PATHCONF3res xdrproc" where
  [xdr_defs]: "xdr_PATHCONF3res = xseq
     [field xdr_nfsstat3 PATHCONF3res_status PATHCONF3res_status_update,
      xdr_switch (\<lambda>objp.
        if PATHCONF3res_status objp = NFS3_OK
        then field xdr_PATHCONF3resok PATHCONF3res_u PATHCONF3res_u_update
        else field xdr_PATHCONF3resfail PATHCONF3res_u PATHCONF3res_u_update)]"

lemma xdr_PATHCONF3res_framed [xdr_framed]: "framed xdr_PATHCONF3res"
  by (auto simp: xdr_PATHCONF3res_def intro!: xdr_framed)

definition xdr_COMMIT3args :: "COMMIT3args xdrproc" where
  [xdr_defs]: "xdr_COMMIT3args = xseq
     [field xdr_nfs_fh3 COMMIT3args_file COMMIT3args_file_update,
      field xdr_offset3 COMMIT3args_offset COMMIT3args_offset_update,
      field xdr_count3 COMMIT3args_count COMMIT3args_count_update]"

lemma xdr_COMMIT3args_framed [xdr_framed]: "framed xdr_COMMIT3args"
  by (auto simp: xdr_COMMIT3args_def intro!: xdr_framed)

definition xdr_COMMIT3resok :: "COMMIT3resok xdrproc" where
  [xdr_defs]: "xdr_COMMIT3resok = xseq
     [field xdr_wcc_data COMMIT3resfail_file_wcc COMMIT3resfail_file_wcc_update,
      field xdr_writeverf3 COMMIT3resok_verf COMMIT3resok_verf_update]"

lemma xdr_COMMIT3resok_framed [xdr_framed]: "framed xdr_COMMIT3resok"
  by (auto simp: xdr_COMMIT3resok_def intro!: xdr_framed)

definition xdr_COMMIT3resfail :: "'a COMMIT3resfail_scheme xdrproc" where
  [xdr_defs]: "xdr_COMMIT3resfail = xseq
     [field xdr_wcc_data COMMIT3resfail_file_wcc COMMIT3resfail_file_wcc_update]"

lemma xdr_COMMIT3resfail_framed [xdr_framed]: "framed xdr_COMMIT3resfail"
  by (auto simp: xdr_COMMIT3resfail_def intro!: xdr_framed)

definition xdr_COMMIT3res :: "COMMIT3res xdrproc" where
  [xdr_defs]: "xdr_COMMIT3res = xseq
     [field xdr_nfsstat3 COMMIT3res_status COMMIT3res_status_update,
      xdr_switch (\<lambda>objp.
        if COMMIT3res_status objp = NFS3_OK
        then field xdr_COMMIT3resok COMMIT3res_u COMMIT3res_u_update
        else field xdr_COMMIT3resfail COMMIT3res_u COMMIT3res_u_update)]"

lemma xdr_COMMIT3res_framed [xdr_framed]: "framed xdr_COMMIT3res"
  by (auto simp: xdr_COMMIT3res_def intro!: xdr_framed)

end
