(* ===== verification/Xdr_Dir.thy ===== *)
theory Xdr_Dir
  imports Xdr_Calls
begin

text \<open>
  The filters of \<open>unfs3/xdr.c\<close> for directory listings. \<open>xdr_entry3\<close> and
  \<open>xdr_entryplus3\<close> call themselves through \<open>xdr_pointer\<close> for the next entry: encoding ends
  with the list, decoding because every entry consumes input.
\<close>

section \<open>Linked entries\<close>

lemma xdr_pointer_call:
  assumes "xdr_bool xdrs (if p = None then FALSE else TRUE) = Some (x1, b)" and "b \<noteq> FALSE"
  shows "x_op x1 = x_op xdrs"
    and "x_op xdrs = XDR_DECODE \<Longrightarrow> length (x_in x1) < length (x_in xdrs)"
    and "x_op xdrs \<noteq> XDR_DECODE \<Longrightarrow> p \<noteq> None"
  using assms by (auto simp: xdr_bool_def x_getbytes_def x_putbytes_def
      split: xdr_op.splits if_splits option.splits)

function xdr_entry3 :: "entry3 xdrproc" where
  "xdr_entry3 xdrs objp =
     (case xdr_fileid3 xdrs (entry3_fileid objp) of None \<Rightarrow> None | Some (x1, fileid) \<Rightarrow>
     (case xdr_filename3 x1 (entry3_name objp) of None \<Rightarrow> None | Some (x2, name) \<Rightarrow>
     (case xdr_cookie3 x2 (entry3_cookie objp) of None \<Rightarrow> None | Some (x3, cookie) \<Rightarrow>
     (case xdr_pointer xdr_entry3 x3 (entry3_nextentry objp) of None \<Rightarrow> None
      | Some (x4, nextentry) \<Rightarrow> Some (x4, Entry3 fileid name cookie nextentry)))))"
  by pat_completeness auto
termination
proof (relation "measure (\<lambda>(xdrs, e). if x_op xdrs = XDR_DECODE then length (x_in xdrs) else size e)")
  fix xdrs :: XDR and objp :: entry3
    and a x1 fileid b x2 name c x3 cookie x4 d
  assume "xdr_fileid3 xdrs (entry3_fileid objp) = Some a" "(x1, fileid) = a"
    and "xdr_filename3 x1 (entry3_name objp) = Some b" "(x2, name) = b"
    and "xdr_cookie3 x2 (entry3_cookie objp) = Some c" "(x3, cookie) = c"
    and call: "xdr_bool x3 (if entry3_nextentry objp = None then FALSE else TRUE) = Some (x4, d)"
      "d \<noteq> FALSE"
  then have "x_op x3 = x_op xdrs" "length (x_in x3) \<le> length (x_in xdrs)"
    using framed_shrinks [OF xdr_fileid3_framed, of xdrs "entry3_fileid objp" x1 fileid]
      framed_shrinks [OF xdr_filename3_framed, of x1 "entry3_name objp" x2 name]
      framed_shrinks [OF xdr_cookie3_framed, of x2 "entry3_cookie objp" x3 cookie] by auto
  then show "((x4, case entry3_nextentry objp of None \<Rightarrow> default | Some v \<Rightarrow> v), xdrs, objp)
      \<in> measure (\<lambda>(xdrs, e). if x_op xdrs = XDR_DECODE then length (x_in xdrs) else size e)"
    using xdr_pointer_call [OF call] by (cases objp) (auto split: option.split)
qed simp

declare xdr_entry3.simps [simp del]

lemma xdr_entry3_framed [xdr_framed]: "framed xdr_entry3"
proof (rule framedI)
  fix xdrs obj xdrs' obj'
  assume "xdr_entry3 xdrs obj = Some (xdrs', obj')"
  then show "stream_step xdrs xdrs' \<and> (x_op xdrs = XDR_ENCODE \<longrightarrow> obj' = obj)"
  proof (induction xdrs obj arbitrary: xdrs' obj' rule: xdr_entry3.induct)
    case (1 xdrs objp)
    from "1.prems" obtain x1 fileid x2 name x3 cookie nextentry where
      a: "xdr_fileid3 xdrs (entry3_fileid objp) = Some (x1, fileid)"
      and b: "xdr_filename3 x1 (entry3_name objp) = Some (x2, name)"
      and c: "xdr_cookie3 x2 (entry3_cookie objp) = Some (x3, cookie)"
      and d: "xdr_pointer xdr_entry3 x3 (entry3_nextentry objp) = Some (xdrs', nextentry)"
      and obj': "obj' = Entry3 fileid name cookie nextentry"
      by (auto simp: xdr_entry3.simps [of xdrs objp] split: option.splits)
    note fa = framedD [OF xdr_fileid3_framed a]
    note fb = framedD [OF xdr_filename3_framed b]
    note fc = framedD [OF xdr_cookie3_framed c]
    have fd: "stream_step x3 xdrs' \<and> (x_op x3 = XDR_ENCODE \<longrightarrow> nextentry = entry3_nextentry objp)"
      using d by (rule xdr_pointer_step) (use "1.IH" a b c in blast)
    have "stream_step xdrs x3"
      by (rule stream_step_trans [OF fa(1) stream_step_trans [OF fb(1) fc(1)]])
    then show ?case
      using stream_step_trans [of xdrs x3 xdrs'] fa(2) fb(2) fc(2) fd obj'
        stream_step_op [OF fa(1)] stream_step_op [OF fb(1)] stream_step_op [OF fc(1)] by auto
  qed
qed

function xdr_entryplus3 :: "entryplus3 xdrproc" where
  "xdr_entryplus3 xdrs objp =
     (case xdr_fileid3 xdrs (entryplus3_fileid objp) of None \<Rightarrow> None | Some (x1, fileid) \<Rightarrow>
     (case xdr_filename3 x1 (entryplus3_name objp) of None \<Rightarrow> None | Some (x2, name) \<Rightarrow>
     (case xdr_cookie3 x2 (entryplus3_cookie objp) of None \<Rightarrow> None | Some (x3, cookie) \<Rightarrow>
     (case xdr_post_op_attr x3 (entryplus3_name_attributes objp) of None \<Rightarrow> None | Some (x4, attrs) \<Rightarrow>
     (case xdr_post_op_fh3 x4 (entryplus3_name_handle objp) of None \<Rightarrow> None | Some (x5, handle) \<Rightarrow>
     (case xdr_pointer xdr_entryplus3 x5 (entryplus3_nextentry objp) of None \<Rightarrow> None
      | Some (x6, nextentry) \<Rightarrow>
          Some (x6, Entryplus3 fileid name cookie attrs handle nextentry)))))))"
  by pat_completeness auto
termination
proof (relation "measure (\<lambda>(xdrs, e). if x_op xdrs = XDR_DECODE then length (x_in xdrs) else size e)")
  fix xdrs :: XDR and objp :: entryplus3
    and a x1 fileid b x2 name c x3 cookie p x4 attrs q x5 handle x6 d
  assume "xdr_fileid3 xdrs (entryplus3_fileid objp) = Some a" "(x1, fileid) = a"
    and "xdr_filename3 x1 (entryplus3_name objp) = Some b" "(x2, name) = b"
    and "xdr_cookie3 x2 (entryplus3_cookie objp) = Some c" "(x3, cookie) = c"
    and "xdr_post_op_attr x3 (entryplus3_name_attributes objp) = Some p" "(x4, attrs) = p"
    and "xdr_post_op_fh3 x4 (entryplus3_name_handle objp) = Some q" "(x5, handle) = q"
    and call: "xdr_bool x5 (if entryplus3_nextentry objp = None then FALSE else TRUE) = Some (x6, d)"
      "d \<noteq> FALSE"
  then have "x_op x5 = x_op xdrs" "length (x_in x5) \<le> length (x_in xdrs)"
    using framed_shrinks [OF xdr_fileid3_framed, of xdrs "entryplus3_fileid objp" x1 fileid]
      framed_shrinks [OF xdr_filename3_framed, of x1 "entryplus3_name objp" x2 name]
      framed_shrinks [OF xdr_cookie3_framed, of x2 "entryplus3_cookie objp" x3 cookie]
      framed_shrinks [OF xdr_post_op_attr_framed, of x3 "entryplus3_name_attributes objp" x4 attrs]
      framed_shrinks [OF xdr_post_op_fh3_framed, of x4 "entryplus3_name_handle objp" x5 handle]
    by auto
  then show "((x6, case entryplus3_nextentry objp of None \<Rightarrow> default | Some v \<Rightarrow> v), xdrs, objp)
      \<in> measure (\<lambda>(xdrs, e). if x_op xdrs = XDR_DECODE then length (x_in xdrs) else size e)"
    using xdr_pointer_call [OF call] by (cases objp) (auto split: option.split)
qed simp

declare xdr_entryplus3.simps [simp del]

lemma xdr_entryplus3_framed [xdr_framed]: "framed xdr_entryplus3"
proof (rule framedI)
  fix xdrs obj xdrs' obj'
  assume "xdr_entryplus3 xdrs obj = Some (xdrs', obj')"
  then show "stream_step xdrs xdrs' \<and> (x_op xdrs = XDR_ENCODE \<longrightarrow> obj' = obj)"
  proof (induction xdrs obj arbitrary: xdrs' obj' rule: xdr_entryplus3.induct)
    case (1 xdrs objp)
    from "1.prems" obtain x1 fileid x2 name x3 cookie x4 attrs x5 handle nextentry where
      a: "xdr_fileid3 xdrs (entryplus3_fileid objp) = Some (x1, fileid)"
      and b: "xdr_filename3 x1 (entryplus3_name objp) = Some (x2, name)"
      and c: "xdr_cookie3 x2 (entryplus3_cookie objp) = Some (x3, cookie)"
      and p: "xdr_post_op_attr x3 (entryplus3_name_attributes objp) = Some (x4, attrs)"
      and q: "xdr_post_op_fh3 x4 (entryplus3_name_handle objp) = Some (x5, handle)"
      and d: "xdr_pointer xdr_entryplus3 x5 (entryplus3_nextentry objp) = Some (xdrs', nextentry)"
      and obj': "obj' = Entryplus3 fileid name cookie attrs handle nextentry"
      by (auto simp: xdr_entryplus3.simps [of xdrs objp] split: option.splits)
    note fa = framedD [OF xdr_fileid3_framed a]
    note fb = framedD [OF xdr_filename3_framed b]
    note fc = framedD [OF xdr_cookie3_framed c]
    note fp = framedD [OF xdr_post_op_attr_framed p]
    note fq = framedD [OF xdr_post_op_fh3_framed q]
    have fd: "stream_step x5 xdrs' \<and> (x_op x5 = XDR_ENCODE \<longrightarrow> nextentry = entryplus3_nextentry objp)"
      using d by (rule xdr_pointer_step) (use "1.IH" a b c p q in blast)
    have "stream_step xdrs x5"
      by (rule stream_step_trans [OF fa(1) stream_step_trans [OF fb(1) stream_step_trans
            [OF fc(1) stream_step_trans [OF fp(1) fq(1)]]]])
    then show ?case
      using stream_step_trans [of xdrs x5 xdrs'] fa(2) fb(2) fc(2) fp(2) fq(2) fd obj'
        stream_step_op [OF fa(1)] stream_step_op [OF fb(1)] stream_step_op [OF fc(1)]
        stream_step_op [OF fp(1)] stream_step_op [OF fq(1)] by auto
  qed
qed

section \<open>Listings\<close>

definition xdr_READDIR3args :: "READDIR3args xdrproc" where
  [xdr_defs]: "xdr_READDIR3args = xseq
     [field xdr_nfs_fh3 READDIR3args_dir READDIR3args_dir_update,
      field xdr_cookie3 READDIR3args_cookie READDIR3args_cookie_update,
      field xdr_cookieverf3 READDIR3args_cookieverf READDIR3args_cookieverf_update,
      field xdr_count3 READDIR3args_count READDIR3args_count_update]"

lemma xdr_READDIR3args_framed [xdr_framed]: "framed xdr_READDIR3args"
  by (auto simp: xdr_READDIR3args_def intro!: xdr_framed)

definition xdr_dirlist3 :: "dirlist3 xdrproc" where
  [xdr_defs]: "xdr_dirlist3 = xseq
     [field (xdr_pointer xdr_entry3) dirlist3_entries dirlist3_entries_update,
      field xdr_bool dirlist3_eof dirlist3_eof_update]"

lemma xdr_dirlist3_framed [xdr_framed]: "framed xdr_dirlist3"
  by (auto simp: xdr_dirlist3_def intro!: xdr_framed)

definition xdr_READDIR3resok :: "READDIR3resok xdrproc" where
  [xdr_defs]: "xdr_READDIR3resok = xseq
     [field xdr_post_op_attr READDIR3resfail_dir_attributes READDIR3resfail_dir_attributes_update,
      field xdr_cookieverf3 READDIR3resok_cookieverf READDIR3resok_cookieverf_update,
      field xdr_dirlist3 READDIR3resok_reply READDIR3resok_reply_update]"

lemma xdr_READDIR3resok_framed [xdr_framed]: "framed xdr_READDIR3resok"
  by (auto simp: xdr_READDIR3resok_def intro!: xdr_framed)

definition xdr_READDIR3resfail :: "'a READDIR3resfail_scheme xdrproc" where
  [xdr_defs]: "xdr_READDIR3resfail = xseq
     [field xdr_post_op_attr READDIR3resfail_dir_attributes READDIR3resfail_dir_attributes_update]"

lemma xdr_READDIR3resfail_framed [xdr_framed]: "framed xdr_READDIR3resfail"
  by (auto simp: xdr_READDIR3resfail_def intro!: xdr_framed)

definition xdr_READDIR3res :: "READDIR3res xdrproc" where
  [xdr_defs]: "xdr_READDIR3res = xseq
     [field xdr_nfsstat3 READDIR3res_status READDIR3res_status_update,
      xdr_switch (\<lambda>objp.
        if READDIR3res_status objp = NFS3_OK
        then field xdr_READDIR3resok READDIR3res_u READDIR3res_u_update
        else field xdr_READDIR3resfail READDIR3res_u READDIR3res_u_update)]"

lemma xdr_READDIR3res_framed [xdr_framed]: "framed xdr_READDIR3res"
  by (auto simp: xdr_READDIR3res_def intro!: xdr_framed)

definition xdr_READDIRPLUS3args :: "READDIRPLUS3args xdrproc" where
  [xdr_defs]: "xdr_READDIRPLUS3args = xseq
     [field xdr_nfs_fh3 READDIRPLUS3args_dir READDIRPLUS3args_dir_update,
      field xdr_cookie3 READDIRPLUS3args_cookie READDIRPLUS3args_cookie_update,
      field xdr_cookieverf3 READDIRPLUS3args_cookieverf READDIRPLUS3args_cookieverf_update,
      field xdr_count3 READDIRPLUS3args_dircount READDIRPLUS3args_dircount_update,
      field xdr_count3 READDIRPLUS3args_maxcount READDIRPLUS3args_maxcount_update]"

lemma xdr_READDIRPLUS3args_framed [xdr_framed]: "framed xdr_READDIRPLUS3args"
  by (auto simp: xdr_READDIRPLUS3args_def intro!: xdr_framed)

definition xdr_dirlistplus3 :: "dirlistplus3 xdrproc" where
  [xdr_defs]: "xdr_dirlistplus3 = xseq
     [field (xdr_pointer xdr_entryplus3) dirlistplus3_entries dirlistplus3_entries_update,
      field xdr_bool dirlistplus3_eof dirlistplus3_eof_update]"

lemma xdr_dirlistplus3_framed [xdr_framed]: "framed xdr_dirlistplus3"
  by (auto simp: xdr_dirlistplus3_def intro!: xdr_framed)

definition xdr_READDIRPLUS3resok :: "READDIRPLUS3resok xdrproc" where
  [xdr_defs]: "xdr_READDIRPLUS3resok = xseq
     [field xdr_post_op_attr READDIRPLUS3resfail_dir_attributes READDIRPLUS3resfail_dir_attributes_update,
      field xdr_cookieverf3 READDIRPLUS3resok_cookieverf READDIRPLUS3resok_cookieverf_update,
      field xdr_dirlistplus3 READDIRPLUS3resok_reply READDIRPLUS3resok_reply_update]"

lemma xdr_READDIRPLUS3resok_framed [xdr_framed]: "framed xdr_READDIRPLUS3resok"
  by (auto simp: xdr_READDIRPLUS3resok_def intro!: xdr_framed)

definition xdr_READDIRPLUS3resfail :: "'a READDIRPLUS3resfail_scheme xdrproc" where
  [xdr_defs]: "xdr_READDIRPLUS3resfail = xseq
     [field xdr_post_op_attr READDIRPLUS3resfail_dir_attributes READDIRPLUS3resfail_dir_attributes_update]"

lemma xdr_READDIRPLUS3resfail_framed [xdr_framed]: "framed xdr_READDIRPLUS3resfail"
  by (auto simp: xdr_READDIRPLUS3resfail_def intro!: xdr_framed)

definition xdr_READDIRPLUS3res :: "READDIRPLUS3res xdrproc" where
  [xdr_defs]: "xdr_READDIRPLUS3res = xseq
     [field xdr_nfsstat3 READDIRPLUS3res_status READDIRPLUS3res_status_update,
      xdr_switch (\<lambda>objp.
        if READDIRPLUS3res_status objp = NFS3_OK
        then field xdr_READDIRPLUS3resok READDIRPLUS3res_u READDIRPLUS3res_u_update
        else field xdr_READDIRPLUS3resfail READDIRPLUS3res_u READDIRPLUS3res_u_update)]"

lemma xdr_READDIRPLUS3res_framed [xdr_framed]: "framed xdr_READDIRPLUS3res"
  by (auto simp: xdr_READDIRPLUS3res_def intro!: xdr_framed)

end
