(* ===== verification/Xdr_Codec.thy ===== *)
theory Xdr_Codec
  imports Xdr_Dir
begin

text \<open>
  Encoding followed by decoding, for every structure of the NFS protocol. \<open>ok_T\<close> says when a
  value of \<open>T\<close> can be sent: flags are \<open>TRUE\<close> or \<open>FALSE\<close>, strings are NUL-free, counted
  data has the counted length. \<open>vis_T\<close> is what the peer sees of a value the server sends:
  members hidden by the tag of their union are cleared. For the structures of the arguments
  \<open>ok_T\<close> asks that hidden members are clear already, as they are after decoding.
\<close>

section \<open>Scalars, names, verifiers\<close>

definition ok_bool :: "bool_t \<Rightarrow> bool" where
  "ok_bool b \<longleftrightarrow> b = TRUE \<or> b = FALSE"

definition ok_name :: "charptr \<Rightarrow> bool" where
  "ok_name p \<longleftrightarrow> str_ok (NOT 0) p"

definition ok_verf :: "byte list \<Rightarrow> bool" where
  "ok_verf v \<longleftrightarrow> length v = 8"

lemma byte_and_255: "(ucast (w AND 0xFF) :: byte) = ucast (w :: u64)"
proof -
  have mask: "(0xFF :: u64) = mask 8" by (simp add: mask_eq_exp_minus_1)
  show ?thesis unfolding mask by (auto intro!: bit_word_eqI simp: bit_simps)
qed

lemma u64_halves: "push_bit 32 (ucast (ucast (drop_bit 32 w) :: u32)) OR ucast (ucast w :: u32) = (w :: u64)"
  by (rule bit_word_eqI) (auto simp: bit_simps)

lemma u64_buf:
  "[ucast (drop_bit 56 w), ucast (drop_bit 48 w), ucast (drop_bit 40 w), ucast (drop_bit 32 w),
    ucast (drop_bit 24 w), ucast (drop_bit 16 w), ucast (drop_bit 8 w), ucast w] =
   be32 (ucast (drop_bit 32 w)) @ be32 (ucast (w :: u64))"
  by (auto simp: be32_def intro!: bit_word_eqI simp: bit_simps)

lemma xdr_uint64_rtrip [xdr_rt]: "rtrip xdr_uint64 y x x"
proof (rule rtripI [of "be32 (ucast (drop_bit 32 x)) @ be32 (ucast x)"])
  let ?bs = "be32 (ucast (drop_bit 32 x)) @ be32 (ucast x)"
  show "xdr_uint64 (encoder out inp) x = Some (encoder (out @ ?bs) inp, x)" for out inp
    by (simp add: xdr_uint64_def byte_and_255 u64_buf xdr_opaque_encode)
  show "xdr_uint64 (decoder out (?bs @ rest)) y = Some (decoder out rest, x)" for out rest
    using xdr_opaque_decode [of ?bs 8 out rest "[]"]
    by (simp add: xdr_uint64_def u64_halves)
qed simp

lemma xdr_uint32_rtrip [xdr_rt]: "rtrip xdr_uint32 y x x"
  by (simp add: xdr_uint32_def xdr_rt)

lemma xdr_fileid3_rtrip [xdr_rt]: "rtrip xdr_fileid3 y x x"
  by (simp add: xdr_fileid3_def xdr_rt)

lemma xdr_cookie3_rtrip [xdr_rt]: "rtrip xdr_cookie3 y x x"
  by (simp add: xdr_cookie3_def xdr_rt)

lemma xdr_uid3_rtrip [xdr_rt]: "rtrip xdr_uid3 y x x"
  by (simp add: xdr_uid3_def xdr_rt)

lemma xdr_gid3_rtrip [xdr_rt]: "rtrip xdr_gid3 y x x"
  by (simp add: xdr_gid3_def xdr_rt)

lemma xdr_size3_rtrip [xdr_rt]: "rtrip xdr_size3 y x x"
  by (simp add: xdr_size3_def xdr_rt)

lemma xdr_offset3_rtrip [xdr_rt]: "rtrip xdr_offset3 y x x"
  by (simp add: xdr_offset3_def xdr_rt)

lemma xdr_mode3_rtrip [xdr_rt]: "rtrip xdr_mode3 y x x"
  by (simp add: xdr_mode3_def xdr_rt)

lemma xdr_count3_rtrip [xdr_rt]: "rtrip xdr_count3 y x x"
  by (simp add: xdr_count3_def xdr_rt)

lemma xdr_nfsstat3_rtrip [xdr_rt]: "rtrip xdr_nfsstat3 y x x"
  by (simp add: xdr_nfsstat3_def xdr_rt)

lemma xdr_ftype3_rtrip [xdr_rt]: "rtrip xdr_ftype3 y x x"
  by (simp add: xdr_ftype3_def xdr_rt)

lemma xdr_time_how_rtrip [xdr_rt]: "rtrip xdr_time_how y x x"
  by (simp add: xdr_time_how_def xdr_rt)

lemma xdr_stable_how_rtrip [xdr_rt]: "rtrip xdr_stable_how y x x"
  by (simp add: xdr_stable_how_def xdr_rt)

lemma xdr_createmode3_rtrip [xdr_rt]: "rtrip xdr_createmode3 y x x"
  by (simp add: xdr_createmode3_def xdr_rt)

lemma ok_bool_rtrip [xdr_rt]: "ok_bool x \<Longrightarrow> rtrip xdr_bool y x x"
  unfolding ok_bool_def by (rule xdr_bool_rtrip)

lemma xdr_filename3_rtrip [xdr_rt]: "ok_name x \<Longrightarrow> rtrip xdr_filename3 y x x"
  unfolding ok_name_def xdr_filename3_def by (rule xdr_string_rtrip)

lemma xdr_nfspath3_rtrip [xdr_rt]: "ok_name x \<Longrightarrow> rtrip xdr_nfspath3 y x x"
  unfolding ok_name_def xdr_nfspath3_def by (rule xdr_string_rtrip)

text \<open>A verifier is an array in its structure: it is cleared to eight zero bytes, not to \<open>NULL\<close>.\<close>

lemma xdr_verf_rtrip [xdr_rt]:
  assumes "ok_verf x" and "length y \<le> 8"
  shows "rtrip xdr_cookieverf3 y x x" "rtrip xdr_createverf3 y x x" "rtrip xdr_writeverf3 y x x"
  using assms xdr_opaque_rtrip [of x 8 y]
  by (auto simp: ok_verf_def xdr_cookieverf3_def xdr_createverf3_def xdr_writeverf3_def c_consts)

lemma field_verf_rtrip:
  assumes "ok_verf (sel x)" and "length (sel y) \<le> 8" and "upd (\<lambda>_. sel x) x = x"
    and "upd (\<lambda>_. sel x) y = z"
  shows "rtrip (field xdr_cookieverf3 sel upd) y x z" "rtrip (field xdr_createverf3 sel upd) y x z"
    "rtrip (field xdr_writeverf3 sel upd) y x z"
  using assms by (auto intro!: field_rtrip_at xdr_verf_rtrip)

lemmas codec_steps = field_verf_rtrip rtrip_steps

lemma counted_ok_rtrip [xdr_rt]: "counted_ok m x \<Longrightarrow> rtrip (xdr_bytes m) default x x"
  by (rule xdr_bytes_rtrip) (simp_all add: zero_mem)

lemma counted_fits_rtrip [xdr_rt]:
  "counted_fits m x \<Longrightarrow> rtrip (xdr_bytes m) default x (counted_vis x)"
  by (rule xdr_bytes_rtrip_vis) (simp_all add: zero_mem)

section \<open>Attributes and handles\<close>

lemma xdr_specdata3_rtrip [xdr_rt]:
  "rtrip xdr_specdata3 default x x"
  unfolding xdr_specdata3_def
  by (cases x; (elim disjE conjE)?; (rule codec_steps xdr_rt refl | simp add: zero_mem c_consts)+)

lemma xdr_nfstime3_rtrip [xdr_rt]:
  "rtrip xdr_nfstime3 default x x"
  unfolding xdr_nfstime3_def
  by (cases x; (elim disjE conjE)?; (rule codec_steps xdr_rt refl | simp add: zero_mem c_consts)+)

lemma xdr_fattr3_rtrip [xdr_rt]:
  "rtrip xdr_fattr3 default x x"
  unfolding xdr_fattr3_def
  by (cases x; (elim disjE conjE)?; (rule codec_steps xdr_rt refl | simp add: zero_mem c_consts)+)

lemma xdr_wcc_attr_rtrip [xdr_rt]:
  "rtrip xdr_wcc_attr default x x"
  unfolding xdr_wcc_attr_def
  by (cases x; (elim disjE conjE)?; (rule codec_steps xdr_rt refl | simp add: zero_mem c_consts)+)

definition ok_nfs_fh3 :: "nfs_fh3 \<Rightarrow> bool" where
  "ok_nfs_fh3 x \<longleftrightarrow> counted_ok NFS3_FHSIZE (nfs_fh3_data x)"

lemma xdr_nfs_fh3_rtrip [xdr_rt]:
  "ok_nfs_fh3 x \<Longrightarrow> rtrip xdr_nfs_fh3 default x x"
  unfolding xdr_nfs_fh3_def ok_nfs_fh3_def
  by (cases x; (elim disjE conjE)?; (rule codec_steps xdr_rt refl | simp add: zero_mem c_consts)+)

definition ok_post_op_attr :: "post_op_attr \<Rightarrow> bool" where
  "ok_post_op_attr x \<longleftrightarrow> post_op_attr_attributes_follow x = TRUE \<or> post_op_attr_attributes_follow x = FALSE"

definition vis_post_op_attr :: "post_op_attr \<Rightarrow> post_op_attr" where
  "vis_post_op_attr x = (if post_op_attr_attributes_follow x = TRUE then x else default)"

lemma xdr_post_op_attr_rtrip [xdr_rt]:
  "ok_post_op_attr x \<Longrightarrow> rtrip xdr_post_op_attr default x (vis_post_op_attr x)"
  unfolding xdr_post_op_attr_def ok_post_op_attr_def vis_post_op_attr_def
  by (cases x; (elim disjE conjE)?; (rule codec_steps xdr_rt refl | simp add: zero_mem c_consts)+)

definition ok_pre_op_attr :: "pre_op_attr \<Rightarrow> bool" where
  "ok_pre_op_attr x \<longleftrightarrow> pre_op_attr_attributes_follow x = TRUE \<or> pre_op_attr_attributes_follow x = FALSE"

definition vis_pre_op_attr :: "pre_op_attr \<Rightarrow> pre_op_attr" where
  "vis_pre_op_attr x = (if pre_op_attr_attributes_follow x = TRUE then x else default)"

lemma xdr_pre_op_attr_rtrip [xdr_rt]:
  "ok_pre_op_attr x \<Longrightarrow> rtrip xdr_pre_op_attr default x (vis_pre_op_attr x)"
  unfolding xdr_pre_op_attr_def ok_pre_op_attr_def vis_pre_op_attr_def
  by (cases x; (elim disjE conjE)?; (rule codec_steps xdr_rt refl | simp add: zero_mem c_consts)+)

definition ok_wcc_data :: "wcc_data \<Rightarrow> bool" where
  "ok_wcc_data x \<longleftrightarrow> ok_pre_op_attr (wcc_data_before x) \<and>
     ok_post_op_attr (wcc_data_after x)"

definition vis_wcc_data :: "wcc_data \<Rightarrow> wcc_data" where
  "vis_wcc_data x = x\<lparr>wcc_data_before := vis_pre_op_attr (wcc_data_before x),
     wcc_data_after := vis_post_op_attr (wcc_data_after x)\<rparr>"

lemma xdr_wcc_data_rtrip [xdr_rt]:
  "ok_wcc_data x \<Longrightarrow> rtrip xdr_wcc_data default x (vis_wcc_data x)"
  unfolding xdr_wcc_data_def ok_wcc_data_def vis_wcc_data_def
  by (cases x; (elim disjE conjE)?; (rule codec_steps xdr_rt refl | simp add: zero_mem c_consts)+)

definition ok_post_op_fh3 :: "post_op_fh3 \<Rightarrow> bool" where
  "ok_post_op_fh3 x \<longleftrightarrow> post_op_fh3_handle_follows x = TRUE \<and> ok_nfs_fh3 (post_op_fh3_handle x) \<or> post_op_fh3_handle_follows x = FALSE"

definition vis_post_op_fh3 :: "post_op_fh3 \<Rightarrow> post_op_fh3" where
  "vis_post_op_fh3 x = (if post_op_fh3_handle_follows x = TRUE then x else default)"

lemma xdr_post_op_fh3_rtrip [xdr_rt]:
  "ok_post_op_fh3 x \<Longrightarrow> rtrip xdr_post_op_fh3 default x (vis_post_op_fh3 x)"
  unfolding xdr_post_op_fh3_def ok_post_op_fh3_def vis_post_op_fh3_def
  by (cases x; (elim disjE conjE)?; (rule codec_steps xdr_rt refl | simp add: zero_mem c_consts)+)

section \<open>Settable attributes\<close>

definition ok_set_mode3 :: "set_mode3 \<Rightarrow> bool" where
  "ok_set_mode3 x \<longleftrightarrow> set_mode3_set_it x = TRUE \<or> set_mode3_set_it x = FALSE \<and> set_mode3_mode x = default"

lemma xdr_set_mode3_rtrip [xdr_rt]:
  "ok_set_mode3 x \<Longrightarrow> rtrip xdr_set_mode3 default x x"
  unfolding xdr_set_mode3_def ok_set_mode3_def
  by (cases x; (elim disjE conjE)?; (rule codec_steps xdr_rt refl | simp add: zero_mem c_consts)+)

definition ok_set_uid3 :: "set_uid3 \<Rightarrow> bool" where
  "ok_set_uid3 x \<longleftrightarrow> set_uid3_set_it x = TRUE \<or> set_uid3_set_it x = FALSE \<and> set_uid3_uid x = default"

lemma xdr_set_uid3_rtrip [xdr_rt]:
  "ok_set_uid3 x \<Longrightarrow> rtrip xdr_set_uid3 default x x"
  unfolding xdr_set_uid3_def ok_set_uid3_def
  by (cases x; (elim disjE conjE)?; (rule codec_steps xdr_rt refl | simp add: zero_mem c_consts)+)

definition ok_set_gid3 :: "set_gid3 \<Rightarrow> bool" where
  "ok_set_gid3 x \<longleftrightarrow> set_gid3_set_it x = TRUE \<or> set_gid3_set_it x = FALSE \<and> set_gid3_gid x = default"

lemma xdr_set_gid3_rtrip [xdr_rt]:
  "ok_set_gid3 x \<Longrightarrow> rtrip xdr_set_gid3 default x x"
  unfolding xdr_set_gid3_def ok_set_gid3_def
  by (cases x; (elim disjE conjE)?; (rule codec_steps xdr_rt refl | simp add: zero_mem c_consts)+)

definition ok_set_size3 :: "set_size3 \<Rightarrow> bool" where
  "ok_set_size3 x \<longleftrightarrow> set_size3_set_it x = TRUE \<or> set_size3_set_it x = FALSE \<and> set_size3_size x = default"

lemma xdr_set_size3_rtrip [xdr_rt]:
  "ok_set_size3 x \<Longrightarrow> rtrip xdr_set_size3 default x x"
  unfolding xdr_set_size3_def ok_set_size3_def
  by (cases x; (elim disjE conjE)?; (rule codec_steps xdr_rt refl | simp add: zero_mem c_consts)+)

definition ok_set_atime :: "set_atime \<Rightarrow> bool" where
  "ok_set_atime x \<longleftrightarrow>
     set_atime_set_it x = SET_TO_CLIENT_TIME \<or>
     set_atime_set_it x \<noteq> SET_TO_CLIENT_TIME \<and> set_atime_atime x = default"

lemma xdr_set_atime_rtrip [xdr_rt]:
  "ok_set_atime x \<Longrightarrow> rtrip xdr_set_atime default x x"
  unfolding xdr_set_atime_def ok_set_atime_def
  by (cases x; (elim disjE conjE)?; (rule codec_steps xdr_rt refl | simp add: zero_mem c_consts)+)

definition ok_set_mtime :: "set_mtime \<Rightarrow> bool" where
  "ok_set_mtime x \<longleftrightarrow>
     set_mtime_set_it x = SET_TO_CLIENT_TIME \<or>
     set_mtime_set_it x \<noteq> SET_TO_CLIENT_TIME \<and> set_mtime_mtime x = default"

lemma xdr_set_mtime_rtrip [xdr_rt]:
  "ok_set_mtime x \<Longrightarrow> rtrip xdr_set_mtime default x x"
  unfolding xdr_set_mtime_def ok_set_mtime_def
  by (cases x; (elim disjE conjE)?; (rule codec_steps xdr_rt refl | simp add: zero_mem c_consts)+)

definition ok_sattr3 :: "sattr3 \<Rightarrow> bool" where
  "ok_sattr3 x \<longleftrightarrow> ok_set_mode3 (sattr3_mode x) \<and>
     ok_set_uid3 (sattr3_uid x) \<and>
     ok_set_gid3 (sattr3_gid x) \<and>
     ok_set_size3 (sattr3_size x) \<and>
     ok_set_atime (sattr3_atime x) \<and>
     ok_set_mtime (sattr3_mtime x)"

lemma xdr_sattr3_rtrip [xdr_rt]:
  "ok_sattr3 x \<Longrightarrow> rtrip xdr_sattr3 default x x"
  unfolding xdr_sattr3_def ok_sattr3_def
  by (cases x; (elim disjE conjE)?; (rule codec_steps xdr_rt refl | simp add: zero_mem c_consts)+)

definition ok_diropargs3 :: "diropargs3 \<Rightarrow> bool" where
  "ok_diropargs3 x \<longleftrightarrow> ok_nfs_fh3 (diropargs3_dir x) \<and>
     ok_name (diropargs3_name x)"

lemma xdr_diropargs3_rtrip [xdr_rt]:
  "ok_diropargs3 x \<Longrightarrow> rtrip xdr_diropargs3 default x x"
  unfolding xdr_diropargs3_def ok_diropargs3_def
  by (cases x; (elim disjE conjE)?; (rule codec_steps xdr_rt refl | simp add: zero_mem c_consts)+)

definition ok_sattrguard3 :: "sattrguard3 \<Rightarrow> bool" where
  "ok_sattrguard3 x \<longleftrightarrow>
     sattrguard3_check x = TRUE \<or>
     sattrguard3_check x = FALSE \<and> sattrguard3_obj_ctime x = default"

lemma xdr_sattrguard3_rtrip [xdr_rt]:
  "ok_sattrguard3 x \<Longrightarrow> rtrip xdr_sattrguard3 default x x"
  unfolding xdr_sattrguard3_def ok_sattrguard3_def
  by (cases x; (elim disjE conjE)?; (rule codec_steps xdr_rt refl | simp add: zero_mem c_consts)+)

definition ok_createhow3 :: "createhow3 \<Rightarrow> bool" where
  "ok_createhow3 x \<longleftrightarrow>
     createhow3_mode x = UNCHECKED \<and> ok_sattr3 (createhow3_obj_attributes x) \<and>
       createhow3_verf x = replicate 8 0 \<or>
     createhow3_mode x = GUARDED \<and> ok_sattr3 (createhow3_obj_attributes x) \<and>
       createhow3_verf x = replicate 8 0 \<or>
     createhow3_mode x = EXCLUSIVE \<and> createhow3_obj_attributes x = default \<and>
       ok_verf (createhow3_verf x)"

lemma xdr_createhow3_rtrip [xdr_rt]:
  "ok_createhow3 x \<Longrightarrow> rtrip xdr_createhow3 default x x"
  unfolding xdr_createhow3_def ok_createhow3_def
  by (cases x; (elim disjE conjE)?; (rule codec_steps xdr_rt refl | simp add: zero_mem c_consts)+)

definition ok_symlinkdata3 :: "symlinkdata3 \<Rightarrow> bool" where
  "ok_symlinkdata3 x \<longleftrightarrow> ok_sattr3 (symlinkdata3_symlink_attributes x) \<and>
     ok_name (symlinkdata3_symlink_data x)"

lemma xdr_symlinkdata3_rtrip [xdr_rt]:
  "ok_symlinkdata3 x \<Longrightarrow> rtrip xdr_symlinkdata3 default x x"
  unfolding xdr_symlinkdata3_def ok_symlinkdata3_def
  by (cases x; (elim disjE conjE)?; (rule codec_steps xdr_rt refl | simp add: zero_mem c_consts)+)

definition ok_devicedata3 :: "devicedata3 \<Rightarrow> bool" where
  "ok_devicedata3 x \<longleftrightarrow> ok_sattr3 (devicedata3_dev_attributes x)"

lemma xdr_devicedata3_rtrip [xdr_rt]:
  "ok_devicedata3 x \<Longrightarrow> rtrip xdr_devicedata3 default x x"
  unfolding xdr_devicedata3_def ok_devicedata3_def
  by (cases x; (elim disjE conjE)?; (rule codec_steps xdr_rt refl | simp add: zero_mem c_consts)+)

definition ok_mknoddata3 :: "mknoddata3 \<Rightarrow> bool" where
  "ok_mknoddata3 x \<longleftrightarrow>
     (mknoddata3_type x = NF3CHR \<or> mknoddata3_type x = NF3BLK) \<and>
       ok_devicedata3 (mknoddata3_device x) \<and> mknoddata3_pipe_attributes x = default \<or>
     (mknoddata3_type x = NF3SOCK \<or> mknoddata3_type x = NF3FIFO) \<and>
       ok_sattr3 (mknoddata3_pipe_attributes x) \<and> mknoddata3_device x = default \<or>
     mknoddata3_type x \<notin> {NF3CHR, NF3BLK, NF3SOCK, NF3FIFO} \<and>
       mknoddata3_device x = default \<and> mknoddata3_pipe_attributes x = default"

lemma xdr_mknoddata3_rtrip [xdr_rt]:
  "ok_mknoddata3 x \<Longrightarrow> rtrip xdr_mknoddata3 default x x"
  unfolding xdr_mknoddata3_def ok_mknoddata3_def
  by (cases x; (elim disjE conjE)?; (rule codec_steps xdr_rt refl | simp add: zero_mem c_consts)+)

section \<open>Arguments\<close>

definition ok_GETATTR3args :: "GETATTR3args \<Rightarrow> bool" where
  "ok_GETATTR3args x \<longleftrightarrow> ok_nfs_fh3 (GETATTR3args_object x)"

lemma xdr_GETATTR3args_rtrip [xdr_rt]:
  "ok_GETATTR3args x \<Longrightarrow> rtrip xdr_GETATTR3args default x x"
  unfolding xdr_GETATTR3args_def ok_GETATTR3args_def
  by (cases x; (elim disjE conjE)?; (rule codec_steps xdr_rt refl | simp add: zero_mem c_consts)+)

definition ok_SETATTR3args :: "SETATTR3args \<Rightarrow> bool" where
  "ok_SETATTR3args x \<longleftrightarrow> ok_nfs_fh3 (SETATTR3args_object x) \<and>
     ok_sattr3 (SETATTR3args_new_attributes x) \<and>
     ok_sattrguard3 (SETATTR3args_guard x)"

lemma xdr_SETATTR3args_rtrip [xdr_rt]:
  "ok_SETATTR3args x \<Longrightarrow> rtrip xdr_SETATTR3args default x x"
  unfolding xdr_SETATTR3args_def ok_SETATTR3args_def
  by (cases x; (elim disjE conjE)?; (rule codec_steps xdr_rt refl | simp add: zero_mem c_consts)+)

definition ok_LOOKUP3args :: "LOOKUP3args \<Rightarrow> bool" where
  "ok_LOOKUP3args x \<longleftrightarrow> ok_diropargs3 (LOOKUP3args_what x)"

lemma xdr_LOOKUP3args_rtrip [xdr_rt]:
  "ok_LOOKUP3args x \<Longrightarrow> rtrip xdr_LOOKUP3args default x x"
  unfolding xdr_LOOKUP3args_def ok_LOOKUP3args_def
  by (cases x; (elim disjE conjE)?; (rule codec_steps xdr_rt refl | simp add: zero_mem c_consts)+)

definition ok_ACCESS3args :: "ACCESS3args \<Rightarrow> bool" where
  "ok_ACCESS3args x \<longleftrightarrow> ok_nfs_fh3 (ACCESS3args_object x)"

lemma xdr_ACCESS3args_rtrip [xdr_rt]:
  "ok_ACCESS3args x \<Longrightarrow> rtrip xdr_ACCESS3args default x x"
  unfolding xdr_ACCESS3args_def ok_ACCESS3args_def
  by (cases x; (elim disjE conjE)?; (rule codec_steps xdr_rt refl | simp add: zero_mem c_consts)+)

definition ok_READLINK3args :: "READLINK3args \<Rightarrow> bool" where
  "ok_READLINK3args x \<longleftrightarrow> ok_nfs_fh3 (READLINK3args_symlink x)"

lemma xdr_READLINK3args_rtrip [xdr_rt]:
  "ok_READLINK3args x \<Longrightarrow> rtrip xdr_READLINK3args default x x"
  unfolding xdr_READLINK3args_def ok_READLINK3args_def
  by (cases x; (elim disjE conjE)?; (rule codec_steps xdr_rt refl | simp add: zero_mem c_consts)+)

definition ok_READ3args :: "READ3args \<Rightarrow> bool" where
  "ok_READ3args x \<longleftrightarrow> ok_nfs_fh3 (READ3args_file x)"

lemma xdr_READ3args_rtrip [xdr_rt]:
  "ok_READ3args x \<Longrightarrow> rtrip xdr_READ3args default x x"
  unfolding xdr_READ3args_def ok_READ3args_def
  by (cases x; (elim disjE conjE)?; (rule codec_steps xdr_rt refl | simp add: zero_mem c_consts)+)

definition ok_WRITE3args :: "WRITE3args \<Rightarrow> bool" where
  "ok_WRITE3args x \<longleftrightarrow> ok_nfs_fh3 (WRITE3args_file x) \<and>
     counted_ok (NOT 0) (WRITE3args_data x)"

lemma xdr_WRITE3args_rtrip [xdr_rt]:
  "ok_WRITE3args x \<Longrightarrow> rtrip xdr_WRITE3args default x x"
  unfolding xdr_WRITE3args_def ok_WRITE3args_def
  by (cases x; (elim disjE conjE)?; (rule codec_steps xdr_rt refl | simp add: zero_mem c_consts)+)

definition ok_CREATE3args :: "CREATE3args \<Rightarrow> bool" where
  "ok_CREATE3args x \<longleftrightarrow> ok_diropargs3 (CREATE3args_where x) \<and>
     ok_createhow3 (CREATE3args_how x)"

lemma xdr_CREATE3args_rtrip [xdr_rt]:
  "ok_CREATE3args x \<Longrightarrow> rtrip xdr_CREATE3args default x x"
  unfolding xdr_CREATE3args_def ok_CREATE3args_def
  by (cases x; (elim disjE conjE)?; (rule codec_steps xdr_rt refl | simp add: zero_mem c_consts)+)

definition ok_MKDIR3args :: "MKDIR3args \<Rightarrow> bool" where
  "ok_MKDIR3args x \<longleftrightarrow> ok_diropargs3 (MKDIR3args_where x) \<and>
     ok_sattr3 (MKDIR3args_attributes x)"

lemma xdr_MKDIR3args_rtrip [xdr_rt]:
  "ok_MKDIR3args x \<Longrightarrow> rtrip xdr_MKDIR3args default x x"
  unfolding xdr_MKDIR3args_def ok_MKDIR3args_def
  by (cases x; (elim disjE conjE)?; (rule codec_steps xdr_rt refl | simp add: zero_mem c_consts)+)

definition ok_SYMLINK3args :: "SYMLINK3args \<Rightarrow> bool" where
  "ok_SYMLINK3args x \<longleftrightarrow> ok_diropargs3 (SYMLINK3args_where x) \<and>
     ok_symlinkdata3 (SYMLINK3args_symlink x)"

lemma xdr_SYMLINK3args_rtrip [xdr_rt]:
  "ok_SYMLINK3args x \<Longrightarrow> rtrip xdr_SYMLINK3args default x x"
  unfolding xdr_SYMLINK3args_def ok_SYMLINK3args_def
  by (cases x; (elim disjE conjE)?; (rule codec_steps xdr_rt refl | simp add: zero_mem c_consts)+)

definition ok_MKNOD3args :: "MKNOD3args \<Rightarrow> bool" where
  "ok_MKNOD3args x \<longleftrightarrow> ok_diropargs3 (MKNOD3args_where x) \<and>
     ok_mknoddata3 (MKNOD3args_what x)"

lemma xdr_MKNOD3args_rtrip [xdr_rt]:
  "ok_MKNOD3args x \<Longrightarrow> rtrip xdr_MKNOD3args default x x"
  unfolding xdr_MKNOD3args_def ok_MKNOD3args_def
  by (cases x; (elim disjE conjE)?; (rule codec_steps xdr_rt refl | simp add: zero_mem c_consts)+)

definition ok_REMOVE3args :: "REMOVE3args \<Rightarrow> bool" where
  "ok_REMOVE3args x \<longleftrightarrow> ok_diropargs3 (REMOVE3args_object x)"

lemma xdr_REMOVE3args_rtrip [xdr_rt]:
  "ok_REMOVE3args x \<Longrightarrow> rtrip xdr_REMOVE3args default x x"
  unfolding xdr_REMOVE3args_def ok_REMOVE3args_def
  by (cases x; (elim disjE conjE)?; (rule codec_steps xdr_rt refl | simp add: zero_mem c_consts)+)

definition ok_RMDIR3args :: "RMDIR3args \<Rightarrow> bool" where
  "ok_RMDIR3args x \<longleftrightarrow> ok_diropargs3 (RMDIR3args_object x)"

lemma xdr_RMDIR3args_rtrip [xdr_rt]:
  "ok_RMDIR3args x \<Longrightarrow> rtrip xdr_RMDIR3args default x x"
  unfolding xdr_RMDIR3args_def ok_RMDIR3args_def
  by (cases x; (elim disjE conjE)?; (rule codec_steps xdr_rt refl | simp add: zero_mem c_consts)+)

definition ok_RENAME3args :: "RENAME3args \<Rightarrow> bool" where
  "ok_RENAME3args x \<longleftrightarrow> ok_diropargs3 (RENAME3args_from x) \<and>
     ok_diropargs3 (RENAME3args_to x)"

lemma xdr_RENAME3args_rtrip [xdr_rt]:
  "ok_RENAME3args x \<Longrightarrow> rtrip xdr_RENAME3args default x x"
  unfolding xdr_RENAME3args_def ok_RENAME3args_def
  by (cases x; (elim disjE conjE)?; (rule codec_steps xdr_rt refl | simp add: zero_mem c_consts)+)

definition ok_LINK3args :: "LINK3args \<Rightarrow> bool" where
  "ok_LINK3args x \<longleftrightarrow> ok_nfs_fh3 (LINK3args_file x) \<and>
     ok_diropargs3 (LINK3args_link x)"

lemma xdr_LINK3args_rtrip [xdr_rt]:
  "ok_LINK3args x \<Longrightarrow> rtrip xdr_LINK3args default x x"
  unfolding xdr_LINK3args_def ok_LINK3args_def
  by (cases x; (elim disjE conjE)?; (rule codec_steps xdr_rt refl | simp add: zero_mem c_consts)+)

definition ok_READDIR3args :: "READDIR3args \<Rightarrow> bool" where
  "ok_READDIR3args x \<longleftrightarrow> ok_nfs_fh3 (READDIR3args_dir x) \<and>
     ok_verf (READDIR3args_cookieverf x)"

lemma xdr_READDIR3args_rtrip [xdr_rt]:
  "ok_READDIR3args x \<Longrightarrow> rtrip xdr_READDIR3args default x x"
  unfolding xdr_READDIR3args_def ok_READDIR3args_def
  by (cases x; (elim disjE conjE)?; (rule codec_steps xdr_rt refl | simp add: zero_mem c_consts)+)

definition ok_READDIRPLUS3args :: "READDIRPLUS3args \<Rightarrow> bool" where
  "ok_READDIRPLUS3args x \<longleftrightarrow> ok_nfs_fh3 (READDIRPLUS3args_dir x) \<and>
     ok_verf (READDIRPLUS3args_cookieverf x)"

lemma xdr_READDIRPLUS3args_rtrip [xdr_rt]:
  "ok_READDIRPLUS3args x \<Longrightarrow> rtrip xdr_READDIRPLUS3args default x x"
  unfolding xdr_READDIRPLUS3args_def ok_READDIRPLUS3args_def
  by (cases x; (elim disjE conjE)?; (rule codec_steps xdr_rt refl | simp add: zero_mem c_consts)+)

definition ok_FSSTAT3args :: "FSSTAT3args \<Rightarrow> bool" where
  "ok_FSSTAT3args x \<longleftrightarrow> ok_nfs_fh3 (FSSTAT3args_fsroot x)"

lemma xdr_FSSTAT3args_rtrip [xdr_rt]:
  "ok_FSSTAT3args x \<Longrightarrow> rtrip xdr_FSSTAT3args default x x"
  unfolding xdr_FSSTAT3args_def ok_FSSTAT3args_def
  by (cases x; (elim disjE conjE)?; (rule codec_steps xdr_rt refl | simp add: zero_mem c_consts)+)

definition ok_FSINFO3args :: "FSINFO3args \<Rightarrow> bool" where
  "ok_FSINFO3args x \<longleftrightarrow> ok_nfs_fh3 (FSINFO3args_fsroot x)"

lemma xdr_FSINFO3args_rtrip [xdr_rt]:
  "ok_FSINFO3args x \<Longrightarrow> rtrip xdr_FSINFO3args default x x"
  unfolding xdr_FSINFO3args_def ok_FSINFO3args_def
  by (cases x; (elim disjE conjE)?; (rule codec_steps xdr_rt refl | simp add: zero_mem c_consts)+)

definition ok_PATHCONF3args :: "PATHCONF3args \<Rightarrow> bool" where
  "ok_PATHCONF3args x \<longleftrightarrow> ok_nfs_fh3 (PATHCONF3args_object x)"

lemma xdr_PATHCONF3args_rtrip [xdr_rt]:
  "ok_PATHCONF3args x \<Longrightarrow> rtrip xdr_PATHCONF3args default x x"
  unfolding xdr_PATHCONF3args_def ok_PATHCONF3args_def
  by (cases x; (elim disjE conjE)?; (rule codec_steps xdr_rt refl | simp add: zero_mem c_consts)+)

definition ok_COMMIT3args :: "COMMIT3args \<Rightarrow> bool" where
  "ok_COMMIT3args x \<longleftrightarrow> ok_nfs_fh3 (COMMIT3args_file x)"

lemma xdr_COMMIT3args_rtrip [xdr_rt]:
  "ok_COMMIT3args x \<Longrightarrow> rtrip xdr_COMMIT3args default x x"
  unfolding xdr_COMMIT3args_def ok_COMMIT3args_def
  by (cases x; (elim disjE conjE)?; (rule codec_steps xdr_rt refl | simp add: zero_mem c_consts)+)

section \<open>The arguments as codes\<close>

interpretation GETATTR3args_codec: xdr_codec xdr_GETATTR3args ok_GETATTR3args "\<lambda>x. x"
  by unfold_locales (auto intro: xdr_rt xdr_framed)

interpretation SETATTR3args_codec: xdr_codec xdr_SETATTR3args ok_SETATTR3args "\<lambda>x. x"
  by unfold_locales (auto intro: xdr_rt xdr_framed)

interpretation LOOKUP3args_codec: xdr_codec xdr_LOOKUP3args ok_LOOKUP3args "\<lambda>x. x"
  by unfold_locales (auto intro: xdr_rt xdr_framed)

interpretation ACCESS3args_codec: xdr_codec xdr_ACCESS3args ok_ACCESS3args "\<lambda>x. x"
  by unfold_locales (auto intro: xdr_rt xdr_framed)

interpretation READLINK3args_codec: xdr_codec xdr_READLINK3args ok_READLINK3args "\<lambda>x. x"
  by unfold_locales (auto intro: xdr_rt xdr_framed)

interpretation READ3args_codec: xdr_codec xdr_READ3args ok_READ3args "\<lambda>x. x"
  by unfold_locales (auto intro: xdr_rt xdr_framed)

interpretation WRITE3args_codec: xdr_codec xdr_WRITE3args ok_WRITE3args "\<lambda>x. x"
  by unfold_locales (auto intro: xdr_rt xdr_framed)

interpretation CREATE3args_codec: xdr_codec xdr_CREATE3args ok_CREATE3args "\<lambda>x. x"
  by unfold_locales (auto intro: xdr_rt xdr_framed)

interpretation MKDIR3args_codec: xdr_codec xdr_MKDIR3args ok_MKDIR3args "\<lambda>x. x"
  by unfold_locales (auto intro: xdr_rt xdr_framed)

interpretation SYMLINK3args_codec: xdr_codec xdr_SYMLINK3args ok_SYMLINK3args "\<lambda>x. x"
  by unfold_locales (auto intro: xdr_rt xdr_framed)

interpretation MKNOD3args_codec: xdr_codec xdr_MKNOD3args ok_MKNOD3args "\<lambda>x. x"
  by unfold_locales (auto intro: xdr_rt xdr_framed)

interpretation REMOVE3args_codec: xdr_codec xdr_REMOVE3args ok_REMOVE3args "\<lambda>x. x"
  by unfold_locales (auto intro: xdr_rt xdr_framed)

interpretation RMDIR3args_codec: xdr_codec xdr_RMDIR3args ok_RMDIR3args "\<lambda>x. x"
  by unfold_locales (auto intro: xdr_rt xdr_framed)

interpretation RENAME3args_codec: xdr_codec xdr_RENAME3args ok_RENAME3args "\<lambda>x. x"
  by unfold_locales (auto intro: xdr_rt xdr_framed)

interpretation LINK3args_codec: xdr_codec xdr_LINK3args ok_LINK3args "\<lambda>x. x"
  by unfold_locales (auto intro: xdr_rt xdr_framed)

interpretation READDIR3args_codec: xdr_codec xdr_READDIR3args ok_READDIR3args "\<lambda>x. x"
  by unfold_locales (auto intro: xdr_rt xdr_framed)

interpretation READDIRPLUS3args_codec: xdr_codec xdr_READDIRPLUS3args ok_READDIRPLUS3args "\<lambda>x. x"
  by unfold_locales (auto intro: xdr_rt xdr_framed)

interpretation FSSTAT3args_codec: xdr_codec xdr_FSSTAT3args ok_FSSTAT3args "\<lambda>x. x"
  by unfold_locales (auto intro: xdr_rt xdr_framed)

interpretation FSINFO3args_codec: xdr_codec xdr_FSINFO3args ok_FSINFO3args "\<lambda>x. x"
  by unfold_locales (auto intro: xdr_rt xdr_framed)

interpretation PATHCONF3args_codec: xdr_codec xdr_PATHCONF3args ok_PATHCONF3args "\<lambda>x. x"
  by unfold_locales (auto intro: xdr_rt xdr_framed)

interpretation COMMIT3args_codec: xdr_codec xdr_COMMIT3args ok_COMMIT3args "\<lambda>x. x"
  by unfold_locales (auto intro: xdr_rt xdr_framed)

end
