(* ===== verification/Fh.thy ===== *)
theory Fh
  imports Contract Xdr_Codec
begin

text \<open>
  File handles, \<open>unfs3/fh.c\<close>: a packed structure of an identifier (little-endian, as in the
  memory of the machines the program runs on) and a length byte, which is 0 for the root and
  1 for every handle the server makes. A handle in a message is the counted bytes of that
  structure; the code declares one byte more than the structure has.
\<close>

section \<open>The structure in memory\<close>

record unfs3_fh_t =
  fh_ino :: u64
  fh_len :: byte

definition le64 :: "u64 \<Rightarrow> byte list" where
  "le64 w = [ucast w, ucast (drop_bit 8 w), ucast (drop_bit 16 w), ucast (drop_bit 24 w),
     ucast (drop_bit 32 w), ucast (drop_bit 40 w), ucast (drop_bit 48 w), ucast (drop_bit 56 w)]"

definition rd_le64 :: "byte list \<Rightarrow> u64" where
  "rd_le64 bs = ucast (bs ! 0) OR push_bit 8 (ucast (bs ! 1)) OR push_bit 16 (ucast (bs ! 2))
     OR push_bit 24 (ucast (bs ! 3)) OR push_bit 32 (ucast (bs ! 4)) OR push_bit 40 (ucast (bs ! 5))
     OR push_bit 48 (ucast (bs ! 6)) OR push_bit 56 (ucast (bs ! 7))"

definition fh_bytes :: "unfs3_fh_t \<Rightarrow> byte list" where
  "fh_bytes fh = le64 (fh_ino fh) @ [fh_len fh]"

definition fh_at :: "byte list \<Rightarrow> unfs3_fh_t" where
  "fh_at mem = \<lparr>fh_ino = rd_le64 mem, fh_len = mem ! 8\<rparr>"

lemma length_le64 [simp]: "length (le64 w) = 8"
  by (simp add: le64_def)

lemma rd_le64_le64 [simp]: "rd_le64 (le64 w @ r) = w"
proof (rule bit_word_eqI)
  fix n :: nat
  assume "n < LENGTH(64)"
  then consider "n < 8" | "8 \<le> n" "n < 16" | "16 \<le> n" "n < 24" | "24 \<le> n" "n < 32"
    | "32 \<le> n" "n < 40" | "40 \<le> n" "n < 48" | "48 \<le> n" "n < 56" | "56 \<le> n" "n < 64"
    by force
  then show "bit (rd_le64 (le64 w @ r)) n = bit w n"
    by cases (auto simp: rd_le64_def le64_def bit_simps)
qed

lemma fh_at_bytes [simp]: "fh_at (fh_bytes fh @ r) = fh"
  by (simp add: fh_at_def fh_bytes_def nth_append)

section \<open>Validity and resolution\<close>

definition FH_MINLEN :: u32 where
  [c_consts]: "FH_MINLEN = 9"

definition fh_length :: "unfs3_fh_t \<Rightarrow> u32" where
  "fh_length fh = ucast (fh_len fh) + 1 + 8"

definition nfh_valid :: "nfs_fh3 \<Rightarrow> cint" where
  "nfh_valid fh =
     (let obj = fh_at (counted_val (nfs_fh3_data fh))
      in if counted_len (nfs_fh3_data fh) < FH_MINLEN then FALSE
         else if counted_len (nfs_fh3_data fh) \<noteq> fh_length obj then FALSE
         else TRUE)"

definition fh_decomp :: "nfs_fh3 \<Rightarrow> ('fs, charptr) act" where
  "fh_decomp fh =
     (if nfh_valid fh = FALSE then ret None
      else let obj = fh_at (counted_val (nfs_fh3_data fh))
           in if fh_len obj = 0 then ret (Some ''/'')
              else go_fgetpath (ucast (fh_ino obj)))"

section \<open>Composition\<close>

text \<open>
  \<open>fh_comp\<close> returns the address of a static structure, which is never \<open>NULL\<close>;
  \<open>fh_data\<close> is the counted memory a reply makes of it: \<open>fh_length\<close> bytes from that address
  on, the last of them beyond the structure.
\<close>

definition fh_comp :: "u64 \<Rightarrow> charptr \<Rightarrow> unfs3_fh_t" where
  "fh_comp ino path = \<lparr>fh_ino = ino, fh_len = 1\<rparr>"

definition fh_data :: "unfs3_fh_t \<Rightarrow> ('fs, byte counted) act" where
  "fh_data new = do {
     after \<leftarrow> choice e_after_fh;
     ret \<lparr>counted_len = fh_length new, counted_val = fh_bytes new @ [after]\<rparr> }"

definition fh_comp_post :: "u64 \<Rightarrow> charptr \<Rightarrow> ('fs, post_op_fh3) act" where
  "fh_comp_post ino path = do {
     post \<leftarrow> choice e_un_fh;
     let new = fh_comp ino path;
     data \<leftarrow> fh_data new;
     ret (post\<lparr>post_op_fh3_handle_follows := TRUE,
       post_op_fh3_handle := \<lparr>nfs_fh3_data = data\<rparr>\<rparr>) }"

definition fh_comp_type :: "'fs minfs \<Rightarrow> charptr \<Rightarrow> u32 \<Rightarrow> ('fs, post_op_fh3) act" where
  "fh_comp_type ns path type = do {
     result \<leftarrow> choice e_un_fh;
     un \<leftarrow> choice e_un_stat;
     (res, buf) \<leftarrow> go_lstat ns path un;
     if res \<noteq> NFS3_OK \<or> (scast (st_mode buf) AND type) \<noteq> type
     then ret (result\<lparr>post_op_fh3_handle_follows := FALSE\<rparr>)
     else fh_comp_post (st_ino buf) path }"

section \<open>What handles mean\<close>

text \<open>The handle of an identifier, as clients hold it, and the path a handle stands for.\<close>

definition handle_of :: "int \<Rightarrow> byte \<Rightarrow> nfs_fh3" where
  "handle_of fd after = \<lparr>nfs_fh3_data = \<lparr>counted_len = 10,
     counted_val = fh_bytes \<lparr>fh_ino = word_of_int fd, fh_len = 1\<rparr> @ [after]\<rparr>\<rparr>"

definition fh_path :: "fdCache \<Rightarrow> nfs_fh3 \<Rightarrow> charptr" where
  "fh_path t fh =
     (let obj = fh_at (counted_val (nfs_fh3_data fh))
      in if nfh_valid fh = FALSE then None
         else if fh_len obj = 0 then Some ''/''
         else GetPath t (sint (ucast (fh_ino obj) :: cint)))"

text \<open>The identifier in a handle, as \<open>fh_decomp\<close> reads it.\<close>

definition handle_id :: "nfs_fh3 \<Rightarrow> int" where
  "handle_id fh = sint (ucast (fh_ino (fh_at (counted_val (nfs_fh3_data fh)))) :: cint)"

lemma fh_path_id:
  "fh_path t fh =
     (if nfh_valid fh = FALSE then None
      else if fh_len (fh_at (counted_val (nfs_fh3_data fh))) = 0 then Some ''/''
      else GetPath t (handle_id fh))"
  by (simp add: fh_path_def handle_id_def Let_def)

lemma run_go_fgetpath [run_act]: "run_state (go_fgetpath fd) w = (GetPath (w_fddb w) (sint fd), w)"
  by (simp add: go_fgetpath_def run_act)

lemma run_fh_decomp [run_act]: "run_state (fh_decomp fh) w = (fh_path (w_fddb w) fh, w)"
  by (simp add: fh_decomp_def fh_path_def run_act Let_def)

lemma keeps_fh_decomp [keeps_rules]: "keeps I (fh_decomp fh)"
  by (simp add: keeps_def run_fh_decomp)

lemma run_fh_data [run_act]:
  "run_state (fh_data (fh_comp ino path)) w =
     (\<lparr>counted_len = 10, counted_val = fh_bytes \<lparr>fh_ino = ino, fh_len = 1\<rparr> @
        [e_after_fh (w_env w) (w_step w)]\<rparr>, w\<lparr>w_step := Suc (w_step w)\<rparr>)"
  by (simp add: fh_data_def fh_comp_def fh_length_def run_act)

lemma handle_of_valid [simp]: "nfh_valid (handle_of fd after) = TRUE"
  by (simp add: nfh_valid_def handle_of_def fh_length_def c_consts Let_def)

lemma ok_handle_of [simp]: "ok_nfs_fh3 (handle_of fd after)"
  by (simp add: ok_nfs_fh3_def handle_of_def counted_ok_def fh_bytes_def c_consts)

lemma sint_ucast_word_of_int:
  assumes "0 \<le> fd" and "fd < 2 ^ 31"
  shows "sint (ucast (word_of_int fd :: u64) :: cint) = fd"
proof -
  have "(ucast (word_of_int fd :: u64) :: cint) = word_of_int fd"
    using assms by (simp add: unsigned_of_int take_bit_int_eq_self)
  then show ?thesis using assms by (simp add: signed_of_int signed_take_bit_int_eq_self)
qed

lemma fh_path_handle_of [simp]:
  "0 \<le> fd \<Longrightarrow> fd < 2 ^ 31 \<Longrightarrow> fh_path t (handle_of fd after) = GetPath t fd"
  using sint_ucast_word_of_int [of fd]
  by (simp add: fh_path_def Let_def) (simp add: handle_of_def)

lemma handle_id_handle_of: "0 \<le> fd \<Longrightarrow> fd < 2 ^ 31 \<Longrightarrow> handle_id (handle_of fd after) = fd"
  using sint_ucast_word_of_int [of fd] by (simp add: handle_id_def) (simp add: handle_of_def)

lemma handle_of_inject:
  assumes "handle_of fd a = handle_of fd' b"
    and "0 \<le> fd" "fd < 2 ^ 63" "0 \<le> fd'" "fd' < 2 ^ 63"
  shows "fd = fd'"
proof -
  have "fh_at (counted_val (nfs_fh3_data (handle_of fd a))) =
      fh_at (counted_val (nfs_fh3_data (handle_of fd' b)))"
    by (simp add: assms(1))
  then have "(word_of_int fd :: u64) = word_of_int fd'"
    by (simp add: handle_of_def)
  then have "uint (word_of_int fd :: u64) = uint (word_of_int fd' :: u64)" by simp
  with assms(2-) show ?thesis by (simp add: take_bit_int_eq_self unsigned_of_int)
qed

text \<open>A handle that stands for a path keeps standing for it while only identifiers are added.\<close>

lemma fh_path_keeps:
  assumes "fd_inv t" and "fh_path t h = Some q"
  shows "fh_path (fst (GetFD t p)) h = Some q"
  using assms GetFD_keeps [OF assms(1)]
  by (auto simp: fh_path_def Let_def split: if_splits)

definition stands_for :: "nfs_fh3 \<Rightarrow> string \<Rightarrow> 'fs world \<Rightarrow> bool" where
  "stands_for h p w \<longleftrightarrow> fd_inv (w_fddb w) \<and> fh_path (w_fddb w) h = Some p"

interpretation standing: world_contract ns "stands_for h p" for ns :: "'fs minfs" and h p
  by unfold_locales (auto simp: stands_for_def GetFD_inv fh_path_keeps)

context reader_contract
begin

lemma keeps_fh_data [keeps_rules]: "keeps W (fh_data new)"
  unfolding fh_data_def by (intro keeps_rules)

lemma keeps_fh_comp_post [keeps_rules]: "keeps W (fh_comp_post ino path)"
  unfolding fh_comp_post_def by (intro keeps_rules)

lemma fh_comp_type_keeps [keeps_rules]: "keeps W (fh_comp_type ns path type)"
  unfolding fh_comp_type_def by (intro keeps_rules)

end

end
