(* ===== verification/Attr.thy ===== *)
theory Attr
  imports Fh
begin

text \<open>
  Attributes, \<open>unfs3/attr.c\<close>: what the handlers put before and after an operation into their
  results. \<open>statTranslator\<close> fills only some fields of the stat structure, so the others reach
  the client as the stack left them; the lemmas say which fields are determined.
\<close>

section \<open>File types\<close>

text \<open>The \<open>S_IS\<close> macros compare as \<open>int\<close>; a \<open>short\<close> mode is sign-extended first.\<close>

definition S_ISDIR :: "u16 \<Rightarrow> bool" where
  "S_ISDIR m \<longleftrightarrow> scast m AND S_IFMT = S_IFDIR"

definition S_ISBLK :: "u16 \<Rightarrow> bool" where
  "S_ISBLK m \<longleftrightarrow> scast m AND S_IFMT = S_IFBLK"

definition S_ISCHR :: "u16 \<Rightarrow> bool" where
  "S_ISCHR m \<longleftrightarrow> scast m AND S_IFMT = S_IFCHR"

definition S_ISLNK :: "u16 \<Rightarrow> bool" where
  "S_ISLNK m \<longleftrightarrow> scast m AND S_IFMT = S_IFLNK"

definition S_ISSOCK :: "u16 \<Rightarrow> bool" where
  "S_ISSOCK m \<longleftrightarrow> scast m AND S_IFMT = S_IFSOCK"

definition S_ISFIFO :: "u16 \<Rightarrow> bool" where
  "S_ISFIFO m \<longleftrightarrow> scast m AND S_IFMT = S_IFIFO"

definition S_ISREG :: "u16 \<Rightarrow> bool" where
  "S_ISREG m \<longleftrightarrow> scast m AND S_IFMT = S_IFREG"

definition S_IRUSR :: u32 where
  [c_consts]: "S_IRUSR = 0x100"

definition S_IWUSR :: u32 where
  [c_consts]: "S_IWUSR = 0x80"

definition S_IXUSR :: u32 where
  [c_consts]: "S_IXUSR = 0x40"

definition S_IRGRP :: u32 where
  [c_consts]: "S_IRGRP = 0x20"

definition S_IWGRP :: u32 where
  [c_consts]: "S_IWGRP = 0x10"

definition S_IXGRP :: u32 where
  [c_consts]: "S_IXGRP = 8"

definition S_IROTH :: u32 where
  [c_consts]: "S_IROTH = 4"

definition S_IXOTH :: u32 where
  [c_consts]: "S_IXOTH = 1"

text \<open>The option \<open>opt_readable_executables\<close> of \<open>unfs3/daemon.c\<close>; nothing sets it.\<close>

definition opt_readable_executables :: bool_t where
  "opt_readable_executables = FALSE"

section \<open>Attributes of results\<close>

definition error_attr :: post_op_attr where
  "error_attr = default\<lparr>post_op_attr_attributes_follow := FALSE\<rparr>"

definition adapt_mode :: "u16 \<Rightarrow> u16" where
  "adapt_mode m0 =
     (if opt_readable_executables \<noteq> FALSE \<and> S_ISREG m0
      then (let m1 = (if scast m0 AND S_IXUSR \<noteq> 0 then m0 OR ucast S_IRUSR else m0);
                m2 = (if scast m1 AND S_IXGRP \<noteq> 0 then m1 OR ucast S_IRGRP else m1)
            in if scast m2 AND S_IXOTH \<noteq> 0 then m2 OR ucast S_IROTH else m2)
      else m0)"

definition get_post_buf :: "go_statstruct \<Rightarrow> post_op_attr" where
  "get_post_buf buf =
     (let type =
        (if S_ISDIR (st_mode buf) then NF3DIR
         else if S_ISBLK (st_mode buf) then NF3BLK
         else if S_ISCHR (st_mode buf) then NF3CHR
         else if S_ISLNK (st_mode buf) then NF3LNK
         else if S_ISSOCK (st_mode buf) then NF3SOCK
         else if S_ISFIFO (st_mode buf) then NF3FIFO
         else NF3REG)
      in \<lparr>post_op_attr_attributes_follow = TRUE,
          post_op_attr_attributes = \<lparr>
            fattr3_type = type,
            fattr3_mode = scast (adapt_mode (st_mode buf)) AND 0xFFFF,
            fattr3_nlink = scast (st_nlink buf),
            fattr3_uid = st_uid buf,
            fattr3_gid = st_gid buf,
            fattr3_size = st_size buf,
            fattr3_used = ucast (st_blocks buf * 512),
            fattr3_rdev = \<lparr>specdata3_specdata1 = drop_bit 8 (st_rdev buf) AND 0xFF,
              specdata3_specdata2 = st_rdev buf AND 0xFF\<rparr>,
            fattr3_fsid = ucast (st_dev buf) AND 0xFFFFFFFF,
            fattr3_fileid = st_ino buf,
            fattr3_atime = \<lparr>nfstime3_seconds = ucast (st_atime buf), nfstime3_nseconds = 0\<rparr>,
            fattr3_mtime = \<lparr>nfstime3_seconds = ucast (st_mtime buf), nfstime3_nseconds = 0\<rparr>,
            fattr3_ctime = \<lparr>nfstime3_seconds = ucast (st_ctime buf), nfstime3_nseconds = 0\<rparr>\<rparr>\<rparr>)"

definition get_post :: "'fs minfs \<Rightarrow> charptr \<Rightarrow> ('fs, post_op_attr) act" where
  "get_post ns path = do {
     un \<leftarrow> choice e_un_stat;
     (res, buf) \<leftarrow> go_lstat ns path un;
     if res \<noteq> NFS3_OK then ret error_attr else ret (get_post_buf buf) }"

definition get_post_err :: post_op_attr where
  "get_post_err = error_attr"

definition get_pre_buf :: "go_statstruct \<Rightarrow> pre_op_attr" where
  "get_pre_buf buf = \<lparr>pre_op_attr_attributes_follow = TRUE,
     pre_op_attr_attributes = \<lparr>
       wcc_attr_size = st_size buf,
       wcc_attr_mtime = \<lparr>nfstime3_seconds = ucast (st_mtime buf), nfstime3_nseconds = 0\<rparr>,
       wcc_attr_ctime = \<lparr>nfstime3_seconds = ucast (st_ctime buf), nfstime3_nseconds = 0\<rparr>\<rparr>\<rparr>"

definition get_pre :: "'fs minfs \<Rightarrow> charptr \<Rightarrow> ('fs, pre_op_attr) act" where
  "get_pre ns path = do {
     result \<leftarrow> choice e_un_pre;
     un \<leftarrow> choice e_un_stat;
     (res, buf) \<leftarrow> go_lstat ns path un;
     if res \<noteq> NFS3_OK then ret (result\<lparr>pre_op_attr_attributes_follow := FALSE\<rparr>)
     else ret \<lparr>pre_op_attr_attributes_follow = TRUE,
       pre_op_attr_attributes = \<lparr>
         wcc_attr_size = st_size buf,
         wcc_attr_mtime = \<lparr>nfstime3_seconds = ucast (st_mtime buf), nfstime3_nseconds = 0\<rparr>,
         wcc_attr_ctime = \<lparr>nfstime3_seconds = ucast (st_ctime buf), nfstime3_nseconds = 0\<rparr>\<rparr>\<rparr> }"

definition create_mode :: "sattr3 \<Rightarrow> u32" where
  "create_mode new =
     (if set_mode3_set_it (sattr3_mode new) = TRUE then set_mode3_mode (sattr3_mode new)
      else S_IRUSR OR S_IWUSR OR S_IXUSR OR S_IRGRP OR S_IWGRP OR S_IXGRP OR S_IROTH OR S_IXOTH)"

section \<open>Facts\<close>

text \<open>One stat call of the world: what it answers and what it leaves.\<close>

definition stat_of :: "'fs minfs \<Rightarrow> 'fs world \<Rightarrow> charptr \<Rightarrow> go_error + FileInfo" where
  "stat_of ns w path = snd (fs_Stat ns (w_fs w) (go_path path))"

lemma ok_get_post_buf [simp]: "ok_post_op_attr (get_post_buf buf)"
  and ok_error_attr [simp]: "ok_post_op_attr error_attr"
  by (simp_all add: ok_post_op_attr_def ok_bool_def get_post_buf_def error_attr_def Let_def)

lemma ok_get_pre_buf [simp]: "ok_pre_op_attr (get_pre_buf buf)"
  by (simp add: ok_pre_op_attr_def ok_bool_def get_pre_buf_def)

text \<open>
  The low 16 bits of a Go \<open>FileMode\<close> are permission bits only; its type bits are higher.
\<close>

definition go_mode :: "FileInfo \<Rightarrow> bool" where
  "go_mode fi \<longleftrightarrow> fi_Mode fi AND 0xFE00 = 0"

lemma masked_mode:
  fixes m k :: u32
  assumes m: "m AND 0xFE00 = 0" and k: "k AND S_IFMT = k"
  shows "scast (ucast (m OR k) :: u16) AND S_IFMT = k"
proof (rule bit_word_eqI)
  fix n :: nat
  assume n: "n < LENGTH(32)"
  have fmt: "bit S_IFMT i \<longleftrightarrow> 12 \<le> i \<and> i < 16" for i
  proof -
    have eq: "S_IFMT = push_bit 12 (mask 4)" by (simp add: S_IFMT_def mask_eq_exp_minus_1)
    show ?thesis unfolding eq by (auto simp: bit_push_bit_iff bit_mask_iff)
  qed
  have fe: "bit (0xFE00 :: u32) i \<longleftrightarrow> 9 \<le> i \<and> i < 16" for i
  proof -
    have eq: "(0xFE00 :: u32) = push_bit 9 (mask 7)" by (simp add: mask_eq_exp_minus_1)
    show ?thesis unfolding eq by (auto simp: bit_push_bit_iff bit_mask_iff)
  qed
  have "\<not> bit (m AND 0xFE00) n" using m by simp
  then have mn: "bit m n \<Longrightarrow> n < 9 \<or> 16 \<le> n"
    unfolding bit_and_iff fe by auto
  have "bit (k AND S_IFMT) n = bit k n" using k by simp
  then have kn: "bit k n \<Longrightarrow> 12 \<le> n \<and> n < 16"
    unfolding bit_and_iff fmt by auto
  have "n < 16 \<Longrightarrow> min 15 n = n" by simp
  then show "bit (scast (ucast (m OR k) :: u16) AND S_IFMT) n = bit k n"
    using n mn kn by (auto simp: bit_and_iff fmt bit_signed_iff bit_unsigned_iff bit_or_iff
        simp del: min.absorb1 min.absorb2)
qed

lemma st_mode_dir:
  assumes "go_mode fi"
  shows "S_ISDIR (st_mode (statTranslator fi fd now buf)) \<longleftrightarrow> fi_IsDir fi"
    and "S_ISREG (st_mode (statTranslator fi fd now buf)) \<longleftrightarrow> \<not> fi_IsDir fi"
  using masked_mode [of "fi_Mode fi" S_IFDIR] masked_mode [of "fi_Mode fi" S_IFREG] assms
  by (auto simp: statTranslator_def S_ISDIR_def S_ISREG_def go_mode_def c_consts)

lemma post_type:
  assumes "go_mode fi"
  shows "fattr3_type (post_op_attr_attributes (get_post_buf (statTranslator fi fd now buf))) =
    (if fi_IsDir fi then NF3DIR else NF3REG)"
proof -
  have "\<not> fi_IsDir fi \<Longrightarrow>
      scast (st_mode (statTranslator fi fd now buf)) AND S_IFMT = S_IFREG"
    using st_mode_dir(2) [OF assms] by (simp add: S_ISREG_def)
  then show ?thesis
    using st_mode_dir(1) [OF assms, of fd now buf]
    by (auto simp: get_post_buf_def Let_def S_ISBLK_def S_ISCHR_def S_ISLNK_def S_ISSOCK_def
        S_ISFIFO_def) (simp_all add: c_consts)
qed

lemma word_of_int_take_bit_64: "(word_of_int (take_bit 64 k) :: u32) = word_of_int k"
  by (rule bit_word_eqI) (simp add: bit_simps)

lemma get_post_ok: "ok_post_op_attr (fst (run_state (get_post ns path) w))"
  by (simp add: get_post_def run_act split: prod.split)

lemma get_pre_ok: "ok_pre_op_attr (fst (run_state (get_pre ns path) w))"
  by (simp add: get_pre_def run_act ok_pre_op_attr_def ok_bool_def split: prod.split)

lemma get_post_error:
  assumes "stat_of ns w path = Inl e"
  shows "fst (run_state (get_post ns path) w) = error_attr"
  using assms by (auto simp: get_post_def go_lstat_def stat_of_def run_act Let_def)

lemma get_post_found:
  assumes "stat_of ns w path = Inr fi" and "run_state (get_post ns path) w = (post, w')"
  shows "post_op_attr_attributes_follow post = TRUE"
    and "fattr3_size (post_op_attr_attributes post) = word_of_int (fi_Size fi)"
    and "fattr3_fileid (post_op_attr_attributes post) =
      word_of_int (snd (GetFD (w_fddb w) (go_path path)))"
    and "nfstime3_seconds (fattr3_mtime (post_op_attr_attributes post)) =
      word_of_int (fi_ModTime fi)"
    and "w_fddb w' = fst (GetFD (w_fddb w) (go_path path))"
    and "w_fs w' = fst (fs_Stat ns (w_fs w) (go_path path))"
  using assms
  by (auto simp: get_post_def go_lstat_def stat_of_def run_act Let_def get_post_buf_def
      statTranslator_def unsigned_of_int word_of_int_take_bit_64)

context reader_contract
begin

lemma get_post_keeps [keeps_rules]: "keeps W (get_post ns path)"
  unfolding get_post_def by (intro keeps_rules)

lemma get_pre_keeps [keeps_rules]: "keeps W (get_pre ns path)"
  unfolding get_pre_def by (intro keeps_rules)

end

end
