(* ===== verification/Nfs_Ops.thy ===== *)
theory Nfs_Ops
  imports Attr
begin

text \<open>
  The procedures of \<open>unfs3/nfs.c\<close>, but for the directory listing of \<open>Readdir\<close>. Each handler
  keeps its result in a static variable: the argument \<open>result\<close> is what the previous call left
  in it, the value returned is what it holds afterwards. Locals that the C code leaves
  uninitialised are taken from the environment.
\<close>

section \<open>Requests\<close>

text \<open>
  What the handlers read of \<open>struct svc_req\<close>: \<open>rq_so_type\<close> is what \<open>getsockopt\<close> gives for the
  transport, \<^const>\<open>None\<close> when it fails.
\<close>

record svc_req =
  rq_vers :: u32
  rq_proc :: u32
  rq_caller :: u32
  rq_so_type :: "cint option"

definition SOCK_STREAM :: cint where
  [c_consts]: "SOCK_STREAM = 1"

definition get_remote :: "svc_req \<Rightarrow> u32" where
  "get_remote rqstp = rq_caller rqstp"

definition get_socket_type :: "svc_req \<Rightarrow> cint" where
  "get_socket_type rqstp = (case rq_so_type rqstp of None \<Rightarrow> - 1 | Some v \<Rightarrow> v)"

section \<open>Names\<close>

text \<open>The buffer \<open>obj\<close> is left alone when the name is refused.\<close>

definition cat_name :: "charptr \<Rightarrow> charptr \<Rightarrow> cstring \<Rightarrow> nfsstat3 \<times> cstring" where
  "cat_name path name obj =
     (case path of
        None \<Rightarrow> (NFS3ERR_STALE, obj)
      | Some p \<Rightarrow>
          (case name of
             None \<Rightarrow> (NFS3ERR_ACCES, obj)
           | Some n \<Rightarrow>
               if n = [] \<or> CHR ''/'' \<in> set n then (NFS3ERR_ACCES, obj)
               else if length p + length n + 2 > unat NFS_MAXPATHLEN then (NFS3ERR_NAMETOOLONG, obj)
               else if n = ''.'' then (NFS3_OK, p)
               else (NFS3_OK, p @ ''/'' @ n)))"

section \<open>Attributes and look-up\<close>

definition nfsproc3_null_3_svc :: "('fs, unit) act" where
  "nfsproc3_null_3_svc = ret ()"

definition nfsproc3_getattr_3_svc ::
    "'fs minfs \<Rightarrow> GETATTR3args \<Rightarrow> GETATTR3res \<Rightarrow> ('fs, GETATTR3res) act" where
  "nfsproc3_getattr_3_svc ns argp result = do {
     path \<leftarrow> fh_decomp (GETATTR3args_object argp);
     post \<leftarrow> get_post ns path;
     ret (result\<lparr>GETATTR3res_status := NFS3_OK,
       GETATTR3res_u := (GETATTR3res_u result)\<lparr>
         GETATTR3resok_obj_attributes := post_op_attr_attributes post\<rparr>\<rparr>) }"

definition nfsproc3_setattr_3_svc ::
    "'fs minfs \<Rightarrow> SETATTR3args \<Rightarrow> SETATTR3res \<Rightarrow> ('fs, SETATTR3res) act" where
  "nfsproc3_setattr_3_svc ns argp result = do {
     let new = SETATTR3args_new_attributes argp;
     path \<leftarrow> fh_decomp (SETATTR3args_object argp);
     pre \<leftarrow> get_pre ns path;
     sres \<leftarrow> (if set_size3_set_it (sattr3_size new) = TRUE
              then go_truncate ns path (set_size3_size (sattr3_size new)) else ret NFS3_OK);
     mres \<leftarrow> (if set_mode3_set_it (sattr3_mode new) = TRUE
              then go_chmod ns path (set_mode3_mode (sattr3_mode new)) else ret NFS3_OK);
     mtres \<leftarrow> (if set_mtime_set_it (sattr3_mtime new) \<noteq> DONT_CHANGE
               then (if set_mtime_set_it (sattr3_mtime new) = SET_TO_SERVER_TIME
                     then do { now \<leftarrow> choice e_time; go_modtime ns path (word_of_int now) }
                     else go_modtime ns path (nfstime3_seconds (set_mtime_mtime (sattr3_mtime new))))
               else ret NFS3_OK);
     post \<leftarrow> get_post ns path;
     ret (result\<lparr>
       SETATTR3res_status := (if sres \<noteq> NFS3_OK then sres else if mres \<noteq> NFS3_OK then mres else mtres),
       SETATTR3res_u := (SETATTR3res_u result)\<lparr>
         SETATTR3resfail_obj_wcc := \<lparr>wcc_data_before = pre, wcc_data_after = post\<rparr>\<rparr>\<rparr>) }"

definition nfsproc3_lookup_3_svc ::
    "'fs minfs \<Rightarrow> LOOKUP3args \<Rightarrow> LOOKUP3res \<Rightarrow> ('fs, LOOKUP3res) act" where
  "nfsproc3_lookup_3_svc ns argp result = do {
     un_obj \<leftarrow> choice e_un_path;
     un \<leftarrow> choice e_un_stat;
     path \<leftarrow> fh_decomp (diropargs3_dir (LOOKUP3args_what argp));
     let (status, obj) = cat_name path (diropargs3_name (LOOKUP3args_what argp)) un_obj;
     result \<leftarrow>
       (if status = NFS3_OK then do {
          (status, buf) \<leftarrow> go_lstat ns (Some obj) un;
          if status = NFS3_OK then do {
            data \<leftarrow> fh_data (fh_comp (st_ino buf) (Some obj));
            ret (result\<lparr>LOOKUP3res_status := status,
              LOOKUP3res_u := (LOOKUP3res_u result)\<lparr>
                LOOKUP3resok_object := \<lparr>nfs_fh3_data = data\<rparr>,
                LOOKUP3resok_obj_attributes := get_post_buf buf\<rparr>\<rparr>) }
          else ret (result\<lparr>LOOKUP3res_status := status\<rparr>) }
        else ret (result\<lparr>LOOKUP3res_status := status\<rparr>));
     post \<leftarrow> get_post ns path;
     ret (result\<lparr>LOOKUP3res_u := (LOOKUP3res_u result)\<lparr>LOOKUP3resfail_dir_attributes := post\<rparr>\<rparr>) }"

definition nfsproc3_access_3_svc ::
    "'fs minfs \<Rightarrow> ACCESS3args \<Rightarrow> ACCESS3res \<Rightarrow> ('fs, ACCESS3res) act" where
  "nfsproc3_access_3_svc ns argp result = do {
     path \<leftarrow> fh_decomp (ACCESS3args_object argp);
     un \<leftarrow> choice e_un_stat;
     (status, buf) \<leftarrow> go_lstat ns path un;
     let (post, newaccess) =
       (if status = NFS3_OK
        then (let post = get_post_buf buf;
                  a0 = ACCESS3_READ OR ACCESS3_MODIFY OR ACCESS3_EXTEND OR ACCESS3_EXECUTE;
                  a3 = (if fattr3_type (post_op_attr_attributes post) = NF3DIR
                        then (let a1 = (if a0 AND (ACCESS3_READ OR ACCESS3_EXECUTE) \<noteq> 0
                                        then a0 OR ACCESS3_LOOKUP else a0);
                                  a2 = (if a1 AND ACCESS3_MODIFY \<noteq> 0
                                        then a1 OR ACCESS3_DELETE else a1)
                              in a2 AND NOT ACCESS3_EXECUTE)
                        else a0)
              in (post, a3))
        else (error_attr, 0));
     ret (result\<lparr>ACCESS3res_status := status,
       ACCESS3res_u := (ACCESS3res_u result)\<lparr>
         ACCESS3resok_access := newaccess, ACCESS3resfail_obj_attributes := post\<rparr>\<rparr>) }"

section \<open>Data\<close>

text \<open>\<open>maxdata\<close> as READ and FSINFO compute it.\<close>

definition maxdata_of :: "svc_req \<Rightarrow> u32" where
  "maxdata_of rqstp =
     (if get_socket_type rqstp = SOCK_STREAM then NFS_MAXDATA_TCP else NFS_MAXDATA_UDP)"

text \<open>How READ turns the return value of \<open>go_pread\<close> into its result.\<close>

definition read_reply :: "READ3res \<Rightarrow> count3 \<Rightarrow> cint \<Rightarrow> byte list \<Rightarrow> READ3res" where
  "read_reply result count res buf =
     (if sint res > - 1
      then (let eof = (if sint res \<le> uint count then TRUE else FALSE);
                res' = (if eof = FALSE then res - 1 else res)
            in result\<lparr>READ3res_status := NFS3_OK,
                 READ3res_u := (READ3res_u result)\<lparr>
                   READ3resok_eof := eof,
                   READ3resok_count := res',
                   READ3resok_data := \<lparr>counted_len = res', counted_val = buf\<rparr>\<rparr>\<rparr>)
      else result\<lparr>READ3res_status := - res\<rparr>)"

text \<open>
  The static buffer of READ is an argument too and returned as the call leaves it;
  \<^const>\<open>None\<close> would be a read beyond its end.
\<close>

definition nfsproc3_read_3_svc ::
    "'fs minfs \<Rightarrow> svc_req \<Rightarrow> READ3args \<Rightarrow> READ3res \<times> byte list \<Rightarrow>
     ('fs, (READ3res \<times> byte list) option) act" where
  "nfsproc3_read_3_svc ns rqstp argp = (\<lambda>(result, buf). do {
     let maxdata = maxdata_of rqstp;
     path \<leftarrow> fh_decomp (READ3args_file argp);
     let count = (if READ3args_count argp > maxdata then maxdata else READ3args_count argp);
     r \<leftarrow> go_pread ns path buf (count + 1) (READ3args_offset argp);
     case r of
       None \<Rightarrow> ret None
     | Some (res, buf) \<Rightarrow> do {
         let result = read_reply result count res buf;
         post \<leftarrow> get_post ns path;
         ret (Some (result\<lparr>READ3res_u := (READ3res_u result)\<lparr>
           READ3resfail_file_attributes := post\<rparr>\<rparr>, buf)) } })"

definition nfsproc3_write_3_svc ::
    "'fs minfs \<Rightarrow> WRITE3args \<Rightarrow> WRITE3res \<Rightarrow> ('fs, WRITE3res option) act" where
  "nfsproc3_write_3_svc ns argp result = do {
     path \<leftarrow> fh_decomp (WRITE3args_file argp);
     pre \<leftarrow> get_pre ns path;
     r \<leftarrow> go_pwrite ns path (counted_val (WRITE3args_data argp)) (counted_len (WRITE3args_data argp))
       (WRITE3args_offset argp);
     case r of
       None \<Rightarrow> ret None
     | Some res \<Rightarrow> do {
         let result =
           (if sint res > - 1
            then result\<lparr>WRITE3res_status := NFS3_OK,
              WRITE3res_u := (WRITE3res_u result)\<lparr>
                WRITE3resok_count := res,
                WRITE3resok_committed := FILE_SYNC,
                WRITE3resok_verf := replicate 8 0\<rparr>\<rparr>
            else result\<lparr>WRITE3res_status := - res\<rparr>);
         post \<leftarrow> get_post ns path;
         ret (Some (result\<lparr>WRITE3res_u := (WRITE3res_u result)\<lparr>
           WRITE3resfail_file_wcc := \<lparr>wcc_data_before = pre, wcc_data_after = post\<rparr>\<rparr>\<rparr>)) } }"

definition nfsproc3_commit_3_svc ::
    "'fs minfs \<Rightarrow> COMMIT3args \<Rightarrow> COMMIT3res \<Rightarrow> ('fs, COMMIT3res) act" where
  "nfsproc3_commit_3_svc ns argp result = do {
     un \<leftarrow> choice e_un_stat;
     poa \<leftarrow> choice e_un_pre;
     path \<leftarrow> fh_decomp (COMMIT3args_file argp);
     (status, buf) \<leftarrow> go_sync ns path un;
     ret (if status = NFS3_OK
          then result\<lparr>COMMIT3res_status := status,
            COMMIT3res_u := (COMMIT3res_u result)\<lparr>
              COMMIT3resok_verf := replicate 8 0,
              COMMIT3resfail_file_wcc :=
                \<lparr>wcc_data_before = get_pre_buf buf, wcc_data_after = get_post_buf buf\<rparr>\<rparr>\<rparr>
          else result\<lparr>COMMIT3res_status := status,
            COMMIT3res_u := (COMMIT3res_u result)\<lparr>
              COMMIT3resfail_file_wcc :=
                \<lparr>wcc_data_before = poa\<lparr>pre_op_attr_attributes_follow := FALSE\<rparr>,
                  wcc_data_after = get_post_err\<rparr>\<rparr>\<rparr>) }"

section \<open>Creating, removing, renaming\<close>

definition nfsproc3_create_3_svc ::
    "'fs minfs \<Rightarrow> CREATE3args \<Rightarrow> CREATE3res \<Rightarrow> ('fs, CREATE3res) act" where
  "nfsproc3_create_3_svc ns argp result = do {
     un_obj \<leftarrow> choice e_un_path;
     un_attr \<leftarrow> choice e_un_sattr;
     un \<leftarrow> choice e_un_stat;
     let how = CREATE3args_how argp;
     dirpath \<leftarrow> fh_decomp (diropargs3_dir (CREATE3args_where argp));
     pre \<leftarrow> get_pre ns dirpath;
     let (_, obj) = cat_name dirpath (diropargs3_name (CREATE3args_where argp)) un_obj;
     let new_attr = (if createhow3_mode how \<noteq> EXCLUSIVE then createhow3_obj_attributes how else un_attr);
     status \<leftarrow> (if createhow3_mode how = UNCHECKED
                then go_createover ns (Some obj) (create_mode new_attr)
                else go_create ns (Some obj) (create_mode new_attr));
     result \<leftarrow>
       (if status = NFS3_OK then do {
          (status, buf) \<leftarrow> go_lstat ns (Some obj) un;
          post_fh \<leftarrow> fh_comp_post (st_ino buf) (Some obj);
          ret (result\<lparr>CREATE3res_status := status,
            CREATE3res_u := (CREATE3res_u result)\<lparr>
              CREATE3resok_obj := post_fh,
              CREATE3resok_obj_attributes := get_post_buf buf\<rparr>\<rparr>) }
        else ret (result\<lparr>CREATE3res_status := status\<rparr>));
     post \<leftarrow> get_post ns dirpath;
     ret (result\<lparr>CREATE3res_u := (CREATE3res_u result)\<lparr>
       CREATE3resfail_dir_wcc := \<lparr>wcc_data_before = pre, wcc_data_after = post\<rparr>\<rparr>\<rparr>) }"

definition nfsproc3_mkdir_3_svc ::
    "'fs minfs \<Rightarrow> MKDIR3args \<Rightarrow> MKDIR3res \<Rightarrow> ('fs, MKDIR3res) act" where
  "nfsproc3_mkdir_3_svc ns argp result = do {
     un_obj \<leftarrow> choice e_un_path;
     path \<leftarrow> fh_decomp (diropargs3_dir (MKDIR3args_where argp));
     pre \<leftarrow> get_pre ns path;
     let (status, obj) = cat_name path (diropargs3_name (MKDIR3args_where argp)) un_obj;
     result \<leftarrow>
       (if status = NFS3_OK then do {
          status \<leftarrow> go_mkdir ns (Some obj) (create_mode (MKDIR3args_attributes argp));
          if status = NFS3_OK then do {
            post_fh \<leftarrow> fh_comp_type ns (Some obj) S_IFDIR;
            post \<leftarrow> get_post ns (Some obj);
            ret (result\<lparr>MKDIR3res_status := status,
              MKDIR3res_u := (MKDIR3res_u result)\<lparr>
                MKDIR3resok_obj := post_fh, MKDIR3resok_obj_attributes := post\<rparr>\<rparr>) }
          else ret (result\<lparr>MKDIR3res_status := status\<rparr>) }
        else ret (result\<lparr>MKDIR3res_status := status\<rparr>));
     post \<leftarrow> get_post ns path;
     ret (result\<lparr>MKDIR3res_u := (MKDIR3res_u result)\<lparr>
       MKDIR3resfail_dir_wcc := \<lparr>wcc_data_before = pre, wcc_data_after = post\<rparr>\<rparr>\<rparr>) }"

definition nfsproc3_remove_3_svc ::
    "'fs minfs \<Rightarrow> REMOVE3args \<Rightarrow> REMOVE3res \<Rightarrow> ('fs, REMOVE3res) act" where
  "nfsproc3_remove_3_svc ns argp result = do {
     un_obj \<leftarrow> choice e_un_path;
     path \<leftarrow> fh_decomp (diropargs3_dir (REMOVE3args_object argp));
     pre \<leftarrow> get_pre ns path;
     let (status, obj) = cat_name path (diropargs3_name (REMOVE3args_object argp)) un_obj;
     status \<leftarrow> (if status = NFS3_OK then go_remove ns (Some obj) else ret status);
     post \<leftarrow> get_post ns path;
     ret (result\<lparr>REMOVE3res_status := status,
       REMOVE3res_u := (REMOVE3res_u result)\<lparr>
         REMOVE3resfail_dir_wcc := \<lparr>wcc_data_before = pre, wcc_data_after = post\<rparr>\<rparr>\<rparr>) }"

definition nfsproc3_rmdir_3_svc ::
    "'fs minfs \<Rightarrow> RMDIR3args \<Rightarrow> RMDIR3res \<Rightarrow> ('fs, RMDIR3res) act" where
  "nfsproc3_rmdir_3_svc ns argp result = do {
     un_obj \<leftarrow> choice e_un_path;
     path \<leftarrow> fh_decomp (diropargs3_dir (RMDIR3args_object argp));
     pre \<leftarrow> get_pre ns path;
     let (status, obj) = cat_name path (diropargs3_name (RMDIR3args_object argp)) un_obj;
     status \<leftarrow> (if status = NFS3_OK then go_rmdir ns (Some obj) else ret status);
     post \<leftarrow> get_post ns path;
     ret (result\<lparr>RMDIR3res_status := status,
       RMDIR3res_u := (RMDIR3res_u result)\<lparr>
         RMDIR3resfail_dir_wcc := \<lparr>wcc_data_before = pre, wcc_data_after = post\<rparr>\<rparr>\<rparr>) }"

definition nfsproc3_rename_3_svc ::
    "'fs minfs \<Rightarrow> RENAME3args \<Rightarrow> RENAME3res \<Rightarrow> ('fs, RENAME3res) act" where
  "nfsproc3_rename_3_svc ns argp result = do {
     un_from \<leftarrow> choice e_un_path;
     un_to \<leftarrow> choice e_un_path;
     fromp \<leftarrow> fh_decomp (diropargs3_dir (RENAME3args_from argp));
     from_pre \<leftarrow> get_pre ns fromp;
     let (status, from_obj) = cat_name fromp (diropargs3_name (RENAME3args_from argp)) un_from;
     to \<leftarrow> fh_decomp (diropargs3_dir (RENAME3args_to argp));
     to_pre \<leftarrow> get_pre ns to;
     status \<leftarrow>
       (if status = NFS3_OK
        then (let (status, to_obj) = cat_name to (diropargs3_name (RENAME3args_to argp)) un_to
              in if status = NFS3_OK then go_rename ns (Some from_obj) (Some to_obj)
                 else ret status)
        else ret status);
     post \<leftarrow> get_post ns fromp;
     to_post \<leftarrow> get_post ns to;
     ret (result\<lparr>RENAME3res_status := status,
       RENAME3res_u := (RENAME3res_u result)\<lparr>
         RENAME3resfail_fromdir_wcc := \<lparr>wcc_data_before = from_pre, wcc_data_after = post\<rparr>,
         RENAME3resfail_todir_wcc := \<lparr>wcc_data_before = to_pre, wcc_data_after = to_post\<rparr>\<rparr>\<rparr>) }"

section \<open>Refused procedures\<close>

definition nfsproc3_readlink_3_svc ::
    "'fs minfs \<Rightarrow> READLINK3args \<Rightarrow> READLINK3res \<Rightarrow> ('fs, READLINK3res) act" where
  "nfsproc3_readlink_3_svc ns argp result =
     ret (result\<lparr>READLINK3res_status := NFS3ERR_NOTSUPP,
       READLINK3res_u := (READLINK3res_u result)\<lparr>
         READLINK3resfail_symlink_attributes :=
           (READLINK3resfail_symlink_attributes (READLINK3res_u result))\<lparr>
             post_op_attr_attributes_follow := FALSE\<rparr>\<rparr>\<rparr>)"

text \<open>Two stores that clear the flags before and after of a \<open>wcc_data\<close>.\<close>

definition no_wcc :: "wcc_data \<Rightarrow> wcc_data" where
  "no_wcc wcc = wcc\<lparr>
     wcc_data_before := (wcc_data_before wcc)\<lparr>pre_op_attr_attributes_follow := FALSE\<rparr>,
     wcc_data_after := (wcc_data_after wcc)\<lparr>post_op_attr_attributes_follow := FALSE\<rparr>\<rparr>"

definition nfsproc3_symlink_3_svc ::
    "'fs minfs \<Rightarrow> SYMLINK3args \<Rightarrow> SYMLINK3res \<Rightarrow> ('fs, SYMLINK3res) act" where
  "nfsproc3_symlink_3_svc ns argp result =
     ret (result\<lparr>SYMLINK3res_status := NFS3ERR_NOTSUPP,
       SYMLINK3res_u := (SYMLINK3res_u result)\<lparr>
         SYMLINK3resfail_dir_wcc := no_wcc (SYMLINK3resfail_dir_wcc (SYMLINK3res_u result))\<rparr>\<rparr>)"

definition nfsproc3_mknod_3_svc ::
    "'fs minfs \<Rightarrow> MKNOD3args \<Rightarrow> MKNOD3res \<Rightarrow> ('fs, MKNOD3res) act" where
  "nfsproc3_mknod_3_svc ns argp result =
     ret (result\<lparr>MKNOD3res_status := NFS3ERR_NOTSUPP,
       MKNOD3res_u := (MKNOD3res_u result)\<lparr>
         MKNOD3resfail_dir_wcc := no_wcc (MKNOD3resfail_dir_wcc (MKNOD3res_u result))\<rparr>\<rparr>)"

definition nfsproc3_link_3_svc ::
    "'fs minfs \<Rightarrow> LINK3args \<Rightarrow> LINK3res \<Rightarrow> ('fs, LINK3res) act" where
  "nfsproc3_link_3_svc ns argp result =
     ret (result\<lparr>LINK3res_status := NFS3ERR_NOTSUPP,
       LINK3res_u := (LINK3res_u result)\<lparr>
         LINK3resfail_file_attributes :=
           (LINK3resfail_file_attributes (LINK3res_u result))\<lparr>post_op_attr_attributes_follow := FALSE\<rparr>,
         LINK3resfail_linkdir_wcc := no_wcc (LINK3resfail_linkdir_wcc (LINK3res_u result))\<rparr>\<rparr>)"

definition nfsproc3_readdirplus_3_svc ::
    "'fs minfs \<Rightarrow> READDIRPLUS3args \<Rightarrow> READDIRPLUS3res \<Rightarrow> ('fs, READDIRPLUS3res) act" where
  "nfsproc3_readdirplus_3_svc ns argp result =
     ret (result\<lparr>READDIRPLUS3res_status := NFS3ERR_NOTSUPP,
       READDIRPLUS3res_u := (READDIRPLUS3res_u result)\<lparr>
         READDIRPLUS3resfail_dir_attributes :=
           (READDIRPLUS3resfail_dir_attributes (READDIRPLUS3res_u result))\<lparr>
             post_op_attr_attributes_follow := FALSE\<rparr>\<rparr>\<rparr>)"

section \<open>File system information\<close>

definition nfsproc3_fsstat_3_svc ::
    "'fs minfs \<Rightarrow> FSSTAT3args \<Rightarrow> FSSTAT3res \<Rightarrow> ('fs, FSSTAT3res) act" where
  "nfsproc3_fsstat_3_svc ns argp result = do {
     path \<leftarrow> fh_decomp (FSSTAT3args_fsroot argp);
     post \<leftarrow> get_post ns path;
     ret (result\<lparr>FSSTAT3res_status := NFS3_OK,
       FSSTAT3res_u := (FSSTAT3res_u result)\<lparr>
         FSSTAT3resfail_obj_attributes := post,
         FSSTAT3resok_tbytes := 2000000000000,
         FSSTAT3resok_fbytes := 1000000000000,
         FSSTAT3resok_abytes := 900000000000,
         FSSTAT3resok_tfiles := 100,
         FSSTAT3resok_ffiles := 10000,
         FSSTAT3resok_afiles := 10000,
         FSSTAT3resok_invarsec := 0\<rparr>\<rparr>) }"

definition nfsproc3_fsinfo_3_svc ::
    "'fs minfs \<Rightarrow> svc_req \<Rightarrow> FSINFO3args \<Rightarrow> FSINFO3res \<Rightarrow> ('fs, FSINFO3res) act" where
  "nfsproc3_fsinfo_3_svc ns rqstp argp result = do {
     let maxdata = maxdata_of rqstp;
     path \<leftarrow> fh_decomp (FSINFO3args_fsroot argp);
     post \<leftarrow> get_post ns path;
     ret (result\<lparr>FSINFO3res_status := NFS3_OK,
       FSINFO3res_u := (FSINFO3res_u result)\<lparr>
         FSINFO3resfail_obj_attributes := post,
         FSINFO3resok_rtmax := maxdata,
         FSINFO3resok_rtpref := maxdata,
         FSINFO3resok_rtmult := 4096,
         FSINFO3resok_wtmax := maxdata,
         FSINFO3resok_wtpref := maxdata,
         FSINFO3resok_wtmult := 4096,
         FSINFO3resok_dtpref := 4096,
         FSINFO3resok_maxfilesize := NOT 0,
         FSINFO3resok_time_delta := \<lparr>nfstime3_seconds = 1, nfstime3_nseconds = 0\<rparr>,
         FSINFO3resok_properties :=
           FSF3_LINK OR FSF3_SYMLINK OR FSF3_HOMOGENEOUS OR FSF3_CANSETTIME\<rparr>\<rparr>) }"

definition nfsproc3_pathconf_3_svc ::
    "'fs minfs \<Rightarrow> PATHCONF3args \<Rightarrow> PATHCONF3res \<Rightarrow> ('fs, PATHCONF3res) act" where
  "nfsproc3_pathconf_3_svc ns argp result = do {
     path \<leftarrow> fh_decomp (PATHCONF3args_object argp);
     post \<leftarrow> get_post ns path;
     ret (result\<lparr>PATHCONF3res_status := NFS3_OK,
       PATHCONF3res_u := (PATHCONF3res_u result)\<lparr>
         PATHCONF3resfail_obj_attributes := post,
         PATHCONF3resok_linkmax := 0xFFFFFFFF,
         PATHCONF3resok_name_max := NFS_MAXPATHLEN,
         PATHCONF3resok_no_trunc := TRUE,
         PATHCONF3resok_chown_restricted := FALSE,
         PATHCONF3resok_case_insensitive := FALSE,
         PATHCONF3resok_case_preserving := TRUE\<rparr>\<rparr>) }"

section \<open>Every handler keeps to the contract\<close>

context reader_contract
begin

lemma nfsproc3_reader_keeps [keeps_rules]:
  "keeps W (nfsproc3_getattr_3_svc ns a1 r1)"
  "keeps W (nfsproc3_lookup_3_svc ns a2 r2)"
  "keeps W (nfsproc3_access_3_svc ns a3 r3)"
  "keeps W (nfsproc3_read_3_svc ns rqstp a4 r4)"
  "keeps W (nfsproc3_commit_3_svc ns a5 r5)"
  "keeps W (nfsproc3_fsstat_3_svc ns a6 r6)"
  "keeps W (nfsproc3_fsinfo_3_svc ns rqstp a7 r7)"
  "keeps W (nfsproc3_pathconf_3_svc ns a8 r8)"
  unfolding nfsproc3_getattr_3_svc_def nfsproc3_lookup_3_svc_def nfsproc3_access_3_svc_def
    nfsproc3_read_3_svc_def nfsproc3_commit_3_svc_def nfsproc3_fsstat_3_svc_def
    nfsproc3_fsinfo_3_svc_def nfsproc3_pathconf_3_svc_def Let_def
  by (intro keeps_rules)+

end

context world_contract
begin

lemma nfsproc3_writer_keeps [keeps_rules]:
  "keeps W (nfsproc3_setattr_3_svc ns a1 r1)"
  "keeps W (nfsproc3_write_3_svc ns a2 r2)"
  "keeps W (nfsproc3_create_3_svc ns a3 r3)"
  "keeps W (nfsproc3_mkdir_3_svc ns a4 r4)"
  "keeps W (nfsproc3_remove_3_svc ns a5 r5)"
  "keeps W (nfsproc3_rmdir_3_svc ns a6 r6)"
  unfolding nfsproc3_setattr_3_svc_def nfsproc3_write_3_svc_def nfsproc3_create_3_svc_def
    nfsproc3_mkdir_3_svc_def nfsproc3_remove_3_svc_def nfsproc3_rmdir_3_svc_def Let_def
  by (intro keeps_rules)+

lemmas nfsproc3_keeps = nfsproc3_reader_keeps nfsproc3_writer_keeps

end

lemma nfsproc3_refused_keeps [keeps_rules]:
  "keeps J nfsproc3_null_3_svc"
  "keeps J (nfsproc3_readlink_3_svc ns a1 r1)"
  "keeps J (nfsproc3_symlink_3_svc ns a2 r2)"
  "keeps J (nfsproc3_mknod_3_svc ns a3 r3)"
  "keeps J (nfsproc3_link_3_svc ns a4 r4)"
  "keeps J (nfsproc3_readdirplus_3_svc ns a5 r5)"
  by (simp_all add: keeps_return nfsproc3_null_3_svc_def nfsproc3_readlink_3_svc_def
      nfsproc3_symlink_3_svc_def nfsproc3_mknod_3_svc_def nfsproc3_link_3_svc_def
      nfsproc3_readdirplus_3_svc_def)

context renaming_contract
begin

lemma nfsproc3_rename_keeps [keeps_rules]: "keeps W (nfsproc3_rename_3_svc ns argp result)"
  unfolding nfsproc3_rename_3_svc_def Let_def by (intro keeps_rules)

end

end
