(* ===== verification/Readdir.thy ===== *)
theory Readdir
  imports Nfs_Ops
begin

text \<open>
  Directory listings: \<open>go_readdir_full\<close> of \<open>unfs2go_exports.go\<close>, which fills two buffers of
  the C side with a linked list of entries, and READDIR of \<open>unfs3/nfs.c\<close>, which sends it.
  The buffers are modelled as memory: \<open>names\<close> is a block of characters, a slot of \<open>entries\<close>
  holds its pointers as an offset into \<open>names\<close> and an index into \<open>entries\<close>. A Go panic ends
  the server; it is the result \<^const>\<open>None\<close>.
\<close>

section \<open>The buffers\<close>

record dirslot =
  slot_fileid :: u64
  slot_name :: "nat option"
  slot_cookie :: u64
  slot_next :: "nat option"

definition null_slot :: dirslot where
  "null_slot = \<lparr>slot_fileid = 0, slot_name = None, slot_cookie = 0, slot_next = None\<rparr>"

definition PTRBYTES :: int where
  "PTRBYTES = 8"

text \<open>\<open>copy (buf[at:], s)\<close>: as much of \<open>s\<close> as there is room for.\<close>

definition copy_to :: "string \<Rightarrow> nat \<Rightarrow> string \<Rightarrow> string \<times> nat" where
  "copy_to buf off s =
     (let n = min (length s) (length buf - off)
      in (take off buf @ take n s @ drop (off + n) buf, n))"

section \<open>go_readdir_full\<close>

text \<open>
  One round of the loop handles the entry number \<open>i = startCookie + k\<close> of the directory; the
  offsets are \<open>nbIndex = k * maxpathlen\<close> and the slot \<open>k\<close>. The list is the rest of \<open>arr\<close>.
\<close>

fun dir_loop :: "string \<Rightarrow> nat \<Rightarrow> nat \<Rightarrow> FileInfo list \<Rightarrow> int \<Rightarrow> nat \<Rightarrow> int \<Rightarrow> string \<Rightarrow> dirslot list \<Rightarrow>
    ('fs, (cint \<times> string \<times> dirslot list) option) act" where
  "dir_loop dirp mp me [] maxByteCount k i names entries = ret (Some (NFS3_OK, names, entries))"
| "dir_loop dirp mp me (fi # fis) maxByteCount k i names entries =
     (let maxByteCount = maxByteCount - (int (length (fi_Name fi)) + 1 + 16 + 2 * PTRBYTES)
      in if maxByteCount < 0 \<or> me \<le> k then ret (Some (- 1, names, entries))
         else do {
           let entries =
             (if k \<noteq> 0 then entries[k - 1 := (entries ! (k - 1))\<lparr>slot_next := Some k\<rparr>] else entries);
           let fp = path_Clean (dirp @ ''/'' @ fi_Name fi);
           fd \<leftarrow> on_fddb (\<lambda>t. GetFD t fp);
           let (names, bytCount) = copy_to names (k * mp) (fi_Name fi);
           if k * mp + bytCount < length names
           then (let names = names[k * mp + bytCount := NUL];
                     entries = entries[k := \<lparr>slot_fileid = word_of_int fd, slot_name = Some (k * mp),
                       slot_cookie = word_of_int (i + 1), slot_next = None\<rparr>]
                 in dir_loop dirp mp me fis maxByteCount (Suc k) (i + 1) names entries)
           else ret None })"

definition go_readdir_full :: "'fs minfs \<Rightarrow> charptr \<Rightarrow> u64 \<Rightarrow> u32 \<Rightarrow> nat \<Rightarrow> nat \<Rightarrow>
    ('fs, (cint \<times> string \<times> dirslot list) option) act" where
  "go_readdir_full ns dirpath cookie count mp me = do {
     let maxByteCount = uint count;
     let startCookie = sint cookie;
     let names = replicate (mp * me) NUL;
     let entries = replicate me null_slot;
     let dirp = go_path dirpath;
     listing \<leftarrow> backend (\<lambda>s. fs_ReadDirectory ns s dirp);
     case listing of
       Inl err \<Rightarrow> ret (Some (errno (Some err), names, entries))
     | Inr arr \<Rightarrow>
         if int (length arr) < startCookie then ret (Some (NFS3ERR_BAD_COOKIE, names, entries))
         else if startCookie < 0 then ret None
         else dir_loop dirp mp me (drop (nat startCookie) arr) maxByteCount 0 startCookie names entries }"

section \<open>READDIR\<close>

text \<open>
  The linked list the C code sends: the slots reached from slot \<open>k\<close> through the pointers.
  A list in \<open>me\<close> slots has at most \<open>me\<close> elements, so that much fuel reaches its end.
\<close>

fun entries_at :: "nat \<Rightarrow> string \<Rightarrow> dirslot list \<Rightarrow> nat \<Rightarrow> entry3 option" where
  "entries_at 0 names entries k = None"
| "entries_at (Suc fuel) names entries k =
     (let e = entries ! k
      in Some (Entry3 (slot_fileid e) (map_option (\<lambda>off. cstr (drop off names)) (slot_name e))
        (slot_cookie e)
        (case slot_next e of None \<Rightarrow> None | Some j \<Rightarrow> entries_at fuel names entries j)))"

definition readdir_count :: "u32 \<Rightarrow> u32" where
  "readdir_count requested =
     (let count = (if requested > 4096 then 4096 else requested) in count - RESOK_SIZE)"

definition nfsproc3_readdir_3_svc ::
    "'fs minfs \<Rightarrow> READDIR3args \<Rightarrow> READDIR3res \<Rightarrow> ('fs, READDIR3res option) act" where
  "nfsproc3_readdir_3_svc ns argp result = do {
     resok \<leftarrow> choice e_un_readdir;
     path \<leftarrow> fh_decomp (READDIR3args_dir argp);
     r \<leftarrow> go_readdir_full ns path (READDIR3args_cookie argp) (readdir_count (READDIR3args_count argp))
       (unat NFS_MAXPATHLEN) (unat MAX_ENTRIES);
     case r of
       None \<Rightarrow> ret None
     | Some (res, names, entries) \<Rightarrow> do {
         let (res, eof) =
           (if sint res < 0 then (NFS3_OK, FALSE)
            else if res = NFS3_OK then (res, TRUE)
            else (res, dirlist3_eof (READDIR3resok_reply resok)));
         let first =
           (if slot_name (entries ! 0) \<noteq> None
            then entries_at (unat MAX_ENTRIES) names entries 0 else None);
         post \<leftarrow> get_post ns path;
         ret (Some (result\<lparr>READDIR3res_status := res,
           READDIR3res_u := resok\<lparr>
             READDIR3resok_reply := \<lparr>dirlist3_entries = first, dirlist3_eof = eof\<rparr>,
             READDIR3resok_cookieverf := replicate 8 0,
             READDIR3resfail_dir_attributes := post\<rparr>\<rparr>)) } }"

section \<open>The contract\<close>

context reader_contract
begin

lemma dir_loop_keeps [keeps_rules]:
  "keeps W (dir_loop dirp mp me fis b k i names entries)"
proof (induction fis arbitrary: b k i names entries)
  case Nil
  show ?case by (simp add: keeps_return)
next
  case (Cons fi fis)
  show ?case unfolding dir_loop.simps Let_def by (intro keeps_rules Cons.IH)
qed

lemma go_readdir_full_keeps [keeps_rules]:
  "keeps W (go_readdir_full ns path cookie count mp me)"
  unfolding go_readdir_full_def Let_def by (intro keeps_rules backend_queries)

lemma nfsproc3_readdir_keeps [keeps_rules]:
  "keeps W (nfsproc3_readdir_3_svc ns argp result)"
  unfolding nfsproc3_readdir_3_svc_def Let_def by (intro keeps_rules)

end

end
