(* ===== verification/Xdr_Mount.thy ===== *)
theory Xdr_Mount
  imports Xdr_Codec
begin

text \<open>
  The MOUNT protocol: the definitions of \<open>unfs3/mount.h\<close> and the filters of \<open>unfs3/xdr.c\<close>
  for its messages, with what survives encoding and decoding. The three linked lists of the
  protocol are datatypes whose \<open>next\<close> pointer is an option.
\<close>

section \<open>Constants and structures\<close>

type_synonym mountstat3 = cint

definition MNTPATHLEN :: u32 where
  [c_consts]: "MNTPATHLEN = 1024"

definition MNTNAMLEN :: u32 where
  [c_consts]: "MNTNAMLEN = 255"

definition FHSIZE3 :: u32 where
  [c_consts]: "FHSIZE3 = 64"

definition MNT3_OK :: mountstat3 where
  [c_consts]: "MNT3_OK = 0"

definition MNT3ERR_PERM :: mountstat3 where
  [c_consts]: "MNT3ERR_PERM = 1"

definition MNT3ERR_NOENT :: mountstat3 where
  [c_consts]: "MNT3ERR_NOENT = 2"

definition MNT3ERR_IO :: mountstat3 where
  [c_consts]: "MNT3ERR_IO = 5"

definition MNT3ERR_ACCES :: mountstat3 where
  [c_consts]: "MNT3ERR_ACCES = 13"

definition MNT3ERR_NOTDIR :: mountstat3 where
  [c_consts]: "MNT3ERR_NOTDIR = 20"

definition MNT3ERR_INVAL :: mountstat3 where
  [c_consts]: "MNT3ERR_INVAL = 22"

definition MNT3ERR_NAMETOOLONG :: mountstat3 where
  [c_consts]: "MNT3ERR_NAMETOOLONG = 63"

definition MNT3ERR_NOTSUPP :: mountstat3 where
  [c_consts]: "MNT3ERR_NOTSUPP = 10004"

definition MNT3ERR_SERVERFAULT :: mountstat3 where
  [c_consts]: "MNT3ERR_SERVERFAULT = 10006"

definition MOUNTPROG :: u32 where
  [c_consts]: "MOUNTPROG = 100005"

definition MOUNTVERS1 :: u32 where
  [c_consts]: "MOUNTVERS1 = 1"

definition MOUNTVERS3 :: u32 where
  [c_consts]: "MOUNTVERS3 = 3"

definition MOUNTPROC_NULL :: u32 where
  [c_consts]: "MOUNTPROC_NULL = 0"

definition MOUNTPROC_MNT :: u32 where
  [c_consts]: "MOUNTPROC_MNT = 1"

definition MOUNTPROC_DUMP :: u32 where
  [c_consts]: "MOUNTPROC_DUMP = 2"

definition MOUNTPROC_UMNT :: u32 where
  [c_consts]: "MOUNTPROC_UMNT = 3"

definition MOUNTPROC_UMNTALL :: u32 where
  [c_consts]: "MOUNTPROC_UMNTALL = 4"

definition MOUNTPROC_EXPORT :: u32 where
  [c_consts]: "MOUNTPROC_EXPORT = 5"

type_synonym dirpath = charptr
type_synonym name = charptr

text \<open>A \<open>fhandle3\<close> and the \<open>auth_flavors\<close> are counted arrays.\<close>

type_synonym fhandle3 = "byte counted"

record mountres3_ok =
  mountres3_ok_fhandle :: fhandle3
  mountres3_ok_auth_flavors :: "cint counted"

instantiation mountres3_ok_ext :: (default) default
begin

definition default_mountres3_ok_ext :: "'a mountres3_ok_scheme" where
  "default_mountres3_ok_ext = \<lparr>mountres3_ok_fhandle = default, mountres3_ok_auth_flavors = default, \<dots> = default\<rparr>"

instance ..

end

declare default_mountres3_ok_ext_def [zero_mem]

record mountres3 =
  mountres3_fhs_status :: mountstat3
  mountres3_mountinfo :: mountres3_ok

instantiation mountres3_ext :: (default) default
begin

definition default_mountres3_ext :: "'a mountres3_scheme" where
  "default_mountres3_ext = \<lparr>mountres3_fhs_status = default, mountres3_mountinfo = default, \<dots> = default\<rparr>"

instance ..

end

declare default_mountres3_ext_def [zero_mem]

datatype mountbody =
  Mountbody (ml_hostname: name) (ml_directory: dirpath) (ml_next: "mountbody option")

instantiation mountbody :: default
begin

definition default_mountbody :: mountbody where
  "default_mountbody = Mountbody default default default"

instance ..

end

declare default_mountbody_def [zero_mem]

datatype groupnode =
  Groupnode (gr_name: name) (gr_next: "groupnode option")

instantiation groupnode :: default
begin

definition default_groupnode :: groupnode where
  "default_groupnode = Groupnode default default"

instance ..

end

declare default_groupnode_def [zero_mem]

datatype exportnode =
  Exportnode (ex_dir: dirpath) (ex_groups: "groupnode option") (ex_next: "exportnode option")

instantiation exportnode :: default
begin

definition default_exportnode :: exportnode where
  "default_exportnode = Exportnode default default default"

instance ..

end

declare default_exportnode_def [zero_mem]

section \<open>Filters\<close>

definition xdr_fhandle3 :: "fhandle3 xdrproc" where
  [xdr_defs]: "xdr_fhandle3 = xdr_bytes FHSIZE3"

lemma xdr_fhandle3_framed [xdr_framed]: "framed xdr_fhandle3"
  by (auto simp: xdr_fhandle3_def intro!: xdr_framed)

definition xdr_mountstat3 :: "mountstat3 xdrproc" where
  [xdr_defs]: "xdr_mountstat3 = xdr_enum"

lemma xdr_mountstat3_framed [xdr_framed]: "framed xdr_mountstat3"
  by (auto simp: xdr_mountstat3_def intro!: xdr_framed)

definition xdr_mountres3_ok :: "mountres3_ok xdrproc" where
  [xdr_defs]: "xdr_mountres3_ok = xseq
     [field xdr_fhandle3 mountres3_ok_fhandle mountres3_ok_fhandle_update,
      field (xdr_array (NOT 0) 4 xdr_int) mountres3_ok_auth_flavors mountres3_ok_auth_flavors_update]"

lemma xdr_mountres3_ok_framed [xdr_framed]: "framed xdr_mountres3_ok"
  by (auto simp: xdr_mountres3_ok_def intro!: xdr_framed)

definition xdr_mountres3 :: "mountres3 xdrproc" where
  [xdr_defs]: "xdr_mountres3 = xseq
     [field xdr_mountstat3 mountres3_fhs_status mountres3_fhs_status_update,
      xdr_switch (\<lambda>objp.
        if mountres3_fhs_status objp = 0
        then field xdr_mountres3_ok mountres3_mountinfo mountres3_mountinfo_update
        else xdr_break)]"

lemma xdr_mountres3_framed [xdr_framed]: "framed xdr_mountres3"
  by (auto simp: xdr_mountres3_def intro!: xdr_framed)

definition xdr_dirpath :: "dirpath xdrproc" where
  [xdr_defs]: "xdr_dirpath = xdr_string MNTPATHLEN"

lemma xdr_dirpath_framed [xdr_framed]: "framed xdr_dirpath"
  by (auto simp: xdr_dirpath_def intro!: xdr_framed)

definition xdr_name :: "name xdrproc" where
  [xdr_defs]: "xdr_name = xdr_string MNTNAMLEN"

lemma xdr_name_framed [xdr_framed]: "framed xdr_name"
  by (auto simp: xdr_name_def intro!: xdr_framed)

text \<open>Each of the lists calls itself through \<open>xdr_pointer\<close> for the next element.\<close>

function xdr_mountbody :: "mountbody xdrproc" where
  "xdr_mountbody xdrs objp =
     (case xdr_name xdrs (ml_hostname objp) of None \<Rightarrow> None | Some (x1, v1) \<Rightarrow>
     (case xdr_dirpath x1 (ml_directory objp) of None \<Rightarrow> None | Some (x2, v2) \<Rightarrow>
     (case xdr_pointer xdr_mountbody x2 (ml_next objp) of None \<Rightarrow> None
      | Some (y, nx) \<Rightarrow> Some (y, Mountbody v1 v2 nx))))"
  by pat_completeness auto
termination
proof (relation "measure (\<lambda>(xdrs, e). if x_op xdrs = XDR_DECODE then length (x_in xdrs) else size e)")
  fix xdrs :: XDR and objp :: mountbody
    and a1 x1 v1 a2 x2 v2 y d
  assume "xdr_name xdrs (ml_hostname objp) = Some a1" "(x1, v1) = a1"
    and "xdr_dirpath x1 (ml_directory objp) = Some a2" "(x2, v2) = a2"
    and call: "xdr_bool x2 (if ml_next objp = None then FALSE else TRUE) = Some (y, d)"
      "d \<noteq> FALSE"
  then have "x_op x2 = x_op xdrs" "length (x_in x2) \<le> length (x_in xdrs)"
    using framed_shrinks [OF xdr_name_framed, of xdrs "ml_hostname objp" x1 v1]
      framed_shrinks [OF xdr_dirpath_framed, of x1 "ml_directory objp" x2 v2] by auto
  then show "((y, case ml_next objp of None \<Rightarrow> default | Some v \<Rightarrow> v), xdrs, objp)
      \<in> measure (\<lambda>(xdrs, e). if x_op xdrs = XDR_DECODE then length (x_in xdrs) else size e)"
    using xdr_pointer_call [OF call] by (cases objp) (auto split: option.split)
qed simp

declare xdr_mountbody.simps [simp del]

lemma xdr_mountbody_framed [xdr_framed]: "framed xdr_mountbody"
proof (rule framedI)
  fix xdrs obj xdrs' obj'
  assume "xdr_mountbody xdrs obj = Some (xdrs', obj')"
  then show "stream_step xdrs xdrs' \<and> (x_op xdrs = XDR_ENCODE \<longrightarrow> obj' = obj)"
  proof (induction xdrs obj arbitrary: xdrs' obj' rule: xdr_mountbody.induct)
    case (1 xdrs objp)
    from "1.prems" obtain x1 v1 x2 v2 nx where
      a1: "xdr_name xdrs (ml_hostname objp) = Some (x1, v1)"
      and a2: "xdr_dirpath x1 (ml_directory objp) = Some (x2, v2)"
      and b: "xdr_pointer xdr_mountbody x2 (ml_next objp) = Some (xdrs', nx)"
      and obj': "obj' = Mountbody v1 v2 nx"
      by (auto simp: xdr_mountbody.simps [of xdrs objp] split: option.splits)
    note f1 = framedD [OF xdr_name_framed a1]
    note f2 = framedD [OF xdr_dirpath_framed a2]
    have fb: "stream_step x2 xdrs' \<and> (x_op x2 = XDR_ENCODE \<longrightarrow> nx = ml_next objp)"
      using b by (rule xdr_pointer_step) (use "1.IH" a1 a2 in blast)
    have s: "stream_step xdrs x2" by (rule stream_step_trans [OF f1(1) f2(1)])
    then show ?case
      using stream_step_trans [OF s, of xdrs'] f1(2) f2(2) fb obj'
        stream_step_op [OF f1(1)] stream_step_op [OF f2(1)] by auto
  qed
qed

definition xdr_mountlist :: "mountbody option xdrproc" where
  [xdr_defs]: "xdr_mountlist = xdr_pointer xdr_mountbody"

lemma xdr_mountlist_framed [xdr_framed]: "framed xdr_mountlist"
  by (auto simp: xdr_mountlist_def intro!: xdr_framed)

function xdr_groupnode :: "groupnode xdrproc" where
  "xdr_groupnode xdrs objp =
     (case xdr_name xdrs (gr_name objp) of None \<Rightarrow> None | Some (x1, v1) \<Rightarrow>
     (case xdr_pointer xdr_groupnode x1 (gr_next objp) of None \<Rightarrow> None
      | Some (y, nx) \<Rightarrow> Some (y, Groupnode v1 nx)))"
  by pat_completeness auto
termination
proof (relation "measure (\<lambda>(xdrs, e). if x_op xdrs = XDR_DECODE then length (x_in xdrs) else size e)")
  fix xdrs :: XDR and objp :: groupnode
    and a1 x1 v1 y d
  assume "xdr_name xdrs (gr_name objp) = Some a1" "(x1, v1) = a1"
    and call: "xdr_bool x1 (if gr_next objp = None then FALSE else TRUE) = Some (y, d)"
      "d \<noteq> FALSE"
  then have "x_op x1 = x_op xdrs" "length (x_in x1) \<le> length (x_in xdrs)"
    using framed_shrinks [OF xdr_name_framed, of xdrs "gr_name objp" x1 v1] by auto
  then show "((y, case gr_next objp of None \<Rightarrow> default | Some v \<Rightarrow> v), xdrs, objp)
      \<in> measure (\<lambda>(xdrs, e). if x_op xdrs = XDR_DECODE then length (x_in xdrs) else size e)"
    using xdr_pointer_call [OF call] by (cases objp) (auto split: option.split)
qed simp

declare xdr_groupnode.simps [simp del]

lemma xdr_groupnode_framed [xdr_framed]: "framed xdr_groupnode"
proof (rule framedI)
  fix xdrs obj xdrs' obj'
  assume "xdr_groupnode xdrs obj = Some (xdrs', obj')"
  then show "stream_step xdrs xdrs' \<and> (x_op xdrs = XDR_ENCODE \<longrightarrow> obj' = obj)"
  proof (induction xdrs obj arbitrary: xdrs' obj' rule: xdr_groupnode.induct)
    case (1 xdrs objp)
    from "1.prems" obtain x1 v1 nx where
      a1: "xdr_name xdrs (gr_name objp) = Some (x1, v1)"
      and b: "xdr_pointer xdr_groupnode x1 (gr_next objp) = Some (xdrs', nx)"
      and obj': "obj' = Groupnode v1 nx"
      by (auto simp: xdr_groupnode.simps [of xdrs objp] split: option.splits)
    note f1 = framedD [OF xdr_name_framed a1]
    have fb: "stream_step x1 xdrs' \<and> (x_op x1 = XDR_ENCODE \<longrightarrow> nx = gr_next objp)"
      using b by (rule xdr_pointer_step) (use "1.IH" a1 in blast)
    have s: "stream_step xdrs x1" by (rule f1(1))
    then show ?case
      using stream_step_trans [OF s, of xdrs'] f1(2) fb obj'
        stream_step_op [OF f1(1)] by auto
  qed
qed

definition xdr_groups :: "groupnode option xdrproc" where
  [xdr_defs]: "xdr_groups = xdr_pointer xdr_groupnode"

lemma xdr_groups_framed [xdr_framed]: "framed xdr_groups"
  by (auto simp: xdr_groups_def intro!: xdr_framed)

function xdr_exportnode :: "exportnode xdrproc" where
  "xdr_exportnode xdrs objp =
     (case xdr_dirpath xdrs (ex_dir objp) of None \<Rightarrow> None | Some (x1, v1) \<Rightarrow>
     (case xdr_groups x1 (ex_groups objp) of None \<Rightarrow> None | Some (x2, v2) \<Rightarrow>
     (case xdr_pointer xdr_exportnode x2 (ex_next objp) of None \<Rightarrow> None
      | Some (y, nx) \<Rightarrow> Some (y, Exportnode v1 v2 nx))))"
  by pat_completeness auto
termination
proof (relation "measure (\<lambda>(xdrs, e). if x_op xdrs = XDR_DECODE then length (x_in xdrs) else size e)")
  fix xdrs :: XDR and objp :: exportnode
    and a1 x1 v1 a2 x2 v2 y d
  assume "xdr_dirpath xdrs (ex_dir objp) = Some a1" "(x1, v1) = a1"
    and "xdr_groups x1 (ex_groups objp) = Some a2" "(x2, v2) = a2"
    and call: "xdr_bool x2 (if ex_next objp = None then FALSE else TRUE) = Some (y, d)"
      "d \<noteq> FALSE"
  then have "x_op x2 = x_op xdrs" "length (x_in x2) \<le> length (x_in xdrs)"
    using framed_shrinks [OF xdr_dirpath_framed, of xdrs "ex_dir objp" x1 v1]
      framed_shrinks [OF xdr_groups_framed, of x1 "ex_groups objp" x2 v2] by auto
  then show "((y, case ex_next objp of None \<Rightarrow> default | Some v \<Rightarrow> v), xdrs, objp)
      \<in> measure (\<lambda>(xdrs, e). if x_op xdrs = XDR_DECODE then length (x_in xdrs) else size e)"
    using xdr_pointer_call [OF call] by (cases objp) (auto split: option.split)
qed simp

declare xdr_exportnode.simps [simp del]

lemma xdr_exportnode_framed [xdr_framed]: "framed xdr_exportnode"
proof (rule framedI)
  fix xdrs obj xdrs' obj'
  assume "xdr_exportnode xdrs obj = Some (xdrs', obj')"
  then show "stream_step xdrs xdrs' \<and> (x_op xdrs = XDR_ENCODE \<longrightarrow> obj' = obj)"
  proof (induction xdrs obj arbitrary: xdrs' obj' rule: xdr_exportnode.induct)
    case (1 xdrs objp)
    from "1.prems" obtain x1 v1 x2 v2 nx where
      a1: "xdr_dirpath xdrs (ex_dir objp) = Some (x1, v1)"
      and a2: "xdr_groups x1 (ex_groups objp) = Some (x2, v2)"
      and b: "xdr_pointer xdr_exportnode x2 (ex_next objp) = Some (xdrs', nx)"
      and obj': "obj' = Exportnode v1 v2 nx"
      by (auto simp: xdr_exportnode.simps [of xdrs objp] split: option.splits)
    note f1 = framedD [OF xdr_dirpath_framed a1]
    note f2 = framedD [OF xdr_groups_framed a2]
    have fb: "stream_step x2 xdrs' \<and> (x_op x2 = XDR_ENCODE \<longrightarrow> nx = ex_next objp)"
      using b by (rule xdr_pointer_step) (use "1.IH" a1 a2 in blast)
    have s: "stream_step xdrs x2" by (rule stream_step_trans [OF f1(1) f2(1)])
    then show ?case
      using stream_step_trans [OF s, of xdrs'] f1(2) f2(2) fb obj'
        stream_step_op [OF f1(1)] stream_step_op [OF f2(1)] by auto
  qed
qed

definition xdr_exports :: "exportnode option xdrproc" where
  [xdr_defs]: "xdr_exports = xdr_pointer xdr_exportnode"

lemma xdr_exports_framed [xdr_framed]: "framed xdr_exports"
  by (auto simp: xdr_exports_def intro!: xdr_framed)

section \<open>Encoding, then decoding\<close>

lemma xdr_dirpath_rtrip [xdr_rt]: "str_ok MNTPATHLEN p \<Longrightarrow> rtrip xdr_dirpath y p p"
  by (simp add: xdr_dirpath_def xdr_string_rtrip)

lemma xdr_name_rtrip [xdr_rt]: "str_ok MNTNAMLEN p \<Longrightarrow> rtrip xdr_name y p p"
  by (simp add: xdr_name_def xdr_string_rtrip)

fun ok_mountbody :: "mountbody \<Rightarrow> bool" where
  "ok_mountbody (Mountbody v1 v2 None) \<longleftrightarrow> str_ok MNTNAMLEN v1 \<and> str_ok MNTPATHLEN v2"
| "ok_mountbody (Mountbody v1 v2 (Some e)) \<longleftrightarrow> str_ok MNTNAMLEN v1 \<and> str_ok MNTPATHLEN v2 \<and> ok_mountbody e"

lemma xdr_mountbody_rtrip_step:
  assumes "str_ok MNTNAMLEN v1" and "str_ok MNTPATHLEN v2" and "rtrip (xdr_pointer xdr_mountbody) None nx nx"
  shows "rtrip xdr_mountbody default (Mountbody v1 v2 nx) (Mountbody v1 v2 nx)"
proof -
  have "rtrip xdr_name None v1 v1" and "rtrip xdr_dirpath None v2 v2"
    using assms by (auto intro: xdr_rt)
  then show ?thesis using assms(3)
  proof (elim rtripE)
    fix b1 b2 cs
    assume "4 dvd length b1" "4 dvd length b2" "4 dvd length cs"
      and "\<And>out inp. xdr_name (encoder out inp) v1 = Some (encoder (out @ b1) inp, v1)"
        "\<And>out rest. xdr_name (decoder out (b1 @ rest)) None = Some (decoder out rest, v1)"
        "\<And>out inp. xdr_dirpath (encoder out inp) v2 = Some (encoder (out @ b2) inp, v2)"
        "\<And>out rest. xdr_dirpath (decoder out (b2 @ rest)) None = Some (decoder out rest, v2)"
        "\<And>out inp. xdr_pointer xdr_mountbody (encoder out inp) nx = Some (encoder (out @ cs) inp, nx)"
        "\<And>out rest. xdr_pointer xdr_mountbody (decoder out (cs @ rest)) None = Some (decoder out rest, nx)"
    then show ?thesis
      by (intro rtripI [of "b1 @ b2 @ cs"]) (simp_all add: xdr_mountbody.simps default_mountbody_def default_option_def)
  qed
qed

lemma xdr_mountbody_rtrip [xdr_rt]: "ok_mountbody e \<Longrightarrow> rtrip xdr_mountbody default e e"
  by (induction e rule: ok_mountbody.induct)
    (auto intro!: xdr_mountbody_rtrip_step xdr_pointer_rtrip_None xdr_pointer_rtrip_Some)

lemma xdr_mountbody_pointer_rtrip [xdr_rt]:
  "pred_option ok_mountbody p \<Longrightarrow> rtrip (xdr_pointer xdr_mountbody) None p p"
  by (cases p) (auto intro!: xdr_pointer_rtrip_Some xdr_rt)

lemma xdr_mountlist_rtrip [xdr_rt]: "pred_option ok_mountbody p \<Longrightarrow> rtrip xdr_mountlist None p p"
  by (simp add: xdr_mountlist_def xdr_mountbody_pointer_rtrip)

fun ok_groupnode :: "groupnode \<Rightarrow> bool" where
  "ok_groupnode (Groupnode v1 None) \<longleftrightarrow> str_ok MNTNAMLEN v1"
| "ok_groupnode (Groupnode v1 (Some e)) \<longleftrightarrow> str_ok MNTNAMLEN v1 \<and> ok_groupnode e"

lemma xdr_groupnode_rtrip_step:
  assumes "str_ok MNTNAMLEN v1" and "rtrip (xdr_pointer xdr_groupnode) None nx nx"
  shows "rtrip xdr_groupnode default (Groupnode v1 nx) (Groupnode v1 nx)"
proof -
  have "rtrip xdr_name None v1 v1"
    using assms by (auto intro: xdr_rt)
  then show ?thesis using assms(2)
  proof (elim rtripE)
    fix b1 cs
    assume "4 dvd length b1" "4 dvd length cs"
      and "\<And>out inp. xdr_name (encoder out inp) v1 = Some (encoder (out @ b1) inp, v1)"
        "\<And>out rest. xdr_name (decoder out (b1 @ rest)) None = Some (decoder out rest, v1)"
        "\<And>out inp. xdr_pointer xdr_groupnode (encoder out inp) nx = Some (encoder (out @ cs) inp, nx)"
        "\<And>out rest. xdr_pointer xdr_groupnode (decoder out (cs @ rest)) None = Some (decoder out rest, nx)"
    then show ?thesis
      by (intro rtripI [of "b1 @ cs"]) (simp_all add: xdr_groupnode.simps default_groupnode_def default_option_def)
  qed
qed

lemma xdr_groupnode_rtrip [xdr_rt]: "ok_groupnode e \<Longrightarrow> rtrip xdr_groupnode default e e"
  by (induction e rule: ok_groupnode.induct)
    (auto intro!: xdr_groupnode_rtrip_step xdr_pointer_rtrip_None xdr_pointer_rtrip_Some)

lemma xdr_groupnode_pointer_rtrip [xdr_rt]:
  "pred_option ok_groupnode p \<Longrightarrow> rtrip (xdr_pointer xdr_groupnode) None p p"
  by (cases p) (auto intro!: xdr_pointer_rtrip_Some xdr_rt)

lemma xdr_groups_rtrip [xdr_rt]: "pred_option ok_groupnode p \<Longrightarrow> rtrip xdr_groups None p p"
  by (simp add: xdr_groups_def xdr_groupnode_pointer_rtrip)

fun ok_exportnode :: "exportnode \<Rightarrow> bool" where
  "ok_exportnode (Exportnode v1 v2 None) \<longleftrightarrow> str_ok MNTPATHLEN v1 \<and> pred_option ok_groupnode v2"
| "ok_exportnode (Exportnode v1 v2 (Some e)) \<longleftrightarrow> str_ok MNTPATHLEN v1 \<and> pred_option ok_groupnode v2 \<and> ok_exportnode e"

lemma xdr_exportnode_rtrip_step:
  assumes "str_ok MNTPATHLEN v1" and "pred_option ok_groupnode v2" and "rtrip (xdr_pointer xdr_exportnode) None nx nx"
  shows "rtrip xdr_exportnode default (Exportnode v1 v2 nx) (Exportnode v1 v2 nx)"
proof -
  have "rtrip xdr_dirpath None v1 v1" and "rtrip xdr_groups None v2 v2"
    using assms by (auto intro: xdr_rt)
  then show ?thesis using assms(3)
  proof (elim rtripE)
    fix b1 b2 cs
    assume "4 dvd length b1" "4 dvd length b2" "4 dvd length cs"
      and "\<And>out inp. xdr_dirpath (encoder out inp) v1 = Some (encoder (out @ b1) inp, v1)"
        "\<And>out rest. xdr_dirpath (decoder out (b1 @ rest)) None = Some (decoder out rest, v1)"
        "\<And>out inp. xdr_groups (encoder out inp) v2 = Some (encoder (out @ b2) inp, v2)"
        "\<And>out rest. xdr_groups (decoder out (b2 @ rest)) None = Some (decoder out rest, v2)"
        "\<And>out inp. xdr_pointer xdr_exportnode (encoder out inp) nx = Some (encoder (out @ cs) inp, nx)"
        "\<And>out rest. xdr_pointer xdr_exportnode (decoder out (cs @ rest)) None = Some (decoder out rest, nx)"
    then show ?thesis
      by (intro rtripI [of "b1 @ b2 @ cs"]) (simp_all add: xdr_exportnode.simps default_exportnode_def default_option_def)
  qed
qed

lemma xdr_exportnode_rtrip [xdr_rt]: "ok_exportnode e \<Longrightarrow> rtrip xdr_exportnode default e e"
  by (induction e rule: ok_exportnode.induct)
    (auto intro!: xdr_exportnode_rtrip_step xdr_pointer_rtrip_None xdr_pointer_rtrip_Some)

lemma xdr_exportnode_pointer_rtrip [xdr_rt]:
  "pred_option ok_exportnode p \<Longrightarrow> rtrip (xdr_pointer xdr_exportnode) None p p"
  by (cases p) (auto intro!: xdr_pointer_rtrip_Some xdr_rt)

lemma xdr_exports_rtrip [xdr_rt]: "pred_option ok_exportnode p \<Longrightarrow> rtrip xdr_exports None p p"
  by (simp add: xdr_exports_def xdr_exportnode_pointer_rtrip)

text \<open>The one list of authentication flavours the server sends has one element.\<close>

lemma xdr_flavors_rtrip [xdr_rt]:
  assumes "counted_len c = 1" and "length (counted_val c) = 1"
  shows "rtrip (xdr_array (NOT 0) 4 xdr_int) default c c"
proof -
  obtain v where c: "c = \<lparr>counted_len = 1, counted_val = [v]\<rparr>"
    using assms by (cases c) (auto simp: length_Suc_conv)
  show ?thesis unfolding c
    by (rule rtripI [of "be32 1 @ be32 v"])
      (auto simp: xdr_array_def xdr_int_def xdr_u_int_def zero_mem)
qed

definition ok_mountres3_ok :: "mountres3_ok \<Rightarrow> bool" where
  "ok_mountres3_ok x \<longleftrightarrow> counted_ok FHSIZE3 (mountres3_ok_fhandle x) \<and>
     counted_len (mountres3_ok_auth_flavors x) = 1 \<and>
     length (counted_val (mountres3_ok_auth_flavors x)) = 1"

definition ok_mountres3 :: "mountres3 \<Rightarrow> bool" where
  "ok_mountres3 x \<longleftrightarrow>
     mountres3_fhs_status x = MNT3_OK \<and> ok_mountres3_ok (mountres3_mountinfo x) \<or>
     mountres3_fhs_status x \<noteq> MNT3_OK"

definition vis_mountres3 :: "mountres3 \<Rightarrow> mountres3" where
  "vis_mountres3 x = (if mountres3_fhs_status x = MNT3_OK then x else x\<lparr>mountres3_mountinfo := default\<rparr>)"

lemma xdr_fhandle3_rtrip [xdr_rt]: "counted_ok FHSIZE3 x \<Longrightarrow> rtrip xdr_fhandle3 default x x"
  by (simp add: xdr_fhandle3_def xdr_rt)

lemma xdr_mountstat3_rtrip [xdr_rt]: "rtrip xdr_mountstat3 y x x"
  by (simp add: xdr_mountstat3_def xdr_rt)

lemma xdr_mountres3_ok_rtrip [xdr_rt]:
  "ok_mountres3_ok x \<Longrightarrow> rtrip xdr_mountres3_ok default x x"
  unfolding xdr_mountres3_ok_def ok_mountres3_ok_def
  by ((elim conjE)?; (rule codec_steps xdr_rt refl | assumption | simp add: zero_mem c_consts)+)

lemma xdr_mountres3_rtrip [xdr_rt]:
  "ok_mountres3 x \<Longrightarrow> rtrip xdr_mountres3 default x (vis_mountres3 x)"
  unfolding xdr_mountres3_def ok_mountres3_def vis_mountres3_def
  by (cases x; (elim disjE conjE)?; (rule codec_steps xdr_rt refl | simp add: zero_mem c_consts)+)

interpretation mountres3_codec: xdr_codec xdr_mountres3 ok_mountres3 vis_mountres3
  by unfold_locales (auto intro: xdr_rt xdr_framed)

interpretation dirpath_codec: xdr_codec xdr_dirpath "str_ok MNTPATHLEN" "\<lambda>x. x"
  by unfold_locales (auto intro: xdr_rt xdr_framed)

interpretation mountlist_codec: xdr_codec xdr_mountlist "pred_option ok_mountbody" "\<lambda>x. x"
  by unfold_locales (auto simp: default_option_def intro: xdr_rt xdr_framed)

interpretation exports_codec: xdr_codec xdr_exports "pred_option ok_exportnode" "\<lambda>x. x"
  by unfold_locales (auto simp: default_option_def intro: xdr_rt xdr_framed)

end
