(* ===== verification/Mount.thy ===== *)
theory Mount
  imports Nfs_Ops Xdr_Mount
begin

text \<open>
  The MOUNT procedures, \<open>unfs3/mount.c\<close>. The list of mounts is a linked list on the heap,
  changed in place: a heap maps addresses to cells, \<open>next\<close> pointers are addresses. The lemmas
  show that it refines a plain list of host and directory, to which MNT appends and from which
  UMNT and UMNTALL filter, and that \<open>mount_cnt\<close> is its length.
\<close>

section \<open>State\<close>

record mount_cell =
  cell_hostname :: cstring
  cell_directory :: cstring
  cell_next :: "nat option"

type_synonym mount_heap = "nat \<rightharpoonup> mount_cell"

record mount_state =
  mount_list :: "nat option"
  mount_mem :: mount_heap
  mount_cnt :: int

definition init_mount :: mount_state where
  "init_mount = \<lparr>mount_list = None, mount_mem = Map.empty, mount_cnt = 0\<rparr>"

section \<open>Adding and removing\<close>

text \<open>
  \<open>while (iter->ml_next) iter = iter->ml_next;\<close> is \<^const>\<open>None\<close> for a dangling pointer, and
  where the walk does not end.
\<close>

partial_function (option) last_cell :: "mount_heap \<Rightarrow> nat \<Rightarrow> nat option" where
  [code]: "last_cell h iter =
     (case h iter of None \<Rightarrow> None
      | Some c \<Rightarrow> (case cell_next c of None \<Rightarrow> Some iter | Some nx \<Rightarrow> last_cell h nx))"

text \<open>
  The three \<open>malloc\<close>s are \<open>new\<close>, the address of the cell if there is memory for it, and the
  flags \<open>mem_host\<close> and \<open>mem_dir\<close> for the two strings.
\<close>

definition add_mount :: "nat option \<Rightarrow> bool \<Rightarrow> bool \<Rightarrow> cstring \<Rightarrow> svc_req \<Rightarrow> mount_state \<Rightarrow>
    mount_state option" where
  "add_mount new mem_host mem_dir path rqstp ms =
     (case new of
        None \<Rightarrow> Some ms
      | Some a \<Rightarrow>
          if \<not> mem_host then Some ms
          else if \<not> mem_dir then Some ms
          else (let host = inet_ntoa (get_remote rqstp);
                    h = (mount_mem ms)(a \<mapsto> \<lparr>cell_hostname = host, cell_directory = path,
                      cell_next = None\<rparr>)
                in case mount_list ms of
                     None \<Rightarrow> Some (ms\<lparr>mount_list := Some a, mount_mem := h,
                       mount_cnt := mount_cnt ms + 1\<rparr>)
                   | Some first \<Rightarrow>
                       (case last_cell h first of
                          None \<Rightarrow> None
                        | Some iter \<Rightarrow> Some (ms\<lparr>
                            mount_mem := h(iter \<mapsto> (the (h iter))\<lparr>cell_next := Some a\<rparr>),
                            mount_cnt := mount_cnt ms + 1\<rparr>))))"

definition mount_match :: "charptr \<Rightarrow> cstring \<Rightarrow> mount_cell \<Rightarrow> bool" where
  "mount_match path host c \<longleftrightarrow>
     cell_hostname c = host \<and> (path = None \<or> cell_directory c = the path)"

definition unlink_cell :: "nat option \<Rightarrow> nat option \<Rightarrow> mount_state \<Rightarrow> mount_state option" where
  "unlink_cell prev nx ms =
     (case prev of
        None \<Rightarrow> Some (ms\<lparr>mount_list := nx\<rparr>)
      | Some q \<Rightarrow>
          (case mount_mem ms q of None \<Rightarrow> None
           | Some d \<Rightarrow> Some (ms\<lparr>mount_mem := (mount_mem ms)(q \<mapsto> d\<lparr>cell_next := nx\<rparr>)\<rparr>)))"

partial_function (option) remove_loop ::
    "charptr \<Rightarrow> cstring \<Rightarrow> nat option \<Rightarrow> nat option \<Rightarrow> mount_state \<Rightarrow> mount_state option" where
  [code]: "remove_loop path host prev iter ms =
     (case iter of
        None \<Rightarrow> Some ms
      | Some p \<Rightarrow>
          (case mount_mem ms p of
             None \<Rightarrow> None
           | Some c \<Rightarrow>
               if mount_match path host c then
                 (case unlink_cell prev (cell_next c) ms of
                    None \<Rightarrow> None
                  | Some ms1 \<Rightarrow>
                      remove_loop path host prev (cell_next c)
                        (ms1\<lparr>mount_mem := (mount_mem ms1)(p := None),
                          mount_cnt := (if mount_cnt ms1 > 0 then mount_cnt ms1 - 1 else mount_cnt ms1)\<rparr>))
               else remove_loop path host (Some p) (cell_next c) ms))"

definition remove_mount :: "charptr \<Rightarrow> svc_req \<Rightarrow> mount_state \<Rightarrow> mount_state option" where
  "remove_mount path rqstp ms =
     (let host = inet_ntoa (get_remote rqstp)
      in remove_loop path host None (mount_list ms) ms)"

section \<open>Procedures\<close>

definition PATH_MAX :: nat where
  "PATH_MAX = 4096"

definition AUTH_UNIX :: cint where
  "AUTH_UNIX = 1"

definition mountproc_null_3_svc :: "('fs, unit) act" where
  "mountproc_null_3_svc = ret ()"

text \<open>\<^const>\<open>None\<close> is an access out of bounds: of \<open>buf\<close> by \<open>strcpy\<close>, or of the heap.\<close>

definition mountproc_mnt_3_svc :: "'fs minfs \<Rightarrow> svc_req \<Rightarrow> dirpath \<Rightarrow> mountres3 \<times> mount_state \<Rightarrow>
    ('fs, (mountres3 \<times> mount_state) option) act" where
  "mountproc_mnt_3_svc ns rqstp argp = (\<lambda>(result, ms).
     (if rq_vers rqstp \<noteq> 3 then ret (Some (result\<lparr>mountres3_fhs_status := MNT3ERR_INVAL\<rparr>, ms))
      else (case argp of
         None \<Rightarrow> ret None
       | Some dpath \<Rightarrow>
           if length dpath + 1 > PATH_MAX then ret None
           else do {
             let buf = dpath;
             un \<leftarrow> choice e_un_stat;
             (res, stbuf) \<leftarrow> go_lstat ns (Some buf) un;
             if res \<noteq> NFS3_OK then ret (Some (result\<lparr>mountres3_fhs_status := MNT3ERR_NOENT\<rparr>, ms))
             else if length buf + 1 > unat NFS_MAXPATHLEN
             then ret (Some (result\<lparr>mountres3_fhs_status := MNT3ERR_NAMETOOLONG\<rparr>, ms))
             else if go_accept_mount (rq_caller rqstp) (Some buf) \<noteq> NFS3_OK
             then ret (Some (result\<lparr>mountres3_fhs_status := MNT3ERR_ACCES\<rparr>, ms))
             else if \<not> S_ISDIR (st_mode stbuf)
             then ret (Some (result\<lparr>mountres3_fhs_status := MNT3ERR_NOTDIR\<rparr>, ms))
             else do {
               let fh = fh_comp (st_ino stbuf) (Some buf);
               malloc \<leftarrow> choice e_malloc;
               mem_host \<leftarrow> choice e_malloc_str;
               mem_dir \<leftarrow> choice e_malloc_str;
               case add_mount (malloc (\<lambda>a. mount_mem ms a \<noteq> None)) mem_host mem_dir dpath rqstp ms of
                 None \<Rightarrow> ret None
               | Some ms \<Rightarrow> do {
                   data \<leftarrow> fh_data fh;
                   ret (Some (\<lparr>mountres3_fhs_status = MNT3_OK,
                     mountres3_mountinfo = \<lparr>mountres3_ok_fhandle = data,
                       mountres3_ok_auth_flavors = \<lparr>counted_len = 1, counted_val = [AUTH_UNIX]\<rparr>\<rparr>\<rparr>, ms)) } } })))"

text \<open>The list as \<open>xdr_mountlist\<close> finds it behind the pointer.\<close>

partial_function (option) mount_view :: "mount_heap \<Rightarrow> nat option \<Rightarrow> mountbody option option" where
  [code]: "mount_view h p =
     (case p of
        None \<Rightarrow> Some None
      | Some a \<Rightarrow>
          (case h a of None \<Rightarrow> None
           | Some c \<Rightarrow>
               Option.bind (mount_view h (cell_next c))
                 (\<lambda>nx. Some (Some (Mountbody (Some (cell_hostname c)) (Some (cell_directory c)) nx)))))"

definition mountproc_dump_3_svc :: "mount_state \<Rightarrow> mountbody option option" where
  "mountproc_dump_3_svc ms = mount_view (mount_mem ms) (mount_list ms)"

definition mountproc_umnt_3_svc :: "dirpath \<Rightarrow> svc_req \<Rightarrow> mount_state \<Rightarrow> mount_state option" where
  "mountproc_umnt_3_svc argp rqstp ms = remove_mount argp rqstp ms"

definition mountproc_umntall_3_svc :: "svc_req \<Rightarrow> mount_state \<Rightarrow> mount_state option" where
  "mountproc_umntall_3_svc rqstp ms = remove_mount None rqstp ms"

definition mountproc_export_3_svc :: "exportnode option" where
  "mountproc_export_3_svc = Some (Exportnode (Some ''/'') None None)"

section \<open>The list on the heap\<close>

text \<open>\<open>chain h p as\<close>: the cells at the addresses \<open>as\<close>, in order, are the list at \<open>p\<close>.\<close>

fun chain :: "mount_heap \<Rightarrow> nat option \<Rightarrow> nat list \<Rightarrow> bool" where
  "chain h p [] \<longleftrightarrow> p = None"
| "chain h p (a # as) \<longleftrightarrow> p = Some a \<and> (case h a of None \<Rightarrow> False | Some c \<Rightarrow> chain h (cell_next c) as)"

definition mount_entry :: "mount_heap \<Rightarrow> nat \<Rightarrow> cstring \<times> cstring" where
  "mount_entry h a = (cell_hostname (the (h a)), cell_directory (the (h a)))"

text \<open>The abstraction: the list of (host, directory) that the state stands for.\<close>

definition mount_rel :: "mount_state \<Rightarrow> (cstring \<times> cstring) list \<Rightarrow> bool" where
  "mount_rel ms xs \<longleftrightarrow> (\<exists>as. distinct as \<and> chain (mount_mem ms) (mount_list ms) as \<and>
     map (mount_entry (mount_mem ms)) as = xs \<and> mount_cnt ms = int (length as))"

lemma chain_outside: "a \<notin> set as \<Longrightarrow> chain (h(a := c)) p as = chain h p as"
  by (induction as arbitrary: p) (auto split: option.split)

lemma entries_outside: "a \<notin> set as \<Longrightarrow> map (mount_entry (h(a := c))) as = map (mount_entry h) as"
  by (auto simp: mount_entry_def)

lemma chain_alive: "chain h p as \<Longrightarrow> a \<in> set as \<Longrightarrow> h a \<noteq> None"
  by (induction as arbitrary: p) (auto split: option.splits)

lemma last_cell_chain: "chain h p (a # as) \<Longrightarrow> last_cell h a = Some (last (a # as))"
proof (induction as arbitrary: a p)
  case Nil
  then show ?case by (subst last_cell.simps) (auto split: option.splits)
next
  case (Cons b as)
  then have "last_cell h b = Some (last (b # as))" by (auto split: option.splits)
  with Cons.prems show ?case by (subst last_cell.simps) (auto split: option.splits)
qed

lemma chain_snoc:
  assumes "chain h p (as @ [l])" and "distinct (as @ [l])" and "b \<notin> set (as @ [l])"
    and "h b = Some c" and "cell_next c = None" and "h l = Some d"
  shows "chain (h(l \<mapsto> d\<lparr>cell_next := Some b\<rparr>)) p (as @ [l, b])"
  using assms
proof (induction as arbitrary: p)
  case (Cons a as)
  then show ?case by (auto split: option.splits)
qed auto

lemma entries_next:
  "h l = Some d \<Longrightarrow> mount_entry (h(l \<mapsto> d\<lparr>cell_next := nx\<rparr>)) a = mount_entry h a"
  by (simp add: mount_entry_def)

lemma add_mount_refines:
  assumes rel: "mount_rel ms xs" and fresh: "\<And>a. new = Some a \<Longrightarrow> mount_mem ms a = None"
  shows "\<exists>ms'. add_mount new mem_host mem_dir path rqstp ms = Some ms' \<and>
    mount_rel ms' (if new \<noteq> None \<and> mem_host \<and> mem_dir
      then xs @ [(inet_ntoa (get_remote rqstp), path)] else xs)"
proof (cases "new \<noteq> None \<and> mem_host \<and> mem_dir")
  case False
  then show ?thesis using rel by (auto simp: add_mount_def split: option.splits)
next
  case True
  then obtain b where new: "new = Some b" and mem: "mem_host" "mem_dir" by auto
  let ?host = "inet_ntoa (get_remote rqstp)"
  let ?c = "\<lparr>cell_hostname = ?host, cell_directory = path, cell_next = None\<rparr>"
  let ?h = "(mount_mem ms)(b \<mapsto> ?c)"
  obtain as where as: "distinct as" "chain (mount_mem ms) (mount_list ms) as"
    "map (mount_entry (mount_mem ms)) as = xs" "mount_cnt ms = int (length as)"
    using rel by (auto simp: mount_rel_def)
  have b: "b \<notin> set as" using chain_alive [OF as(2), of b] fresh [OF new] by auto
  have ch: "chain ?h (mount_list ms) as" and en: "map (mount_entry ?h) as = xs"
    and eb: "mount_entry ?h b = (?host, path)"
    using as b by (simp_all add: chain_outside entries_outside mount_entry_def)
  show ?thesis
  proof (cases as rule: rev_cases)
    case Nil
    then have "mount_list ms = None" "xs = []" "mount_cnt ms = 0" using as by auto
    then show ?thesis using new mem eb
      by (auto simp: add_mount_def mount_rel_def Let_def intro!: exI [of _ "[b]"])
  next
    case (snoc bs l)
    then have "as \<noteq> []" by simp
    then obtain a as' where a: "as = a # as'" by (cases as) auto
    have first: "mount_list ms = Some a" using as(2) a by simp
    have last: "last_cell ?h a = Some l"
    proof -
      have "last_cell ?h a = Some (last as)" unfolding a by (rule last_cell_chain [of ?h "mount_list ms"]) (use ch a in metis)
      then show ?thesis using snoc by simp
    qed
    obtain d where d: "?h l = Some d" using chain_alive [OF ch, of l] snoc by auto
    let ?h2 = "?h(l \<mapsto> d\<lparr>cell_next := Some b\<rparr>)"
    have "chain ?h2 (mount_list ms) (bs @ [l, b])"
      by (rule chain_snoc [of _ _ _ _ _ ?c]) (use ch as b d snoc in auto)
    moreover have "mount_entry ?h2 = mount_entry ?h"
      by (rule ext) (rule entries_next [where h = ?h and l = l and d = d and nx = "Some b", OF d])
    then have "map (mount_entry ?h2) (bs @ [l, b]) = xs @ [(?host, path)]"
      using en eb snoc by simp
    ultimately have "mount_rel (ms\<lparr>mount_mem := ?h2, mount_cnt := mount_cnt ms + 1\<rparr>) (xs @ [(?host, path)])"
      using as b snoc by (auto simp: mount_rel_def intro!: exI [of _ "bs @ [l, b]"])
    then show ?thesis
      using new mem first last d by (auto simp: add_mount_def Let_def)
  qed
qed

definition mount_hit :: "charptr \<Rightarrow> cstring \<Rightarrow> cstring \<times> cstring \<Rightarrow> bool" where
  "mount_hit path host e \<longleftrightarrow> fst e = host \<and> (path = None \<or> snd e = the path)"

lemma mount_match_entry:
  "h a = Some c \<Longrightarrow> mount_match path host c = mount_hit path host (mount_entry h a)"
  by (simp add: mount_match_def mount_hit_def mount_entry_def)

lemma chain_unlink:
  assumes "chain h p (js @ l # a # as)" and "distinct (js @ l # a # as)"
    and "h l = Some d" and "h a = Some c"
  shows "chain (h(l \<mapsto> d\<lparr>cell_next := cell_next c\<rparr>)) p (js @ l # as)"
  using assms
proof (induction js arbitrary: p)
  case Nil
  then have "chain h (cell_next c) as" and "l \<notin> set as" by auto
  then have "chain (h(l \<mapsto> d\<lparr>cell_next := cell_next c\<rparr>)) (cell_next c) as"
    by (subst chain_outside)
  with Nil show ?case by (simp del: fun_upd_apply add: fun_upd_same)
next
  case (Cons j js)
  then show ?case by (auto split: option.splits)
qed

lemma remove_loop_step:
  assumes iter: "mount_mem ms a = Some c"
  shows "remove_loop path host prev (Some a) ms =
    (if mount_hit path host (mount_entry (mount_mem ms) a) then
       (case unlink_cell prev (cell_next c) ms of
          None \<Rightarrow> None
        | Some ms1 \<Rightarrow> remove_loop path host prev (cell_next c)
            (ms1\<lparr>mount_mem := (mount_mem ms1)(a := None),
              mount_cnt := (if mount_cnt ms1 > 0 then mount_cnt ms1 - 1 else mount_cnt ms1)\<rparr>))
     else remove_loop path host (Some a) (cell_next c) ms)"
  by (subst remove_loop.simps) (simp add: iter mount_match_entry [where h = "mount_mem ms" and a = a])

lemma remove_loop_refines:
  assumes "chain (mount_mem ms) (mount_list ms) (ks @ as)" and "distinct (ks @ as)"
    and "prev = (if ks = [] then None else Some (last ks))"
    and "chain (mount_mem ms) iter as" and "mount_cnt ms = int (length (ks @ as))"
  shows "\<exists>ms'. remove_loop path host prev iter ms = Some ms' \<and>
    mount_rel ms' (map (mount_entry (mount_mem ms)) ks @
      filter (\<lambda>e. \<not> mount_hit path host e) (map (mount_entry (mount_mem ms)) as))"
  using assms
proof (induction as arbitrary: ks ms iter prev)
  case Nil
  then show ?case
    by (subst remove_loop.simps) (auto simp: mount_rel_def intro!: exI [of _ ks])
next
  case (Cons a as)
  obtain c where c: "mount_mem ms a = Some c" and rest: "chain (mount_mem ms) (cell_next c) as"
    and iter: "iter = Some a"
    using Cons.prems(4) by (auto split: option.splits)
  let ?h = "mount_mem ms"
  show ?case
  proof (cases "mount_hit path host (mount_entry ?h a)")
    case False
    have "\<exists>ms'. remove_loop path host (Some a) (cell_next c) ms = Some ms' \<and>
        mount_rel ms' (map (mount_entry ?h) (ks @ [a]) @
          filter (\<lambda>e. \<not> mount_hit path host e) (map (mount_entry ?h) as))"
      by (rule Cons.IH) (use Cons.prems rest in auto)
    then show ?thesis using False iter c by (simp add: remove_loop_step)
  next
    case True
    obtain ms1 where ms1: "unlink_cell prev (cell_next c) ms = Some ms1"
      and ch: "chain (mount_mem ms1) (mount_list ms1) (ks @ as)"
      and ch2: "chain (mount_mem ms1) (cell_next c) as"
      and en: "\<And>x. mount_entry (mount_mem ms1) x = mount_entry ?h x"
      and cnt: "mount_cnt ms1 = mount_cnt ms"
    proof (cases ks rule: rev_cases)
      case Nil
      then show ?thesis using Cons.prems rest that by (auto simp: unlink_cell_def)
    next
      case (snoc js l)
      obtain d where d: "?h l = Some d" using chain_alive [OF Cons.prems(1), of l] snoc by auto
      let ?h1 = "?h(l \<mapsto> d\<lparr>cell_next := cell_next c\<rparr>)"
      have "chain ?h1 (mount_list ms) (js @ l # as)"
        by (rule chain_unlink [OF _ _ d c]) (use Cons.prems snoc in auto)
      moreover have "chain ?h1 (cell_next c) as"
        using rest Cons.prems(2) snoc by (simp add: chain_outside)
      ultimately show ?thesis
        using that [of "ms\<lparr>mount_mem := ?h1\<rparr>"] Cons.prems(3) snoc d
          entries_next [where h = ?h and l = l and d = d and nx = "cell_next c", OF d]
        by (simp add: unlink_cell_def)
    qed
    let ?ms2 = "ms1\<lparr>mount_mem := (mount_mem ms1)(a := None), mount_cnt := mount_cnt ms - 1\<rparr>"
    have a: "a \<notin> set (ks @ as)" using Cons.prems(2) by auto
    have "\<exists>ms'. remove_loop path host prev (cell_next c) ?ms2 = Some ms' \<and>
        mount_rel ms' (map (mount_entry (mount_mem ?ms2)) ks @
          filter (\<lambda>e. \<not> mount_hit path host e) (map (mount_entry (mount_mem ?ms2)) as))"
      by (rule Cons.IH) (use Cons.prems ch ch2 a cnt in \<open>simp_all add: chain_outside del: fun_upd_apply\<close>)
    moreover have "map (mount_entry (mount_mem ?ms2)) ks = map (mount_entry ?h) ks"
      and "map (mount_entry (mount_mem ?ms2)) as = map (mount_entry ?h) as"
      using a en by (auto simp: mount_entry_def)
    ultimately show ?thesis
      using True iter c ms1 cnt Cons.prems(5) by (simp add: remove_loop_step del: map_eq_conv)
  qed
qed

lemma remove_mount_refines:
  assumes "mount_rel ms xs"
  shows "\<exists>ms'. remove_mount path rqstp ms = Some ms' \<and>
    mount_rel ms' (filter (\<lambda>e. \<not> mount_hit path (inet_ntoa (get_remote rqstp)) e) xs)"
proof -
  obtain as where "distinct as" "chain (mount_mem ms) (mount_list ms) as"
    and xs: "map (mount_entry (mount_mem ms)) as = xs" and "mount_cnt ms = int (length as)"
    using assms by (auto simp: mount_rel_def)
  then show ?thesis
    using remove_loop_refines [of ms "[]" as None "mount_list ms" path "inet_ntoa (get_remote rqstp)"]
    by (simp add: remove_mount_def Let_def xs [symmetric])
qed

lemma mount_rel_init: "mount_rel init_mount []"
  by (auto simp: mount_rel_def init_mount_def intro!: exI [of _ "[]"])

lemma mount_rel_unique:
  assumes "mount_rel ms xs"
  shows "mount_cnt ms = int (length xs)"
  using assms by (auto simp: mount_rel_def)

section \<open>DUMP\<close>

fun bodies :: "(cstring \<times> cstring) list \<Rightarrow> mountbody option" where
  "bodies [] = None"
| "bodies (e # es) = Some (Mountbody (Some (fst e)) (Some (snd e)) (bodies es))"

lemma mount_view_chain: "chain h p as \<Longrightarrow> mount_view h p = Some (bodies (map (mount_entry h) as))"
proof (induction as arbitrary: p)
  case Nil
  then show ?case by (subst mount_view.simps) simp
next
  case (Cons a as)
  then show ?case
    by (subst mount_view.simps) (auto simp: mount_entry_def [of h a] split: option.splits)
qed

lemma mountproc_dump_refines:
  "mount_rel ms xs \<Longrightarrow> mountproc_dump_3_svc ms = Some (bodies xs)"
  by (auto simp: mount_rel_def mountproc_dump_3_svc_def mount_view_chain)

section \<open>The contract\<close>

context reader_contract
begin

lemma mountproc_mnt_keeps [keeps_rules]:
  "keeps W (mountproc_mnt_3_svc ns rqstp argp rm)"
  unfolding mountproc_mnt_3_svc_def Let_def by (intro keeps_rules)

end

end
