(* ===== verification/Xdr_Codec_Results.thy ===== *)
theory Xdr_Codec_Results
  imports Xdr_Codec
begin

text \<open>
  Encoding followed by decoding, for the results of the NFS procedures. Of a result the peer
  sees the status, and of its union the members that the filter of the status sends.
\<close>

section \<open>Linked entries\<close>

fun ok_entry3 :: "entry3 \<Rightarrow> bool" where
  "ok_entry3 (Entry3 fileid name cookie None) \<longleftrightarrow> ok_name name"
| "ok_entry3 (Entry3 fileid name cookie (Some e)) \<longleftrightarrow> ok_name name \<and> ok_entry3 e"

lemma xdr_entry3_rtrip_step:
  assumes "ok_name name" and "rtrip (xdr_pointer xdr_entry3) None nextentry nextentry"
  shows "rtrip xdr_entry3 default (Entry3 fileid name cookie nextentry)
    (Entry3 fileid name cookie nextentry)"
proof -
  have "rtrip xdr_fileid3 0 fileid fileid" and "rtrip xdr_filename3 None name name"
    and "rtrip xdr_cookie3 0 cookie cookie"
    using assms(1) by (auto intro: xdr_rt)
  then show ?thesis using assms(2)
  proof (elim rtripE)
    fix as bs cs ds
    assume "4 dvd length as" "4 dvd length bs" "4 dvd length cs" "4 dvd length ds"
      and "\<And>out inp. xdr_fileid3 (encoder out inp) fileid = Some (encoder (out @ as) inp, fileid)"
        "\<And>out rest. xdr_fileid3 (decoder out (as @ rest)) 0 = Some (decoder out rest, fileid)"
        "\<And>out inp. xdr_filename3 (encoder out inp) name = Some (encoder (out @ bs) inp, name)"
        "\<And>out rest. xdr_filename3 (decoder out (bs @ rest)) None = Some (decoder out rest, name)"
        "\<And>out inp. xdr_cookie3 (encoder out inp) cookie = Some (encoder (out @ cs) inp, cookie)"
        "\<And>out rest. xdr_cookie3 (decoder out (cs @ rest)) 0 = Some (decoder out rest, cookie)"
        "\<And>out inp. xdr_pointer xdr_entry3 (encoder out inp) nextentry =
           Some (encoder (out @ ds) inp, nextentry)"
        "\<And>out rest. xdr_pointer xdr_entry3 (decoder out (ds @ rest)) None =
           Some (decoder out rest, nextentry)"
    then show ?thesis
      by (intro rtripI [of "as @ bs @ cs @ ds"]) (simp_all add: xdr_entry3.simps default_entry3_def default_word_def default_option_def)
  qed
qed

lemma xdr_entry3_rtrip [xdr_rt]: "ok_entry3 e \<Longrightarrow> rtrip xdr_entry3 default e e"
  by (induction e rule: ok_entry3.induct)
    (auto intro!: xdr_entry3_rtrip_step xdr_pointer_rtrip_None xdr_pointer_rtrip_Some)

lemma xdr_entry3_pointer_rtrip [xdr_rt]:
  "pred_option ok_entry3 p \<Longrightarrow> rtrip (xdr_pointer xdr_entry3) default p p"
  by (cases p) (auto simp: default_option_def intro!: xdr_pointer_rtrip_Some xdr_rt)

fun ok_entryplus3 :: "entryplus3 \<Rightarrow> bool" where
  "ok_entryplus3 (Entryplus3 fileid name cookie attrs handle None) \<longleftrightarrow>
     ok_name name \<and> ok_post_op_attr attrs \<and> vis_post_op_attr attrs = attrs \<and>
     ok_post_op_fh3 handle \<and> vis_post_op_fh3 handle = handle"
| "ok_entryplus3 (Entryplus3 fileid name cookie attrs handle (Some e)) \<longleftrightarrow>
     ok_name name \<and> ok_post_op_attr attrs \<and> vis_post_op_attr attrs = attrs \<and>
     ok_post_op_fh3 handle \<and> vis_post_op_fh3 handle = handle \<and> ok_entryplus3 e"

lemma xdr_entryplus3_rtrip_step:
  assumes "ok_name name" and "ok_post_op_attr attrs" and "vis_post_op_attr attrs = attrs"
    and "ok_post_op_fh3 handle" and "vis_post_op_fh3 handle = handle"
    and "rtrip (xdr_pointer xdr_entryplus3) None nextentry nextentry"
  shows "rtrip xdr_entryplus3 default (Entryplus3 fileid name cookie attrs handle nextentry)
    (Entryplus3 fileid name cookie attrs handle nextentry)"
proof -
  have "rtrip xdr_fileid3 0 fileid fileid" and "rtrip xdr_filename3 None name name"
    and "rtrip xdr_cookie3 0 cookie cookie"
    and "rtrip xdr_post_op_attr default attrs attrs" and "rtrip xdr_post_op_fh3 default handle handle"
    using assms(1-5) xdr_post_op_attr_rtrip [of attrs] xdr_post_op_fh3_rtrip [of handle]
    by (auto intro: xdr_rt)
  then show ?thesis using assms(6)
  proof (elim rtripE)
    fix as bs cs ps qs ds
    assume "4 dvd length as" "4 dvd length bs" "4 dvd length cs"
      "4 dvd length ps" "4 dvd length qs" "4 dvd length ds"
      and "\<And>out inp. xdr_fileid3 (encoder out inp) fileid = Some (encoder (out @ as) inp, fileid)"
        "\<And>out rest. xdr_fileid3 (decoder out (as @ rest)) 0 = Some (decoder out rest, fileid)"
        "\<And>out inp. xdr_filename3 (encoder out inp) name = Some (encoder (out @ bs) inp, name)"
        "\<And>out rest. xdr_filename3 (decoder out (bs @ rest)) None = Some (decoder out rest, name)"
        "\<And>out inp. xdr_cookie3 (encoder out inp) cookie = Some (encoder (out @ cs) inp, cookie)"
        "\<And>out rest. xdr_cookie3 (decoder out (cs @ rest)) 0 = Some (decoder out rest, cookie)"
        "\<And>out inp. xdr_post_op_attr (encoder out inp) attrs = Some (encoder (out @ ps) inp, attrs)"
        "\<And>out rest. xdr_post_op_attr (decoder out (ps @ rest)) default = Some (decoder out rest, attrs)"
        "\<And>out inp. xdr_post_op_fh3 (encoder out inp) handle = Some (encoder (out @ qs) inp, handle)"
        "\<And>out rest. xdr_post_op_fh3 (decoder out (qs @ rest)) default = Some (decoder out rest, handle)"
        "\<And>out inp. xdr_pointer xdr_entryplus3 (encoder out inp) nextentry =
           Some (encoder (out @ ds) inp, nextentry)"
        "\<And>out rest. xdr_pointer xdr_entryplus3 (decoder out (ds @ rest)) None =
           Some (decoder out rest, nextentry)"
    then show ?thesis
      by (intro rtripI [of "as @ bs @ cs @ ps @ qs @ ds"]) (simp_all add: xdr_entryplus3.simps default_entryplus3_def default_word_def default_option_def)
  qed
qed

lemma xdr_entryplus3_rtrip [xdr_rt]: "ok_entryplus3 e \<Longrightarrow> rtrip xdr_entryplus3 default e e"
  by (induction e rule: ok_entryplus3.induct)
    (auto intro!: xdr_entryplus3_rtrip_step xdr_pointer_rtrip_None xdr_pointer_rtrip_Some)

lemma xdr_entryplus3_pointer_rtrip [xdr_rt]:
  "pred_option ok_entryplus3 p \<Longrightarrow> rtrip (xdr_pointer xdr_entryplus3) default p p"
  by (cases p) (auto simp: default_option_def intro!: xdr_pointer_rtrip_Some xdr_rt)

section \<open>Results\<close>

definition ok_dirlist3 :: "dirlist3 \<Rightarrow> bool" where
  "ok_dirlist3 x \<longleftrightarrow> pred_option ok_entry3 (dirlist3_entries x) \<and>
     ok_bool (dirlist3_eof x)"

lemma xdr_dirlist3_rtrip [xdr_rt]:
  "ok_dirlist3 x \<Longrightarrow> rtrip xdr_dirlist3 default x x"
  unfolding xdr_dirlist3_def ok_dirlist3_def
  by (cases x; (elim disjE conjE)?; (rule codec_steps xdr_rt refl | simp add: zero_mem c_consts)+)

definition ok_dirlistplus3 :: "dirlistplus3 \<Rightarrow> bool" where
  "ok_dirlistplus3 x \<longleftrightarrow> pred_option ok_entryplus3 (dirlistplus3_entries x) \<and>
     ok_bool (dirlistplus3_eof x)"

lemma xdr_dirlistplus3_rtrip [xdr_rt]:
  "ok_dirlistplus3 x \<Longrightarrow> rtrip xdr_dirlistplus3 default x x"
  unfolding xdr_dirlistplus3_def ok_dirlistplus3_def
  by (cases x; (elim disjE conjE)?; (rule codec_steps xdr_rt refl | simp add: zero_mem c_consts)+)

lemma xdr_GETATTR3resok_rtrip [xdr_rt]:
  "rtrip xdr_GETATTR3resok default x x"
  unfolding xdr_GETATTR3resok_def
  by (cases x; (elim disjE conjE)?; (rule codec_steps xdr_rt refl | simp add: zero_mem c_consts)+)

definition ok_GETATTR3res :: "GETATTR3res \<Rightarrow> bool" where
  "ok_GETATTR3res x \<longleftrightarrow>
     GETATTR3res_status x = NFS3_OK \<or> GETATTR3res_status x \<noteq> NFS3_OK"

definition vis_GETATTR3res :: "GETATTR3res \<Rightarrow> GETATTR3res" where
  "vis_GETATTR3res x =
     (if GETATTR3res_status x = NFS3_OK then x else x\<lparr>GETATTR3res_u := default\<rparr>)"

lemma xdr_GETATTR3res_rtrip [xdr_rt]:
  "ok_GETATTR3res x \<Longrightarrow> rtrip xdr_GETATTR3res default x (vis_GETATTR3res x)"
  unfolding xdr_GETATTR3res_def ok_GETATTR3res_def vis_GETATTR3res_def
  by (cases x; (elim disjE conjE)?; (rule codec_steps xdr_rt refl | simp add: zero_mem c_consts)+)

definition ok_SETATTR3resfail :: "'a SETATTR3resfail_scheme \<Rightarrow> bool" where
  "ok_SETATTR3resfail x \<longleftrightarrow> ok_wcc_data (SETATTR3resfail_obj_wcc x)"

definition vis_SETATTR3resfail :: "'a::default SETATTR3resfail_scheme \<Rightarrow> 'a SETATTR3resfail_scheme" where
  "vis_SETATTR3resfail x = default\<lparr>SETATTR3resfail_obj_wcc := vis_wcc_data (SETATTR3resfail_obj_wcc x)\<rparr>"

lemma xdr_SETATTR3resfail_rtrip [xdr_rt]:
  "ok_SETATTR3resfail x \<Longrightarrow> rtrip xdr_SETATTR3resfail default (x :: 'a::default SETATTR3resfail_scheme) (vis_SETATTR3resfail x)"
  unfolding xdr_SETATTR3resfail_def ok_SETATTR3resfail_def vis_SETATTR3resfail_def
  by (cases x; (elim disjE conjE)?; (rule codec_steps xdr_rt refl | simp add: zero_mem c_consts)+)

abbreviation ok_SETATTR3resok :: "SETATTR3resok \<Rightarrow> bool" where
  "ok_SETATTR3resok \<equiv> ok_SETATTR3resfail"

abbreviation vis_SETATTR3resok :: "SETATTR3resok \<Rightarrow> SETATTR3resok" where
  "vis_SETATTR3resok \<equiv> vis_SETATTR3resfail"

lemma xdr_SETATTR3resok_rtrip [xdr_rt]:
  "ok_SETATTR3resfail x \<Longrightarrow> rtrip xdr_SETATTR3resok default x (vis_SETATTR3resfail x)"
  unfolding xdr_SETATTR3resok_def ok_SETATTR3resfail_def vis_SETATTR3resfail_def
  by (cases x; (elim disjE conjE)?; (rule codec_steps xdr_rt refl | simp add: zero_mem c_consts)+)

definition ok_SETATTR3res :: "SETATTR3res \<Rightarrow> bool" where
  "ok_SETATTR3res x \<longleftrightarrow>
     SETATTR3res_status x = NFS3_OK \<and> ok_SETATTR3resok (SETATTR3res_u x) \<or>
     SETATTR3res_status x \<noteq> NFS3_OK \<and> ok_SETATTR3resfail (SETATTR3res_u x)"

definition vis_SETATTR3res :: "SETATTR3res \<Rightarrow> SETATTR3res" where
  "vis_SETATTR3res x = x\<lparr>SETATTR3res_u := if SETATTR3res_status x = NFS3_OK then vis_SETATTR3resok (SETATTR3res_u x) else vis_SETATTR3resfail (SETATTR3res_u x)\<rparr>"

lemma xdr_SETATTR3res_rtrip [xdr_rt]:
  "ok_SETATTR3res x \<Longrightarrow> rtrip xdr_SETATTR3res default x (vis_SETATTR3res x)"
  unfolding xdr_SETATTR3res_def ok_SETATTR3res_def vis_SETATTR3res_def
  by (cases x; (elim disjE conjE)?; (rule codec_steps xdr_rt refl | simp add: zero_mem c_consts)+)

definition ok_LOOKUP3resfail :: "'a LOOKUP3resfail_scheme \<Rightarrow> bool" where
  "ok_LOOKUP3resfail x \<longleftrightarrow> ok_post_op_attr (LOOKUP3resfail_dir_attributes x)"

definition vis_LOOKUP3resfail :: "'a::default LOOKUP3resfail_scheme \<Rightarrow> 'a LOOKUP3resfail_scheme" where
  "vis_LOOKUP3resfail x = default\<lparr>LOOKUP3resfail_dir_attributes := vis_post_op_attr (LOOKUP3resfail_dir_attributes x)\<rparr>"

lemma xdr_LOOKUP3resfail_rtrip [xdr_rt]:
  "ok_LOOKUP3resfail x \<Longrightarrow> rtrip xdr_LOOKUP3resfail default (x :: 'a::default LOOKUP3resfail_scheme) (vis_LOOKUP3resfail x)"
  unfolding xdr_LOOKUP3resfail_def ok_LOOKUP3resfail_def vis_LOOKUP3resfail_def
  by (cases x; (elim disjE conjE)?; (rule codec_steps xdr_rt refl | simp add: zero_mem c_consts)+)

definition ok_LOOKUP3resok :: "LOOKUP3resok \<Rightarrow> bool" where
  "ok_LOOKUP3resok x \<longleftrightarrow> ok_post_op_attr (LOOKUP3resfail_dir_attributes x) \<and>
     ok_nfs_fh3 (LOOKUP3resok_object x) \<and>
     ok_post_op_attr (LOOKUP3resok_obj_attributes x)"

definition vis_LOOKUP3resok :: "LOOKUP3resok \<Rightarrow> LOOKUP3resok" where
  "vis_LOOKUP3resok x = x\<lparr>LOOKUP3resfail_dir_attributes := vis_post_op_attr (LOOKUP3resfail_dir_attributes x),
     LOOKUP3resok_obj_attributes := vis_post_op_attr (LOOKUP3resok_obj_attributes x)\<rparr>"

lemma xdr_LOOKUP3resok_rtrip [xdr_rt]:
  "ok_LOOKUP3resok x \<Longrightarrow> rtrip xdr_LOOKUP3resok default x (vis_LOOKUP3resok x)"
  unfolding xdr_LOOKUP3resok_def ok_LOOKUP3resok_def vis_LOOKUP3resok_def
  by (cases x; (elim disjE conjE)?; (rule codec_steps xdr_rt refl | simp add: zero_mem c_consts)+)

definition ok_LOOKUP3res :: "LOOKUP3res \<Rightarrow> bool" where
  "ok_LOOKUP3res x \<longleftrightarrow>
     LOOKUP3res_status x = NFS3_OK \<and> ok_LOOKUP3resok (LOOKUP3res_u x) \<or>
     LOOKUP3res_status x \<noteq> NFS3_OK \<and> ok_LOOKUP3resfail (LOOKUP3res_u x)"

definition vis_LOOKUP3res :: "LOOKUP3res \<Rightarrow> LOOKUP3res" where
  "vis_LOOKUP3res x = x\<lparr>LOOKUP3res_u := if LOOKUP3res_status x = NFS3_OK then vis_LOOKUP3resok (LOOKUP3res_u x) else vis_LOOKUP3resfail (LOOKUP3res_u x)\<rparr>"

lemma xdr_LOOKUP3res_rtrip [xdr_rt]:
  "ok_LOOKUP3res x \<Longrightarrow> rtrip xdr_LOOKUP3res default x (vis_LOOKUP3res x)"
  unfolding xdr_LOOKUP3res_def ok_LOOKUP3res_def vis_LOOKUP3res_def
  by (cases x; (elim disjE conjE)?; (rule codec_steps xdr_rt refl | simp add: zero_mem c_consts)+)

definition ok_ACCESS3resfail :: "'a ACCESS3resfail_scheme \<Rightarrow> bool" where
  "ok_ACCESS3resfail x \<longleftrightarrow> ok_post_op_attr (ACCESS3resfail_obj_attributes x)"

definition vis_ACCESS3resfail :: "'a::default ACCESS3resfail_scheme \<Rightarrow> 'a ACCESS3resfail_scheme" where
  "vis_ACCESS3resfail x = default\<lparr>ACCESS3resfail_obj_attributes := vis_post_op_attr (ACCESS3resfail_obj_attributes x)\<rparr>"

lemma xdr_ACCESS3resfail_rtrip [xdr_rt]:
  "ok_ACCESS3resfail x \<Longrightarrow> rtrip xdr_ACCESS3resfail default (x :: 'a::default ACCESS3resfail_scheme) (vis_ACCESS3resfail x)"
  unfolding xdr_ACCESS3resfail_def ok_ACCESS3resfail_def vis_ACCESS3resfail_def
  by (cases x; (elim disjE conjE)?; (rule codec_steps xdr_rt refl | simp add: zero_mem c_consts)+)

definition ok_ACCESS3resok :: "ACCESS3resok \<Rightarrow> bool" where
  "ok_ACCESS3resok x \<longleftrightarrow> ok_post_op_attr (ACCESS3resfail_obj_attributes x)"

definition vis_ACCESS3resok :: "ACCESS3resok \<Rightarrow> ACCESS3resok" where
  "vis_ACCESS3resok x = x\<lparr>ACCESS3resfail_obj_attributes := vis_post_op_attr (ACCESS3resfail_obj_attributes x)\<rparr>"

lemma xdr_ACCESS3resok_rtrip [xdr_rt]:
  "ok_ACCESS3resok x \<Longrightarrow> rtrip xdr_ACCESS3resok default x (vis_ACCESS3resok x)"
  unfolding xdr_ACCESS3resok_def ok_ACCESS3resok_def vis_ACCESS3resok_def
  by (cases x; (elim disjE conjE)?; (rule codec_steps xdr_rt refl | simp add: zero_mem c_consts)+)

definition ok_ACCESS3res :: "ACCESS3res \<Rightarrow> bool" where
  "ok_ACCESS3res x \<longleftrightarrow>
     ACCESS3res_status x = NFS3_OK \<and> ok_ACCESS3resok (ACCESS3res_u x) \<or>
     ACCESS3res_status x \<noteq> NFS3_OK \<and> ok_ACCESS3resfail (ACCESS3res_u x)"

definition vis_ACCESS3res :: "ACCESS3res \<Rightarrow> ACCESS3res" where
  "vis_ACCESS3res x = x\<lparr>ACCESS3res_u := if ACCESS3res_status x = NFS3_OK then vis_ACCESS3resok (ACCESS3res_u x) else vis_ACCESS3resfail (ACCESS3res_u x)\<rparr>"

lemma xdr_ACCESS3res_rtrip [xdr_rt]:
  "ok_ACCESS3res x \<Longrightarrow> rtrip xdr_ACCESS3res default x (vis_ACCESS3res x)"
  unfolding xdr_ACCESS3res_def ok_ACCESS3res_def vis_ACCESS3res_def
  by (cases x; (elim disjE conjE)?; (rule codec_steps xdr_rt refl | simp add: zero_mem c_consts)+)

definition ok_READLINK3resfail :: "'a READLINK3resfail_scheme \<Rightarrow> bool" where
  "ok_READLINK3resfail x \<longleftrightarrow> ok_post_op_attr (READLINK3resfail_symlink_attributes x)"

definition vis_READLINK3resfail :: "'a::default READLINK3resfail_scheme \<Rightarrow> 'a READLINK3resfail_scheme" where
  "vis_READLINK3resfail x = default\<lparr>READLINK3resfail_symlink_attributes := vis_post_op_attr (READLINK3resfail_symlink_attributes x)\<rparr>"

lemma xdr_READLINK3resfail_rtrip [xdr_rt]:
  "ok_READLINK3resfail x \<Longrightarrow> rtrip xdr_READLINK3resfail default (x :: 'a::default READLINK3resfail_scheme) (vis_READLINK3resfail x)"
  unfolding xdr_READLINK3resfail_def ok_READLINK3resfail_def vis_READLINK3resfail_def
  by (cases x; (elim disjE conjE)?; (rule codec_steps xdr_rt refl | simp add: zero_mem c_consts)+)

definition ok_READLINK3resok :: "READLINK3resok \<Rightarrow> bool" where
  "ok_READLINK3resok x \<longleftrightarrow> ok_post_op_attr (READLINK3resfail_symlink_attributes x) \<and>
     ok_name (READLINK3resok_data x)"

definition vis_READLINK3resok :: "READLINK3resok \<Rightarrow> READLINK3resok" where
  "vis_READLINK3resok x = x\<lparr>READLINK3resfail_symlink_attributes := vis_post_op_attr (READLINK3resfail_symlink_attributes x)\<rparr>"

lemma xdr_READLINK3resok_rtrip [xdr_rt]:
  "ok_READLINK3resok x \<Longrightarrow> rtrip xdr_READLINK3resok default x (vis_READLINK3resok x)"
  unfolding xdr_READLINK3resok_def ok_READLINK3resok_def vis_READLINK3resok_def
  by (cases x; (elim disjE conjE)?; (rule codec_steps xdr_rt refl | simp add: zero_mem c_consts)+)

definition ok_READLINK3res :: "READLINK3res \<Rightarrow> bool" where
  "ok_READLINK3res x \<longleftrightarrow>
     READLINK3res_status x = NFS3_OK \<and> ok_READLINK3resok (READLINK3res_u x) \<or>
     READLINK3res_status x \<noteq> NFS3_OK \<and> ok_READLINK3resfail (READLINK3res_u x)"

definition vis_READLINK3res :: "READLINK3res \<Rightarrow> READLINK3res" where
  "vis_READLINK3res x = x\<lparr>READLINK3res_u := if READLINK3res_status x = NFS3_OK then vis_READLINK3resok (READLINK3res_u x) else vis_READLINK3resfail (READLINK3res_u x)\<rparr>"

lemma xdr_READLINK3res_rtrip [xdr_rt]:
  "ok_READLINK3res x \<Longrightarrow> rtrip xdr_READLINK3res default x (vis_READLINK3res x)"
  unfolding xdr_READLINK3res_def ok_READLINK3res_def vis_READLINK3res_def
  by (cases x; (elim disjE conjE)?; (rule codec_steps xdr_rt refl | simp add: zero_mem c_consts)+)

definition ok_READ3resfail :: "'a READ3resfail_scheme \<Rightarrow> bool" where
  "ok_READ3resfail x \<longleftrightarrow> ok_post_op_attr (READ3resfail_file_attributes x)"

definition vis_READ3resfail :: "'a::default READ3resfail_scheme \<Rightarrow> 'a READ3resfail_scheme" where
  "vis_READ3resfail x = default\<lparr>READ3resfail_file_attributes := vis_post_op_attr (READ3resfail_file_attributes x)\<rparr>"

lemma xdr_READ3resfail_rtrip [xdr_rt]:
  "ok_READ3resfail x \<Longrightarrow> rtrip xdr_READ3resfail default (x :: 'a::default READ3resfail_scheme) (vis_READ3resfail x)"
  unfolding xdr_READ3resfail_def ok_READ3resfail_def vis_READ3resfail_def
  by (cases x; (elim disjE conjE)?; (rule codec_steps xdr_rt refl | simp add: zero_mem c_consts)+)

definition ok_READ3resok :: "READ3resok \<Rightarrow> bool" where
  "ok_READ3resok x \<longleftrightarrow> ok_post_op_attr (READ3resfail_file_attributes x) \<and>
     ok_bool (READ3resok_eof x) \<and>
     counted_fits (NOT 0) (READ3resok_data x)"

definition vis_READ3resok :: "READ3resok \<Rightarrow> READ3resok" where
  "vis_READ3resok x = x\<lparr>READ3resfail_file_attributes := vis_post_op_attr (READ3resfail_file_attributes x),
     READ3resok_data := counted_vis (READ3resok_data x)\<rparr>"

lemma xdr_READ3resok_rtrip [xdr_rt]:
  "ok_READ3resok x \<Longrightarrow> rtrip xdr_READ3resok default x (vis_READ3resok x)"
  unfolding xdr_READ3resok_def ok_READ3resok_def vis_READ3resok_def
  by (cases x; (elim disjE conjE)?; (rule codec_steps xdr_rt refl | simp add: zero_mem c_consts)+)

definition ok_READ3res :: "READ3res \<Rightarrow> bool" where
  "ok_READ3res x \<longleftrightarrow>
     READ3res_status x = NFS3_OK \<and> ok_READ3resok (READ3res_u x) \<or>
     READ3res_status x \<noteq> NFS3_OK \<and> ok_READ3resfail (READ3res_u x)"

definition vis_READ3res :: "READ3res \<Rightarrow> READ3res" where
  "vis_READ3res x = x\<lparr>READ3res_u := if READ3res_status x = NFS3_OK then vis_READ3resok (READ3res_u x) else vis_READ3resfail (READ3res_u x)\<rparr>"

lemma xdr_READ3res_rtrip [xdr_rt]:
  "ok_READ3res x \<Longrightarrow> rtrip xdr_READ3res default x (vis_READ3res x)"
  unfolding xdr_READ3res_def ok_READ3res_def vis_READ3res_def
  by (cases x; (elim disjE conjE)?; (rule codec_steps xdr_rt refl | simp add: zero_mem c_consts)+)

definition ok_WRITE3resfail :: "'a WRITE3resfail_scheme \<Rightarrow> bool" where
  "ok_WRITE3resfail x \<longleftrightarrow> ok_wcc_data (WRITE3resfail_file_wcc x)"

definition vis_WRITE3resfail :: "'a::default WRITE3resfail_scheme \<Rightarrow> 'a WRITE3resfail_scheme" where
  "vis_WRITE3resfail x = default\<lparr>WRITE3resfail_file_wcc := vis_wcc_data (WRITE3resfail_file_wcc x)\<rparr>"

lemma xdr_WRITE3resfail_rtrip [xdr_rt]:
  "ok_WRITE3resfail x \<Longrightarrow> rtrip xdr_WRITE3resfail default (x :: 'a::default WRITE3resfail_scheme) (vis_WRITE3resfail x)"
  unfolding xdr_WRITE3resfail_def ok_WRITE3resfail_def vis_WRITE3resfail_def
  by (cases x; (elim disjE conjE)?; (rule codec_steps xdr_rt refl | simp add: zero_mem c_consts)+)

definition ok_WRITE3resok :: "WRITE3resok \<Rightarrow> bool" where
  "ok_WRITE3resok x \<longleftrightarrow> ok_wcc_data (WRITE3resfail_file_wcc x) \<and>
     ok_verf (WRITE3resok_verf x)"

definition vis_WRITE3resok :: "WRITE3resok \<Rightarrow> WRITE3resok" where
  "vis_WRITE3resok x = x\<lparr>WRITE3resfail_file_wcc := vis_wcc_data (WRITE3resfail_file_wcc x)\<rparr>"

lemma xdr_WRITE3resok_rtrip [xdr_rt]:
  "ok_WRITE3resok x \<Longrightarrow> rtrip xdr_WRITE3resok default x (vis_WRITE3resok x)"
  unfolding xdr_WRITE3resok_def ok_WRITE3resok_def vis_WRITE3resok_def
  by (cases x; (elim disjE conjE)?; (rule codec_steps xdr_rt refl | simp add: zero_mem c_consts)+)

definition ok_WRITE3res :: "WRITE3res \<Rightarrow> bool" where
  "ok_WRITE3res x \<longleftrightarrow>
     WRITE3res_status x = NFS3_OK \<and> ok_WRITE3resok (WRITE3res_u x) \<or>
     WRITE3res_status x \<noteq> NFS3_OK \<and> ok_WRITE3resfail (WRITE3res_u x)"

definition vis_WRITE3res :: "WRITE3res \<Rightarrow> WRITE3res" where
  "vis_WRITE3res x = x\<lparr>WRITE3res_u := if WRITE3res_status x = NFS3_OK then vis_WRITE3resok (WRITE3res_u x) else vis_WRITE3resfail (WRITE3res_u x)\<rparr>"

lemma xdr_WRITE3res_rtrip [xdr_rt]:
  "ok_WRITE3res x \<Longrightarrow> rtrip xdr_WRITE3res default x (vis_WRITE3res x)"
  unfolding xdr_WRITE3res_def ok_WRITE3res_def vis_WRITE3res_def
  by (cases x; (elim disjE conjE)?; (rule codec_steps xdr_rt refl | simp add: zero_mem c_consts)+)

definition ok_CREATE3resfail :: "'a CREATE3resfail_scheme \<Rightarrow> bool" where
  "ok_CREATE3resfail x \<longleftrightarrow> ok_wcc_data (CREATE3resfail_dir_wcc x)"

definition vis_CREATE3resfail :: "'a::default CREATE3resfail_scheme \<Rightarrow> 'a CREATE3resfail_scheme" where
  "vis_CREATE3resfail x = default\<lparr>CREATE3resfail_dir_wcc := vis_wcc_data (CREATE3resfail_dir_wcc x)\<rparr>"

lemma xdr_CREATE3resfail_rtrip [xdr_rt]:
  "ok_CREATE3resfail x \<Longrightarrow> rtrip xdr_CREATE3resfail default (x :: 'a::default CREATE3resfail_scheme) (vis_CREATE3resfail x)"
  unfolding xdr_CREATE3resfail_def ok_CREATE3resfail_def vis_CREATE3resfail_def
  by (cases x; (elim disjE conjE)?; (rule codec_steps xdr_rt refl | simp add: zero_mem c_consts)+)

definition ok_CREATE3resok :: "CREATE3resok \<Rightarrow> bool" where
  "ok_CREATE3resok x \<longleftrightarrow> ok_wcc_data (CREATE3resfail_dir_wcc x) \<and>
     ok_post_op_fh3 (CREATE3resok_obj x) \<and>
     ok_post_op_attr (CREATE3resok_obj_attributes x)"

definition vis_CREATE3resok :: "CREATE3resok \<Rightarrow> CREATE3resok" where
  "vis_CREATE3resok x = x\<lparr>CREATE3resfail_dir_wcc := vis_wcc_data (CREATE3resfail_dir_wcc x),
     CREATE3resok_obj := vis_post_op_fh3 (CREATE3resok_obj x),
     CREATE3resok_obj_attributes := vis_post_op_attr (CREATE3resok_obj_attributes x)\<rparr>"

lemma xdr_CREATE3resok_rtrip [xdr_rt]:
  "ok_CREATE3resok x \<Longrightarrow> rtrip xdr_CREATE3resok default x (vis_CREATE3resok x)"
  unfolding xdr_CREATE3resok_def ok_CREATE3resok_def vis_CREATE3resok_def
  by (cases x; (elim disjE conjE)?; (rule codec_steps xdr_rt refl | simp add: zero_mem c_consts)+)

definition ok_CREATE3res :: "CREATE3res \<Rightarrow> bool" where
  "ok_CREATE3res x \<longleftrightarrow>
     CREATE3res_status x = NFS3_OK \<and> ok_CREATE3resok (CREATE3res_u x) \<or>
     CREATE3res_status x \<noteq> NFS3_OK \<and> ok_CREATE3resfail (CREATE3res_u x)"

definition vis_CREATE3res :: "CREATE3res \<Rightarrow> CREATE3res" where
  "vis_CREATE3res x = x\<lparr>CREATE3res_u := if CREATE3res_status x = NFS3_OK then vis_CREATE3resok (CREATE3res_u x) else vis_CREATE3resfail (CREATE3res_u x)\<rparr>"

lemma xdr_CREATE3res_rtrip [xdr_rt]:
  "ok_CREATE3res x \<Longrightarrow> rtrip xdr_CREATE3res default x (vis_CREATE3res x)"
  unfolding xdr_CREATE3res_def ok_CREATE3res_def vis_CREATE3res_def
  by (cases x; (elim disjE conjE)?; (rule codec_steps xdr_rt refl | simp add: zero_mem c_consts)+)

definition ok_MKDIR3resfail :: "'a MKDIR3resfail_scheme \<Rightarrow> bool" where
  "ok_MKDIR3resfail x \<longleftrightarrow> ok_wcc_data (MKDIR3resfail_dir_wcc x)"

definition vis_MKDIR3resfail :: "'a::default MKDIR3resfail_scheme \<Rightarrow> 'a MKDIR3resfail_scheme" where
  "vis_MKDIR3resfail x = default\<lparr>MKDIR3resfail_dir_wcc := vis_wcc_data (MKDIR3resfail_dir_wcc x)\<rparr>"

lemma xdr_MKDIR3resfail_rtrip [xdr_rt]:
  "ok_MKDIR3resfail x \<Longrightarrow> rtrip xdr_MKDIR3resfail default (x :: 'a::default MKDIR3resfail_scheme) (vis_MKDIR3resfail x)"
  unfolding xdr_MKDIR3resfail_def ok_MKDIR3resfail_def vis_MKDIR3resfail_def
  by (cases x; (elim disjE conjE)?; (rule codec_steps xdr_rt refl | simp add: zero_mem c_consts)+)

definition ok_MKDIR3resok :: "MKDIR3resok \<Rightarrow> bool" where
  "ok_MKDIR3resok x \<longleftrightarrow> ok_wcc_data (MKDIR3resfail_dir_wcc x) \<and>
     ok_post_op_fh3 (MKDIR3resok_obj x) \<and>
     ok_post_op_attr (MKDIR3resok_obj_attributes x)"

definition vis_MKDIR3resok :: "MKDIR3resok \<Rightarrow> MKDIR3resok" where
  "vis_MKDIR3resok x = x\<lparr>MKDIR3resfail_dir_wcc := vis_wcc_data (MKDIR3resfail_dir_wcc x),
     MKDIR3resok_obj := vis_post_op_fh3 (MKDIR3resok_obj x),
     MKDIR3resok_obj_attributes := vis_post_op_attr (MKDIR3resok_obj_attributes x)\<rparr>"

lemma xdr_MKDIR3resok_rtrip [xdr_rt]:
  "ok_MKDIR3resok x \<Longrightarrow> rtrip xdr_MKDIR3resok default x (vis_MKDIR3resok x)"
  unfolding xdr_MKDIR3resok_def ok_MKDIR3resok_def vis_MKDIR3resok_def
  by (cases x; (elim disjE conjE)?; (rule codec_steps xdr_rt refl | simp add: zero_mem c_consts)+)

definition ok_MKDIR3res :: "MKDIR3res \<Rightarrow> bool" where
  "ok_MKDIR3res x \<longleftrightarrow>
     MKDIR3res_status x = NFS3_OK \<and> ok_MKDIR3resok (MKDIR3res_u x) \<or>
     MKDIR3res_status x \<noteq> NFS3_OK \<and> ok_MKDIR3resfail (MKDIR3res_u x)"

definition vis_MKDIR3res :: "MKDIR3res \<Rightarrow> MKDIR3res" where
  "vis_MKDIR3res x = x\<lparr>MKDIR3res_u := if MKDIR3res_status x = NFS3_OK then vis_MKDIR3resok (MKDIR3res_u x) else vis_MKDIR3resfail (MKDIR3res_u x)\<rparr>"

lemma xdr_MKDIR3res_rtrip [xdr_rt]:
  "ok_MKDIR3res x \<Longrightarrow> rtrip xdr_MKDIR3res default x (vis_MKDIR3res x)"
  unfolding xdr_MKDIR3res_def ok_MKDIR3res_def vis_MKDIR3res_def
  by (cases x; (elim disjE conjE)?; (rule codec_steps xdr_rt refl | simp add: zero_mem c_consts)+)

definition ok_SYMLINK3resfail :: "'a SYMLINK3resfail_scheme \<Rightarrow> bool" where
  "ok_SYMLINK3resfail x \<longleftrightarrow> ok_wcc_data (SYMLINK3resfail_dir_wcc x)"

definition vis_SYMLINK3resfail :: "'a::default SYMLINK3resfail_scheme \<Rightarrow> 'a SYMLINK3resfail_scheme" where
  "vis_SYMLINK3resfail x = default\<lparr>SYMLINK3resfail_dir_wcc := vis_wcc_data (SYMLINK3resfail_dir_wcc x)\<rparr>"

lemma xdr_SYMLINK3resfail_rtrip [xdr_rt]:
  "ok_SYMLINK3resfail x \<Longrightarrow> rtrip xdr_SYMLINK3resfail default (x :: 'a::default SYMLINK3resfail_scheme) (vis_SYMLINK3resfail x)"
  unfolding xdr_SYMLINK3resfail_def ok_SYMLINK3resfail_def vis_SYMLINK3resfail_def
  by (cases x; (elim disjE conjE)?; (rule codec_steps xdr_rt refl | simp add: zero_mem c_consts)+)

definition ok_SYMLINK3resok :: "SYMLINK3resok \<Rightarrow> bool" where
  "ok_SYMLINK3resok x \<longleftrightarrow> ok_wcc_data (SYMLINK3resfail_dir_wcc x) \<and>
     ok_post_op_fh3 (SYMLINK3resok_obj x) \<and>
     ok_post_op_attr (SYMLINK3resok_obj_attributes x)"

definition vis_SYMLINK3resok :: "SYMLINK3resok \<Rightarrow> SYMLINK3resok" where
  "vis_SYMLINK3resok x = x\<lparr>SYMLINK3resfail_dir_wcc := vis_wcc_data (SYMLINK3resfail_dir_wcc x),
     SYMLINK3resok_obj := vis_post_op_fh3 (SYMLINK3resok_obj x),
     SYMLINK3resok_obj_attributes := vis_post_op_attr (SYMLINK3resok_obj_attributes x)\<rparr>"

lemma xdr_SYMLINK3resok_rtrip [xdr_rt]:
  "ok_SYMLINK3resok x \<Longrightarrow> rtrip xdr_SYMLINK3resok default x (vis_SYMLINK3resok x)"
  unfolding xdr_SYMLINK3resok_def ok_SYMLINK3resok_def vis_SYMLINK3resok_def
  by (cases x; (elim disjE conjE)?; (rule codec_steps xdr_rt refl | simp add: zero_mem c_consts)+)

definition ok_SYMLINK3res :: "SYMLINK3res \<Rightarrow> bool" where
  "ok_SYMLINK3res x \<longleftrightarrow>
     SYMLINK3res_status x = NFS3_OK \<and> ok_SYMLINK3resok (SYMLINK3res_u x) \<or>
     SYMLINK3res_status x \<noteq> NFS3_OK \<and> ok_SYMLINK3resfail (SYMLINK3res_u x)"

definition vis_SYMLINK3res :: "SYMLINK3res \<Rightarrow> SYMLINK3res" where
  "vis_SYMLINK3res x = x\<lparr>SYMLINK3res_u := if SYMLINK3res_status x = NFS3_OK then vis_SYMLINK3resok (SYMLINK3res_u x) else vis_SYMLINK3resfail (SYMLINK3res_u x)\<rparr>"

lemma xdr_SYMLINK3res_rtrip [xdr_rt]:
  "ok_SYMLINK3res x \<Longrightarrow> rtrip xdr_SYMLINK3res default x (vis_SYMLINK3res x)"
  unfolding xdr_SYMLINK3res_def ok_SYMLINK3res_def vis_SYMLINK3res_def
  by (cases x; (elim disjE conjE)?; (rule codec_steps xdr_rt refl | simp add: zero_mem c_consts)+)

definition ok_MKNOD3resfail :: "'a MKNOD3resfail_scheme \<Rightarrow> bool" where
  "ok_MKNOD3resfail x \<longleftrightarrow> ok_wcc_data (MKNOD3resfail_dir_wcc x)"

definition vis_MKNOD3resfail :: "'a::default MKNOD3resfail_scheme \<Rightarrow> 'a MKNOD3resfail_scheme" where
  "vis_MKNOD3resfail x = default\<lparr>MKNOD3resfail_dir_wcc := vis_wcc_data (MKNOD3resfail_dir_wcc x)\<rparr>"

lemma xdr_MKNOD3resfail_rtrip [xdr_rt]:
  "ok_MKNOD3resfail x \<Longrightarrow> rtrip xdr_MKNOD3resfail default (x :: 'a::default MKNOD3resfail_scheme) (vis_MKNOD3resfail x)"
  unfolding xdr_MKNOD3resfail_def ok_MKNOD3resfail_def vis_MKNOD3resfail_def
  by (cases x; (elim disjE conjE)?; (rule codec_steps xdr_rt refl | simp add: zero_mem c_consts)+)

definition ok_MKNOD3resok :: "MKNOD3resok \<Rightarrow> bool" where
  "ok_MKNOD3resok x \<longleftrightarrow> ok_wcc_data (MKNOD3resfail_dir_wcc x) \<and>
     ok_post_op_fh3 (MKNOD3resok_obj x) \<and>
     ok_post_op_attr (MKNOD3resok_obj_attributes x)"

definition vis_MKNOD3resok :: "MKNOD3resok \<Rightarrow> MKNOD3resok" where
  "vis_MKNOD3resok x = x\<lparr>MKNOD3resfail_dir_wcc := vis_wcc_data (MKNOD3resfail_dir_wcc x),
     MKNOD3resok_obj := vis_post_op_fh3 (MKNOD3resok_obj x),
     MKNOD3resok_obj_attributes := vis_post_op_attr (MKNOD3resok_obj_attributes x)\<rparr>"

lemma xdr_MKNOD3resok_rtrip [xdr_rt]:
  "ok_MKNOD3resok x \<Longrightarrow> rtrip xdr_MKNOD3resok default x (vis_MKNOD3resok x)"
  unfolding xdr_MKNOD3resok_def ok_MKNOD3resok_def vis_MKNOD3resok_def
  by (cases x; (elim disjE conjE)?; (rule codec_steps xdr_rt refl | simp add: zero_mem c_consts)+)

definition ok_MKNOD3res :: "MKNOD3res \<Rightarrow> bool" where
  "ok_MKNOD3res x \<longleftrightarrow>
     MKNOD3res_status x = NFS3_OK \<and> ok_MKNOD3resok (MKNOD3res_u x) \<or>
     MKNOD3res_status x \<noteq> NFS3_OK \<and> ok_MKNOD3resfail (MKNOD3res_u x)"

definition vis_MKNOD3res :: "MKNOD3res \<Rightarrow> MKNOD3res" where
  "vis_MKNOD3res x = x\<lparr>MKNOD3res_u := if MKNOD3res_status x = NFS3_OK then vis_MKNOD3resok (MKNOD3res_u x) else vis_MKNOD3resfail (MKNOD3res_u x)\<rparr>"

lemma xdr_MKNOD3res_rtrip [xdr_rt]:
  "ok_MKNOD3res x \<Longrightarrow> rtrip xdr_MKNOD3res default x (vis_MKNOD3res x)"
  unfolding xdr_MKNOD3res_def ok_MKNOD3res_def vis_MKNOD3res_def
  by (cases x; (elim disjE conjE)?; (rule codec_steps xdr_rt refl | simp add: zero_mem c_consts)+)

definition ok_REMOVE3resfail :: "'a REMOVE3resfail_scheme \<Rightarrow> bool" where
  "ok_REMOVE3resfail x \<longleftrightarrow> ok_wcc_data (REMOVE3resfail_dir_wcc x)"

definition vis_REMOVE3resfail :: "'a::default REMOVE3resfail_scheme \<Rightarrow> 'a REMOVE3resfail_scheme" where
  "vis_REMOVE3resfail x = default\<lparr>REMOVE3resfail_dir_wcc := vis_wcc_data (REMOVE3resfail_dir_wcc x)\<rparr>"

lemma xdr_REMOVE3resfail_rtrip [xdr_rt]:
  "ok_REMOVE3resfail x \<Longrightarrow> rtrip xdr_REMOVE3resfail default (x :: 'a::default REMOVE3resfail_scheme) (vis_REMOVE3resfail x)"
  unfolding xdr_REMOVE3resfail_def ok_REMOVE3resfail_def vis_REMOVE3resfail_def
  by (cases x; (elim disjE conjE)?; (rule codec_steps xdr_rt refl | simp add: zero_mem c_consts)+)

abbreviation ok_REMOVE3resok :: "REMOVE3resok \<Rightarrow> bool" where
  "ok_REMOVE3resok \<equiv> ok_REMOVE3resfail"

abbreviation vis_REMOVE3resok :: "REMOVE3resok \<Rightarrow> REMOVE3resok" where
  "vis_REMOVE3resok \<equiv> vis_REMOVE3resfail"

lemma xdr_REMOVE3resok_rtrip [xdr_rt]:
  "ok_REMOVE3resfail x \<Longrightarrow> rtrip xdr_REMOVE3resok default x (vis_REMOVE3resfail x)"
  unfolding xdr_REMOVE3resok_def ok_REMOVE3resfail_def vis_REMOVE3resfail_def
  by (cases x; (elim disjE conjE)?; (rule codec_steps xdr_rt refl | simp add: zero_mem c_consts)+)

definition ok_REMOVE3res :: "REMOVE3res \<Rightarrow> bool" where
  "ok_REMOVE3res x \<longleftrightarrow>
     REMOVE3res_status x = NFS3_OK \<and> ok_REMOVE3resok (REMOVE3res_u x) \<or>
     REMOVE3res_status x \<noteq> NFS3_OK \<and> ok_REMOVE3resfail (REMOVE3res_u x)"

definition vis_REMOVE3res :: "REMOVE3res \<Rightarrow> REMOVE3res" where
  "vis_REMOVE3res x = x\<lparr>REMOVE3res_u := if REMOVE3res_status x = NFS3_OK then vis_REMOVE3resok (REMOVE3res_u x) else vis_REMOVE3resfail (REMOVE3res_u x)\<rparr>"

lemma xdr_REMOVE3res_rtrip [xdr_rt]:
  "ok_REMOVE3res x \<Longrightarrow> rtrip xdr_REMOVE3res default x (vis_REMOVE3res x)"
  unfolding xdr_REMOVE3res_def ok_REMOVE3res_def vis_REMOVE3res_def
  by (cases x; (elim disjE conjE)?; (rule codec_steps xdr_rt refl | simp add: zero_mem c_consts)+)

definition ok_RMDIR3resfail :: "'a RMDIR3resfail_scheme \<Rightarrow> bool" where
  "ok_RMDIR3resfail x \<longleftrightarrow> ok_wcc_data (RMDIR3resfail_dir_wcc x)"

definition vis_RMDIR3resfail :: "'a::default RMDIR3resfail_scheme \<Rightarrow> 'a RMDIR3resfail_scheme" where
  "vis_RMDIR3resfail x = default\<lparr>RMDIR3resfail_dir_wcc := vis_wcc_data (RMDIR3resfail_dir_wcc x)\<rparr>"

lemma xdr_RMDIR3resfail_rtrip [xdr_rt]:
  "ok_RMDIR3resfail x \<Longrightarrow> rtrip xdr_RMDIR3resfail default (x :: 'a::default RMDIR3resfail_scheme) (vis_RMDIR3resfail x)"
  unfolding xdr_RMDIR3resfail_def ok_RMDIR3resfail_def vis_RMDIR3resfail_def
  by (cases x; (elim disjE conjE)?; (rule codec_steps xdr_rt refl | simp add: zero_mem c_consts)+)

abbreviation ok_RMDIR3resok :: "RMDIR3resok \<Rightarrow> bool" where
  "ok_RMDIR3resok \<equiv> ok_RMDIR3resfail"

abbreviation vis_RMDIR3resok :: "RMDIR3resok \<Rightarrow> RMDIR3resok" where
  "vis_RMDIR3resok \<equiv> vis_RMDIR3resfail"

lemma xdr_RMDIR3resok_rtrip [xdr_rt]:
  "ok_RMDIR3resfail x \<Longrightarrow> rtrip xdr_RMDIR3resok default x (vis_RMDIR3resfail x)"
  unfolding xdr_RMDIR3resok_def ok_RMDIR3resfail_def vis_RMDIR3resfail_def
  by (cases x; (elim disjE conjE)?; (rule codec_steps xdr_rt refl | simp add: zero_mem c_consts)+)

definition ok_RMDIR3res :: "RMDIR3res \<Rightarrow> bool" where
  "ok_RMDIR3res x \<longleftrightarrow>
     RMDIR3res_status x = NFS3_OK \<and> ok_RMDIR3resok (RMDIR3res_u x) \<or>
     RMDIR3res_status x \<noteq> NFS3_OK \<and> ok_RMDIR3resfail (RMDIR3res_u x)"

definition vis_RMDIR3res :: "RMDIR3res \<Rightarrow> RMDIR3res" where
  "vis_RMDIR3res x = x\<lparr>RMDIR3res_u := if RMDIR3res_status x = NFS3_OK then vis_RMDIR3resok (RMDIR3res_u x) else vis_RMDIR3resfail (RMDIR3res_u x)\<rparr>"

lemma xdr_RMDIR3res_rtrip [xdr_rt]:
  "ok_RMDIR3res x \<Longrightarrow> rtrip xdr_RMDIR3res default x (vis_RMDIR3res x)"
  unfolding xdr_RMDIR3res_def ok_RMDIR3res_def vis_RMDIR3res_def
  by (cases x; (elim disjE conjE)?; (rule codec_steps xdr_rt refl | simp add: zero_mem c_consts)+)

definition ok_RENAME3resfail :: "'a RENAME3resfail_scheme \<Rightarrow> bool" where
  "ok_RENAME3resfail x \<longleftrightarrow> ok_wcc_data (RENAME3resfail_fromdir_wcc x) \<and>
     ok_wcc_data (RENAME3resfail_todir_wcc x)"

definition vis_RENAME3resfail :: "'a::default RENAME3resfail_scheme \<Rightarrow> 'a RENAME3resfail_scheme" where
  "vis_RENAME3resfail x = default\<lparr>RENAME3resfail_fromdir_wcc := vis_wcc_data (RENAME3resfail_fromdir_wcc x),
     RENAME3resfail_todir_wcc := vis_wcc_data (RENAME3resfail_todir_wcc x)\<rparr>"

lemma xdr_RENAME3resfail_rtrip [xdr_rt]:
  "ok_RENAME3resfail x \<Longrightarrow> rtrip xdr_RENAME3resfail default (x :: 'a::default RENAME3resfail_scheme) (vis_RENAME3resfail x)"
  unfolding xdr_RENAME3resfail_def ok_RENAME3resfail_def vis_RENAME3resfail_def
  by (cases x; (elim disjE conjE)?; (rule codec_steps xdr_rt refl | simp add: zero_mem c_consts)+)

abbreviation ok_RENAME3resok :: "RENAME3resok \<Rightarrow> bool" where
  "ok_RENAME3resok \<equiv> ok_RENAME3resfail"

abbreviation vis_RENAME3resok :: "RENAME3resok \<Rightarrow> RENAME3resok" where
  "vis_RENAME3resok \<equiv> vis_RENAME3resfail"

lemma xdr_RENAME3resok_rtrip [xdr_rt]:
  "ok_RENAME3resfail x \<Longrightarrow> rtrip xdr_RENAME3resok default x (vis_RENAME3resfail x)"
  unfolding xdr_RENAME3resok_def ok_RENAME3resfail_def vis_RENAME3resfail_def
  by (cases x; (elim disjE conjE)?; (rule codec_steps xdr_rt refl | simp add: zero_mem c_consts)+)

definition ok_RENAME3res :: "RENAME3res \<Rightarrow> bool" where
  "ok_RENAME3res x \<longleftrightarrow>
     RENAME3res_status x = NFS3_OK \<and> ok_RENAME3resok (RENAME3res_u x) \<or>
     RENAME3res_status x \<noteq> NFS3_OK \<and> ok_RENAME3resfail (RENAME3res_u x)"

definition vis_RENAME3res :: "RENAME3res \<Rightarrow> RENAME3res" where
  "vis_RENAME3res x = x\<lparr>RENAME3res_u := if RENAME3res_status x = NFS3_OK then vis_RENAME3resok (RENAME3res_u x) else vis_RENAME3resfail (RENAME3res_u x)\<rparr>"

lemma xdr_RENAME3res_rtrip [xdr_rt]:
  "ok_RENAME3res x \<Longrightarrow> rtrip xdr_RENAME3res default x (vis_RENAME3res x)"
  unfolding xdr_RENAME3res_def ok_RENAME3res_def vis_RENAME3res_def
  by (cases x; (elim disjE conjE)?; (rule codec_steps xdr_rt refl | simp add: zero_mem c_consts)+)

definition ok_LINK3resfail :: "'a LINK3resfail_scheme \<Rightarrow> bool" where
  "ok_LINK3resfail x \<longleftrightarrow> ok_post_op_attr (LINK3resfail_file_attributes x) \<and>
     ok_wcc_data (LINK3resfail_linkdir_wcc x)"

definition vis_LINK3resfail :: "'a::default LINK3resfail_scheme \<Rightarrow> 'a LINK3resfail_scheme" where
  "vis_LINK3resfail x = default\<lparr>LINK3resfail_file_attributes := vis_post_op_attr (LINK3resfail_file_attributes x),
     LINK3resfail_linkdir_wcc := vis_wcc_data (LINK3resfail_linkdir_wcc x)\<rparr>"

lemma xdr_LINK3resfail_rtrip [xdr_rt]:
  "ok_LINK3resfail x \<Longrightarrow> rtrip xdr_LINK3resfail default (x :: 'a::default LINK3resfail_scheme) (vis_LINK3resfail x)"
  unfolding xdr_LINK3resfail_def ok_LINK3resfail_def vis_LINK3resfail_def
  by (cases x; (elim disjE conjE)?; (rule codec_steps xdr_rt refl | simp add: zero_mem c_consts)+)

abbreviation ok_LINK3resok :: "LINK3resok \<Rightarrow> bool" where
  "ok_LINK3resok \<equiv> ok_LINK3resfail"

abbreviation vis_LINK3resok :: "LINK3resok \<Rightarrow> LINK3resok" where
  "vis_LINK3resok \<equiv> vis_LINK3resfail"

lemma xdr_LINK3resok_rtrip [xdr_rt]:
  "ok_LINK3resfail x \<Longrightarrow> rtrip xdr_LINK3resok default x (vis_LINK3resfail x)"
  unfolding xdr_LINK3resok_def ok_LINK3resfail_def vis_LINK3resfail_def
  by (cases x; (elim disjE conjE)?; (rule codec_steps xdr_rt refl | simp add: zero_mem c_consts)+)

definition ok_LINK3res :: "LINK3res \<Rightarrow> bool" where
  "ok_LINK3res x \<longleftrightarrow>
     LINK3res_status x = NFS3_OK \<and> ok_LINK3resok (LINK3res_u x) \<or>
     LINK3res_status x \<noteq> NFS3_OK \<and> ok_LINK3resfail (LINK3res_u x)"

definition vis_LINK3res :: "LINK3res \<Rightarrow> LINK3res" where
  "vis_LINK3res x = x\<lparr>LINK3res_u := if LINK3res_status x = NFS3_OK then vis_LINK3resok (LINK3res_u x) else vis_LINK3resfail (LINK3res_u x)\<rparr>"

lemma xdr_LINK3res_rtrip [xdr_rt]:
  "ok_LINK3res x \<Longrightarrow> rtrip xdr_LINK3res default x (vis_LINK3res x)"
  unfolding xdr_LINK3res_def ok_LINK3res_def vis_LINK3res_def
  by (cases x; (elim disjE conjE)?; (rule codec_steps xdr_rt refl | simp add: zero_mem c_consts)+)

definition ok_READDIR3resfail :: "'a READDIR3resfail_scheme \<Rightarrow> bool" where
  "ok_READDIR3resfail x \<longleftrightarrow> ok_post_op_attr (READDIR3resfail_dir_attributes x)"

definition vis_READDIR3resfail :: "'a::default READDIR3resfail_scheme \<Rightarrow> 'a READDIR3resfail_scheme" where
  "vis_READDIR3resfail x = default\<lparr>READDIR3resfail_dir_attributes := vis_post_op_attr (READDIR3resfail_dir_attributes x)\<rparr>"

lemma xdr_READDIR3resfail_rtrip [xdr_rt]:
  "ok_READDIR3resfail x \<Longrightarrow> rtrip xdr_READDIR3resfail default (x :: 'a::default READDIR3resfail_scheme) (vis_READDIR3resfail x)"
  unfolding xdr_READDIR3resfail_def ok_READDIR3resfail_def vis_READDIR3resfail_def
  by (cases x; (elim disjE conjE)?; (rule codec_steps xdr_rt refl | simp add: zero_mem c_consts)+)

definition ok_READDIR3resok :: "READDIR3resok \<Rightarrow> bool" where
  "ok_READDIR3resok x \<longleftrightarrow> ok_post_op_attr (READDIR3resfail_dir_attributes x) \<and>
     ok_verf (READDIR3resok_cookieverf x) \<and>
     ok_dirlist3 (READDIR3resok_reply x)"

definition vis_READDIR3resok :: "READDIR3resok \<Rightarrow> READDIR3resok" where
  "vis_READDIR3resok x = x\<lparr>READDIR3resfail_dir_attributes := vis_post_op_attr (READDIR3resfail_dir_attributes x)\<rparr>"

lemma xdr_READDIR3resok_rtrip [xdr_rt]:
  "ok_READDIR3resok x \<Longrightarrow> rtrip xdr_READDIR3resok default x (vis_READDIR3resok x)"
  unfolding xdr_READDIR3resok_def ok_READDIR3resok_def vis_READDIR3resok_def
  by (cases x; (elim disjE conjE)?; (rule codec_steps xdr_rt refl | simp add: zero_mem c_consts)+)

definition ok_READDIR3res :: "READDIR3res \<Rightarrow> bool" where
  "ok_READDIR3res x \<longleftrightarrow>
     READDIR3res_status x = NFS3_OK \<and> ok_READDIR3resok (READDIR3res_u x) \<or>
     READDIR3res_status x \<noteq> NFS3_OK \<and> ok_READDIR3resfail (READDIR3res_u x)"

definition vis_READDIR3res :: "READDIR3res \<Rightarrow> READDIR3res" where
  "vis_READDIR3res x = x\<lparr>READDIR3res_u := if READDIR3res_status x = NFS3_OK then vis_READDIR3resok (READDIR3res_u x) else vis_READDIR3resfail (READDIR3res_u x)\<rparr>"

lemma xdr_READDIR3res_rtrip [xdr_rt]:
  "ok_READDIR3res x \<Longrightarrow> rtrip xdr_READDIR3res default x (vis_READDIR3res x)"
  unfolding xdr_READDIR3res_def ok_READDIR3res_def vis_READDIR3res_def
  by (cases x; (elim disjE conjE)?; (rule codec_steps xdr_rt refl | simp add: zero_mem c_consts)+)

definition ok_READDIRPLUS3resfail :: "'a READDIRPLUS3resfail_scheme \<Rightarrow> bool" where
  "ok_READDIRPLUS3resfail x \<longleftrightarrow> ok_post_op_attr (READDIRPLUS3resfail_dir_attributes x)"

definition vis_READDIRPLUS3resfail :: "'a::default READDIRPLUS3resfail_scheme \<Rightarrow> 'a READDIRPLUS3resfail_scheme" where
  "vis_READDIRPLUS3resfail x = default\<lparr>READDIRPLUS3resfail_dir_attributes := vis_post_op_attr (READDIRPLUS3resfail_dir_attributes x)\<rparr>"

lemma xdr_READDIRPLUS3resfail_rtrip [xdr_rt]:
  "ok_READDIRPLUS3resfail x \<Longrightarrow> rtrip xdr_READDIRPLUS3resfail default (x :: 'a::default READDIRPLUS3resfail_scheme) (vis_READDIRPLUS3resfail x)"
  unfolding xdr_READDIRPLUS3resfail_def ok_READDIRPLUS3resfail_def vis_READDIRPLUS3resfail_def
  by (cases x; (elim disjE conjE)?; (rule codec_steps xdr_rt refl | simp add: zero_mem c_consts)+)

definition ok_READDIRPLUS3resok :: "READDIRPLUS3resok \<Rightarrow> bool" where
  "ok_READDIRPLUS3resok x \<longleftrightarrow> ok_post_op_attr (READDIRPLUS3resfail_dir_attributes x) \<and>
     ok_verf (READDIRPLUS3resok_cookieverf x) \<and>
     ok_dirlistplus3 (READDIRPLUS3resok_reply x)"

definition vis_READDIRPLUS3resok :: "READDIRPLUS3resok \<Rightarrow> READDIRPLUS3resok" where
  "vis_READDIRPLUS3resok x = x\<lparr>READDIRPLUS3resfail_dir_attributes := vis_post_op_attr (READDIRPLUS3resfail_dir_attributes x)\<rparr>"

lemma xdr_READDIRPLUS3resok_rtrip [xdr_rt]:
  "ok_READDIRPLUS3resok x \<Longrightarrow> rtrip xdr_READDIRPLUS3resok default x (vis_READDIRPLUS3resok x)"
  unfolding xdr_READDIRPLUS3resok_def ok_READDIRPLUS3resok_def vis_READDIRPLUS3resok_def
  by (cases x; (elim disjE conjE)?; (rule codec_steps xdr_rt refl | simp add: zero_mem c_consts)+)

definition ok_READDIRPLUS3res :: "READDIRPLUS3res \<Rightarrow> bool" where
  "ok_READDIRPLUS3res x \<longleftrightarrow>
     READDIRPLUS3res_status x = NFS3_OK \<and> ok_READDIRPLUS3resok (READDIRPLUS3res_u x) \<or>
     READDIRPLUS3res_status x \<noteq> NFS3_OK \<and> ok_READDIRPLUS3resfail (READDIRPLUS3res_u x)"

definition vis_READDIRPLUS3res :: "READDIRPLUS3res \<Rightarrow> READDIRPLUS3res" where
  "vis_READDIRPLUS3res x = x\<lparr>READDIRPLUS3res_u := if READDIRPLUS3res_status x = NFS3_OK then vis_READDIRPLUS3resok (READDIRPLUS3res_u x) else vis_READDIRPLUS3resfail (READDIRPLUS3res_u x)\<rparr>"

lemma xdr_READDIRPLUS3res_rtrip [xdr_rt]:
  "ok_READDIRPLUS3res x \<Longrightarrow> rtrip xdr_READDIRPLUS3res default x (vis_READDIRPLUS3res x)"
  unfolding xdr_READDIRPLUS3res_def ok_READDIRPLUS3res_def vis_READDIRPLUS3res_def
  by (cases x; (elim disjE conjE)?; (rule codec_steps xdr_rt refl | simp add: zero_mem c_consts)+)

definition ok_FSSTAT3resfail :: "'a FSSTAT3resfail_scheme \<Rightarrow> bool" where
  "ok_FSSTAT3resfail x \<longleftrightarrow> ok_post_op_attr (FSSTAT3resfail_obj_attributes x)"

definition vis_FSSTAT3resfail :: "'a::default FSSTAT3resfail_scheme \<Rightarrow> 'a FSSTAT3resfail_scheme" where
  "vis_FSSTAT3resfail x = default\<lparr>FSSTAT3resfail_obj_attributes := vis_post_op_attr (FSSTAT3resfail_obj_attributes x)\<rparr>"

lemma xdr_FSSTAT3resfail_rtrip [xdr_rt]:
  "ok_FSSTAT3resfail x \<Longrightarrow> rtrip xdr_FSSTAT3resfail default (x :: 'a::default FSSTAT3resfail_scheme) (vis_FSSTAT3resfail x)"
  unfolding xdr_FSSTAT3resfail_def ok_FSSTAT3resfail_def vis_FSSTAT3resfail_def
  by (cases x; (elim disjE conjE)?; (rule codec_steps xdr_rt refl | simp add: zero_mem c_consts)+)

definition ok_FSSTAT3resok :: "FSSTAT3resok \<Rightarrow> bool" where
  "ok_FSSTAT3resok x \<longleftrightarrow> ok_post_op_attr (FSSTAT3resfail_obj_attributes x)"

definition vis_FSSTAT3resok :: "FSSTAT3resok \<Rightarrow> FSSTAT3resok" where
  "vis_FSSTAT3resok x = x\<lparr>FSSTAT3resfail_obj_attributes := vis_post_op_attr (FSSTAT3resfail_obj_attributes x)\<rparr>"

lemma xdr_FSSTAT3resok_rtrip [xdr_rt]:
  "ok_FSSTAT3resok x \<Longrightarrow> rtrip xdr_FSSTAT3resok default x (vis_FSSTAT3resok x)"
  unfolding xdr_FSSTAT3resok_def ok_FSSTAT3resok_def vis_FSSTAT3resok_def
  by (cases x; (elim disjE conjE)?; (rule codec_steps xdr_rt refl | simp add: zero_mem c_consts)+)

definition ok_FSSTAT3res :: "FSSTAT3res \<Rightarrow> bool" where
  "ok_FSSTAT3res x \<longleftrightarrow>
     FSSTAT3res_status x = NFS3_OK \<and> ok_FSSTAT3resok (FSSTAT3res_u x) \<or>
     FSSTAT3res_status x \<noteq> NFS3_OK \<and> ok_FSSTAT3resfail (FSSTAT3res_u x)"

definition vis_FSSTAT3res :: "FSSTAT3res \<Rightarrow> FSSTAT3res" where
  "vis_FSSTAT3res x = x\<lparr>FSSTAT3res_u := if FSSTAT3res_status x = NFS3_OK then vis_FSSTAT3resok (FSSTAT3res_u x) else vis_FSSTAT3resfail (FSSTAT3res_u x)\<rparr>"

lemma xdr_FSSTAT3res_rtrip [xdr_rt]:
  "ok_FSSTAT3res x \<Longrightarrow> rtrip xdr_FSSTAT3res default x (vis_FSSTAT3res x)"
  unfolding xdr_FSSTAT3res_def ok_FSSTAT3res_def vis_FSSTAT3res_def
  by (cases x; (elim disjE conjE)?; (rule codec_steps xdr_rt refl | simp add: zero_mem c_consts)+)

definition ok_FSINFO3resfail :: "'a FSINFO3resfail_scheme \<Rightarrow> bool" where
  "ok_FSINFO3resfail x \<longleftrightarrow> ok_post_op_attr (FSINFO3resfail_obj_attributes x)"

definition vis_FSINFO3resfail :: "'a::default FSINFO3resfail_scheme \<Rightarrow> 'a FSINFO3resfail_scheme" where
  "vis_FSINFO3resfail x = default\<lparr>FSINFO3resfail_obj_attributes := vis_post_op_attr (FSINFO3resfail_obj_attributes x)\<rparr>"

lemma xdr_FSINFO3resfail_rtrip [xdr_rt]:
  "ok_FSINFO3resfail x \<Longrightarrow> rtrip xdr_FSINFO3resfail default (x :: 'a::default FSINFO3resfail_scheme) (vis_FSINFO3resfail x)"
  unfolding xdr_FSINFO3resfail_def ok_FSINFO3resfail_def vis_FSINFO3resfail_def
  by (cases x; (elim disjE conjE)?; (rule codec_steps xdr_rt refl | simp add: zero_mem c_consts)+)

definition ok_FSINFO3resok :: "FSINFO3resok \<Rightarrow> bool" where
  "ok_FSINFO3resok x \<longleftrightarrow> ok_post_op_attr (FSINFO3resfail_obj_attributes x)"

definition vis_FSINFO3resok :: "FSINFO3resok \<Rightarrow> FSINFO3resok" where
  "vis_FSINFO3resok x = x\<lparr>FSINFO3resfail_obj_attributes := vis_post_op_attr (FSINFO3resfail_obj_attributes x)\<rparr>"

lemma xdr_FSINFO3resok_rtrip [xdr_rt]:
  "ok_FSINFO3resok x \<Longrightarrow> rtrip xdr_FSINFO3resok default x (vis_FSINFO3resok x)"
  unfolding xdr_FSINFO3resok_def ok_FSINFO3resok_def vis_FSINFO3resok_def
  by (cases x; (elim disjE conjE)?; (rule codec_steps xdr_rt refl | simp add: zero_mem c_consts)+)

definition ok_FSINFO3res :: "FSINFO3res \<Rightarrow> bool" where
  "ok_FSINFO3res x \<longleftrightarrow>
     FSINFO3res_status x = NFS3_OK \<and> ok_FSINFO3resok (FSINFO3res_u x) \<or>
     FSINFO3res_status x \<noteq> NFS3_OK \<and> ok_FSINFO3resfail (FSINFO3res_u x)"

definition vis_FSINFO3res :: "FSINFO3res \<Rightarrow> FSINFO3res" where
  "vis_FSINFO3res x = x\<lparr>FSINFO3res_u := if FSINFO3res_status x = NFS3_OK then vis_FSINFO3resok (FSINFO3res_u x) else vis_FSINFO3resfail (FSINFO3res_u x)\<rparr>"

lemma xdr_FSINFO3res_rtrip [xdr_rt]:
  "ok_FSINFO3res x \<Longrightarrow> rtrip xdr_FSINFO3res default x (vis_FSINFO3res x)"
  unfolding xdr_FSINFO3res_def ok_FSINFO3res_def vis_FSINFO3res_def
  by (cases x; (elim disjE conjE)?; (rule codec_steps xdr_rt refl | simp add: zero_mem c_consts)+)

definition ok_PATHCONF3resfail :: "'a PATHCONF3resfail_scheme \<Rightarrow> bool" where
  "ok_PATHCONF3resfail x \<longleftrightarrow> ok_post_op_attr (PATHCONF3resfail_obj_attributes x)"

definition vis_PATHCONF3resfail :: "'a::default PATHCONF3resfail_scheme \<Rightarrow> 'a PATHCONF3resfail_scheme" where
  "vis_PATHCONF3resfail x = default\<lparr>PATHCONF3resfail_obj_attributes := vis_post_op_attr (PATHCONF3resfail_obj_attributes x)\<rparr>"

lemma xdr_PATHCONF3resfail_rtrip [xdr_rt]:
  "ok_PATHCONF3resfail x \<Longrightarrow> rtrip xdr_PATHCONF3resfail default (x :: 'a::default PATHCONF3resfail_scheme) (vis_PATHCONF3resfail x)"
  unfolding xdr_PATHCONF3resfail_def ok_PATHCONF3resfail_def vis_PATHCONF3resfail_def
  by (cases x; (elim disjE conjE)?; (rule codec_steps xdr_rt refl | simp add: zero_mem c_consts)+)

definition ok_PATHCONF3resok :: "PATHCONF3resok \<Rightarrow> bool" where
  "ok_PATHCONF3resok x \<longleftrightarrow> ok_post_op_attr (PATHCONF3resfail_obj_attributes x) \<and>
     ok_bool (PATHCONF3resok_no_trunc x) \<and>
     ok_bool (PATHCONF3resok_chown_restricted x) \<and>
     ok_bool (PATHCONF3resok_case_insensitive x) \<and>
     ok_bool (PATHCONF3resok_case_preserving x)"

definition vis_PATHCONF3resok :: "PATHCONF3resok \<Rightarrow> PATHCONF3resok" where
  "vis_PATHCONF3resok x = x\<lparr>PATHCONF3resfail_obj_attributes := vis_post_op_attr (PATHCONF3resfail_obj_attributes x)\<rparr>"

lemma xdr_PATHCONF3resok_rtrip [xdr_rt]:
  "ok_PATHCONF3resok x \<Longrightarrow> rtrip xdr_PATHCONF3resok default x (vis_PATHCONF3resok x)"
  unfolding xdr_PATHCONF3resok_def ok_PATHCONF3resok_def vis_PATHCONF3resok_def
  by (cases x; (elim disjE conjE)?; (rule codec_steps xdr_rt refl | simp add: zero_mem c_consts)+)

definition ok_PATHCONF3res :: "PATHCONF3res \<Rightarrow> bool" where
  "ok_PATHCONF3res x \<longleftrightarrow>
     PATHCONF3res_status x = NFS3_OK \<and> ok_PATHCONF3resok (PATHCONF3res_u x) \<or>
     PATHCONF3res_status x \<noteq> NFS3_OK \<and> ok_PATHCONF3resfail (PATHCONF3res_u x)"

definition vis_PATHCONF3res :: "PATHCONF3res \<Rightarrow> PATHCONF3res" where
  "vis_PATHCONF3res x = x\<lparr>PATHCONF3res_u := if PATHCONF3res_status x = NFS3_OK then vis_PATHCONF3resok (PATHCONF3res_u x) else vis_PATHCONF3resfail (PATHCONF3res_u x)\<rparr>"

lemma xdr_PATHCONF3res_rtrip [xdr_rt]:
  "ok_PATHCONF3res x \<Longrightarrow> rtrip xdr_PATHCONF3res default x (vis_PATHCONF3res x)"
  unfolding xdr_PATHCONF3res_def ok_PATHCONF3res_def vis_PATHCONF3res_def
  by (cases x; (elim disjE conjE)?; (rule codec_steps xdr_rt refl | simp add: zero_mem c_consts)+)

definition ok_COMMIT3resfail :: "'a COMMIT3resfail_scheme \<Rightarrow> bool" where
  "ok_COMMIT3resfail x \<longleftrightarrow> ok_wcc_data (COMMIT3resfail_file_wcc x)"

definition vis_COMMIT3resfail :: "'a::default COMMIT3resfail_scheme \<Rightarrow> 'a COMMIT3resfail_scheme" where
  "vis_COMMIT3resfail x = default\<lparr>COMMIT3resfail_file_wcc := vis_wcc_data (COMMIT3resfail_file_wcc x)\<rparr>"

lemma xdr_COMMIT3resfail_rtrip [xdr_rt]:
  "ok_COMMIT3resfail x \<Longrightarrow> rtrip xdr_COMMIT3resfail default (x :: 'a::default COMMIT3resfail_scheme) (vis_COMMIT3resfail x)"
  unfolding xdr_COMMIT3resfail_def ok_COMMIT3resfail_def vis_COMMIT3resfail_def
  by (cases x; (elim disjE conjE)?; (rule codec_steps xdr_rt refl | simp add: zero_mem c_consts)+)

definition ok_COMMIT3resok :: "COMMIT3resok \<Rightarrow> bool" where
  "ok_COMMIT3resok x \<longleftrightarrow> ok_wcc_data (COMMIT3resfail_file_wcc x) \<and>
     ok_verf (COMMIT3resok_verf x)"

definition vis_COMMIT3resok :: "COMMIT3resok \<Rightarrow> COMMIT3resok" where
  "vis_COMMIT3resok x = x\<lparr>COMMIT3resfail_file_wcc := vis_wcc_data (COMMIT3resfail_file_wcc x)\<rparr>"

lemma xdr_COMMIT3resok_rtrip [xdr_rt]:
  "ok_COMMIT3resok x \<Longrightarrow> rtrip xdr_COMMIT3resok default x (vis_COMMIT3resok x)"
  unfolding xdr_COMMIT3resok_def ok_COMMIT3resok_def vis_COMMIT3resok_def
  by (cases x; (elim disjE conjE)?; (rule codec_steps xdr_rt refl | simp add: zero_mem c_consts)+)

definition ok_COMMIT3res :: "COMMIT3res \<Rightarrow> bool" where
  "ok_COMMIT3res x \<longleftrightarrow>
     COMMIT3res_status x = NFS3_OK \<and> ok_COMMIT3resok (COMMIT3res_u x) \<or>
     COMMIT3res_status x \<noteq> NFS3_OK \<and> ok_COMMIT3resfail (COMMIT3res_u x)"

definition vis_COMMIT3res :: "COMMIT3res \<Rightarrow> COMMIT3res" where
  "vis_COMMIT3res x = x\<lparr>COMMIT3res_u := if COMMIT3res_status x = NFS3_OK then vis_COMMIT3resok (COMMIT3res_u x) else vis_COMMIT3resfail (COMMIT3res_u x)\<rparr>"

lemma xdr_COMMIT3res_rtrip [xdr_rt]:
  "ok_COMMIT3res x \<Longrightarrow> rtrip xdr_COMMIT3res default x (vis_COMMIT3res x)"
  unfolding xdr_COMMIT3res_def ok_COMMIT3res_def vis_COMMIT3res_def
  by (cases x; (elim disjE conjE)?; (rule codec_steps xdr_rt refl | simp add: zero_mem c_consts)+)

section \<open>The results as codes\<close>

interpretation GETATTR3res_codec: xdr_codec xdr_GETATTR3res ok_GETATTR3res vis_GETATTR3res
  by unfold_locales (auto intro: xdr_rt xdr_framed)

interpretation SETATTR3res_codec: xdr_codec xdr_SETATTR3res ok_SETATTR3res vis_SETATTR3res
  by unfold_locales (auto intro: xdr_rt xdr_framed)

interpretation LOOKUP3res_codec: xdr_codec xdr_LOOKUP3res ok_LOOKUP3res vis_LOOKUP3res
  by unfold_locales (auto intro: xdr_rt xdr_framed)

interpretation ACCESS3res_codec: xdr_codec xdr_ACCESS3res ok_ACCESS3res vis_ACCESS3res
  by unfold_locales (auto intro: xdr_rt xdr_framed)

interpretation READLINK3res_codec: xdr_codec xdr_READLINK3res ok_READLINK3res vis_READLINK3res
  by unfold_locales (auto intro: xdr_rt xdr_framed)

interpretation READ3res_codec: xdr_codec xdr_READ3res ok_READ3res vis_READ3res
  by unfold_locales (auto intro: xdr_rt xdr_framed)

interpretation WRITE3res_codec: xdr_codec xdr_WRITE3res ok_WRITE3res vis_WRITE3res
  by unfold_locales (auto intro: xdr_rt xdr_framed)

interpretation CREATE3res_codec: xdr_codec xdr_CREATE3res ok_CREATE3res vis_CREATE3res
  by unfold_locales (auto intro: xdr_rt xdr_framed)

interpretation MKDIR3res_codec: xdr_codec xdr_MKDIR3res ok_MKDIR3res vis_MKDIR3res
  by unfold_locales (auto intro: xdr_rt xdr_framed)

interpretation SYMLINK3res_codec: xdr_codec xdr_SYMLINK3res ok_SYMLINK3res vis_SYMLINK3res
  by unfold_locales (auto intro: xdr_rt xdr_framed)

interpretation MKNOD3res_codec: xdr_codec xdr_MKNOD3res ok_MKNOD3res vis_MKNOD3res
  by unfold_locales (auto intro: xdr_rt xdr_framed)

interpretation REMOVE3res_codec: xdr_codec xdr_REMOVE3res ok_REMOVE3res vis_REMOVE3res
  by unfold_locales (auto intro: xdr_rt xdr_framed)

interpretation RMDIR3res_codec: xdr_codec xdr_RMDIR3res ok_RMDIR3res vis_RMDIR3res
  by unfold_locales (auto intro: xdr_rt xdr_framed)

interpretation RENAME3res_codec: xdr_codec xdr_RENAME3res ok_RENAME3res vis_RENAME3res
  by unfold_locales (auto intro: xdr_rt xdr_framed)

interpretation LINK3res_codec: xdr_codec xdr_LINK3res ok_LINK3res vis_LINK3res
  by unfold_locales (auto intro: xdr_rt xdr_framed)

interpretation READDIR3res_codec: xdr_codec xdr_READDIR3res ok_READDIR3res vis_READDIR3res
  by unfold_locales (auto intro: xdr_rt xdr_framed)

interpretation READDIRPLUS3res_codec: xdr_codec xdr_READDIRPLUS3res ok_READDIRPLUS3res vis_READDIRPLUS3res
  by unfold_locales (auto intro: xdr_rt xdr_framed)

interpretation FSSTAT3res_codec: xdr_codec xdr_FSSTAT3res ok_FSSTAT3res vis_FSSTAT3res
  by unfold_locales (auto intro: xdr_rt xdr_framed)

interpretation FSINFO3res_codec: xdr_codec xdr_FSINFO3res ok_FSINFO3res vis_FSINFO3res
  by unfold_locales (auto intro: xdr_rt xdr_framed)

interpretation PATHCONF3res_codec: xdr_codec xdr_PATHCONF3res ok_PATHCONF3res vis_PATHCONF3res
  by unfold_locales (auto intro: xdr_rt xdr_framed)

interpretation COMMIT3res_codec: xdr_codec xdr_COMMIT3res ok_COMMIT3res vis_COMMIT3res
  by unfold_locales (auto intro: xdr_rt xdr_framed)

end
