(* ===== verification/Daemon.thy ===== *)
theory Daemon
  imports Readdir Mount Xdr_Codec_Results
begin

text \<open>
  The server framework, \<open>unfs3/daemon.c\<close>: the dispatch functions of the two RPC programs.
  The RPC library hands a call over as the body of its message; what happens to it is one of
  four outcomes. The result variables that the handlers keep between calls are part of the
  state of the server.
\<close>

section \<open>The state of the server\<close>

record statics =
  s_getattr :: "GETATTR3res"
  s_setattr :: "SETATTR3res"
  s_lookup :: "LOOKUP3res"
  s_access :: "ACCESS3res"
  s_readlink :: "READLINK3res"
  s_read :: "READ3res"
  s_read_buf :: "byte list"
  s_write :: "WRITE3res"
  s_create :: "CREATE3res"
  s_mkdir :: "MKDIR3res"
  s_symlink :: "SYMLINK3res"
  s_mknod :: "MKNOD3res"
  s_remove :: "REMOVE3res"
  s_rmdir :: "RMDIR3res"
  s_rename :: "RENAME3res"
  s_link :: "LINK3res"
  s_readdir :: "READDIR3res"
  s_readdirplus :: "READDIRPLUS3res"
  s_fsstat :: "FSSTAT3res"
  s_fsinfo :: "FSINFO3res"
  s_pathconf :: "PATHCONF3res"
  s_commit :: "COMMIT3res"
  s_mnt :: mountres3

text \<open>Static variables start cleared; the buffer of READ is one byte more than it sends.\<close>

definition init_statics :: statics where
  "init_statics = \<lparr>
     s_getattr = default,
     s_setattr = default,
     s_lookup = default,
     s_access = default,
     s_readlink = default,
     s_read = default,
     s_read_buf = replicate (unat NFS_MAXDATA_TCP + 1) 0,
     s_write = default,
     s_create = default,
     s_mkdir = default,
     s_symlink = default,
     s_mknod = default,
     s_remove = default,
     s_rmdir = default,
     s_rename = default,
     s_link = default,
     s_readdir = default,
     s_readdirplus = default,
     s_fsstat = default,
     s_fsinfo = default,
     s_pathconf = default,
     s_commit = default,
     s_mnt = default\<rparr>"

record 'fs server =
  srv_world :: "'fs world"
  srv_statics :: statics
  srv_mount :: mount_state

datatype outcome =
    Svcerr_noproc
  | Svcerr_decode
  | Svcerr_systemerr
  | Sendreply "byte list"

section \<open>One call\<close>

text \<open>
  \<open>svc_getargs\<close> decodes the body into cleared memory, the handler runs, \<open>svc_sendreply\<close>
  encodes its result. \<^const>\<open>None\<close> is a server that has crashed. Freeing the arguments has no
  effect on the rest of the state.
\<close>

definition serve :: "'a::default xdrproc \<Rightarrow> 'r xdrproc \<Rightarrow> ('a \<Rightarrow> 'fs server \<Rightarrow> ('r \<times> 'fs server) option) \<Rightarrow>
    byte list \<Rightarrow> 'fs server \<Rightarrow> (outcome \<times> 'fs server) option" where
  "serve xdr_argument xdr_result local body srv =
     (case xdr_argument (decoder [] body) default of
        None \<Rightarrow> Some (Svcerr_decode, srv)
      | Some (_, argument) \<Rightarrow>
          (case local argument srv of
             None \<Rightarrow> None
           | Some (result, srv') \<Rightarrow>
               (case xdr_result (encoder [] []) result of
                  None \<Rightarrow> Some (Svcerr_systemerr, srv')
                | Some (xdrs, _) \<Rightarrow> Some (Sendreply (x_out xdrs), srv'))))"

text \<open>A handler on the state of the server, with its static result.\<close>

definition local_opt :: "(statics \<Rightarrow> 'r) \<Rightarrow> (('r \<Rightarrow> 'r) \<Rightarrow> statics \<Rightarrow> statics) \<Rightarrow>
    ('a \<Rightarrow> 'r \<Rightarrow> ('fs, 'r option) act) \<Rightarrow> 'a \<Rightarrow> 'fs server \<Rightarrow> ('r \<times> 'fs server) option" where
  "local_opt sel upd handler argument srv =
     (case run_state (handler argument (sel (srv_statics srv))) (srv_world srv) of
        (None, _) \<Rightarrow> None
      | (Some result, w) \<Rightarrow>
          Some (result, srv\<lparr>srv_world := w, srv_statics := upd (\<lambda>_. result) (srv_statics srv)\<rparr>))"

definition local_act :: "(statics \<Rightarrow> 'r) \<Rightarrow> (('r \<Rightarrow> 'r) \<Rightarrow> statics \<Rightarrow> statics) \<Rightarrow>
    ('a \<Rightarrow> 'r \<Rightarrow> ('fs, 'r) act) \<Rightarrow> 'a \<Rightarrow> 'fs server \<Rightarrow> ('r \<times> 'fs server) option" where
  "local_act sel upd handler = local_opt sel upd (\<lambda>argument result.
     do { r \<leftarrow> handler argument result; ret (Some r) })"

definition local_null :: "unit \<Rightarrow> 'fs server \<Rightarrow> (unit \<times> 'fs server) option" where
  "local_null argument srv = Some ((), srv)"

text \<open>READ has its buffer beside its result.\<close>

definition local_read :: "'fs minfs \<Rightarrow> svc_req \<Rightarrow> READ3args \<Rightarrow> 'fs server \<Rightarrow>
    (READ3res \<times> 'fs server) option" where
  "local_read ns rqstp argument srv =
     (case run_state (nfsproc3_read_3_svc ns rqstp argument
         (s_read (srv_statics srv), s_read_buf (srv_statics srv))) (srv_world srv) of
        (None, _) \<Rightarrow> None
      | (Some (result, buf), w) \<Rightarrow>
          Some (result, srv\<lparr>srv_world := w,
            srv_statics := (srv_statics srv)\<lparr>s_read := result, s_read_buf := buf\<rparr>\<rparr>))"

section \<open>The NFS program\<close>

definition nfs3_program_3 :: "'fs minfs \<Rightarrow> svc_req \<Rightarrow> byte list \<Rightarrow> 'fs server \<Rightarrow>
    (outcome \<times> 'fs server) option" where
  "nfs3_program_3 ns rqstp body srv =
     (if rq_proc rqstp = NFSPROC3_NULL then serve xdr_void xdr_void local_null body srv
      else if rq_proc rqstp = NFSPROC3_GETATTR then
        serve xdr_GETATTR3args xdr_GETATTR3res
          (local_act s_getattr s_getattr_update (nfsproc3_getattr_3_svc ns)) body srv
      else if rq_proc rqstp = NFSPROC3_SETATTR then
        serve xdr_SETATTR3args xdr_SETATTR3res
          (local_act s_setattr s_setattr_update (nfsproc3_setattr_3_svc ns)) body srv
      else if rq_proc rqstp = NFSPROC3_LOOKUP then
        serve xdr_LOOKUP3args xdr_LOOKUP3res
          (local_act s_lookup s_lookup_update (nfsproc3_lookup_3_svc ns)) body srv
      else if rq_proc rqstp = NFSPROC3_ACCESS then
        serve xdr_ACCESS3args xdr_ACCESS3res
          (local_act s_access s_access_update (nfsproc3_access_3_svc ns)) body srv
      else if rq_proc rqstp = NFSPROC3_READLINK then
        serve xdr_READLINK3args xdr_READLINK3res
          (local_act s_readlink s_readlink_update (nfsproc3_readlink_3_svc ns)) body srv
      else if rq_proc rqstp = NFSPROC3_READ then
        serve xdr_READ3args xdr_READ3res (local_read ns rqstp) body srv
      else if rq_proc rqstp = NFSPROC3_WRITE then
        serve xdr_WRITE3args xdr_WRITE3res
          (local_opt s_write s_write_update (nfsproc3_write_3_svc ns)) body srv
      else if rq_proc rqstp = NFSPROC3_CREATE then
        serve xdr_CREATE3args xdr_CREATE3res
          (local_act s_create s_create_update (nfsproc3_create_3_svc ns)) body srv
      else if rq_proc rqstp = NFSPROC3_MKDIR then
        serve xdr_MKDIR3args xdr_MKDIR3res
          (local_act s_mkdir s_mkdir_update (nfsproc3_mkdir_3_svc ns)) body srv
      else if rq_proc rqstp = NFSPROC3_SYMLINK then
        serve xdr_SYMLINK3args xdr_SYMLINK3res
          (local_act s_symlink s_symlink_update (nfsproc3_symlink_3_svc ns)) body srv
      else if rq_proc rqstp = NFSPROC3_MKNOD then
        serve xdr_MKNOD3args xdr_MKNOD3res
          (local_act s_mknod s_mknod_update (nfsproc3_mknod_3_svc ns)) body srv
      else if rq_proc rqstp = NFSPROC3_REMOVE then
        serve xdr_REMOVE3args xdr_REMOVE3res
          (local_act s_remove s_remove_update (nfsproc3_remove_3_svc ns)) body srv
      else if rq_proc rqstp = NFSPROC3_RMDIR then
        serve xdr_RMDIR3args xdr_RMDIR3res
          (local_act s_rmdir s_rmdir_update (nfsproc3_rmdir_3_svc ns)) body srv
      else if rq_proc rqstp = NFSPROC3_RENAME then
        serve xdr_RENAME3args xdr_RENAME3res
          (local_act s_rename s_rename_update (nfsproc3_rename_3_svc ns)) body srv
      else if rq_proc rqstp = NFSPROC3_LINK then
        serve xdr_LINK3args xdr_LINK3res
          (local_act s_link s_link_update (nfsproc3_link_3_svc ns)) body srv
      else if rq_proc rqstp = NFSPROC3_READDIR then
        serve xdr_READDIR3args xdr_READDIR3res
          (local_opt s_readdir s_readdir_update (nfsproc3_readdir_3_svc ns)) body srv
      else if rq_proc rqstp = NFSPROC3_READDIRPLUS then
        serve xdr_READDIRPLUS3args xdr_READDIRPLUS3res
          (local_act s_readdirplus s_readdirplus_update (nfsproc3_readdirplus_3_svc ns)) body srv
      else if rq_proc rqstp = NFSPROC3_FSSTAT then
        serve xdr_FSSTAT3args xdr_FSSTAT3res
          (local_act s_fsstat s_fsstat_update (nfsproc3_fsstat_3_svc ns)) body srv
      else if rq_proc rqstp = NFSPROC3_FSINFO then
        serve xdr_FSINFO3args xdr_FSINFO3res
          (local_act s_fsinfo s_fsinfo_update (nfsproc3_fsinfo_3_svc ns rqstp)) body srv
      else if rq_proc rqstp = NFSPROC3_PATHCONF then
        serve xdr_PATHCONF3args xdr_PATHCONF3res
          (local_act s_pathconf s_pathconf_update (nfsproc3_pathconf_3_svc ns)) body srv
      else if rq_proc rqstp = NFSPROC3_COMMIT then
        serve xdr_COMMIT3args xdr_COMMIT3res
          (local_act s_commit s_commit_update (nfsproc3_commit_3_svc ns)) body srv
      else Some (Svcerr_noproc, srv))"

section \<open>The MOUNT program\<close>

definition local_mnt :: "'fs minfs \<Rightarrow> svc_req \<Rightarrow> dirpath \<Rightarrow> 'fs server \<Rightarrow>
    (mountres3 \<times> 'fs server) option" where
  "local_mnt ns rqstp argument srv =
     (case run_state (mountproc_mnt_3_svc ns rqstp argument (s_mnt (srv_statics srv), srv_mount srv))
         (srv_world srv) of
        (None, _) \<Rightarrow> None
      | (Some (result, ms), w) \<Rightarrow>
          Some (result, srv\<lparr>srv_world := w, srv_mount := ms,
            srv_statics := (srv_statics srv)\<lparr>s_mnt := result\<rparr>\<rparr>))"

definition local_dump :: "unit \<Rightarrow> 'fs server \<Rightarrow> (mountbody option \<times> 'fs server) option" where
  "local_dump argument srv =
     (case mountproc_dump_3_svc (srv_mount srv) of None \<Rightarrow> None | Some l \<Rightarrow> Some (l, srv))"

definition local_umnt :: "svc_req \<Rightarrow> dirpath \<Rightarrow> 'fs server \<Rightarrow> (unit \<times> 'fs server) option" where
  "local_umnt rqstp argument srv =
     (case mountproc_umnt_3_svc argument rqstp (srv_mount srv) of
        None \<Rightarrow> None | Some ms \<Rightarrow> Some ((), srv\<lparr>srv_mount := ms\<rparr>))"

definition local_umntall :: "svc_req \<Rightarrow> unit \<Rightarrow> 'fs server \<Rightarrow> (unit \<times> 'fs server) option" where
  "local_umntall rqstp argument srv =
     (case mountproc_umntall_3_svc rqstp (srv_mount srv) of
        None \<Rightarrow> None | Some ms \<Rightarrow> Some ((), srv\<lparr>srv_mount := ms\<rparr>))"

definition local_export :: "unit \<Rightarrow> 'fs server \<Rightarrow> (exportnode option \<times> 'fs server) option" where
  "local_export argument srv = Some (mountproc_export_3_svc, srv)"

definition mountprog_3 :: "'fs minfs \<Rightarrow> svc_req \<Rightarrow> byte list \<Rightarrow> 'fs server \<Rightarrow>
    (outcome \<times> 'fs server) option" where
  "mountprog_3 ns rqstp body srv =
     (if rq_proc rqstp = MOUNTPROC_NULL then serve xdr_void xdr_void local_null body srv
      else if rq_proc rqstp = MOUNTPROC_MNT then
        serve xdr_dirpath xdr_mountres3 (local_mnt ns rqstp) body srv
      else if rq_proc rqstp = MOUNTPROC_DUMP then serve xdr_void xdr_mountlist local_dump body srv
      else if rq_proc rqstp = MOUNTPROC_UMNT then serve xdr_dirpath xdr_void (local_umnt rqstp) body srv
      else if rq_proc rqstp = MOUNTPROC_UMNTALL then serve xdr_void xdr_void (local_umntall rqstp) body srv
      else if rq_proc rqstp = MOUNTPROC_EXPORT then serve xdr_void xdr_exports local_export body srv
      else Some (Svcerr_noproc, srv))"

section \<open>Replies as a client reads them\<close>

definition decode :: "'a::default xdrproc \<Rightarrow> byte list \<Rightarrow> 'a option" where
  "decode f bs =
     (case f (decoder [] bs) default of
        Some (xdrs, v) \<Rightarrow> if x_in xdrs = [] then Some v else None
      | None \<Rightarrow> None)"

text \<open>A reply, if it is one, is the encoding of a result that the filter accepts, and no more.\<close>

definition reply_parses :: "'r::default xdrproc \<Rightarrow> outcome \<Rightarrow> bool" where
  "reply_parses fR out \<longleftrightarrow> (case out of Sendreply bs \<Rightarrow> decode fR bs \<noteq> None | _ \<Rightarrow> True)"

definition reads_as :: "(outcome \<times> 'fs server) option \<Rightarrow> (outcome \<Rightarrow> bool) \<Rightarrow> bool" where
  "reads_as res Q \<longleftrightarrow> (\<forall>out srv. res = Some (out, srv) \<longrightarrow> Q out)"

lemma reads_as_if:
  "(b \<Longrightarrow> reads_as x Q) \<Longrightarrow> (\<not> b \<Longrightarrow> reads_as y R) \<Longrightarrow>
   reads_as (if b then x else y) (if b then Q else R)"
  by simp

lemma reads_as_same: "Q out \<Longrightarrow> reads_as (Some (out, srv)) Q"
  by (simp add: reads_as_def)

section \<open>The contract of a procedure\<close>

text \<open>
  What the dispatcher promises for a procedure: from a state that satisfies the invariant a
  call does not crash, keeps the invariant, and is answered, either with a decoding error and
  no change of state or with a reply that a client decodes to the visible part of the result.
  \<open>okA\<close> is what decoding guarantees of the arguments; arguments that satisfy \<open>crash\<close> are
  outside the contract.
\<close>

definition answered :: "('fs server \<Rightarrow> bool) \<Rightarrow> (outcome \<times> 'fs server) option \<Rightarrow> bool" where
  "answered J res \<longleftrightarrow>
     (\<exists>out srv. res = Some (out, srv) \<and> J srv \<and> out \<noteq> Svcerr_systemerr)"

lemma answered_if:
  "(b \<Longrightarrow> answered J x) \<Longrightarrow> (\<not> b \<Longrightarrow> answered J y) \<Longrightarrow> answered J (if b then x else y)"
  by simp

lemma answered_noproc: "J srv \<Longrightarrow> answered J (Some (Svcerr_noproc, srv))"
  by (simp add: answered_def)

locale rpc_procedure =
  fixes fA :: "'a::default xdrproc" and fR :: "'r::default xdrproc"
    and proc :: "'a \<Rightarrow> 'fs server \<Rightarrow> ('r \<times> 'fs server) option"
    and okA :: "'a \<Rightarrow> bool" and crash :: "'a \<Rightarrow> bool"
    and okR :: "'r \<Rightarrow> bool" and visR :: "'r \<Rightarrow> 'r" and inv :: "'fs server \<Rightarrow> bool"
  assumes decoded: "fA (decoder [] body) default = Some (xd, a) \<Longrightarrow> okA a"
    and local_ok: "inv srv \<Longrightarrow> okA a \<Longrightarrow> \<not> crash a \<Longrightarrow>
      \<exists>r srv'. proc a srv = Some (r, srv') \<and> okR r \<and> inv srv'"
    and result: "okR r \<Longrightarrow> rtrip fR default r (visR r)"
begin

lemma serve_cases:
  assumes "inv srv" and "\<And>xd a. fA (decoder [] body) default = Some (xd, a) \<Longrightarrow> \<not> crash a"
  shows "fA (decoder [] body) default = None \<and> serve fA fR proc body srv = Some (Svcerr_decode, srv) \<or>
    (\<exists>xd a r srv' bs. fA (decoder [] body) default = Some (xd, a) \<and> proc a srv = Some (r, srv') \<and>
      inv srv' \<and> okR r \<and> serve fA fR proc body srv = Some (Sendreply bs, srv') \<and>
      fR (decoder [] bs) default = Some (decoder [] [], visR r))"
proof (cases "fA (decoder [] body) default")
  case None
  then show ?thesis by (simp add: serve_def)
next
  case (Some p)
  then obtain xd a where dec: "fA (decoder [] body) default = Some (xd, a)" by (cases p) auto
  obtain r srv' where loc: "proc a srv = Some (r, srv')" "okR r" "inv srv'"
    using local_ok [OF assms(1) decoded [OF dec] assms(2) [OF dec]] by blast
  obtain bs where "\<And>out inp. fR (encoder out inp) r = Some (encoder (out @ bs) inp, r)"
    and "\<And>out rest. fR (decoder out (bs @ rest)) default = Some (decoder out rest, visR r)"
    using result [OF loc(2)] by (rule rtripE) auto
  from this(1) [of "[]" "[]"] this(2) [of "[]" "[]"] show ?thesis
    using dec loc by (auto simp: serve_def)
qed

lemma serve_total:
  assumes "inv srv" and "\<And>xd a. fA (decoder [] body) default = Some (xd, a) \<Longrightarrow> \<not> crash a"
  shows "answered inv (serve fA fR proc body srv)"
  using serve_cases [of srv body, OF assms(1)] assms unfolding answered_def by fastforce

lemma serve_reads:
  assumes "inv srv" and "\<And>xd a. fA (decoder [] body) default = Some (xd, a) \<Longrightarrow> \<not> crash a"
  shows "reads_as (serve fA fR proc body srv) (reply_parses fR)"
  using serve_cases [of srv body, OF assms(1)] assms(2)
  unfolding reads_as_def by (fastforce simp: reply_parses_def decode_def)

end

end
