(* ===== verification/Replies.thy ===== *)
theory Replies
  imports Daemon
begin

text \<open>
  Every result a handler leaves can be sent: whatever the world holds, and whatever the static
  result held before, the value satisfies the condition under which its filter is a code.
\<close>

section \<open>What an action returns\<close>

definition returns :: "('a \<Rightarrow> bool) \<Rightarrow> ('s, 'a) state \<Rightarrow> bool" where
  "returns Q m \<longleftrightarrow> (\<forall>w. Q (fst (run_state m w)))"

named_theorems returns_first \<open>actions whose value is known to be well-formed\<close>
named_theorems returns_rules \<open>actions about whose value nothing is known\<close>

lemma returns_return [returns_rules]: "Q a \<Longrightarrow> returns Q (State_Monad.return a)"
  by (simp add: returns_def run_return)

lemma returns_bind_with:
  "returns P m \<Longrightarrow> (\<And>a. P a \<Longrightarrow> returns Q (f a)) \<Longrightarrow> returns Q (State_Monad.bind m f)"
  unfolding returns_def run_bind by (simp add: case_prod_beta)

lemma returns_bind [returns_rules]: "(\<And>a. returns Q (f a)) \<Longrightarrow> returns Q (State_Monad.bind m f)"
  unfolding returns_def run_bind by (simp add: case_prod_beta)

lemma returns_let [returns_rules]: "(\<And>x. x = e \<Longrightarrow> returns Q (f x)) \<Longrightarrow> returns Q (Let e f)"
  by simp

lemma returns_if [returns_rules]: "(b \<Longrightarrow> returns Q m) \<Longrightarrow> (\<not> b \<Longrightarrow> returns Q n) \<Longrightarrow> returns Q (if b then m else n)"
  by simp

lemma returns_option [returns_rules]:
  "(e = None \<Longrightarrow> returns Q m) \<Longrightarrow> (\<And>x. e = Some x \<Longrightarrow> returns Q (f x)) \<Longrightarrow>
   returns Q (case e of None \<Rightarrow> m | Some x \<Rightarrow> f x)"
  by (cases e) auto

lemma returns_sum [returns_rules]:
  "(\<And>x. returns Q (f x)) \<Longrightarrow> (\<And>x. returns Q (g x)) \<Longrightarrow> returns Q (case e of Inl x \<Rightarrow> f x | Inr x \<Rightarrow> g x)"
  by (cases e) auto

lemma returns_prod [returns_rules]:
  "(\<And>x y. e = (x, y) \<Longrightarrow> returns Q (f x y)) \<Longrightarrow> returns Q (case e of (x, y) \<Rightarrow> f x y)"
  by (cases e) auto

section \<open>The building blocks\<close>

lemma get_post_returns: "returns ok_post_op_attr (get_post ns path)"
  by (simp add: returns_def get_post_ok)

lemma get_pre_returns: "returns ok_pre_op_attr (get_pre ns path)"
  by (simp add: returns_def get_pre_ok)

lemma fh_data_returns: "returns (\<lambda>d. ok_nfs_fh3 \<lparr>nfs_fh3_data = d\<rparr>) (fh_data (fh_comp ino path))"
  by (simp add: returns_def run_fh_data ok_nfs_fh3_def counted_ok_def fh_bytes_def c_consts)

lemma fh_comp_post_returns: "returns ok_post_op_fh3 (fh_comp_post ino path)"
  unfolding fh_comp_post_def Let_def
  by (intro returns_bind returns_bind_with [OF fh_data_returns] returns_return)
    (simp add: ok_post_op_fh3_def)

lemma fh_comp_type_returns: "returns ok_post_op_fh3 (fh_comp_type ns path type)"
  unfolding fh_comp_type_def
  by (intro returns_bind returns_prod returns_if returns_return fh_comp_post_returns)
    (simp add: ok_post_op_fh3_def)

lemmas [returns_first] =
  returns_bind_with [OF get_post_returns] returns_bind_with [OF get_pre_returns]
  returns_bind_with [OF fh_data_returns] returns_bind_with [OF fh_comp_post_returns]
  returns_bind_with [OF fh_comp_type_returns]

section \<open>The handlers\<close>

lemma getattr_returns: "returns ok_GETATTR3res (nfsproc3_getattr_3_svc ns args result)"
  unfolding nfsproc3_getattr_3_svc_def Let_def
  by ((rule returns_first returns_rules)+) (auto simp: ok_GETATTR3res_def)

lemma setattr_returns: "returns ok_SETATTR3res (nfsproc3_setattr_3_svc ns args result)"
  unfolding nfsproc3_setattr_3_svc_def Let_def
  by ((rule returns_first returns_rules)+)
    (auto simp: ok_SETATTR3res_def ok_SETATTR3resfail_def ok_wcc_data_def)

text \<open>Between its two halves a result is complete but for the attributes every status has.\<close>

lemma lookup_returns: "returns ok_LOOKUP3res (nfsproc3_lookup_3_svc ns args result)"
proof -
  define half where "half r \<longleftrightarrow> (LOOKUP3res_status r = NFS3_OK \<longrightarrow>
      ok_nfs_fh3 (LOOKUP3resok_object (LOOKUP3res_u r)) \<and> ok_post_op_attr (LOOKUP3resok_obj_attributes (LOOKUP3res_u r)))" for r :: LOOKUP3res
  show ?thesis
    unfolding nfsproc3_lookup_3_svc_def Let_def
    apply (rule returns_bind, rule returns_bind, rule returns_bind, rule returns_prod)
    apply (rule returns_bind_with [of half])
    subgoal by ((rule returns_first returns_rules | simp add: half_def)+)
    subgoal by ((rule returns_first returns_rules)+) (auto simp: half_def ok_LOOKUP3res_def ok_LOOKUP3resfail_def ok_LOOKUP3resok_def)
    done
qed

lemma create_returns: "returns ok_CREATE3res (nfsproc3_create_3_svc ns args result)"
proof -
  define half where "half r \<longleftrightarrow> (CREATE3res_status r = NFS3_OK \<longrightarrow>
      ok_post_op_fh3 (CREATE3resok_obj (CREATE3res_u r)) \<and> ok_post_op_attr (CREATE3resok_obj_attributes (CREATE3res_u r)))" for r :: CREATE3res
  show ?thesis
    unfolding nfsproc3_create_3_svc_def Let_def
    apply (rule returns_bind, rule returns_bind, rule returns_bind, rule returns_bind, rule returns_bind_with [OF get_pre_returns], rule returns_prod, rule returns_bind)
    apply (rule returns_bind_with [of half])
    subgoal by ((rule returns_first returns_rules | simp add: half_def)+)
    subgoal by ((rule returns_first returns_rules)+) (auto simp: half_def ok_CREATE3res_def ok_CREATE3resfail_def ok_CREATE3resok_def ok_wcc_data_def)
    done
qed

lemma mkdir_returns: "returns ok_MKDIR3res (nfsproc3_mkdir_3_svc ns args result)"
proof -
  define half where "half r \<longleftrightarrow> (MKDIR3res_status r = NFS3_OK \<longrightarrow>
      ok_post_op_fh3 (MKDIR3resok_obj (MKDIR3res_u r)) \<and> ok_post_op_attr (MKDIR3resok_obj_attributes (MKDIR3res_u r)))" for r :: MKDIR3res
  show ?thesis
    unfolding nfsproc3_mkdir_3_svc_def Let_def
    apply (rule returns_bind, rule returns_bind, rule returns_bind_with [OF get_pre_returns], rule returns_prod)
    apply (rule returns_bind_with [of half])
    subgoal by ((rule returns_first returns_rules | simp add: half_def)+)
    subgoal by ((rule returns_first returns_rules)+) (auto simp: half_def ok_MKDIR3res_def ok_MKDIR3resfail_def ok_MKDIR3resok_def ok_wcc_data_def)
    done
qed

lemma access_returns: "returns ok_ACCESS3res (nfsproc3_access_3_svc ns args result)"
  unfolding nfsproc3_access_3_svc_def Let_def
  by ((rule returns_first returns_rules)+) (auto simp: ok_ACCESS3res_def ok_ACCESS3resfail_def ok_ACCESS3resok_def split: if_splits)

lemma readlink_returns: "returns ok_READLINK3res (nfsproc3_readlink_3_svc ns args result)"
  unfolding nfsproc3_readlink_3_svc_def Let_def
  by ((rule returns_first returns_rules)+) (auto simp: ok_READLINK3res_def ok_READLINK3resfail_def ok_READLINK3resok_def ok_post_op_attr_def c_consts)

lemma symlink_returns: "returns ok_SYMLINK3res (nfsproc3_symlink_3_svc ns args result)"
  unfolding nfsproc3_symlink_3_svc_def Let_def
  by ((rule returns_first returns_rules)+) (auto simp: ok_SYMLINK3res_def ok_SYMLINK3resfail_def ok_SYMLINK3resok_def ok_wcc_data_def no_wcc_def ok_pre_op_attr_def ok_post_op_attr_def c_consts)

lemma mknod_returns: "returns ok_MKNOD3res (nfsproc3_mknod_3_svc ns args result)"
  unfolding nfsproc3_mknod_3_svc_def Let_def
  by ((rule returns_first returns_rules)+) (auto simp: ok_MKNOD3res_def ok_MKNOD3resfail_def ok_MKNOD3resok_def ok_wcc_data_def no_wcc_def ok_pre_op_attr_def ok_post_op_attr_def c_consts)

lemma remove_returns: "returns ok_REMOVE3res (nfsproc3_remove_3_svc ns args result)"
  unfolding nfsproc3_remove_3_svc_def Let_def
  by ((rule returns_first returns_rules)+) (auto simp: ok_REMOVE3res_def ok_REMOVE3resfail_def ok_wcc_data_def)

lemma rmdir_returns: "returns ok_RMDIR3res (nfsproc3_rmdir_3_svc ns args result)"
  unfolding nfsproc3_rmdir_3_svc_def Let_def
  by ((rule returns_first returns_rules)+) (auto simp: ok_RMDIR3res_def ok_RMDIR3resfail_def ok_wcc_data_def)

lemma rename_returns: "returns ok_RENAME3res (nfsproc3_rename_3_svc ns args result)"
  unfolding nfsproc3_rename_3_svc_def Let_def
  by ((rule returns_first returns_rules)+) (auto simp: ok_RENAME3res_def ok_RENAME3resfail_def ok_wcc_data_def)

lemma link_returns: "returns ok_LINK3res (nfsproc3_link_3_svc ns args result)"
  unfolding nfsproc3_link_3_svc_def Let_def
  by ((rule returns_first returns_rules)+) (auto simp: ok_LINK3res_def ok_LINK3resfail_def ok_wcc_data_def no_wcc_def ok_pre_op_attr_def ok_post_op_attr_def c_consts)

lemma readdirplus_returns: "returns ok_READDIRPLUS3res (nfsproc3_readdirplus_3_svc ns args result)"
  unfolding nfsproc3_readdirplus_3_svc_def Let_def
  by ((rule returns_first returns_rules)+) (auto simp: ok_READDIRPLUS3res_def ok_READDIRPLUS3resfail_def ok_READDIRPLUS3resok_def ok_post_op_attr_def c_consts)

lemma fsstat_returns: "returns ok_FSSTAT3res (nfsproc3_fsstat_3_svc ns args result)"
  unfolding nfsproc3_fsstat_3_svc_def Let_def
  by ((rule returns_first returns_rules)+) (auto simp: ok_FSSTAT3res_def ok_FSSTAT3resfail_def ok_FSSTAT3resok_def)

lemma fsinfo_returns: "returns ok_FSINFO3res (nfsproc3_fsinfo_3_svc ns rqstp args result)"
  unfolding nfsproc3_fsinfo_3_svc_def Let_def
  by ((rule returns_first returns_rules)+) (auto simp: ok_FSINFO3res_def ok_FSINFO3resfail_def ok_FSINFO3resok_def)

lemma pathconf_returns: "returns ok_PATHCONF3res (nfsproc3_pathconf_3_svc ns args result)"
  unfolding nfsproc3_pathconf_3_svc_def Let_def
  by ((rule returns_first returns_rules)+) (auto simp: ok_PATHCONF3res_def ok_PATHCONF3resfail_def ok_PATHCONF3resok_def ok_bool_def)

lemma commit_returns: "returns ok_COMMIT3res (nfsproc3_commit_3_svc ns args result)"
  unfolding nfsproc3_commit_3_svc_def Let_def
  by ((rule returns_first returns_rules)+) (auto simp: ok_COMMIT3res_def ok_COMMIT3resfail_def ok_COMMIT3resok_def ok_wcc_data_def ok_verf_def ok_pre_op_attr_def
        get_post_err_def get_pre_buf_def)

lemma write_returns: "returns (pred_option ok_WRITE3res) (nfsproc3_write_3_svc ns args result)"
  unfolding nfsproc3_write_3_svc_def
  by ((rule returns_first returns_rules |
      force simp: NFS3_OK_def ok_WRITE3res_def ok_WRITE3resfail_def ok_WRITE3resok_def
        ok_wcc_data_def ok_verf_def)+)

end
