(* ===== verification/Data_Ops.thy ===== *)
theory Data_Ops
  imports Replies
begin

text \<open>
  What READ and WRITE do with data. The handlers of \<open>unfs3/nfs.c\<close> and the Go functions below
  them pass byte counts and errors through one \<open>int\<close>, errors negated; the lemmas show that
  nothing is confused on the way and that READ stays inside its buffer.
\<close>

section \<open>Counts and negated errors\<close>

lemma sint_count:
  assumes "0 \<le> n" and "n < 2 ^ 31"
  shows "sint (word_of_int n :: cint) = n"
  using assms by (simp add: signed_of_int signed_take_bit_int_eq_self)

lemma negated_errno: "sint (- errno (Some e)) \<le> - 1"
  using errno_Some [of e] by (auto simp: c_consts)

lemma maxdata_bounds: "uint (maxdata_of rqstp) \<le> 524288"
  by (simp add: maxdata_of_def c_consts)

lemma unat_maxdata: "unat NFS_MAXDATA_TCP = 524288"
  by (simp add: c_consts)

definition read_count :: "svc_req \<Rightarrow> READ3args \<Rightarrow> u32" where
  "read_count rqstp args = min (READ3args_count args) (maxdata_of rqstp)"

lemma read_count_bounds:
  "uint (read_count rqstp args) \<le> 524288"
  "unat (read_count rqstp args + 1) = unat (read_count rqstp args) + 1"
proof -
  have "read_count rqstp args \<le> maxdata_of rqstp" by (simp add: read_count_def)
  then have "uint (read_count rqstp args) \<le> uint (maxdata_of rqstp)"
    by (simp add: word_le_def)
  then show 1: "uint (read_count rqstp args) \<le> 524288" using maxdata_bounds [of rqstp] by linarith
  have "1 + read_count rqstp args \<noteq> 0"
  proof
    assume "1 + read_count rqstp args = 0"
    then have "read_count rqstp args = - 1" by (simp add: eq_neg_iff_add_eq_0 add.commute)
    with 1 show False by (simp add: unsigned_minus_1_eq_mask mask_eq_exp_minus_1)
  qed
  then show "unat (read_count rqstp args + 1) = unat (read_count rqstp args) + 1"
    using unatSuc [of "read_count rqstp args"] by (simp add: add.commute)
qed

section \<open>READ\<close>

text \<open>The call of the backend that a READ makes, and what the reply then says.\<close>

definition read_call :: "'fs minfs \<Rightarrow> svc_req \<Rightarrow> READ3args \<Rightarrow> byte list \<Rightarrow> 'fs world \<Rightarrow>
    'fs \<times> byte list \<times> int \<times> go_error option" where
  "read_call ns rqstp args buf w =
     fs_ReadFile ns (w_fs w) (go_path (fh_path (w_fddb w) (READ3args_file args)))
       (take (unat (read_count rqstp args) + 1) buf) (sint (READ3args_offset args))"

lemma run_go_pread:
  assumes "unat count \<le> length buf"
    and "fs_ReadFile ns (w_fs w) (go_path path) (take (unat count) buf) (sint offset) = (s', out, n, err)"
  shows "run_state (go_pread ns path buf count offset) w =
    (Some (if err \<noteq> None \<and> \<not> is_eof (the err) then - errno err else word_of_int n,
       overlay (take (unat count) out) buf), w\<lparr>w_fs := s'\<rparr>)"
  using assms by (simp add: go_pread_def run_act Let_def)

lemma read_runs:
  assumes buf: "length buf = unat NFS_MAXDATA_TCP + 1"
    and call: "read_call ns rqstp args buf w = (s', out, n, err)"
    and post: "run_state (get_post ns (fh_path (w_fddb w) (READ3args_file args))) (w\<lparr>w_fs := s'\<rparr>) =
      (post, w')"
  shows "run_state (nfsproc3_read_3_svc ns rqstp args (result, buf)) w =
    (let res = (if err \<noteq> None \<and> \<not> is_eof (the err) then - errno err else word_of_int n);
         buf' = overlay (take (unat (read_count rqstp args) + 1) out) buf;
         result' = read_reply result (read_count rqstp args) res buf'
     in (Some (result'\<lparr>READ3res_u := (READ3res_u result')\<lparr>READ3resfail_file_attributes := post\<rparr>\<rparr>,
          buf'), w'))"
proof -
  let ?count = "read_count rqstp args"
  have count: "(if READ3args_count args > maxdata_of rqstp then maxdata_of rqstp
      else READ3args_count args) = ?count"
    by (auto simp: read_count_def min_def)
  have "unat ?count \<le> 524288"
    using read_count_bounds(1) [of rqstp args] uint_nat [of ?count] by linarith
  then have "unat (?count + 1) \<le> length buf"
    unfolding read_count_bounds(2) buf unat_maxdata by linarith
  note run = run_go_pread [OF this, where ns = ns and w = w and s' = s' and out = out and n = n and
      err = err, unfolded read_count_bounds(2), OF call [unfolded read_call_def]]
  show ?thesis
    by (simp only: nfsproc3_read_3_svc_def Let_def run_act prod.case count run option.case post)
qed

text \<open>The return value of \<open>go_pread\<close>, when it is a count and when it is a negated error.\<close>

lemma read_reply_count:
  assumes "0 \<le> n" and "n \<le> uint count + 1" and "uint count \<le> 524288"
  shows "read_reply result count (word_of_int n) buf =
    result\<lparr>READ3res_status := NFS3_OK,
      READ3res_u := (READ3res_u result)\<lparr>
        READ3resok_eof := (if n \<le> uint count then TRUE else FALSE),
        READ3resok_count := word_of_int (min n (uint count)),
        READ3resok_data := \<lparr>counted_len = word_of_int (min n (uint count)), counted_val = buf\<rparr>\<rparr>\<rparr>"
proof -
  have sint: "sint (word_of_int n :: cint) = n" by (rule sint_count) (use assms in simp_all)
  show ?thesis
  proof (cases "n \<le> uint count")
    case True
    then show ?thesis using sint assms(1) by (simp add: read_reply_def Let_def)
  next
    case False
    then have n: "n = uint count + 1" using assms(2) by linarith
    have "(word_of_int n :: cint) - 1 = word_of_int (uint count)" unfolding n by simp
    moreover have "- 1 < n" using assms(1) by simp
    ultimately show ?thesis
      using False n unfolding read_reply_def Let_def sint by simp
  qed
qed

lemma read_reply_error:
  "read_reply result count (- errno (Some e)) buf = result\<lparr>READ3res_status := errno (Some e)\<rparr>"
  using negated_errno [of e] by (simp add: read_reply_def)

lemma overlay_take:
  assumes "k \<le> length bs" and "length bs \<le> length buf"
  shows "take k (overlay bs buf) = take k bs"
  using assms by (simp add: overlay_def)

lemma read_correct:
  assumes ok: "minfs_ok ns" and buf: "length buf = unat NFS_MAXDATA_TCP + 1"
    and call: "read_call ns rqstp args buf w = (s', out, n, err)"
    and len: "length out = unat (read_count rqstp args) + 1"
  shows "\<exists>res buf' w'. run_state (nfsproc3_read_3_svc ns rqstp args (result, buf)) w =
      (Some (res, buf'), w') \<and> length buf' = length buf \<and>
    (if err = None \<or> is_eof (the err)
     then (let m = min n (uint (read_count rqstp args)) in
       READ3res_status res = NFS3_OK \<and>
       READ3resok_eof (READ3res_u res) = (if n \<le> uint (read_count rqstp args) then TRUE else FALSE) \<and>
       uint (READ3resok_count (READ3res_u res)) = m \<and>
       counted_vis (READ3resok_data (READ3res_u res)) =
         \<lparr>counted_len = word_of_int m, counted_val = take (nat m) out\<rparr>)
     else READ3res_status res = errno err)"
proof -
  let ?count = "read_count rqstp args"
  note cb = read_count_bounds [of rqstp args]
  have unat: "int (unat ?count) = uint ?count" by (rule uint_nat [symmetric])
  have b: "unat ?count + 1 \<le> length buf" using cb(1) unat buf unat_maxdata by linarith
  have n: "0 \<le> n" "n \<le> uint ?count + 1"
    using ok call b unat unfolding minfs_ok_def read_call_def by fastforce+
  obtain post w' where "run_state (get_post ns (fh_path (w_fddb w) (READ3args_file args)))
      (w\<lparr>w_fs := s'\<rparr>) = (post, w')"
    by fastforce
  note run = read_runs [OF buf call this, of result]
  let ?buf = "overlay (take (unat ?count + 1) out) buf"
  show ?thesis
  proof (cases "err = None \<or> is_eof (the err)")
    case True
    let ?m = "min n (uint ?count)"
    have m: "0 \<le> ?m" "?m \<le> uint ?count" using n by auto
    then have um: "uint (word_of_int ?m :: u32) = ?m"
      using cb(1) by (simp add: unsigned_of_int take_bit_int_eq_self)
    then have un: "unat (word_of_int ?m :: u32) = nat ?m" by (metis nat_uint_eq)
    have "nat ?m \<le> length out" using m len unat by linarith
    then have "take (nat ?m) (overlay out buf) = take (nat ?m) out"
      by (rule overlay_take) (use len b in simp)
    then show ?thesis
      using True run len um un read_reply_count [OF n cb(1), of result ?buf]
      by (auto simp: Let_def counted_vis_def)
  next
    case False
    then obtain e where "err = Some e" by auto
    then show ?thesis using False run by (simp add: Let_def read_reply_error)
  qed
qed

lemma read_count_bound:
  assumes ok: "minfs_ok ns" and buf: "length buf = unat NFS_MAXDATA_TCP + 1"
    and run: "run_state (nfsproc3_read_3_svc ns rqstp args (result, buf)) w = (Some (res, buf'), w')"
    and status: "READ3res_status res = NFS3_OK"
  shows "READ3resok_count (READ3res_u res) \<le> read_count rqstp args"
    and "counted_len (READ3resok_data (READ3res_u res)) = READ3resok_count (READ3res_u res)"
    and "unat (READ3resok_count (READ3res_u res)) \<le> length (counted_val (READ3resok_data (READ3res_u res)))"
proof -
  let ?count = "read_count rqstp args"
  obtain s' out n err where call: "read_call ns rqstp args buf w = (s', out, n, err)"
    by (cases "read_call ns rqstp args buf w") auto
  obtain post w'' where post: "run_state (get_post ns (fh_path (w_fddb w) (READ3args_file args)))
      (w\<lparr>w_fs := s'\<rparr>) = (post, w'')"
    by fastforce
  note reply = run [unfolded read_runs [OF buf call post, of result], symmetric]
  note cb = read_count_bounds [of rqstp args]
  have unat: "int (unat ?count) = uint ?count" by (rule uint_nat [symmetric])
  have b: "unat ?count + 1 \<le> length buf" using cb(1) unat buf unat_maxdata by linarith
  have n: "0 \<le> n" "n \<le> uint ?count + 1"
    using ok call b unat unfolding minfs_ok_def read_call_def by fastforce+
  have "READ3resok_count (READ3res_u res) \<le> ?count \<and>
      counted_len (READ3resok_data (READ3res_u res)) = READ3resok_count (READ3res_u res) \<and>
      unat (READ3resok_count (READ3res_u res)) \<le> length (counted_val (READ3resok_data (READ3res_u res)))"
  proof (cases "err = None \<or> is_eof (the err)")
    case True
    have um: "uint (word_of_int (min n (uint ?count)) :: u32) = min n (uint ?count)"
      using cb(1) n by (simp add: unsigned_of_int take_bit_int_eq_self)
    then have "unat (word_of_int (min n (uint ?count)) :: u32) = nat (min n (uint ?count))"
      by (metis nat_uint_eq)
    then have "unat (word_of_int (min n (uint ?count)) :: u32) \<le> length buf" using b n unat by linarith
    with um show ?thesis
      using True reply read_reply_count [OF n cb(1), of result]
      by (auto simp: Let_def word_le_def)
  next
    case False
    then obtain e where "err = Some e" by auto
    then show ?thesis
      using False reply status negated_errno [of e]
      by (simp add: Let_def read_reply_error)
  qed
  then show "READ3resok_count (READ3res_u res) \<le> ?count"
    and "counted_len (READ3resok_data (READ3res_u res)) = READ3resok_count (READ3res_u res)"
    and "unat (READ3resok_count (READ3res_u res)) \<le> length (counted_val (READ3resok_data (READ3res_u res)))"
    by simp_all
qed

lemma ok_after_post:
  "run_state (get_post ns path) w = (post, w') \<Longrightarrow> ok_post_op_attr post"
  using get_post_ok [of ns path w] by simp

lemma read_total:
  assumes buf: "length buf = unat NFS_MAXDATA_TCP + 1"
    and bounds: "\<And>s p b off s' out n e. fs_ReadFile ns s p b off = (s', out, n, e) \<Longrightarrow>
      0 \<le> n \<and> n \<le> int (length b)"
  shows "\<exists>res buf' w'. run_state (nfsproc3_read_3_svc ns rqstp args (result, buf)) w =
      (Some (res, buf'), w') \<and> length buf' = length buf \<and> ok_READ3res res"
proof -
  let ?count = "read_count rqstp args"
  obtain s' out n err where call: "read_call ns rqstp args buf w = (s', out, n, err)"
    by (cases "read_call ns rqstp args buf w") auto
  obtain post w' where post: "run_state (get_post ns (fh_path (w_fddb w) (READ3args_file args)))
      (w\<lparr>w_fs := s'\<rparr>) = (post, w')"
    by fastforce
  note run = read_runs [OF buf call post, of result] and okp = ok_after_post [OF post]
  note cb = read_count_bounds [of rqstp args]
  have unat: "int (unat ?count) = uint ?count" by (rule uint_nat [symmetric])
  have b: "unat ?count + 1 \<le> length buf" using cb(1) unat buf unat_maxdata by linarith
  have n: "0 \<le> n" "n \<le> uint ?count + 1"
    using bounds [OF call [unfolded read_call_def]] b unat by auto
  let ?m = "min n (uint ?count)"
  have "uint (word_of_int ?m :: u32) = ?m"
    using cb(1) n by (simp add: unsigned_of_int take_bit_int_eq_self)
  then have "unat (word_of_int ?m :: u32) = nat ?m" by (metis nat_uint_eq)
  moreover have "nat ?m \<le> length buf" using b unat n by linarith
  ultimately have fits: "unat (word_of_int ?m :: u32) \<le> length buf" by simp
  show ?thesis
  proof (cases "err = None \<or> is_eof (the err)")
    case True
    then show ?thesis
      using run okp fits read_reply_count [OF n cb(1), of result]
      by (auto simp: Let_def ok_READ3res_def ok_READ3resok_def counted_fits_def ok_bool_def)
  next
    case False
    then obtain e where "err = Some e" by auto
    then show ?thesis
      using False run okp
      by (simp add: Let_def read_reply_error ok_READ3res_def ok_READ3resfail_def)
  qed
qed

section \<open>WRITE\<close>

text \<open>The call of the backend that a WRITE makes, after the attributes before it are taken.\<close>

definition write_call :: "'fs minfs \<Rightarrow> WRITE3args \<Rightarrow> 'fs world \<Rightarrow> 'fs \<times> int \<times> go_error option" where
  "write_call ns args w =
     (let path = fh_path (w_fddb w) (WRITE3args_file args);
          w1 = snd (run_state (get_pre ns path) w)
      in fs_WriteFile ns (w_fs w1) (go_path path) (counted_val (counted_vis (WRITE3args_data args)))
           (sint (WRITE3args_offset args)))"

lemma run_go_pwrite:
  assumes "unat count \<le> length buf"
    and "fs_WriteFile ns (w_fs w) (go_path path) (take (unat count) buf) (sint offset) = (s', n, err)"
  shows "run_state (go_pwrite ns path buf count offset) w =
    (Some (if err \<noteq> None \<and> \<not> is_eof (the err) then - errno err else word_of_int n), w\<lparr>w_fs := s'\<rparr>)"
  using assms by (simp add: go_pwrite_def run_act Let_def)

lemma write_correct:
  assumes data: "counted_fits (NOT 0) (WRITE3args_data args)"
    and call: "write_call ns args w = (s', n, err)" and n: "0 \<le> n" "n < 2 ^ 31"
  shows "\<exists>res w'. run_state (nfsproc3_write_3_svc ns args result) w = (Some res, w') \<and>
    (if err = None \<or> is_eof (the err)
     then WRITE3res_status res = NFS3_OK \<and> uint (WRITE3resok_count (WRITE3res_u res)) = n \<and>
       WRITE3resok_committed (WRITE3res_u res) = FILE_SYNC
     else WRITE3res_status res = errno err)"
proof -
  let ?path = "fh_path (w_fddb w) (WRITE3args_file args)" and ?data = "WRITE3args_data args"
  obtain pre w1 where pre: "run_state (get_pre ns ?path) w = (pre, w1)" by fastforce
  obtain post w2 where post: "run_state (get_post ns ?path) (w1\<lparr>w_fs := s'\<rparr>) = (post, w2)" by fastforce
  have len: "unat (counted_len ?data) \<le> length (counted_val ?data)"
    using data by (simp add: counted_fits_def)
  have "fs_WriteFile ns (w_fs w1) (go_path ?path) (take (unat (counted_len ?data)) (counted_val ?data))
      (sint (WRITE3args_offset args)) = (s', n, err)"
    using call pre by (simp add: write_call_def Let_def counted_vis_def)
  note run = run_go_pwrite [OF len this]
  have sint: "sint (word_of_int n :: cint) = n" by (rule sint_count [OF n])
  have uint: "uint (word_of_int n :: cint) = n"
    using n by (simp add: unsigned_of_int take_bit_int_eq_self)
  show ?thesis
  proof (cases "err = None \<or> is_eof (the err)")
    case True
    then show ?thesis
      using n sint uint by (auto simp: nfsproc3_write_3_svc_def run_act Let_def pre run post)
  next
    case False
    then obtain e where "err = Some e" by auto
    then show ?thesis
      using False negated_errno [of e]
      by (simp add: nfsproc3_write_3_svc_def run_act Let_def pre run post)
  qed
qed

lemma write_total:
  assumes "counted_fits (NOT 0) (WRITE3args_data args)"
  shows "\<exists>res w'. run_state (nfsproc3_write_3_svc ns args result) w = (Some res, w')"
proof -
  let ?path = "fh_path (w_fddb w) (WRITE3args_file args)" and ?data = "WRITE3args_data args"
  have "unat (counted_len ?data) \<le> length (counted_val ?data)"
    using assms by (simp add: counted_fits_def)
  then show ?thesis
    by (simp add: nfsproc3_write_3_svc_def run_act Let_def go_pwrite_def split: prod.split)
qed

end
