(* ===== verification/Listing.thy ===== *)
theory Listing
  imports Replies
begin

text \<open>
  What READDIR lists. The loop of \<open>go_readdir_full\<close> with its two buffers refines a function on
  lists: the longest run of entries from the cookie on that fits the byte budget and the slots.
  From that follow the bounds of the reply and the walk of a client over a whole directory.
\<close>

section \<open>The specification\<close>

text \<open>An entry is charged its name, a NUL, two 64-bit numbers and two pointers.\<close>

definition entry_cost :: "FileInfo \<Rightarrow> int" where
  "entry_cost fi = int (length (fi_Name fi)) + 33"

fun page :: "nat \<Rightarrow> int \<Rightarrow> FileInfo list \<Rightarrow> FileInfo list" where
  "page 0 b fis = []"
| "page (Suc r) b [] = []"
| "page (Suc r) b (fi # fis) = (if b < entry_cost fi then [] else fi # page r (b - entry_cost fi) fis)"

definition child_path :: "string \<Rightarrow> FileInfo \<Rightarrow> string" where
  "child_path dirp fi = path_Clean (dirp @ ''/'' @ fi_Name fi)"

fun make_entries :: "int list \<Rightarrow> FileInfo list \<Rightarrow> int \<Rightarrow> entry3 option" where
  "make_entries (fd # fds) (fi # fis) i =
     Some (Entry3 (word_of_int fd) (Some (cstr (fi_Name fi))) (word_of_int (i + 1))
       (make_entries fds fis (i + 1)))"
| "make_entries fds fis i = None"

lemma page_prefix: "page r b fis = take (length (page r b fis)) fis"
  by (induction r b fis rule: page.induct) auto

lemma page_length: "length (page r b fis) \<le> r" "length (page r b fis) \<le> length fis"
  by (induction r b fis rule: page.induct) auto

lemma page_cost: "0 \<le> b \<Longrightarrow> sum_list (map entry_cost (page r b fis)) \<le> b"
  by (induction r b fis rule: page.induct) auto

lemma page_Nil [simp]: "page r b [] = []"
  by (cases r) auto

section \<open>The names buffer\<close>

lemma cstr_append_NUL: "cstr (s @ NUL # r) = cstr s"
  unfolding cstr_def by (induction s) auto

definition put_name :: "string \<Rightarrow> nat \<Rightarrow> string \<Rightarrow> string" where
  "put_name names off s = take off names @ s @ NUL # drop (off + length s + 1) names"

lemma length_put_name: "off + length s < length names \<Longrightarrow> length (put_name names off s) = length names"
  by (simp add: put_name_def)

lemma copy_to_room:
  assumes "off + length s < length names"
  shows "copy_to names off s = (take off names @ s @ drop (off + length s) names, length s)"
    and "(take off names @ s @ drop (off + length s) names)[off + length s := NUL] = put_name names off s"
proof -
  show "copy_to names off s = (take off names @ s @ drop (off + length s) names, length s)"
    using assms by (simp add: copy_to_def Let_def min_def)
  have "drop (off + length s) names = names ! (off + length s) # drop (off + length s + 1) names"
    using assms by (simp add: Cons_nth_drop_Suc)
  then show "(take off names @ s @ drop (off + length s) names)[off + length s := NUL] = put_name names off s"
    using assms by (simp add: put_name_def list_update_append)
qed

lemma cstr_put_name:
  assumes "off + length s < m" and "m \<le> length names"
    and same: "take m names' = take m (put_name names off s)"
  shows "cstr (drop off names') = cstr s"
proof -
  have "take m (put_name names off s) =
      take off names @ s @ NUL # take (m - (off + length s + 1)) (drop (off + length s + 1) names)"
  proof -
    obtain d where d: "m = off + length s + 1 + d" using assms(1) by (metis add.commute less_iff_Suc_add plus_1_eq_Suc add.assoc)
    show ?thesis using assms unfolding d put_name_def by (simp add: min_def)
  qed
  then obtain r where "names' = take off names @ s @ NUL # r"
    using same by (metis append_assoc append_Cons append_take_drop_id)
  then have "drop off names' = s @ NUL # r" using assms by (simp add: min_def)
  then show ?thesis by (simp add: cstr_append_NUL)
qed

lemma take_put_name: "off \<le> length names \<Longrightarrow> take off (put_name names off s) = take off names"
  by (simp add: put_name_def)

section \<open>The loop refines the specification\<close>

definition link_slot :: "nat \<Rightarrow> dirslot list \<Rightarrow> dirslot list" where
  "link_slot k entries =
     (if k \<noteq> 0 then entries[k - 1 := (entries ! (k - 1))\<lparr>slot_next := Some k\<rparr>] else entries)"

definition new_slot :: "int \<Rightarrow> nat \<Rightarrow> nat \<Rightarrow> int \<Rightarrow> dirslot" where
  "new_slot fd mp k i = \<lparr>slot_fileid = word_of_int fd, slot_name = Some (k * mp),
     slot_cookie = word_of_int (i + 1), slot_next = None\<rparr>"

lemma dir_loop_step:
  assumes room: "k * mp + length (fi_Name fi) < length names"
    and fd: "GetFD (w_fddb w) (child_path dirp fi) = (t, fd)"
  shows "run_state (dir_loop dirp mp me (fi # fis) b k i names entries) w =
    (if b < entry_cost fi \<or> me \<le> k then (Some (- 1, names, entries), w)
     else run_state (dir_loop dirp mp me fis (b - entry_cost fi) (Suc k) (i + 1)
       (put_name names (k * mp) (fi_Name fi)) ((link_slot k entries)[k := new_slot fd mp k i]))
       (w\<lparr>w_fddb := t\<rparr>))"
proof -
  have cost: "b - (int (length (fi_Name fi)) + 1 + 16 + 2 * PTRBYTES) = b - entry_cost fi"
    by (simp add: entry_cost_def PTRBYTES_def)
  let ?names = "take (k * mp) names @ fi_Name fi @ drop (k * mp + length (fi_Name fi)) names"
  have "length ?names = length names" using room by simp
  then have "(k * mp + length (fi_Name fi) < length ?names) = True" using room by simp
  then show ?thesis
    by (simp only: dir_loop.simps cost Let_def run_bind run_on_fddb child_path_def [symmetric] fd
        fst_conv snd_conv prod.case copy_to_room [OF room] if_True link_slot_def new_slot_def
        if_distrib [of "\<lambda>m. run_state m w"] run_return diff_less_0_iff_less)
qed

lemma entries_at_link:
  assumes "entries ! k = e\<lparr>slot_next := Some j\<rparr>" and "slot_name e = Some off"
  shows "entries_at (Suc fuel) names entries k =
    Some (Entry3 (slot_fileid e) (Some (cstr (drop off names))) (slot_cookie e)
      (entries_at fuel names entries j))"
  using assms by (simp add: Let_def)

lemma take_Suc_mult: "take (Suc k * mp) xs = take (Suc k * mp) ys \<Longrightarrow> take (k * mp) xs = take (k * mp) ys"
  by (metis le_add2 min.absorb1 mult_Suc take_take)

lemma dir_loop_refines:
  assumes "\<forall>fi \<in> set fis. length (fi_Name fi) < mp" and "k \<le> me"
    and "length names = mp * me" and "length entries = me"
    and "GetFDs (w_fddb w) (map (child_path dirp) (page (me - k) b fis)) = (t, ids)"
  shows "\<exists>names' entries'.
    run_state (dir_loop dirp mp me fis b k i names entries) w =
      (Some (if length (page (me - k) b fis) = length fis then NFS3_OK else - 1, names', entries'),
       w\<lparr>w_fddb := t\<rparr>) \<and>
    length names' = length names \<and> take (k * mp) names' = take (k * mp) names \<and>
    (if page (me - k) b fis = [] then names' = names \<and> entries' = entries
     else take k entries' = take k (link_slot k entries) \<and> slot_name (entries' ! k) \<noteq> None \<and>
       (\<forall>fuel \<ge> length (page (me - k) b fis).
          entries_at fuel names' entries' k = make_entries ids (page (me - k) b fis) i))"
  using assms
proof (induction fis arbitrary: b k i names entries w ids)
  case Nil
  then show ?case by (simp add: run_act)
next
  case (Cons fi fis)
  obtain t1 fd where fd: "GetFD (w_fddb w) (child_path dirp fi) = (t1, fd)" by fastforce
  have name: "length (fi_Name fi) < mp" using Cons.prems(1) by simp
  show ?case
  proof (cases "b < entry_cost fi \<or> me \<le> k")
    case True
    have pg: "page (me - k) b (fi # fis) = []"
      using True by (cases "me - k") auto
    have "run_state (dir_loop dirp mp me (fi # fis) b k i names entries) w = (Some (- 1, names, entries), w)"
      using True by (auto simp: Let_def run_act entry_cost_def PTRBYTES_def)
    then show ?thesis using pg Cons.prems(5) by simp
  next
    case False
    then have k: "k < me" and b: "\<not> b < entry_cost fi" by auto
    let ?b = "b - entry_cost fi" and ?off = "k * mp"
    let ?pg = "page (me - Suc k) ?b fis"
    have pg: "page (me - k) b (fi # fis) = fi # ?pg"
      using k b by (simp add: Suc_diff_Suc [symmetric])
    obtain ids2 where ids: "ids = fd # ids2"
      and ids2: "GetFDs t1 (map (child_path dirp) ?pg) = (t, ids2)"
      using Cons.prems(5) fd unfolding pg by (auto simp: Let_def split: prod.splits)
    have slots: "?off + mp \<le> mp * me"
    proof -
      have "Suc k * mp \<le> me * mp" using k by (intro mult_le_mono1) simp
      then show ?thesis by (simp add: mult.commute add.commute)
    qed
    then have room: "?off + length (fi_Name fi) < length names"
      using name Cons.prems(3) by linarith
    let ?names = "put_name names ?off (fi_Name fi)"
    let ?slot = "new_slot fd mp k i"
    let ?entries = "(link_slot k entries)[k := ?slot]"
    have len: "length ?names = mp * me" "length ?entries = me"
      using Cons.prems(3,4) room by (simp_all add: length_put_name link_slot_def)
    obtain names' entries' where
      run: "run_state (dir_loop dirp mp me fis ?b (Suc k) (i + 1) ?names ?entries) (w\<lparr>w_fddb := t1\<rparr>) =
        (Some (if length ?pg = length fis then NFS3_OK else - 1, names', entries'), w\<lparr>w_fddb := t\<rparr>)"
      and len': "length names' = length ?names" "take (Suc k * mp) names' = take (Suc k * mp) ?names"
      and ent: "if ?pg = [] then names' = ?names \<and> entries' = ?entries
         else take (Suc k) entries' = take (Suc k) (link_slot (Suc k) ?entries) \<and>
           slot_name (entries' ! Suc k) \<noteq> None \<and>
           (\<forall>fuel \<ge> length ?pg. entries_at fuel names' entries' (Suc k) = make_entries ids2 ?pg (i + 1))"
      using Cons.IH [of "Suc k" ?names ?entries "w\<lparr>w_fddb := t1\<rparr>" ?b ids2 "i + 1"]
        Cons.prems(1) k len ids2 by auto
    have run': "run_state (dir_loop dirp mp me (fi # fis) b k i names entries) w =
        (Some (if length ?pg = length fis then NFS3_OK else - 1, names', entries'), w\<lparr>w_fddb := t\<rparr>)"
      using dir_loop_step [OF room fd, of me fis b i entries] run False by simp
    have same: "take ?off names' = take ?off names"
      using take_Suc_mult [OF len'(2)] take_put_name [of ?off names "fi_Name fi"] room by simp
    have nm: "cstr (drop ?off names') = cstr (fi_Name fi)"
    proof (rule cstr_put_name)
      show "?off + length (fi_Name fi) < Suc k * mp" using name by simp
      show "Suc k * mp \<le> length names" using slots Cons.prems(3) by simp
      show "take (Suc k * mp) names' = take (Suc k * mp) ?names" by (rule len'(2))
    qed
    have tk: "take k entries' = take k (link_slot k entries) \<and>
        entries' ! k = (if ?pg = [] then ?slot else ?slot\<lparr>slot_next := Some (Suc k)\<rparr>)"
    proof (cases "?pg = []")
      case True
      then show ?thesis using ent k Cons.prems(4) by (simp add: link_slot_def)
    next
      case False
      have l: "link_slot (Suc k) ?entries = (link_slot k entries)[k := ?slot\<lparr>slot_next := Some (Suc k)\<rparr>]"
        using k Cons.prems(4) by (simp add: link_slot_def)
      have t: "take (Suc k) entries' = take (Suc k) (link_slot (Suc k) ?entries)" using ent False by simp
      have "take k entries' = take k (link_slot k entries)"
        using arg_cong [OF t, of "take k"] unfolding l by (simp add: min_def)
      moreover have "entries' ! k = link_slot (Suc k) ?entries ! k"
        using t by (metis lessI nth_take)
      ultimately show ?thesis using False k Cons.prems(4) unfolding l by (simp add: link_slot_def)
    qed
    have "entries_at fuel names' entries' k = make_entries ids (fi # ?pg) i"
      if "Suc (length ?pg) \<le> fuel" for fuel
    proof -
      obtain f where f: "fuel = Suc f" "length ?pg \<le> f" using \<open>Suc (length ?pg) \<le> fuel\<close> by (cases fuel) auto
      show ?thesis
      proof (cases "?pg = []")
        case True
        then show ?thesis using tk nm ids f by (simp add: Let_def new_slot_def)
      next
        case False
        then have "entries_at f names' entries' (Suc k) = make_entries ids2 ?pg (i + 1)"
          using ent f by simp
        then show ?thesis
          using False tk nm ids f entries_at_link [where e = ?slot and k = k and entries = entries' and
              j = "Suc k" and off = ?off and fuel = f and names = names']
          by (simp add: new_slot_def)
      qed
    qed
    moreover have "slot_name (entries' ! k) \<noteq> None" using tk by (simp add: new_slot_def)
    ultimately show ?thesis
      using run' same len' len tk Cons.prems(3) unfolding pg by auto
  qed
qed

section \<open>What READDIR answers\<close>

lemma unat_dirconsts: "unat NFS_MAXPATHLEN = 1024" "unat MAX_ENTRIES = 170"
  by (simp_all add: c_consts)

lemma run_go_readdir_full:
  assumes "fs_ReadDirectory ns (w_fs w) (go_path path) = (s', Inr arr)"
    and names: "\<forall>fi \<in> set arr. length (fi_Name fi) < mp"
    and "sint cookie = int c" and "c \<le> length arr" and "0 < me"
    and ids: "GetFDs (w_fddb w) (map (child_path (go_path path)) (page me (uint count) (drop c arr))) = (t, ids)"
  shows "\<exists>names' entries'. run_state (go_readdir_full ns path cookie count mp me) w =
      (Some (if length (page me (uint count) (drop c arr)) = length arr - c then NFS3_OK else - 1,
         names', entries'), w\<lparr>w_fs := s', w_fddb := t\<rparr>) \<and>
    (if slot_name (entries' ! 0) \<noteq> None then entries_at me names' entries' 0 else None) =
      make_entries ids (page me (uint count) (drop c arr)) (int c)"
proof -
  let ?pg = "page me (uint count) (drop c arr)" and ?w = "w\<lparr>w_fs := s'\<rparr>"
  have names': "\<forall>fi \<in> set (drop c arr). length (fi_Name fi) < mp"
    using names by (meson in_set_dropD)
  obtain names1 entries1 where
    run: "run_state (dir_loop (go_path path) mp me (drop c arr) (uint count) 0 (int c)
        (replicate (mp * me) NUL) (replicate me null_slot)) ?w =
      (Some (if length ?pg = length (drop c arr) then NFS3_OK else - 1, names1, entries1),
       ?w\<lparr>w_fddb := t\<rparr>)"
    and ent: "if ?pg = [] then names1 = replicate (mp * me) NUL \<and> entries1 = replicate me null_slot
       else take 0 entries1 = take 0 (link_slot 0 (replicate me null_slot)) \<and> slot_name (entries1 ! 0) \<noteq> None \<and>
         (\<forall>fuel \<ge> length ?pg. entries_at fuel names1 entries1 0 = make_entries ids ?pg (int c))"
    using dir_loop_refines [of "drop c arr" mp 0 me "replicate (mp * me) NUL" "replicate me null_slot"
        ?w "go_path path" "uint count" t ids "int c"] names' ids
    by auto
  have "run_state (go_readdir_full ns path cookie count mp me) w =
      (Some (if length ?pg = length arr - c then NFS3_OK else - 1, names1, entries1),
       w\<lparr>w_fs := s', w_fddb := t\<rparr>)"
    using run assms(1,3,4) by (simp add: go_readdir_full_def run_act Let_def)
  moreover have "(if slot_name (entries1 ! 0) \<noteq> None then entries_at me names1 entries1 0 else None) =
      make_entries ids ?pg (int c)"
    using ent page_length(1) [of me "uint count" "drop c arr"] \<open>0 < me\<close>
    by (auto simp: null_slot_def split: if_splits)
  ultimately show ?thesis by blast
qed

lemma readdir_runs:
  assumes dir: "fs_ReadDirectory ns (w_fs w) (go_path (fh_path (w_fddb w) (READDIR3args_dir args))) = (s', Inr arr)"
    and names: "\<forall>fi \<in> set arr. length (fi_Name fi) < unat NFS_MAXPATHLEN"
    and cookie: "sint (READDIR3args_cookie args) = int c" "c \<le> length arr"
    and pg: "pg = page (unat MAX_ENTRIES) (uint (readdir_count (READDIR3args_count args))) (drop c arr)"
    and ids: "GetFDs (w_fddb w)
      (map (child_path (go_path (fh_path (w_fddb w) (READDIR3args_dir args)))) pg) = (t, ids)"
  shows "\<exists>post resok w'. run_state (nfsproc3_readdir_3_svc ns args result) w =
    (Some (result\<lparr>READDIR3res_status := NFS3_OK, READDIR3res_u := resok\<lparr>
       READDIR3resok_reply := \<lparr>dirlist3_entries = make_entries ids pg (int c),
         dirlist3_eof = (if length pg = length arr - c then TRUE else FALSE)\<rparr>,
       READDIR3resok_cookieverf := replicate 8 0,
       READDIR3resfail_dir_attributes := post\<rparr>\<rparr>), w') \<and> ok_post_op_attr post \<and>
    run_state (get_post ns (fh_path (w_fddb w) (READDIR3args_dir args)))
      (w\<lparr>w_step := Suc (w_step w), w_fs := s', w_fddb := t\<rparr>) = (post, w')"
proof -
  let ?path = "fh_path (w_fddb w) (READDIR3args_dir args)"
  let ?w = "w\<lparr>w_step := Suc (w_step w)\<rparr>"
  have me: "0 < unat MAX_ENTRIES" by (simp add: unat_dirconsts)
  obtain names' entries' where
    run: "run_state (go_readdir_full ns ?path (READDIR3args_cookie args)
        (readdir_count (READDIR3args_count args)) (unat NFS_MAXPATHLEN) (unat MAX_ENTRIES)) ?w =
      (Some (if length pg = length arr - c then NFS3_OK else - 1, names', entries'),
       ?w\<lparr>w_fs := s', w_fddb := t\<rparr>)"
    and ent: "(if slot_name (entries' ! 0) \<noteq> None then entries_at (unat MAX_ENTRIES) names' entries' 0 else None) =
      make_entries ids pg (int c)"
    using run_go_readdir_full [of ns ?w ?path s' arr "unat NFS_MAXPATHLEN" "READDIR3args_cookie args" c
        "unat MAX_ENTRIES" "readdir_count (READDIR3args_count args)" t ids]
      dir names cookie me ids unfolding pg by auto
  obtain post w' where post: "run_state (get_post ns ?path) (?w\<lparr>w_fs := s', w_fddb := t\<rparr>) = (post, w')"
    by fastforce
  have okp: "ok_post_op_attr post" using get_post_ok [of ns ?path "?w\<lparr>w_fs := s', w_fddb := t\<rparr>"] post by simp
  have wf: "w_fddb ?w = w_fddb w" by simp
  let ?resok = "e_un_readdir (w_env w) (w_step w)"
  have "run_state (nfsproc3_readdir_3_svc ns args result) w =
    (Some (result\<lparr>READDIR3res_status := NFS3_OK, READDIR3res_u := ?resok\<lparr>
       READDIR3resok_reply := \<lparr>dirlist3_entries = make_entries ids pg (int c),
         dirlist3_eof = (if length pg = length arr - c then TRUE else FALSE)\<rparr>,
       READDIR3resok_cookieverf := replicate 8 0,
       READDIR3resfail_dir_attributes := post\<rparr>\<rparr>), w')"
  proof (cases "length pg = length arr - c")
    case True
    have s: "(sint NFS3_OK < 0) = False" by (simp add: NFS3_OK_def)
    note r = run [unfolded if_P [OF True]]
    show ?thesis
      by (simp only: nfsproc3_readdir_3_svc_def Let_def run_act prod.case wf r option.case post ent
          s True if_True if_False simp_thms)
  next
    case False
    have s: "(sint (- 1 :: cint) < 0) = True" by simp
    note r = run [unfolded if_not_P [OF False]]
    show ?thesis
      by (simp only: nfsproc3_readdir_3_svc_def Let_def run_act prod.case wf r option.case post ent
          s False if_True if_False simp_thms)
  qed
  with okp post show ?thesis by blast
qed

section \<open>READDIR always answers\<close>

lemma ok_name_cstr:
  assumes "length n < unat NFS_MAXPATHLEN"
  shows "ok_name (Some (cstr n))"
proof -
  have "unat (- 1 :: u32) = 4294967295"
    by (simp add: unsigned_minus_1_eq_mask mask_eq_exp_minus_1)
  then show ?thesis
    using assms length_cstr [of n] by (simp add: ok_name_def str_ok_def c_consts)
qed

lemma ok_make_entries:
  "\<forall>fi \<in> set fis. length (fi_Name fi) < unat NFS_MAXPATHLEN \<Longrightarrow>
   pred_option ok_entry3 (make_entries fds fis i)"
proof (induction fds fis i rule: make_entries.induct)
  case (1 fd fds fi fis i)
  then show ?case by (cases "make_entries fds fis (i + 1)") (auto simp: ok_name_cstr)
qed auto

lemma readdir_total:
  assumes names: "\<And>s p s' arr fi. fs_ReadDirectory ns s p = (s', Inr arr) \<Longrightarrow> fi \<in> set arr \<Longrightarrow>
      length (fi_Name fi) < unat NFS_MAXPATHLEN"
    and cookie: "0 \<le> sint (READDIR3args_cookie args)"
  shows "\<exists>res w'. run_state (nfsproc3_readdir_3_svc ns args result) w = (Some res, w') \<and>
    ok_READDIR3res res"
proof -
  let ?path = "fh_path (w_fddb w) (READDIR3args_dir args)"
  let ?cookie = "READDIR3args_cookie args"
  obtain s' r where dir: "fs_ReadDirectory ns (w_fs w) (go_path ?path) = (s', r)" by fastforce
  show ?thesis
  proof (cases "\<exists>arr. r = Inr arr \<and> sint ?cookie \<le> int (length arr)")
    case True
    then obtain arr where r: "r = Inr arr" and c: "nat (sint ?cookie) \<le> length arr" by auto
    have cc: "sint ?cookie = int (nat (sint ?cookie))" using cookie by simp
    define pg where "pg = page (unat MAX_ENTRIES) (uint (readdir_count (READDIR3args_count args)))
      (drop (nat (sint ?cookie)) arr)"
    obtain t ids where ids: "GetFDs (w_fddb w) (map (child_path (go_path ?path)) pg) = (t, ids)"
      by fastforce
    have short: "\<forall>fi \<in> set arr. length (fi_Name fi) < unat NFS_MAXPATHLEN"
      using names dir r by blast
    have "\<forall>fi \<in> set pg. length (fi_Name fi) < unat NFS_MAXPATHLEN"
      unfolding pg_def by (subst page_prefix) (use short in \<open>meson in_set_takeD in_set_dropD\<close>)
    then have "pred_option ok_entry3 (make_entries ids pg (int (nat (sint ?cookie))))"
      by (rule ok_make_entries)
    then show ?thesis
      using readdir_runs [OF dir [unfolded r] short cc c pg_def ids, of result]
      by (auto simp: ok_READDIR3res_def ok_READDIR3resok_def ok_verf_def ok_dirlist3_def ok_bool_def)
  next
    case False
    have "\<exists>st names' entries'. st \<noteq> NFS3_OK \<and> sint st \<ge> 0 \<and>
        run_state (go_readdir_full ns ?path ?cookie (readdir_count (READDIR3args_count args))
          (unat NFS_MAXPATHLEN) (unat MAX_ENTRIES)) (w\<lparr>w_step := Suc (w_step w)\<rparr>) =
        (Some (st, names', entries'), w\<lparr>w_step := Suc (w_step w), w_fs := s'\<rparr>)"
    proof (cases r)
      case (Inl e)
      then show ?thesis
        using dir errno_Some [of e] by (auto simp: go_readdir_full_def run_act Let_def c_consts)
    next
      case (Inr arr)
      then show ?thesis
        using dir False by (auto simp: go_readdir_full_def run_act Let_def c_consts)
    qed
    then obtain st names' entries' where st: "st \<noteq> NFS3_OK" "\<not> sint st < 0" and
      run: "run_state (go_readdir_full ns ?path ?cookie (readdir_count (READDIR3args_count args))
          (unat NFS_MAXPATHLEN) (unat MAX_ENTRIES)) (w\<lparr>w_step := Suc (w_step w)\<rparr>) =
        (Some (st, names', entries'), w\<lparr>w_step := Suc (w_step w), w_fs := s'\<rparr>)"
      by auto
    then show ?thesis
      using get_post_ok [of ns ?path "w\<lparr>w_step := Suc (w_step w), w_fs := s'\<rparr>"]
      by (auto simp: nfsproc3_readdir_3_svc_def run_act Let_def ok_READDIR3res_def
          ok_READDIR3resfail_def split: prod.split)
  qed
qed

end
