(* ===== verification/Service.thy ===== *)
theory Service
  imports Data_Ops Listing
begin

text \<open>
  The service as a whole. Over a backend that keeps an invariant and the documented bounds,
  every procedure of the two programs satisfies the contract \<open>rpc_procedure\<close>; the
  dispatchers then answer every call and keep the invariant of the server.
\<close>

section \<open>The invariant of the server\<close>

text \<open>
  Besides the world: the buffer of READ has its size, and the list on the heap is a list of hosts
  and directories that a reply can carry.
\<close>

definition entry_ok :: "cstring \<times> cstring \<Rightarrow> bool" where
  "entry_ok e \<longleftrightarrow> str_ok MNTNAMLEN (Some (fst e)) \<and> str_ok MNTPATHLEN (Some (snd e))"

text \<open>Entries that MNT makes: only the local host passes its check.\<close>

definition local_entry :: "cstring \<times> cstring \<Rightarrow> bool" where
  "local_entry e \<longleftrightarrow> entry_ok e \<and> fst e = ''127.0.0.1''"

definition server_inv :: "('fs \<Rightarrow> bool) \<Rightarrow> 'fs server \<Rightarrow> bool" where
  "server_inv I srv \<longleftrightarrow> world_inv I (srv_world srv) \<and>
     length (s_read_buf (srv_statics srv)) = unat NFS_MAXDATA_TCP + 1 \<and>
     (\<exists>xs. mount_rel (srv_mount srv) xs \<and> Ball (set xs) local_entry)"

lemma server_invI:
  assumes "world_inv I w" and "server_inv I srv" and "s_read_buf st = s_read_buf (srv_statics srv)"
  shows "server_inv I (srv\<lparr>srv_world := w, srv_statics := st\<rparr>)"
  using assms by (simp add: server_inv_def)

lemma local_act_ok:
  assumes "\<And>a r. keeps (world_inv I) (h a r)" and "\<And>a r. returns okR (h a r)"
    and "\<And>f s. s_read_buf (upd f s) = s_read_buf s" and inv: "server_inv I srv"
  shows "\<exists>r srv'. local_act sel upd h a srv = Some (r, srv') \<and> okR r \<and> server_inv I srv'"
proof -
  obtain r w where run: "run_state (h a (sel (srv_statics srv))) (srv_world srv) = (r, w)" by fastforce
  have "world_inv I w"
    using keepsD [OF assms(1), of "srv_world srv" a "sel (srv_statics srv)"] inv run
    by (simp add: server_inv_def)
  moreover have "okR r" using assms(2) [unfolded returns_def, rule_format, of a _ "srv_world srv"] run
    by (metis fst_conv)
  ultimately show ?thesis
    using server_invI [OF _ inv] assms(3) by (auto simp: local_act_def local_opt_def run_act run)
qed

lemma local_opt_ok:
  assumes "\<And>a r. keeps (world_inv I) (h a r)"
    and "\<exists>r w'. run_state (h a (sel (srv_statics srv))) (srv_world srv) = (Some r, w') \<and> okR r"
    and "\<And>f s. s_read_buf (upd f s) = s_read_buf s" and inv: "server_inv I srv"
  shows "\<exists>r srv'. local_opt sel upd h a srv = Some (r, srv') \<and> okR r \<and> server_inv I srv'"
proof -
  obtain r w where run: "run_state (h a (sel (srv_statics srv))) (srv_world srv) = (Some r, w)" "okR r"
    using assms(2) by blast
  have "world_inv I w"
    using keepsD [OF assms(1), of "srv_world srv" a "sel (srv_statics srv)"] inv run(1)
    by (simp add: server_inv_def)
  then show ?thesis
    using server_invI [OF _ inv] assms(3) run by (auto simp: local_opt_def)
qed

section \<open>What decoding guarantees\<close>

lemma xdr_bytes_decoded:
  assumes "xdr_bytes m xdrs c = Some (xdrs', c')" and "x_op xdrs = XDR_DECODE" and "counted_val c = []"
  shows "counted_ok m c'"
  using assms xdr_u_int_framed
  by (auto simp: xdr_bytes_def counted_ok_def xdr_opaque_def xdr_u_int_def x_getbytes_def
      split: option.splits if_splits)

lemma WRITE3args_decoded:
  assumes run: "xdr_WRITE3args (decoder [] body) default = Some (xd, a)"
  shows "counted_fits (NOT 0) (WRITE3args_data a)"
proof -
  from run obtain x1 v1 x2 v2 x3 v3 x4 v4 c where
    1: "xdr_nfs_fh3 (decoder [] body) (WRITE3args_file (default :: WRITE3args)) = Some (x1, v1)"
    and 2: "xdr_offset3 x1 (WRITE3args_offset (default :: WRITE3args)) = Some (x2, v2)"
    and 3: "xdr_count3 x2 (WRITE3args_count (default :: WRITE3args)) = Some (x3, v3)"
    and 4: "xdr_stable_how x3 (WRITE3args_stable (default :: WRITE3args)) = Some (x4, v4)"
    and 5: "xdr_bytes (- 1) x4 (WRITE3args_data (default :: WRITE3args)) = Some (xd, c)"
    and a: "WRITE3args_data a = c"
    by (auto simp: xdr_WRITE3args_def field_def split: option.splits)
  have "x_op x4 = XDR_DECODE"
    using framed_shrinks(1) [OF xdr_nfs_fh3_framed 1] framed_shrinks(1) [OF xdr_offset3_framed 2]
      framed_shrinks(1) [OF xdr_count3_framed 3] framed_shrinks(1) [OF xdr_stable_how_framed 4]
    by simp
  then have "counted_ok (- 1) c" using xdr_bytes_decoded [OF 5] by (simp add: zero_mem)
  then have "counted_ok (NOT 0) c" by simp
  then show ?thesis using counted_ok_fits a by blast
qed

lemma dirpath_decoded:
  assumes run: "xdr_dirpath (decoder [] body) default = Some (xd, a)"
  shows "\<exists>p. a = Some p \<and> str_ok MNTPATHLEN (Some p)"
proof -
  from run obtain n bs where a: "a = Some (cstr (map char_of_byte bs))" and len: "length bs = unat n"
    and n: "\<not> (1024 :: u32) < n"
    by (auto simp: xdr_dirpath_def xdr_string_def xdr_u_int_def xdr_opaque_def x_getbytes_def
        MNTPATHLEN_def split: option.splits if_splits)
  have "unat n \<le> 1024" using n by (simp add: word_less_nat_alt)
  then show ?thesis using a len length_cstr [of "map char_of_byte bs"]
    by (simp add: str_ok_def MNTPATHLEN_def)
qed

lemma dirpath_length: "str_ok MNTPATHLEN (Some p) \<Longrightarrow> length p \<le> 1024"
  by (simp add: str_ok_def MNTPATHLEN_def)

lemma length_dec_byte: "n < 256 \<Longrightarrow> length (dec n) \<le> 3"
  by (subst dec.simps, cases "n < 10") (auto simp: dec.simps [of "n div 10"] dec.simps [of "n div 10 div 10"])

lemma host_ok: "str_ok MNTNAMLEN (Some (inet_ntoa a))"
proof -
  have "length (dec (unat b)) \<le> 3" for b :: byte
    by (rule length_dec_byte) (use unsigned_less [of b, where 'a = nat] in simp)
  note len = this [of "ucast a"] this [of "ucast (drop_bit 8 a)"] this [of "ucast (drop_bit 16 a)"]
    this [of "ucast (drop_bit 24 a)"]
  have "length (dotted_quad a) \<le> 15"
    using len unfolding dotted_quad_def by (simp only: length_append list.size)
  moreover have "NUL \<notin> set (dec n)" for n using dec_digits [of NUL n] by (auto simp: NUL_def)
  then have "nul_free (dotted_quad a)" 
    by (auto simp: nul_free_def dotted_quad_def) (simp add: NUL_def)
  ultimately show ?thesis by (simp add: str_ok_def inet_ntoa_def MNTNAMLEN_def)
qed

section \<open>The NFS procedures keep the contract\<close>

text \<open>Reading, writing and listing need the bounds of the backend; the rest does not.\<close>

context sane_backend
begin

lemma local_read_ok:
  assumes inv: "server_inv I srv"
  shows "\<exists>r srv'. local_read ns rqstp a srv = Some (r, srv') \<and> ok_READ3res r \<and> server_inv I srv'"
proof -
  have buf: "length (s_read_buf (srv_statics srv)) = unat NFS_MAXDATA_TCP + 1"
    using inv by (simp add: server_inv_def)
  obtain r b w where run: "run_state (nfsproc3_read_3_svc ns rqstp a
      (s_read (srv_statics srv), s_read_buf (srv_statics srv))) (srv_world srv) = (Some (r, b), w)"
    and ok: "length b = length (s_read_buf (srv_statics srv))" "ok_READ3res r"
    using read_total [OF buf, of ns rqstp a "s_read (srv_statics srv)" "srv_world srv"] reads by blast
  have "world_inv I w"
    using keepsD [OF nfsproc3_reader_keeps(4), of "srv_world srv" rqstp a
        "(s_read (srv_statics srv), s_read_buf (srv_statics srv))"] inv run
    by (simp add: server_inv_def)
  then show ?thesis using inv ok run by (auto simp: local_read_def server_inv_def)
qed

lemma local_write_ok:
  assumes inv: "server_inv I srv" and "counted_fits (NOT 0) (WRITE3args_data a)"
  shows "\<exists>r srv'. local_opt s_write s_write_update (nfsproc3_write_3_svc ns) a srv = Some (r, srv') \<and>
    ok_WRITE3res r \<and> server_inv I srv'"
proof (rule local_opt_ok [OF _ _ _ inv])
  obtain r w where run: "run_state (nfsproc3_write_3_svc ns a (s_write (srv_statics srv)))
      (srv_world srv) = (Some r, w)"
    using write_total [OF assms(2)] by blast
  moreover have "ok_WRITE3res r"
    using write_returns [unfolded returns_def, rule_format, of ns a "s_write (srv_statics srv)" "srv_world srv"]
      run by simp
  ultimately show "\<exists>r w'. run_state (nfsproc3_write_3_svc ns a (s_write (srv_statics srv)))
      (srv_world srv) = (Some r, w') \<and> ok_WRITE3res r"
    by blast
qed (simp_all add: nfsproc3_keeps)

lemma local_readdir_ok:
  assumes inv: "server_inv I srv" and "0 \<le> sint (READDIR3args_cookie a)"
  shows "\<exists>r srv'. local_opt s_readdir s_readdir_update (nfsproc3_readdir_3_svc ns) a srv =
    Some (r, srv') \<and> ok_READDIR3res r \<and> server_inv I srv'"
  using readdir_total [OF names assms(2)]
  by (intro local_opt_ok [OF _ _ _ inv]) (auto simp: nfsproc3_readdir_keeps)

end

sublocale sane_backend \<subseteq> p_getattr: rpc_procedure xdr_GETATTR3args xdr_GETATTR3res
  "local_act s_getattr s_getattr_update (nfsproc3_getattr_3_svc ns)" "\<lambda>_. True" "\<lambda>_. False"
  ok_GETATTR3res vis_GETATTR3res "server_inv I"
  by unfold_locales
    (simp_all add: local_act_ok nfsproc3_keeps nfsproc3_refused_keeps getattr_returns xdr_GETATTR3res_rtrip)

sublocale sane_backend \<subseteq> p_setattr: rpc_procedure xdr_SETATTR3args xdr_SETATTR3res
  "local_act s_setattr s_setattr_update (nfsproc3_setattr_3_svc ns)" "\<lambda>_. True" "\<lambda>_. False"
  ok_SETATTR3res vis_SETATTR3res "server_inv I"
  by unfold_locales
    (simp_all add: local_act_ok nfsproc3_keeps nfsproc3_refused_keeps setattr_returns xdr_SETATTR3res_rtrip)

sublocale sane_backend \<subseteq> p_lookup: rpc_procedure xdr_LOOKUP3args xdr_LOOKUP3res
  "local_act s_lookup s_lookup_update (nfsproc3_lookup_3_svc ns)" "\<lambda>_. True" "\<lambda>_. False"
  ok_LOOKUP3res vis_LOOKUP3res "server_inv I"
  by unfold_locales
    (simp_all add: local_act_ok nfsproc3_keeps nfsproc3_refused_keeps lookup_returns xdr_LOOKUP3res_rtrip)

sublocale sane_backend \<subseteq> p_access: rpc_procedure xdr_ACCESS3args xdr_ACCESS3res
  "local_act s_access s_access_update (nfsproc3_access_3_svc ns)" "\<lambda>_. True" "\<lambda>_. False"
  ok_ACCESS3res vis_ACCESS3res "server_inv I"
  by unfold_locales
    (simp_all add: local_act_ok nfsproc3_keeps nfsproc3_refused_keeps access_returns xdr_ACCESS3res_rtrip)

sublocale sane_backend \<subseteq> p_readlink: rpc_procedure xdr_READLINK3args xdr_READLINK3res
  "local_act s_readlink s_readlink_update (nfsproc3_readlink_3_svc ns)" "\<lambda>_. True" "\<lambda>_. False"
  ok_READLINK3res vis_READLINK3res "server_inv I"
  by unfold_locales
    (simp_all add: local_act_ok nfsproc3_keeps nfsproc3_refused_keeps readlink_returns xdr_READLINK3res_rtrip)

sublocale sane_backend \<subseteq> p_create: rpc_procedure xdr_CREATE3args xdr_CREATE3res
  "local_act s_create s_create_update (nfsproc3_create_3_svc ns)" "\<lambda>_. True" "\<lambda>_. False"
  ok_CREATE3res vis_CREATE3res "server_inv I"
  by unfold_locales
    (simp_all add: local_act_ok nfsproc3_keeps nfsproc3_refused_keeps create_returns xdr_CREATE3res_rtrip)

sublocale sane_backend \<subseteq> p_mkdir: rpc_procedure xdr_MKDIR3args xdr_MKDIR3res
  "local_act s_mkdir s_mkdir_update (nfsproc3_mkdir_3_svc ns)" "\<lambda>_. True" "\<lambda>_. False"
  ok_MKDIR3res vis_MKDIR3res "server_inv I"
  by unfold_locales
    (simp_all add: local_act_ok nfsproc3_keeps nfsproc3_refused_keeps mkdir_returns xdr_MKDIR3res_rtrip)

sublocale sane_backend \<subseteq> p_symlink: rpc_procedure xdr_SYMLINK3args xdr_SYMLINK3res
  "local_act s_symlink s_symlink_update (nfsproc3_symlink_3_svc ns)" "\<lambda>_. True" "\<lambda>_. False"
  ok_SYMLINK3res vis_SYMLINK3res "server_inv I"
  by unfold_locales
    (simp_all add: local_act_ok nfsproc3_keeps nfsproc3_refused_keeps symlink_returns xdr_SYMLINK3res_rtrip)

sublocale sane_backend \<subseteq> p_mknod: rpc_procedure xdr_MKNOD3args xdr_MKNOD3res
  "local_act s_mknod s_mknod_update (nfsproc3_mknod_3_svc ns)" "\<lambda>_. True" "\<lambda>_. False"
  ok_MKNOD3res vis_MKNOD3res "server_inv I"
  by unfold_locales
    (simp_all add: local_act_ok nfsproc3_keeps nfsproc3_refused_keeps mknod_returns xdr_MKNOD3res_rtrip)

sublocale sane_backend \<subseteq> p_remove: rpc_procedure xdr_REMOVE3args xdr_REMOVE3res
  "local_act s_remove s_remove_update (nfsproc3_remove_3_svc ns)" "\<lambda>_. True" "\<lambda>_. False"
  ok_REMOVE3res vis_REMOVE3res "server_inv I"
  by unfold_locales
    (simp_all add: local_act_ok nfsproc3_keeps nfsproc3_refused_keeps remove_returns xdr_REMOVE3res_rtrip)

sublocale sane_backend \<subseteq> p_rmdir: rpc_procedure xdr_RMDIR3args xdr_RMDIR3res
  "local_act s_rmdir s_rmdir_update (nfsproc3_rmdir_3_svc ns)" "\<lambda>_. True" "\<lambda>_. False"
  ok_RMDIR3res vis_RMDIR3res "server_inv I"
  by unfold_locales
    (simp_all add: local_act_ok nfsproc3_keeps nfsproc3_refused_keeps rmdir_returns xdr_RMDIR3res_rtrip)

sublocale sane_backend \<subseteq> p_rename: rpc_procedure xdr_RENAME3args xdr_RENAME3res
  "local_act s_rename s_rename_update (nfsproc3_rename_3_svc ns)" "\<lambda>_. True" "\<lambda>_. False"
  ok_RENAME3res vis_RENAME3res "server_inv I"
  by unfold_locales
    (simp_all add: local_act_ok nfsproc3_rename_keeps rename_returns xdr_RENAME3res_rtrip)

sublocale sane_backend \<subseteq> p_link: rpc_procedure xdr_LINK3args xdr_LINK3res
  "local_act s_link s_link_update (nfsproc3_link_3_svc ns)" "\<lambda>_. True" "\<lambda>_. False"
  ok_LINK3res vis_LINK3res "server_inv I"
  by unfold_locales
    (simp_all add: local_act_ok nfsproc3_keeps nfsproc3_refused_keeps link_returns xdr_LINK3res_rtrip)

sublocale sane_backend \<subseteq> p_readdirplus: rpc_procedure xdr_READDIRPLUS3args xdr_READDIRPLUS3res
  "local_act s_readdirplus s_readdirplus_update (nfsproc3_readdirplus_3_svc ns)" "\<lambda>_. True" "\<lambda>_. False"
  ok_READDIRPLUS3res vis_READDIRPLUS3res "server_inv I"
  by unfold_locales
    (simp_all add: local_act_ok nfsproc3_keeps nfsproc3_refused_keeps readdirplus_returns xdr_READDIRPLUS3res_rtrip)

sublocale sane_backend \<subseteq> p_fsstat: rpc_procedure xdr_FSSTAT3args xdr_FSSTAT3res
  "local_act s_fsstat s_fsstat_update (nfsproc3_fsstat_3_svc ns)" "\<lambda>_. True" "\<lambda>_. False"
  ok_FSSTAT3res vis_FSSTAT3res "server_inv I"
  by unfold_locales
    (simp_all add: local_act_ok nfsproc3_keeps nfsproc3_refused_keeps fsstat_returns xdr_FSSTAT3res_rtrip)

sublocale sane_backend \<subseteq> p_fsinfo: rpc_procedure xdr_FSINFO3args xdr_FSINFO3res
  "local_act s_fsinfo s_fsinfo_update (nfsproc3_fsinfo_3_svc ns rqstp)" "\<lambda>_. True" "\<lambda>_. False"
  ok_FSINFO3res vis_FSINFO3res "server_inv I" for rqstp
  by unfold_locales
    (simp_all add: local_act_ok nfsproc3_keeps nfsproc3_refused_keeps fsinfo_returns xdr_FSINFO3res_rtrip)

sublocale sane_backend \<subseteq> p_pathconf: rpc_procedure xdr_PATHCONF3args xdr_PATHCONF3res
  "local_act s_pathconf s_pathconf_update (nfsproc3_pathconf_3_svc ns)" "\<lambda>_. True" "\<lambda>_. False"
  ok_PATHCONF3res vis_PATHCONF3res "server_inv I"
  by unfold_locales
    (simp_all add: local_act_ok nfsproc3_keeps nfsproc3_refused_keeps pathconf_returns xdr_PATHCONF3res_rtrip)

sublocale sane_backend \<subseteq> p_commit: rpc_procedure xdr_COMMIT3args xdr_COMMIT3res
  "local_act s_commit s_commit_update (nfsproc3_commit_3_svc ns)" "\<lambda>_. True" "\<lambda>_. False"
  ok_COMMIT3res vis_COMMIT3res "server_inv I"
  by unfold_locales
    (simp_all add: local_act_ok nfsproc3_keeps nfsproc3_refused_keeps commit_returns xdr_COMMIT3res_rtrip)

sublocale sane_backend \<subseteq> p_read: rpc_procedure xdr_READ3args xdr_READ3res
  "local_read ns rqstp" "\<lambda>_. True" "\<lambda>_. False" ok_READ3res vis_READ3res "server_inv I" for rqstp
  by unfold_locales (simp_all add: local_read_ok xdr_READ3res_rtrip)

sublocale sane_backend \<subseteq> p_write: rpc_procedure xdr_WRITE3args xdr_WRITE3res
  "local_opt s_write s_write_update (nfsproc3_write_3_svc ns)"
  "\<lambda>a. counted_fits (NOT 0) (WRITE3args_data a)" "\<lambda>_. False"
  ok_WRITE3res vis_WRITE3res "server_inv I"
  by unfold_locales (blast intro: WRITE3args_decoded local_write_ok xdr_WRITE3res_rtrip)+

sublocale sane_backend \<subseteq> p_readdir: rpc_procedure xdr_READDIR3args xdr_READDIR3res
  "local_opt s_readdir s_readdir_update (nfsproc3_readdir_3_svc ns)"
  "\<lambda>_. True" "\<lambda>a. sint (READDIR3args_cookie a) < 0"
  ok_READDIR3res vis_READDIR3res "server_inv I"
  by unfold_locales (simp_all add: local_readdir_ok xdr_READDIR3res_rtrip)

section \<open>The MOUNT procedures keep the contract\<close>

lemma go_lstat_env: "w_env (snd (run_state (go_lstat ns path buf) w)) = w_env w"
  by (simp add: go_lstat_def run_act Let_def split: sum.split)

lemma go_accept_mount_0: "go_accept_mount addr path = 0 \<longleftrightarrow> addr = localhost"
  using go_accept_mount_iff by (simp add: NFS3_OK_def)

lemma mnt_total:
  assumes env: "env_ok (w_env w)" and rel: "mount_rel ms xs" and path: "length p \<le> 1024"
  shows "\<exists>r ms' w'. run_state (mountproc_mnt_3_svc ns rqstp (Some p) (result, ms)) w = (Some (r, ms'), w') \<and>
    ok_mountres3 r \<and>
    (\<exists>ys. mount_rel ms' ys \<and> (ys = xs \<or> ys = xs @ [(inet_ntoa (get_remote rqstp), p)])) \<and>
    (mountres3_fhs_status r = MNT3_OK \<longrightarrow> rq_caller rqstp = localhost) \<and>
    (mountres3_fhs_status r \<noteq> MNT3_OK \<longrightarrow> ms' = ms)"
proof -
  obtain res buf w1 where ls: "run_state (go_lstat ns (Some p) (e_un_stat (w_env w) (w_step w)))
      (w\<lparr>w_step := Suc (w_step w)\<rparr>) = ((res, buf), w1)"
    by (metis prod.collapse)
  have env1: "w_env w1 = w_env w"
    using go_lstat_env [of ns "Some p" "e_un_stat (w_env w) (w_step w)" "w\<lparr>w_step := Suc (w_step w)\<rparr>"] ls
    by simp
  have long: "\<not> PATH_MAX < Suc (length p)" using path by (simp add: PATH_MAX_def)
  let ?new = "e_malloc (w_env w1) (w_step w1) (\<lambda>a. mount_mem ms a \<noteq> None)"
  let ?host = "e_malloc_str (w_env w1) (Suc (w_step w1))"
  let ?dir = "e_malloc_str (w_env w1) (Suc (Suc (w_step w1)))"
  have fresh: "mount_mem ms a = None" if "?new = Some a" for a
    using env that unfolding env1 env_ok_def by blast
  obtain ms' where add: "add_mount ?new ?host ?dir p rqstp ms = Some ms'"
    and rel': "mount_rel ms' (if ?new \<noteq> None \<and> ?host \<and> ?dir
      then xs @ [(inet_ntoa (get_remote rqstp), p)] else xs)"
    using add_mount_refines [OF rel fresh, where mem_host = ?host and mem_dir = ?dir and path = p and
        rqstp = rqstp]
    by blast
  have ys: "\<exists>ys. mount_rel ms' ys \<and> (ys = xs \<or> ys = xs @ [(inet_ntoa (get_remote rqstp), p)])"
    using rel' by (cases "?new \<noteq> None \<and> ?host \<and> ?dir") auto
  have fh: "counted_ok 64 \<lparr>counted_len = 10, counted_val = fh_bytes h @ [b]\<rparr>" for h b
    by (simp add: counted_ok_def fh_bytes_def)
  show ?thesis
    using ls long rel add ys
    by (auto simp: fh mountproc_mnt_3_svc_def run_act Let_def ok_mountres3_def ok_mountres3_ok_def
        go_accept_mount_0 c_consts split: prod.split)
qed

context sane_backend
begin

lemma local_mnt_ok:
  assumes inv: "server_inv I srv" and "\<exists>p. a = Some p \<and> str_ok MNTPATHLEN (Some p)"
  shows "\<exists>r srv'. local_mnt ns rqstp a srv = Some (r, srv') \<and> ok_mountres3 r \<and> server_inv I srv'"
proof -
  obtain p where p: "a = Some p" "str_ok MNTPATHLEN (Some p)" using assms(2) by blast
  obtain xs where rel: "mount_rel (srv_mount srv) xs" "Ball (set xs) local_entry"
    and env: "env_ok (w_env (srv_world srv))"
    using inv by (auto simp: server_inv_def world_inv_def)
  obtain r ms' w ys where run: "run_state (mountproc_mnt_3_svc ns rqstp a (s_mnt (srv_statics srv), srv_mount srv))
      (srv_world srv) = (Some (r, ms'), w)" and ok: "ok_mountres3 r" "mount_rel ms' ys"
    and ys: "ys = xs \<or> rq_caller rqstp = localhost \<and> ys = xs @ [(inet_ntoa (get_remote rqstp), p)]"
    using mnt_total [OF env rel(1) dirpath_length [OF p(2)], of ns rqstp "s_mnt (srv_statics srv)"] p(1) rel(1)
    by metis
  have "Ball (set ys) local_entry"
    using ys rel(2) p(2) host_ok [of localhost]
    by (auto simp: local_entry_def entry_ok_def get_remote_def inet_ntoa_def dotted_quad_localhost)
  moreover have "world_inv I w"
    using keepsD [OF mountproc_mnt_keeps, of "srv_world srv" rqstp a
        "(s_mnt (srv_statics srv), srv_mount srv)"] inv run
    by (simp add: server_inv_def)
  ultimately show ?thesis using inv run ok by (auto simp: local_mnt_def server_inv_def)
qed

end

lemma local_umnt_ok:
  assumes "server_inv I srv"
  shows "\<exists>srv'. local_umnt rqstp a srv = Some ((), srv') \<and> server_inv I srv'"
    and "\<exists>srv'. local_umntall rqstp u srv = Some ((), srv') \<and> server_inv I srv'"
proof -
  obtain xs where rel: "mount_rel (srv_mount srv) xs" "Ball (set xs) local_entry"
    using assms by (auto simp: server_inv_def)
  have "\<exists>ms'. remove_mount path rqstp (srv_mount srv) = Some ms' \<and>
      (\<exists>ys. mount_rel ms' ys \<and> Ball (set ys) local_entry)" for path
    using remove_mount_refines [OF rel(1), of path rqstp] rel(2)
    by (meson filter_is_subset subset_iff)
  note rm = this
  show "\<exists>srv'. local_umnt rqstp a srv = Some ((), srv') \<and> server_inv I srv'"
    using rm [of a] assms
    by (fastforce simp: local_umnt_def mountproc_umnt_3_svc_def server_inv_def)
  show "\<exists>srv'. local_umntall rqstp u srv = Some ((), srv') \<and> server_inv I srv'"
    using rm [of None] assms
    by (fastforce simp: local_umntall_def mountproc_umntall_3_svc_def server_inv_def)
qed

lemma ok_bodies: "Ball (set xs) entry_ok \<Longrightarrow> pred_option ok_mountbody (bodies xs)"
proof (induction xs)
  case (Cons e es)
  then show ?case by (cases "bodies es") (auto simp: entry_ok_def)
qed simp

lemma local_dump_ok:
  assumes "server_inv I srv"
  shows "\<exists>r srv'. local_dump u srv = Some (r, srv') \<and> pred_option ok_mountbody r \<and> server_inv I srv'"
proof -
  obtain xs where rel: "mount_rel (srv_mount srv) xs" "Ball (set xs) local_entry"
    using assms by (auto simp: server_inv_def)
  then show ?thesis
    using assms ok_bodies [of xs] mountproc_dump_refines [OF rel(1)]
    by (auto simp: local_dump_def local_entry_def)
qed

lemma export_ok: "pred_option ok_exportnode mountproc_export_3_svc"
  by (simp add: mountproc_export_3_svc_def str_ok_def MNTPATHLEN_def nul_free_def NUL_def)

sublocale sane_backend \<subseteq> p_mnt: rpc_procedure xdr_dirpath xdr_mountres3
  "local_mnt ns rqstp" "\<lambda>a. \<exists>p. a = Some p \<and> str_ok MNTPATHLEN (Some p)" "\<lambda>_. False"
  ok_mountres3 vis_mountres3 "server_inv I" for rqstp
  by unfold_locales (simp_all add: local_mnt_ok dirpath_decoded xdr_mountres3_rtrip)

sublocale sane_backend \<subseteq> p_umnt: rpc_procedure xdr_dirpath xdr_void
  "local_umnt rqstp" "\<lambda>_. True" "\<lambda>_. False" "\<lambda>_. True" "\<lambda>x. x" "server_inv I" for rqstp
  by unfold_locales (simp_all add: local_umnt_ok xdr_void_rtrip)

sublocale sane_backend \<subseteq> p_umntall: rpc_procedure xdr_void xdr_void
  "local_umntall rqstp" "\<lambda>_. True" "\<lambda>_. False" "\<lambda>_. True" "\<lambda>x. x" "server_inv I" for rqstp
  by unfold_locales (simp_all add: local_umnt_ok xdr_void_rtrip)

sublocale sane_backend \<subseteq> p_null: rpc_procedure xdr_void xdr_void
  local_null "\<lambda>_. True" "\<lambda>_. False" "\<lambda>_. True" "\<lambda>x. x" "server_inv I"
  by unfold_locales (simp_all add: local_null_def xdr_void_rtrip)

sublocale sane_backend \<subseteq> p_dump: rpc_procedure xdr_void xdr_mountlist
  local_dump "\<lambda>_. True" "\<lambda>_. False" "pred_option ok_mountbody" "\<lambda>x. x" "server_inv I"
  by unfold_locales (simp_all add: local_dump_ok xdr_mountlist_rtrip default_option_def)

sublocale sane_backend \<subseteq> p_export: rpc_procedure xdr_void xdr_exports
  local_export "\<lambda>_. True" "\<lambda>_. False" "pred_option ok_exportnode" "\<lambda>x. x" "server_inv I"
  by unfold_locales (simp_all add: local_export_def export_ok xdr_exports_rtrip default_option_def)

section \<open>Every call is answered\<close>

context sane_backend
begin

lemma nfs3_program_total:
  assumes inv: "server_inv I srv"
    and cookie: "\<And>xd a. rq_proc rqstp = NFSPROC3_READDIR \<Longrightarrow>
      xdr_READDIR3args (decoder [] body) default = Some (xd, a) \<Longrightarrow> 0 \<le> sint (READDIR3args_cookie a)"
  shows "answered (server_inv I) (nfs3_program_3 ns rqstp body srv)"
  unfolding nfs3_program_3_def
  by (intro answered_if answered_noproc
      p_null.serve_total p_getattr.serve_total p_setattr.serve_total p_lookup.serve_total
      p_access.serve_total p_readlink.serve_total p_read.serve_total p_write.serve_total
      p_create.serve_total p_mkdir.serve_total p_symlink.serve_total p_mknod.serve_total
      p_remove.serve_total p_rmdir.serve_total p_rename.serve_total p_link.serve_total
      p_readdir.serve_total p_readdirplus.serve_total p_fsstat.serve_total p_fsinfo.serve_total
      p_pathconf.serve_total p_commit.serve_total inv)
    (auto dest: cookie)

lemma mountprog_total:
  assumes inv: "server_inv I srv"
  shows "answered (server_inv I) (mountprog_3 ns rqstp body srv)"
  unfolding mountprog_3_def
  by (intro answered_if answered_noproc p_null.serve_total p_mnt.serve_total p_dump.serve_total
      p_umnt.serve_total p_umntall.serve_total p_export.serve_total inv) simp_all

end

section \<open>Every reply can be read\<close>

text \<open>Which filter a client reads the reply of a procedure with.\<close>

definition nfs_reply_ok :: "svc_req \<Rightarrow> outcome \<Rightarrow> bool" where
  "nfs_reply_ok rqstp =
     (if rq_proc rqstp = NFSPROC3_NULL then reply_parses xdr_void
      else if rq_proc rqstp = NFSPROC3_GETATTR then reply_parses xdr_GETATTR3res
      else if rq_proc rqstp = NFSPROC3_SETATTR then reply_parses xdr_SETATTR3res
      else if rq_proc rqstp = NFSPROC3_LOOKUP then reply_parses xdr_LOOKUP3res
      else if rq_proc rqstp = NFSPROC3_ACCESS then reply_parses xdr_ACCESS3res
      else if rq_proc rqstp = NFSPROC3_READLINK then reply_parses xdr_READLINK3res
      else if rq_proc rqstp = NFSPROC3_READ then reply_parses xdr_READ3res
      else if rq_proc rqstp = NFSPROC3_WRITE then reply_parses xdr_WRITE3res
      else if rq_proc rqstp = NFSPROC3_CREATE then reply_parses xdr_CREATE3res
      else if rq_proc rqstp = NFSPROC3_MKDIR then reply_parses xdr_MKDIR3res
      else if rq_proc rqstp = NFSPROC3_SYMLINK then reply_parses xdr_SYMLINK3res
      else if rq_proc rqstp = NFSPROC3_MKNOD then reply_parses xdr_MKNOD3res
      else if rq_proc rqstp = NFSPROC3_REMOVE then reply_parses xdr_REMOVE3res
      else if rq_proc rqstp = NFSPROC3_RMDIR then reply_parses xdr_RMDIR3res
      else if rq_proc rqstp = NFSPROC3_RENAME then reply_parses xdr_RENAME3res
      else if rq_proc rqstp = NFSPROC3_LINK then reply_parses xdr_LINK3res
      else if rq_proc rqstp = NFSPROC3_READDIR then reply_parses xdr_READDIR3res
      else if rq_proc rqstp = NFSPROC3_READDIRPLUS then reply_parses xdr_READDIRPLUS3res
      else if rq_proc rqstp = NFSPROC3_FSSTAT then reply_parses xdr_FSSTAT3res
      else if rq_proc rqstp = NFSPROC3_FSINFO then reply_parses xdr_FSINFO3res
      else if rq_proc rqstp = NFSPROC3_PATHCONF then reply_parses xdr_PATHCONF3res
      else if rq_proc rqstp = NFSPROC3_COMMIT then reply_parses xdr_COMMIT3res
      else (\<lambda>out. out = Svcerr_noproc))"

definition mount_reply_ok :: "svc_req \<Rightarrow> outcome \<Rightarrow> bool" where
  "mount_reply_ok rqstp =
     (if rq_proc rqstp = MOUNTPROC_NULL then reply_parses xdr_void
      else if rq_proc rqstp = MOUNTPROC_MNT then reply_parses xdr_mountres3
      else if rq_proc rqstp = MOUNTPROC_DUMP then reply_parses xdr_mountlist
      else if rq_proc rqstp = MOUNTPROC_UMNT then reply_parses xdr_void
      else if rq_proc rqstp = MOUNTPROC_UMNTALL then reply_parses xdr_void
      else if rq_proc rqstp = MOUNTPROC_EXPORT then reply_parses xdr_exports
      else (\<lambda>out. out = Svcerr_noproc))"

context sane_backend
begin

lemma nfs3_program_reads:
  assumes inv: "server_inv I srv"
    and cookie: "\<And>xd a. rq_proc rqstp = NFSPROC3_READDIR \<Longrightarrow>
      xdr_READDIR3args (decoder [] body) default = Some (xd, a) \<Longrightarrow> 0 \<le> sint (READDIR3args_cookie a)"
  shows "reads_as (nfs3_program_3 ns rqstp body srv) (nfs_reply_ok rqstp)"
  unfolding nfs3_program_3_def nfs_reply_ok_def
  by (intro reads_as_if reads_as_same p_null.serve_reads
      p_getattr.serve_reads p_setattr.serve_reads p_lookup.serve_reads p_access.serve_reads
      p_readlink.serve_reads p_read.serve_reads p_write.serve_reads p_create.serve_reads
      p_mkdir.serve_reads p_symlink.serve_reads p_mknod.serve_reads p_remove.serve_reads
      p_rmdir.serve_reads p_rename.serve_reads p_link.serve_reads p_readdir.serve_reads
      p_readdirplus.serve_reads p_fsstat.serve_reads p_fsinfo.serve_reads p_pathconf.serve_reads
      p_commit.serve_reads
      refl inv)
    (auto dest: cookie)

lemma mountprog_reads:
  assumes inv: "server_inv I srv"
  shows "reads_as (mountprog_3 ns rqstp body srv) (mount_reply_ok rqstp)"
  unfolding mountprog_3_def mount_reply_ok_def
  by (intro reads_as_if reads_as_same p_null.serve_reads p_mnt.serve_reads p_dump.serve_reads
      p_umnt.serve_reads p_umntall.serve_reads p_export.serve_reads refl inv) simp_all

end

end
