(* ===== verification/Sessions.thy ===== *)
theory Sessions
  imports Service
begin

text \<open>
  Sessions: the calls that the RPC loop hands to the two dispatchers one after the other. A
  session is a step relation with its reachable states, and a function that runs a list of
  calls. What every call keeps, every session keeps.
\<close>

section \<open>Calls\<close>

datatype rpc_call = Nfs_call svc_req "byte list" | Mount_call svc_req "byte list"

fun dispatch :: "'fs minfs \<Rightarrow> rpc_call \<Rightarrow> 'fs server \<Rightarrow> (outcome \<times> 'fs server) option" where
  "dispatch ns (Nfs_call rqstp body) srv = nfs3_program_3 ns rqstp body srv"
| "dispatch ns (Mount_call rqstp body) srv = mountprog_3 ns rqstp body srv"

text \<open>
  The only calls outside the contract: READDIR with a cookie whose top bit is set, for which
  \<open>go_readdir_full\<close> indexes a slice with a negative number.
\<close>

fun safe_call :: "rpc_call \<Rightarrow> bool" where
  "safe_call (Nfs_call rqstp body) \<longleftrightarrow>
     (if rq_proc rqstp = NFSPROC3_READDIR
      then (case xdr_READDIR3args (decoder [] body) default of
              None \<Rightarrow> True | Some (_, a) \<Rightarrow> 0 \<le> sint (READDIR3args_cookie a))
      else True)"
| "safe_call (Mount_call rqstp body) \<longleftrightarrow> True"

fun call_reply_ok :: "rpc_call \<Rightarrow> outcome \<Rightarrow> bool" where
  "call_reply_ok (Nfs_call rqstp body) = nfs_reply_ok rqstp"
| "call_reply_ok (Mount_call rqstp body) = mount_reply_ok rqstp"

fun renames :: "rpc_call \<Rightarrow> bool" where
  "renames (Nfs_call rqstp body) \<longleftrightarrow> rq_proc rqstp = NFSPROC3_RENAME"
| "renames (Mount_call rqstp body) \<longleftrightarrow> False"

text \<open>The calls that are not meant to change the file system.\<close>

fun reads_only :: "rpc_call \<Rightarrow> bool" where
  "reads_only (Nfs_call rqstp body) \<longleftrightarrow>
     rq_proc rqstp \<notin> {NFSPROC3_SETATTR, NFSPROC3_WRITE, NFSPROC3_CREATE, NFSPROC3_MKDIR,
       NFSPROC3_REMOVE, NFSPROC3_RMDIR, NFSPROC3_RENAME}"
| "reads_only (Mount_call rqstp body) \<longleftrightarrow> True"

fun run_calls :: "'fs minfs \<Rightarrow> rpc_call list \<Rightarrow> 'fs server \<Rightarrow> (outcome list \<times> 'fs server) option" where
  "run_calls ns [] srv = Some ([], srv)"
| "run_calls ns (c # cs) srv =
     (case dispatch ns c srv of
        None \<Rightarrow> None
      | Some (out, srv1) \<Rightarrow>
          (case run_calls ns cs srv1 of
             None \<Rightarrow> None
           | Some (outs, srv2) \<Rightarrow> Some (out # outs, srv2)))"

text \<open>The state when the loop starts, after \<open>go_init\<close>.\<close>

definition init_server :: "'fs \<Rightarrow> env \<Rightarrow> 'fs server" where
  "init_server fs e = \<lparr>
     srv_world = snd (run_state go_init \<lparr>w_fs = fs, w_fddb = init_fdCache, w_env = e, w_step = 0\<rparr>),
     srv_statics = init_statics,
     srv_mount = init_mount\<rparr>"

inductive reachable :: "'fs minfs \<Rightarrow> 'fs server \<Rightarrow> 'fs server \<Rightarrow> bool" for ns srv0 where
  start: "reachable ns srv0 srv0"
| call: "reachable ns srv0 srv \<Longrightarrow> dispatch ns c srv = Some (out, srv') \<Longrightarrow> reachable ns srv0 srv'"

lemma reachable_trans:
  assumes "reachable ns s1 s2" and "reachable ns s0 s1"
  shows "reachable ns s0 s2"
  using assms by (induction rule: reachable.induct) (auto intro: reachable.intros)

lemma run_calls_reachable:
  "run_calls ns cs srv = Some (outs, srv') \<Longrightarrow> reachable ns srv srv'"
proof (induction cs arbitrary: srv outs)
  case Nil
  then show ?case by (simp add: reachable.start)
next
  case (Cons c cs)
  then obtain out srv1 outs1 where 1: "dispatch ns c srv = Some (out, srv1)"
    and 2: "run_calls ns cs srv1 = Some (outs1, srv')"
    by (auto split: option.splits)
  show ?case
    by (rule reachable_trans [OF Cons.IH [OF 2]]) (rule reachable.call [OF reachable.start 1])
qed

section \<open>What one call preserves\<close>

definition preserves :: "('fs world \<Rightarrow> bool) \<Rightarrow> ('fs server \<Rightarrow> ('r \<times> 'fs server) option) \<Rightarrow> bool" where
  "preserves W f \<longleftrightarrow> (\<forall>srv out srv'. f srv = Some (out, srv') \<longrightarrow> W (srv_world srv) \<longrightarrow> W (srv_world srv'))"

lemma preservesD: "preserves W f \<Longrightarrow> f srv = Some (out, srv') \<Longrightarrow> W (srv_world srv) \<Longrightarrow> W (srv_world srv')"
  by (auto simp: preserves_def)

named_theorems preserves_rules \<open>which calls preserve the invariant\<close>

lemma preserves_if [preserves_rules]:
  "(b \<Longrightarrow> preserves W f) \<Longrightarrow> (\<not> b \<Longrightarrow> preserves W g) \<Longrightarrow> preserves W (\<lambda>srv. if b then f srv else g srv)"
  by (cases b) simp_all

lemma preserves_same [preserves_rules]: "preserves W (\<lambda>srv. Some (out, srv))"
  by (simp add: preserves_def)

lemma preserves_serve [preserves_rules]:
  "(\<And>a. preserves W (proc a)) \<Longrightarrow> preserves W (serve fA fR proc body)"
  by (fastforce simp: preserves_def serve_def split: option.splits)

lemma preserves_local_opt [preserves_rules]:
  assumes "\<And>a r. keeps W (h a r)"
  shows "preserves W (local_opt sel upd h a)"
proof -
  have "W w" if "run_state (h a r) (srv_world srv) = (x, w)" "W (srv_world srv)" for r x w srv
    using keepsD [OF assms that(2), of a r] that(1) by simp
  then show ?thesis by (fastforce simp: preserves_def local_opt_def split: prod.splits option.splits)
qed

lemma preserves_local_act [preserves_rules]:
  "(\<And>a r. keeps W (h a r)) \<Longrightarrow> preserves W (local_act sel upd h a)"
  unfolding local_act_def by (intro preserves_rules keeps_rules)

lemma preserves_local_read [preserves_rules]:
  assumes "\<And>a r. keeps W (nfsproc3_read_3_svc ns rqstp a r)"
  shows "preserves W (local_read ns rqstp a)"
proof -
  have "W w" if "run_state (nfsproc3_read_3_svc ns rqstp a r) (srv_world srv) = (x, w)" "W (srv_world srv)"
    for r x w srv
    using keepsD [OF assms that(2), of a r] that(1) by simp
  then show ?thesis by (fastforce simp: preserves_def local_read_def split: prod.splits option.splits)
qed

lemma preserves_local_mnt [preserves_rules]:
  assumes "\<And>a r. keeps W (mountproc_mnt_3_svc ns rqstp a r)"
  shows "preserves W (local_mnt ns rqstp a)"
proof -
  have "W w" if "run_state (mountproc_mnt_3_svc ns rqstp a r) (srv_world srv) = (x, w)" "W (srv_world srv)"
    for r x w srv
    using keepsD [OF assms that(2), of a r] that(1) by simp
  then show ?thesis by (fastforce simp: preserves_def local_mnt_def split: prod.splits option.splits)
qed

lemma preserves_local_plain [preserves_rules]:
  "preserves W (local_null u)" "preserves W (local_dump v)" "preserves W (local_umnt rqstp p)"
  "preserves W (local_umntall rqstp v)" "preserves W (local_export v)"
  by (auto simp: preserves_def local_null_def local_dump_def local_umnt_def local_umntall_def
      local_export_def split: option.splits)

lemma dispatch_eta:
  "dispatch ns (Nfs_call rqstp body) = nfs3_program_3 ns rqstp body"
  "dispatch ns (Mount_call rqstp body) = mountprog_3 ns rqstp body"
  by (simp_all add: fun_eq_iff)

lemma run_calls_preserve:
  assumes "\<And>c. P c \<Longrightarrow> preserves W (dispatch ns c)"
    and "run_calls ns cs srv = Some (outs, srv')" and "list_all P cs" and "W (srv_world srv)"
  shows "W (srv_world srv')"
  using assms(2-)
proof (induction cs arbitrary: srv outs)
  case (Cons c cs)
  then show ?case using preservesD [OF assms(1), of c srv] by (fastforce split: option.splits)
qed simp

context reader_contract
begin

lemma mountprog_preserves: "preserves W (mountprog_3 ns rqstp body)"
  unfolding mountprog_3_def by (intro preserves_rules keeps_rules)

lemma reader_preserves: "reads_only c \<Longrightarrow> preserves W (dispatch ns c)"
proof (cases c)
  case (Nfs_call rqstp body)
  moreover assume "reads_only c"
  ultimately show ?thesis
    unfolding Nfs_call dispatch_eta nfs3_program_3_def
    by (intro preserves_rules keeps_rules nfsproc3_refused_keeps) simp_all
qed (simp add: mountprog_preserves dispatch_eta)

lemmas reader_session = run_calls_preserve [OF reader_preserves]

end

context world_contract
begin

lemma writer_preserves: "\<not> renames c \<Longrightarrow> preserves W (dispatch ns c)"
proof (cases c)
  case (Nfs_call rqstp body)
  moreover assume "\<not> renames c"
  ultimately show ?thesis
    unfolding Nfs_call dispatch_eta nfs3_program_3_def
    by (intro preserves_rules keeps_rules nfsproc3_refused_keeps) simp_all
qed (simp add: mountprog_preserves dispatch_eta)

lemmas writer_session = run_calls_preserve [OF writer_preserves]

end

context renaming_contract
begin

lemma dispatch_preserves: "preserves W (dispatch ns c)"
proof (cases c)
  case (Nfs_call rqstp body)
  then show ?thesis
    unfolding Nfs_call dispatch_eta nfs3_program_3_def
    by (intro preserves_rules keeps_rules nfsproc3_refused_keeps)
qed (simp add: mountprog_preserves dispatch_eta)

lemma reachable_keep:
  assumes "reachable ns srv0 srv" and "W (srv_world srv0)"
  shows "W (srv_world srv)"
  using assms
proof (induction rule: reachable.induct)
  case (call srv c out srv')
  then show ?case using preservesD [OF dispatch_preserves] by blast
qed

end

section \<open>A session from the start\<close>

lemma init_server_inv: "env_ok e \<Longrightarrow> I fs \<Longrightarrow> server_inv I (init_server fs e)"
  using mount_rel_init
  by (auto simp: server_inv_def init_server_def init_statics_def world_inv_def go_init_def run_act
      fd_inv_init)

context sane_backend
begin

lemma safe_cookie:
  assumes "safe_call (Nfs_call rqstp body)" and "rq_proc rqstp = NFSPROC3_READDIR"
    and "xdr_READDIR3args (decoder [] body) default = Some (xd, a)"
  shows "0 \<le> sint (READDIR3args_cookie a)"
  using assms by simp

lemma dispatch_total:
  assumes inv: "server_inv I srv" and safe: "safe_call c"
  shows "answered (server_inv I) (dispatch ns c srv)"
    and "reads_as (dispatch ns c srv) (call_reply_ok c)"
  using nfs3_program_total [OF inv] nfs3_program_reads [OF inv] mountprog_total [OF inv]
    mountprog_reads [OF inv] safe safe_cookie
  by (cases c; fastforce)+

lemma run_calls_total:
  assumes "server_inv I srv" and "list_all safe_call cs"
  shows "\<exists>outs srv'. run_calls ns cs srv = Some (outs, srv') \<and> server_inv I srv' \<and>
    list_all2 call_reply_ok cs outs \<and> Svcerr_systemerr \<notin> set outs"
  using assms
proof (induction cs arbitrary: srv)
  case (Cons c cs)
  obtain out srv1 where 1: "dispatch ns c srv = Some (out, srv1)" "server_inv I srv1"
    "out \<noteq> Svcerr_systemerr"
    using dispatch_total(1) [of srv c] Cons.prems by (auto simp: answered_def)
  moreover have "call_reply_ok c out"
    using dispatch_total(2) [of srv c] Cons.prems 1(1) by (auto simp: reads_as_def)
  ultimately show ?case using Cons.IH [of srv1] Cons.prems(2) by auto
qed simp

end

end
