(* ===== verification/Startup.thy ===== *)
theory Startup
  imports Sessions
begin

text \<open>
  Starting and stopping, \<open>unfs3/daemon.c\<close>: the two transports, the registration of the two
  programs with the RPC library, the exit function, and the loop that waits for calls. The
  libraries are an oracle that says of each call, given the calls before it, whether it
  succeeds. A run of the start-up code is the sequence of its calls; it ends in the loop or in
  the exit of the process.
\<close>

section \<open>Library calls\<close>

datatype transport = Udp | Tcp
datatype dispatcher = Nfs3_program | Mountprog

datatype lib_call =
    Go_init
  | Bind transport u32
  | Create_transport transport
  | Pmap_unset u32 u32
  | Svc_register transport u32 u32 dispatcher u32
  | Svc_unregister u32 u32
  | Go_shutdown

type_synonym history = "(lib_call \<times> bool) list"
type_synonym library = "history \<Rightarrow> lib_call \<Rightarrow> bool"

datatype 'a proc = Running 'a history | Exited history int

fun andthen :: "'a proc \<Rightarrow> ('a \<Rightarrow> history \<Rightarrow> 'b proc) \<Rightarrow> 'b proc" where
  "andthen (Running a h) f = f a h"
| "andthen (Exited h code) f = Exited h code"

definition lib_run :: "library \<Rightarrow> lib_call \<Rightarrow> history \<Rightarrow> bool \<times> history" where
  "lib_run lib c h = (lib h c, h @ [(c, lib h c)])"

section \<open>Options\<close>

definition opt_portmapper :: bool_t where
  "opt_portmapper = TRUE"

definition NFS_PORT :: u32 where
  "NFS_PORT = 2049"

definition SIGUSR1 :: int where
  "SIGUSR1 = 10"

definition IPPROTO_TCP :: u32 where
  "IPPROTO_TCP = 6"

definition IPPROTO_UDP :: u32 where
  "IPPROTO_UDP = 17"

definition ipproto :: "transport \<Rightarrow> u32" where
  "ipproto t = (case t of Udp \<Rightarrow> IPPROTO_UDP | Tcp \<Rightarrow> IPPROTO_TCP)"

section \<open>Exit\<close>

text \<open>
  \<open>go_shutdown\<close> closes the backend and ends the process with status 1, as the \<open>exit (1)\<close>
  after it would. The signal SIGUSR1 is ignored.
\<close>

definition daemon_exit :: "library \<Rightarrow> int \<Rightarrow> history \<Rightarrow> unit proc" where
  "daemon_exit lib error h =
     (if error = SIGUSR1 then Running () h
      else (let h = (if opt_portmapper \<noteq> FALSE
                     then snd (lib_run lib (Svc_unregister MOUNTPROG MOUNTVERS3)
                       (snd (lib_run lib (Svc_unregister MOUNTPROG MOUNTVERS1) h))) else h);
                h = (if opt_portmapper \<noteq> FALSE
                     then snd (lib_run lib (Svc_unregister NFS3_PROGRAM NFS_V3) h) else h)
            in Exited (snd (lib_run lib Go_shutdown h)) 1))"

section \<open>Transports\<close>

text \<open>Both functions are the same code for their kind of socket; port 0 takes any socket.\<close>

definition create_transport :: "library \<Rightarrow> transport \<Rightarrow> u32 \<Rightarrow> history \<Rightarrow> transport option proc" where
  "create_transport lib t port h =
     (let (bound, h1) = (if port = 0 then (True, h) else lib_run lib (Bind t port) h)
      in if \<not> bound then Exited h1 1
         else (let (made, h2) = lib_run lib (Create_transport t) h1
               in if made then Running (Some t) h2
                  else andthen (daemon_exit lib 0 h2) (\<lambda>_ h. Running None h)))"

definition create_udp_transport :: "library \<Rightarrow> u32 \<Rightarrow> history \<Rightarrow> transport option proc" where
  "create_udp_transport lib port h = create_transport lib Udp port h"

definition create_tcp_transport :: "library \<Rightarrow> u32 \<Rightarrow> history \<Rightarrow> transport option proc" where
  "create_tcp_transport lib port h = create_transport lib Tcp port h"

section \<open>Registration\<close>

definition register_one :: "library \<Rightarrow> transport \<Rightarrow> u32 \<Rightarrow> u32 \<Rightarrow> dispatcher \<Rightarrow> history \<Rightarrow> unit proc" where
  "register_one lib t prog vers disp h =
     (let (done_ok, h1) = lib_run lib (Svc_register t prog vers disp
        (if opt_portmapper \<noteq> FALSE then ipproto t else 0)) h
      in if done_ok then Running () h1 else daemon_exit lib 0 h1)"

definition register_nfs_service :: "library \<Rightarrow> transport option \<Rightarrow> transport option \<Rightarrow> history \<Rightarrow> unit proc" where
  "register_nfs_service lib udptransp tcptransp h =
     (let h = (if opt_portmapper \<noteq> FALSE then snd (lib_run lib (Pmap_unset NFS3_PROGRAM NFS_V3) h) else h)
      in andthen
        (case udptransp of None \<Rightarrow> Running () h
         | Some t \<Rightarrow> register_one lib t NFS3_PROGRAM NFS_V3 Nfs3_program h)
        (\<lambda>_ h. case tcptransp of None \<Rightarrow> Running () h
         | Some t \<Rightarrow> register_one lib t NFS3_PROGRAM NFS_V3 Nfs3_program h))"

definition register_mount_versions :: "library \<Rightarrow> transport option \<Rightarrow> history \<Rightarrow> unit proc" where
  "register_mount_versions lib xprt h =
     (case xprt of None \<Rightarrow> Running () h
      | Some t \<Rightarrow> andthen (register_one lib t MOUNTPROG MOUNTVERS1 Mountprog h)
          (\<lambda>_ h. register_one lib t MOUNTPROG MOUNTVERS3 Mountprog h))"

definition register_mount_service :: "library \<Rightarrow> transport option \<Rightarrow> transport option \<Rightarrow> history \<Rightarrow> unit proc" where
  "register_mount_service lib udptransp tcptransp h =
     (let h = (if opt_portmapper \<noteq> FALSE
               then snd (lib_run lib (Pmap_unset MOUNTPROG MOUNTVERS3)
                 (snd (lib_run lib (Pmap_unset MOUNTPROG MOUNTVERS1) h))) else h)
      in andthen (register_mount_versions lib udptransp h)
        (\<lambda>_ h. register_mount_versions lib tcptransp h))"

text \<open>\<open>start\<close> up to the loop.\<close>

definition start_up :: "library \<Rightarrow> unit proc" where
  "start_up lib =
     (let h = snd (lib_run lib Go_init []) in
      andthen (create_udp_transport lib 2049 h) (\<lambda>udptransp h.
      andthen (create_tcp_transport lib 2049 h) (\<lambda>tcptransp h.
      andthen (register_nfs_service lib udptransp tcptransp h) (\<lambda>_ h.
      register_mount_service lib udptransp tcptransp h))))"

section \<open>What is registered\<close>

text \<open>The table of the RPC library after a sequence of calls.\<close>

fun effect :: "lib_call \<times> bool \<Rightarrow> (transport \<times> u32 \<times> u32 \<times> dispatcher) list \<Rightarrow>
    (transport \<times> u32 \<times> u32 \<times> dispatcher) list" where
  "effect (Svc_register t p v d proto, True) reg = reg @ [(t, p, v, d)]"
| "effect (Svc_unregister p v, ok) reg = filter (\<lambda>(_, p', v', _). (p', v') \<noteq> (p, v)) reg"
| "effect (Pmap_unset p v, ok) reg = filter (\<lambda>(_, p', v', _). (p', v') \<noteq> (p, v)) reg"
| "effect (c, ok) reg = reg"

definition registered :: "history \<Rightarrow> (transport \<times> u32 \<times> u32 \<times> dispatcher) list" where
  "registered h = foldl (\<lambda>reg e. effect e reg) [] h"

lemma registered_Nil [simp]: "registered [] = []"
  by (simp add: registered_def)

lemma registered_snoc [simp]: "registered (h @ [e]) = effect e (registered h)"
  by (simp add: registered_def)

lemma registered_append: "registered (h @ es) = foldl (\<lambda>reg e. effect e reg) (registered h) es"
  by (simp add: registered_def)

definition all_services :: "(transport \<times> u32 \<times> u32 \<times> dispatcher) list" where
  "all_services = [(Udp, NFS3_PROGRAM, NFS_V3, Nfs3_program), (Tcp, NFS3_PROGRAM, NFS_V3, Nfs3_program),
     (Udp, MOUNTPROG, MOUNTVERS1, Mountprog), (Udp, MOUNTPROG, MOUNTVERS3, Mountprog),
     (Tcp, MOUNTPROG, MOUNTVERS1, Mountprog), (Tcp, MOUNTPROG, MOUNTVERS3, Mountprog)]"

definition ours :: "(transport \<times> u32 \<times> u32 \<times> dispatcher) list \<Rightarrow> bool" where
  "ours reg \<longleftrightarrow> set reg \<subseteq> set all_services"

text \<open>
  A step of the start: it goes on with \<open>reg'\<close> registered, or the process ends with status 1
  and nothing registered.
\<close>

definition reaches :: "'a proc \<Rightarrow> 'a \<Rightarrow> (transport \<times> u32 \<times> u32 \<times> dispatcher) list \<Rightarrow> bool" where
  "reaches p a reg \<longleftrightarrow>
     (case p of Running a' h \<Rightarrow> a' = a \<and> registered h = reg
      | Exited h code \<Rightarrow> code = 1 \<and> registered h = [])"

lemma reaches_andthen:
  "reaches p a reg \<Longrightarrow> (\<And>h. registered h = reg \<Longrightarrow> reaches (f a h) b reg') \<Longrightarrow> reaches (andthen p f) b reg'"
  by (cases p) (auto simp: reaches_def)

lemma daemon_exit_clean:
  assumes "ours (registered h)" and "error \<noteq> SIGUSR1"
  shows "\<exists>h'. daemon_exit lib error h = Exited h' 1 \<and> registered h' = []"
proof -
  have "filter (\<lambda>(_, p, v, _). (p, v) \<noteq> (NFS3_PROGRAM, NFS_V3))
      (filter (\<lambda>(_, p, v, _). (p, v) \<noteq> (MOUNTPROG, MOUNTVERS3))
        (filter (\<lambda>(_, p, v, _). (p, v) \<noteq> (MOUNTPROG, MOUNTVERS1)) (registered h))) = []"
    using assms(1) by (auto simp: ours_def all_services_def filter_empty_conv)
  then show ?thesis
    using assms(2)
    by (simp add: daemon_exit_def lib_run_def opt_portmapper_def TRUE_def FALSE_def Let_def registered_append
        del: registered_snoc filter_filter)
qed

lemma create_transport_reaches:
  assumes "registered h = []" and "port \<noteq> 0"
  shows "reaches (create_transport lib t port h) (Some t) []"
  using daemon_exit_clean [of "h @ [(Bind t port, True), (Create_transport t, False)]" 0 lib] assms
  by (auto simp: create_transport_def lib_run_def reaches_def Let_def ours_def SIGUSR1_def registered_def)

lemma register_one_reaches:
  assumes "registered h = reg" and "ours reg" and "(t, p, v, d) \<in> set all_services"
  shows "reaches (register_one lib t p v d h) () (reg @ [(t, p, v, d)])"
proof -
  let ?c = "Svc_register t p v d (if opt_portmapper \<noteq> FALSE then ipproto t else 0)"
  have "ours (registered (h @ [(?c, False)]))" using assms by simp
  from daemon_exit_clean [OF this, of 0 lib] show ?thesis
    using assms(1) by (auto simp: register_one_def lib_run_def reaches_def SIGUSR1_def)
qed

lemma registered_unset: "registered h = reg \<Longrightarrow> effect (Pmap_unset p v, ok) reg = reg \<Longrightarrow>
    registered (snd (lib_run lib (Pmap_unset p v) h)) = reg"
  by (cases "lib h (Pmap_unset p v)") (auto simp: lib_run_def)

lemma register_nfs_reaches:
  assumes "registered h = []"
  shows "reaches (register_nfs_service lib (Some Udp) (Some Tcp) h) () (take 2 all_services)"
proof -
  have h: "registered (snd (lib_run lib (Pmap_unset NFS3_PROGRAM NFS_V3) h)) = []"
    by (rule registered_unset [OF assms]) simp
  let ?r1 = "(Udp, NFS3_PROGRAM, NFS_V3, Nfs3_program)" and ?r2 = "(Tcp, NFS3_PROGRAM, NFS_V3, Nfs3_program)"
  have "reaches (register_one lib Udp NFS3_PROGRAM NFS_V3 Nfs3_program h) () ([] @ [?r1])"
    if "registered h = []" for h
    by (rule register_one_reaches [OF that]) (simp_all add: ours_def all_services_def)
  moreover have "reaches (register_one lib Tcp NFS3_PROGRAM NFS_V3 Nfs3_program h) () ([?r1] @ [?r2])"
    if "registered h = [?r1]" for h
    by (rule register_one_reaches [OF that]) (simp_all add: ours_def all_services_def)
  ultimately show ?thesis
    using h by (auto simp: register_nfs_service_def opt_portmapper_def TRUE_def FALSE_def Let_def
        all_services_def intro!: reaches_andthen)
qed

lemma register_mount_versions_reaches:
  assumes "registered h = reg" and "ours reg"
  shows "reaches (register_mount_versions lib (Some t) h) ()
    (reg @ [(t, MOUNTPROG, MOUNTVERS1, Mountprog), (t, MOUNTPROG, MOUNTVERS3, Mountprog)])"
proof -
  let ?r1 = "(t, MOUNTPROG, MOUNTVERS1, Mountprog)" and ?r3 = "(t, MOUNTPROG, MOUNTVERS3, Mountprog)"
  have in_all: "?r1 \<in> set all_services" "?r3 \<in> set all_services"
    by (cases t; simp add: all_services_def)+
  have "reaches (register_one lib t MOUNTPROG MOUNTVERS1 Mountprog h) () (reg @ [?r1])"
    by (rule register_one_reaches [OF assms in_all(1)])
  moreover have "reaches (register_one lib t MOUNTPROG MOUNTVERS3 Mountprog h') () ((reg @ [?r1]) @ [?r3])"
    if "registered h' = reg @ [?r1]" for h'
    by (rule register_one_reaches [OF that _ in_all(2)]) (use assms(2) in_all in \<open>auto simp: ours_def\<close>)
  ultimately show ?thesis
    by (auto simp: register_mount_versions_def intro!: reaches_andthen)
qed

lemma register_mount_reaches:
  assumes "registered h = take 2 all_services"
  shows "reaches (register_mount_service lib (Some Udp) (Some Tcp) h) () all_services"
proof -
  let ?h = "snd (lib_run lib (Pmap_unset MOUNTPROG MOUNTVERS3) (snd (lib_run lib (Pmap_unset MOUNTPROG MOUNTVERS1) h)))"
  have "registered ?h = take 2 all_services"
    by (intro registered_unset assms) (simp_all add: all_services_def c_consts)
  moreover have "ours (take 2 all_services)"
    unfolding ours_def by (rule set_take_subset)
  ultimately have "reaches (register_mount_versions lib (Some Udp) ?h) () (take 4 all_services)"
    using register_mount_versions_reaches [of ?h "take 2 all_services" lib Udp]
    by (simp add: all_services_def)
  moreover have "reaches (register_mount_versions lib (Some Tcp) h') () all_services"
    if "registered h' = take 4 all_services" for h'
    using register_mount_versions_reaches [OF that, of lib Tcp] set_take_subset [of 4 all_services]
    by (simp add: ours_def all_services_def)
  ultimately show ?thesis
    by (auto simp: register_mount_service_def opt_portmapper_def TRUE_def FALSE_def Let_def
        intro!: reaches_andthen)
qed

lemma start_succeeds:
  assumes "\<And>h c. lib h c"
  shows "\<exists>h. start_up lib = Running () h"
  using assms
  by (simp add: start_up_def lib_run_def create_udp_transport_def create_tcp_transport_def
      create_transport_def register_nfs_service_def register_mount_service_def
      register_mount_versions_def register_one_def Let_def)

text \<open>
  C33: The server starts completely or not at all. Whatever calls of the RPC library, of the
  sockets and of the port mapper fail, either the start reaches the loop with exactly the six
  registrations of the two programs on both transports, or the process ends with status 1 and
  none of its registrations is left. When no call fails it reaches the loop.
\<close>

theorem start_all_or_nothing:
  "(case start_up lib of
      Running _ h \<Rightarrow> registered h = all_services
    | Exited h code \<Rightarrow> code = 1 \<and> registered h = []) \<and>
   ((\<forall>h c. lib h c) \<longrightarrow> (\<exists>h. start_up lib = Running () h))"
proof -
  have "registered (snd (lib_run lib Go_init [])) = []"
    by (cases "lib [] Go_init") (simp_all add: lib_run_def registered_def)
  then have "reaches (start_up lib) () all_services"
    unfolding start_up_def Let_def create_udp_transport_def create_tcp_transport_def
    by (rule reaches_andthen [OF create_transport_reaches])
      (simp, rule reaches_andthen [OF create_transport_reaches], assumption, simp,
        rule reaches_andthen [OF register_nfs_reaches], assumption, rule register_mount_reaches)
  then show ?thesis using start_succeeds [of lib] by (simp add: reaches_def split: proc.splits)
qed

theorem start_all_or_nothing_witness:
  "\<exists>h. start_up (\<lambda>_ _. True) = Running () h \<and> registered h = all_services"
proof -
  note start = start_all_or_nothing [of "\<lambda>_ _. True"]
  then obtain h where "start_up (\<lambda>_ _. True) = Running () h" by auto
  with start show ?thesis by simp
qed

section \<open>The loop\<close>

text \<open>
  What \<open>poll\<close> or \<open>select\<close> returns: an error with its \<open>EINTR\<close> flag, a time-out, or readiness
  of sockets, for which the library hands the waiting calls to the dispatchers. The loop goes
  on after a signal or a time-out, and returns on any other error. Here it runs over what
  happens in a finite stretch of time; the flag says whether it has returned.
\<close>

datatype poll = Poll_error bool | Poll_timeout | Poll_ready "rpc_call list"

fun unfs3_svc_run :: "'fs minfs \<Rightarrow> poll list \<Rightarrow> 'fs server \<Rightarrow> (bool \<times> outcome list \<times> 'fs server) option" where
  "unfs3_svc_run ns [] srv = Some (False, [], srv)"
| "unfs3_svc_run ns (Poll_error eintr # ps) srv =
     (if eintr then unfs3_svc_run ns ps srv else Some (True, [], srv))"
| "unfs3_svc_run ns (Poll_timeout # ps) srv = unfs3_svc_run ns ps srv"
| "unfs3_svc_run ns (Poll_ready cs # ps) srv =
     (case run_calls ns cs srv of
        None \<Rightarrow> None
      | Some (outs, srv1) \<Rightarrow>
          (case unfs3_svc_run ns ps srv1 of
             None \<Rightarrow> None
           | Some (ended, outs', srv2) \<Rightarrow> Some (ended, outs @ outs', srv2)))"

text \<open>The calls that arrive before the first hard error.\<close>

fun arriving :: "poll list \<Rightarrow> rpc_call list" where
  "arriving [] = []"
| "arriving (Poll_error eintr # ps) = (if eintr then arriving ps else [])"
| "arriving (Poll_timeout # ps) = arriving ps"
| "arriving (Poll_ready cs # ps) = cs @ arriving ps"

lemma run_calls_append:
  "run_calls ns (cs @ ds) srv =
     (case run_calls ns cs srv of
        None \<Rightarrow> None
      | Some (outs, srv1) \<Rightarrow>
          (case run_calls ns ds srv1 of None \<Rightarrow> None | Some (outs', srv2) \<Rightarrow> Some (outs @ outs', srv2)))"
  by (induction cs arbitrary: srv) (auto split: option.split)

text \<open>
  The loop as one run of calls: signals and time-outs do not disturb it, and it returns exactly
  when waiting fails for another reason than a signal. In which order the calls of one round are
  handed out is up to the library; the list of the round has them in that order.
\<close>

lemma loop_serves_in_order:
  "unfs3_svc_run ns ps srv =
     (case run_calls ns (arriving ps) srv of
        None \<Rightarrow> None
      | Some (outs, srv') \<Rightarrow> Some (Poll_error False \<in> set ps, outs, srv'))"
  by (induction ns ps srv rule: unfs3_svc_run.induct)
    (auto simp: run_calls_append split: option.split)

end
