(* ===== verification/Cmdline.thy ===== *)
theory Cmdline
  imports Startup
begin

text \<open>
  The command line, \<open>unfs2go.go\<close>: which backend the arguments ask for, and what becomes of it.
  The packages of the backends are not part of the repository: their \<open>New\<close> functions and
  \<open>Close\<close> are parameters, on a state of their own. A panic, which an index out of range is, is
  the result \<^const>\<open>None\<close>.
\<close>

section \<open>Strings\<close>

text \<open>\<open>strings.Split\<close> at a character, \<open>strings.Index\<close> of one, indexing and slicing.\<close>

fun split_at :: "char \<Rightarrow> string \<Rightarrow> string list" where
  "split_at sep [] = [[]]"
| "split_at sep (c # cs) =
     (if c = sep then [] # split_at sep cs
      else (case split_at sep cs of [] \<Rightarrow> [[c]] | x # xs \<Rightarrow> (c # x) # xs))"

lemma split_at_none [simp]: "sep \<notin> set x \<Longrightarrow> split_at sep x = [x]"
  by (induction x) auto

lemma split_at_append [simp]:
  "sep \<notin> set x \<Longrightarrow> split_at sep (x @ sep # s) = x # split_at sep s"
  by (induction x) auto

definition strings_Index :: "string \<Rightarrow> char \<Rightarrow> int" where
  "strings_Index s c = (if c \<in> set s then int (length (takeWhile (\<lambda>d. d \<noteq> c) s)) else - 1)"

lemma strings_Index_append: "c \<notin> set x \<Longrightarrow> strings_Index (x @ c # s) c = int (length x)"
  by (induction x) (auto simp: strings_Index_def)

definition at_index :: "'a list \<Rightarrow> nat \<Rightarrow> 'a option" where
  "at_index xs i = (if i < length xs then Some (xs ! i) else None)"

definition slice_to :: "'a list \<Rightarrow> int \<Rightarrow> 'a list option" where
  "slice_to xs i = (if 0 \<le> i \<and> i \<le> int (length xs) then Some (take (nat i) xs) else None)"

definition slice_from :: "'a list \<Rightarrow> int \<Rightarrow> 'a list option" where
  "slice_from xs i = (if 0 \<le> i \<and> i \<le> int (length xs) then Some (drop (nat i) xs) else None)"

section \<open>Numbers\<close>

datatype cmd_error = Unknown_argument string | Bad_number string | Backend_error string

definition is_digit :: "char \<Rightarrow> bool" where
  "is_digit c \<longleftrightarrow> 48 \<le> (of_char c :: nat) \<and> (of_char c :: nat) \<le> 57"

text \<open>\<open>strconv.Atoi\<close> with an \<open>int\<close> of 64 bits.\<close>

definition Atoi :: "string \<Rightarrow> cmd_error + int" where
  "Atoi s =
     (let (neg, ds) =
        (case s of
           [] \<Rightarrow> (False, [])
         | c # cs \<Rightarrow> if c = CHR ''-'' then (True, cs) else if c = CHR ''+'' then (False, cs) else (False, s));
          n = (if neg then - int (undec ds) else int (undec ds))
      in if ds = [] \<or> \<not> list_all is_digit ds then Inl (Bad_number s)
         else if n < - (2 ^ 63) \<or> 2 ^ 63 \<le> n then Inl (Bad_number s)
         else Inr n)"

lemma dec_nonempty [simp]: "dec n \<noteq> []"
  by (subst dec.simps) simp

lemma Atoi_dec: "n < 2 ^ 63 \<Longrightarrow> Atoi (dec n) = Inr (int n)"
proof -
  assume n: "n < 2 ^ 63"
  have digits: "list_all is_digit (dec n)" by (simp add: list_all_iff is_digit_def dec_digits)
  obtain c cs where s: "dec n = c # cs" by (cases "dec n") auto
  then have "is_digit c" using digits by simp
  then have "c \<noteq> CHR ''-''" "c \<noteq> CHR ''+''" by (auto simp: is_digit_def)
  then show ?thesis
    using digits n undec_dec [of n] unfolding Atoi_def s by simp
qed

section \<open>Backends\<close>

record ('st, 'b) openers =
  zipfs_New :: "string \<Rightarrow> 'st \<Rightarrow> 'st \<times> (cmd_error + 'b)"
  osfs_New :: "string \<Rightarrow> 'st \<Rightarrow> 'st \<times> (cmd_error + 'b)"
  sftpfs_New :: "string \<Rightarrow> string \<Rightarrow> string \<Rightarrow> string \<Rightarrow> int \<Rightarrow> 'st \<Rightarrow> 'st \<times> (cmd_error + 'b)"
  shimfs_New :: "string \<Rightarrow> int \<Rightarrow> 'b \<Rightarrow> 'st \<Rightarrow> 'st \<times> (cmd_error + 'b)"
  minfs_Close :: "'b \<Rightarrow> 'st \<Rightarrow> 'st"

type_synonym ('st, 'b) opened = "('st \<times> (cmd_error + 'b)) option"

definition osfsPrep :: "('st, 'b) openers \<Rightarrow> string list \<Rightarrow> 'st \<Rightarrow> ('st, 'b) opened" where
  "osfsPrep ops args st = map_option (\<lambda>a. osfs_New ops a st) (at_index args 0)"

definition zipfsPrep :: "('st, 'b) openers \<Rightarrow> string list \<Rightarrow> 'st \<Rightarrow> ('st, 'b) opened" where
  "zipfsPrep ops args st = map_option (\<lambda>a. zipfs_New ops a st) (at_index args 0)"

definition sftpfsPrep :: "('st, 'b) openers \<Rightarrow> string list \<Rightarrow> 'st \<Rightarrow> ('st, 'b) opened" where
  "sftpfsPrep ops args st = do {
     config \<leftarrow> at_index args 0;
     let tSA = split_at (CHR ''@'') config;
     tSA0 \<leftarrow> at_index tSA 0;
     let auth = split_at (CHR '':'') tSA0;
     tSA1 \<leftarrow> at_index tSA 1;
     let server = split_at (CHR '':'') tSA1;
     rest \<leftarrow> at_index server 1;
     let split = strings_Index rest (CHR ''/'');
     digits \<leftarrow> slice_to rest split;
     case Atoi digits of
       Inl err \<Rightarrow> Some (st, Inl err)
     | Inr port \<Rightarrow> do {
         user \<leftarrow> at_index auth 0;
         password \<leftarrow> at_index auth 1;
         host \<leftarrow> at_index server 0;
         root \<leftarrow> slice_from rest split;
         Some (sftpfs_New ops user password host root port st) } }"

text \<open>
  \<open>parseArgs\<close> and \<open>shimfsPrep\<close> call each other, on fewer and fewer arguments: \<open>shimfsPrep\<close> is given
  the function that it calls, which is \<open>parseArgs\<close>, and the congruence rule says that it only
  calls it on a shorter list. The size of the cache is computed as a 64-bit \<open>int\<close>, which wraps
  around.
\<close>

definition shimfsPrep :: "('st, 'b) openers \<Rightarrow> (string list \<Rightarrow> 'st \<Rightarrow> ('st, 'b) opened) \<Rightarrow>
    string list \<Rightarrow> 'st \<Rightarrow> ('st, 'b) opened" where
  "shimfsPrep ops parse args st =
     (case args of
        tempFolder # size_arg # rest \<Rightarrow>
          (case Atoi size_arg of
             Inl err \<Rightarrow> Some (st, Inl err)
           | Inr cacheSize \<Rightarrow>
               (case parse rest st of
                  None \<Rightarrow> None
                | Some (st1, Inl err) \<Rightarrow> Some (st1, Inl err)
                | Some (st1, Inr sub) \<Rightarrow>
                    (case shimfs_New ops tempFolder
                        (sint (word_of_int (cacheSize * 1024 * 1024) :: u64)) sub st1 of
                       (st2, Inl err) \<Rightarrow> Some (minfs_Close ops sub st2, Inl err)
                     | (st2, Inr retval) \<Rightarrow> Some (st2, Inr retval))))
      | _ \<Rightarrow> None)"

lemma shimfsPrep_cong [fundef_cong]:
  assumes "ops = ops'" and "args = args'" and "st = st'"
    and "\<And>rest st. length rest < length args' \<Longrightarrow> parse rest st = parse' rest st"
  shows "shimfsPrep ops parse args st = shimfsPrep ops' parse' args' st'"
  using assms by (auto simp: shimfsPrep_def split: list.split sum.split)

function parseArgs :: "('st, 'b) openers \<Rightarrow> string list \<Rightarrow> 'st \<Rightarrow> ('st, 'b) opened" where
  "parseArgs ops args st =
     (case args of
        [] \<Rightarrow> None
      | arg # rest \<Rightarrow>
          if arg = ''-zip'' then zipfsPrep ops rest st
          else if arg = ''-os'' then osfsPrep ops rest st
          else if arg = ''-shim'' then shimfsPrep ops (\<lambda>rest st. parseArgs ops rest st) rest st
          else if arg = ''-sftp'' then sftpfsPrep ops rest st
          else Some (st, Inl (Unknown_argument arg)))"
  by pat_completeness auto

termination
  by (relation "measure (\<lambda>(_, args, _). length args)") auto

declare parseArgs.simps [simp del]

section \<open>main\<close>

text \<open>\<open>shutDown\<close> closes the backend; the process ends with status 1.\<close>

definition shutDown :: "('st, 'b) openers \<Rightarrow> 'b \<Rightarrow> 'st \<Rightarrow> 'st \<times> int" where
  "shutDown ops ns st = (minfs_Close ops ns st, 1)"

datatype 'b main_run = Panicked | Refused cmd_error | Serving 'b "unit proc"

definition main :: "('st, 'b) openers \<Rightarrow> library \<Rightarrow> string list \<Rightarrow> 'st \<Rightarrow> 'b main_run" where
  "main ops lib args st =
     (case parseArgs ops args st of
        None \<Rightarrow> Panicked
      | Some (_, Inl err) \<Rightarrow> Refused err
      | Some (_, Inr tfs) \<Rightarrow> Serving tfs (start_up lib))"

section \<open>The configuration of a server\<close>

text \<open>
  C39: The documented form of an SFTP argument is read as it is meant. From
  \<open>user:password@host:port/path\<close> the server is opened with exactly these five parts, when the
  user, the password, the host and the path have none of the separators in them.
\<close>

theorem sftp_config_round_trip:
  assumes "CHR ''@'' \<notin> set (user @ password @ host @ path)" and "CHR '':'' \<notin> set (user @ password @ host @ path)"
    and "port < 2 ^ 63"
  shows "parseArgs ops [''-sftp'', user @ '':'' @ password @ ''@'' @ host @ '':'' @ dec port @ ''/'' @ path] st =
    Some (sftpfs_New ops user password host (''/'' @ path) (int port) st)"
proof -
  have "is_digit c" if "c \<in> set (dec port)" for c using that by (simp add: is_digit_def dec_digits)
  then have d: "CHR ''@'' \<notin> set (dec port)" "CHR '':'' \<notin> set (dec port)" "CHR ''/'' \<notin> set (dec port)"
    by (force simp: is_digit_def)+
  let ?rest = "dec port @ CHR ''/'' # path"
  have "split_at (CHR ''@'') (user @ CHR '':'' # password @ CHR ''@'' # host @ CHR '':'' # ?rest) =
      [user @ CHR '':'' # password, host @ CHR '':'' # ?rest]"
    using split_at_append [of "CHR ''@''" "user @ CHR '':'' # password" "host @ CHR '':'' # ?rest"]
      split_at_none [of "CHR ''@''" "host @ CHR '':'' # ?rest"] assms(1) d
    by simp
  moreover have "split_at (CHR '':'') ?rest = [?rest]" using assms(2) d by (intro split_at_none) simp
  ultimately show ?thesis
    using assms d
    by (simp add: parseArgs.simps sftpfsPrep_def at_index_def slice_to_def slice_from_def
        strings_Index_append Atoi_dec Let_def)
qed

definition demo_openers :: "(unit, string \<times> int) openers" where
  "demo_openers = \<lparr>
     zipfs_New = (\<lambda>p st. (st, Inr (p, 1))),
     osfs_New = (\<lambda>p st. (st, Inr (p, 2))),
     sftpfs_New = (\<lambda>user password host root port st. (st, Inr (user @ ''|'' @ password @ ''|'' @ host @ root, port))),
     shimfs_New = (\<lambda>t size sub st. (st, Inl (Backend_error ''shim''))),
     minfs_Close = (\<lambda>b st. st)\<rparr>"

theorem sftp_config_round_trip_witness:
  "parseArgs demo_openers [''-sftp'', ''me:pw@example.com:22/srv''] () =
    Some ((), Inr (''me|pw|example.com/srv'', 22))"
proof -
  have "dec 22 = ''22''" by code_simp
  then show ?thesis
    using sftp_config_round_trip [of "''me''" "''pw''" "''example.com''" "''srv''" 22 demo_openers "()"]
    by (simp add: demo_openers_def)
qed

section \<open>No backend stays open\<close>

text \<open>
  Any openers with a ledger of the backends that are open and that the program has to close. A
  shim takes over the backend it is made of, and closes it when it is closed.
\<close>

definition enter :: "'b list \<Rightarrow> 'st \<times> (cmd_error + 'b) \<Rightarrow> ('st \<times> 'b list) \<times> (cmd_error + 'b)" where
  "enter held r = (case r of
     (st, Inl err) \<Rightarrow> ((st, held), Inl err) | (st, Inr b) \<Rightarrow> ((st, b # held), Inr b))"

definition enter_over :: "'b \<Rightarrow> 'b list \<Rightarrow> 'st \<times> (cmd_error + 'b) \<Rightarrow> ('st \<times> 'b list) \<times> (cmd_error + 'b)" where
  "enter_over sub held r = (case r of
     (st, Inl err) \<Rightarrow> ((st, held), Inl err) | (st, Inr b) \<Rightarrow> ((st, b # remove1 sub held), Inr b))"

definition ledger :: "('st, 'b) openers \<Rightarrow> ('st \<times> 'b list, 'b) openers" where
  "ledger ops = \<lparr>
     zipfs_New = (\<lambda>p (st, held). enter held (zipfs_New ops p st)),
     osfs_New = (\<lambda>p (st, held). enter held (osfs_New ops p st)),
     sftpfs_New = (\<lambda>u pw h r port (st, held). enter held (sftpfs_New ops u pw h r port st)),
     shimfs_New = (\<lambda>t size sub (st, held). enter_over sub held (shimfs_New ops t size sub st)),
     minfs_Close = (\<lambda>b (st, held). (minfs_Close ops b st, remove1 b held))\<rparr>"

definition settled :: "'b list \<Rightarrow> ('st \<times> 'b list, 'b) opened \<Rightarrow> bool" where
  "settled held res \<longleftrightarrow> (case res of
     None \<Rightarrow> True
   | Some ((_, now), Inl _) \<Rightarrow> now = held
   | Some ((_, now), Inr b) \<Rightarrow> now = b # held)"

lemma settled_None [simp]: "settled held None"
  by (simp add: settled_def)

lemma settled_error [simp]: "settled held (Some ((st, held), Inl err))"
  by (simp add: settled_def)

lemma settled_enter [simp]: "settled held (Some (enter held r))"
  by (auto simp: settled_def enter_def split: prod.split sum.split)

lemma settled_map_option: "(\<And>a. settled held (Some (f a))) \<Longrightarrow> settled held (map_option f x)"
  by (cases x) simp_all

lemma settled_bind: "(\<And>a. settled held (f a)) \<Longrightarrow> settled held (x \<bind> f)"
  by (cases x) simp_all

lemma settled_preps:
  "settled held (zipfsPrep (ledger ops) args (st, held))"
  "settled held (osfsPrep (ledger ops) args (st, held))"
  "settled held (sftpfsPrep (ledger ops) args (st, held))"
  by (auto simp: zipfsPrep_def osfsPrep_def sftpfsPrep_def ledger_def Let_def
      intro!: settled_map_option settled_bind split: sum.split)

lemma settled_shim:
  assumes "\<And>rest st. length rest < length args \<Longrightarrow> settled held (parse rest (st, held))"
  shows "settled held (shimfsPrep (ledger ops) parse args (st, held))"
proof (cases "\<exists>t size rest n. args = t # size # rest \<and> Atoi size = Inr n")
  case True
  then obtain t size rest n where a: "args = t # size # rest" "Atoi size = Inr n" by blast
  with assms [of rest st] have "settled held (parse rest (st, held))" by simp
  then show ?thesis
    by (auto simp: a shimfsPrep_def settled_def ledger_def enter_over_def
        split: sum.splits option.splits prod.splits)
next
  case False
  then show ?thesis by (auto simp: shimfsPrep_def split: list.split sum.split)
qed

lemma settled_args: "settled held (parseArgs (ledger ops) args (st, held))"
proof (induction args arbitrary: st rule: length_induct)
  case (1 args)
  then show ?case
    by (subst parseArgs.simps) (auto simp: settled_preps intro!: settled_shim split: list.split)
qed

text \<open>
  C40: A start that fails leaves no backend open. Whatever the arguments are and whichever of the
  backends fail to open, when \<open>parseArgs\<close> returns an error everything that it opened on the way
  is closed again; when it returns a backend, that one is all there is to close, and \<open>shutDown\<close>
  closes it.
\<close>

theorem failed_start_closes:
  assumes "parseArgs (ledger ops) args (st, []) = Some ((st', held), res)"
  shows "case res of
      Inl err \<Rightarrow> held = []
    | Inr b \<Rightarrow> held = [b] \<and> snd (fst (shutDown (ledger ops) b (st', held))) = []"
  using settled_args [of "[]" ops args st] assms
  by (simp add: settled_def shutDown_def ledger_def split: sum.splits)

theorem failed_start_closes_witness:
  "parseArgs (ledger demo_openers) [''-shim'', ''/tmp'', ''100'', ''-os'', ''/srv''] ((), []) =
    Some (((), []), Inl (Backend_error ''shim''))"
proof -
  have "Atoi ''100'' = Inr 100" by code_simp
  then have run: "parseArgs (ledger demo_openers) [''-shim'', ''/tmp'', ''100'', ''-os'', ''/srv''] ((), []) =
      Some (((), held), Inl (Backend_error ''shim''))" if "held = []" for held
    using that by (simp add: parseArgs.simps shimfsPrep_def osfsPrep_def at_index_def ledger_def demo_openers_def
        enter_def enter_over_def)
  show ?thesis using run [OF refl] failed_start_closes [OF run [OF refl]] by simp
qed

end
