(* ===== verification/Mem_Fs.thy ===== *)
theory Mem_Fs
  imports Contract "HOL-Library.AList"
begin

text \<open>
  A small file system in memory and an environment, as concrete values for the parameters of
  the model. They stand for no code of the repository; the witnesses of the theorems run on
  them.
\<close>

datatype mem_node = Mem_dir | Mem_file "byte list"

type_synonym memfs = "(string \<times> mem_node) list"

definition base_name :: "string \<Rightarrow> string" where
  "base_name p = rev (takeWhile (\<lambda>c. c \<noteq> CHR ''/'') (rev p))"

definition dir_name :: "string \<Rightarrow> string" where
  "dir_name p = (let d = rev (drop 1 (dropWhile (\<lambda>c. c \<noteq> CHR ''/'') (rev p)))
     in if d = [] then ''/'' else d)"

fun mem_info :: "string \<times> mem_node \<Rightarrow> FileInfo" where
  "mem_info (p, Mem_dir) =
     \<lparr>fi_Name = base_name p, fi_Size = 0, fi_Mode = 0x1ED, fi_ModTime = 5, fi_IsDir = True\<rparr>"
| "mem_info (p, Mem_file bs) =
     \<lparr>fi_Name = base_name p, fi_Size = int (length bs), fi_Mode = 0x1A4, fi_ModTime = 5, fi_IsDir = False\<rparr>"

definition mem_fs :: "memfs minfs" where
  "mem_fs = \<lparr>
     fs_ReadFile = (\<lambda>s p b off. case map_of s p of
         Some (Mem_file bs) \<Rightarrow>
           (let data = take (length b) (drop (nat off) bs)
            in (s, data @ drop (length data) b, int (length data),
                if length data < length b then Some (OtherErr ''EOF'') else None))
       | Some Mem_dir \<Rightarrow> (s, b, 0, Some ErrInvalid)
       | None \<Rightarrow> (s, b, 0, Some ErrNotExist)),
     fs_WriteFile = (\<lambda>s p b off. case map_of s p of
         Some (Mem_file bs) \<Rightarrow>
           (AList.update p (Mem_file (take (nat off) (bs @ replicate (nat off - length bs) 0) @ b @ drop (nat off + length b) bs)) s,
            int (length b), None)
       | Some Mem_dir \<Rightarrow> (s, 0, Some ErrInvalid)
       | None \<Rightarrow> (s, 0, Some ErrNotExist)),
     fs_CreateFile = (\<lambda>s p. if map_of s p = None then (s @ [(p, Mem_file [])], None)
       else (s, Some ErrExist)),
     fs_CreateDirectory = (\<lambda>s p. if map_of s p = None then (s @ [(p, Mem_dir)], None)
       else (s, Some ErrExist)),
     fs_Move = (\<lambda>s p q. case map_of s p of
         None \<Rightarrow> (s, Some ErrNotExist)
       | Some nd \<Rightarrow> (AList.update q nd (AList.delete p s), None)),
     fs_ReadDirectory = (\<lambda>s p. if map_of s p = Some Mem_dir
       then (s, Inr (filter (\<lambda>fi. length (fi_Name fi) < 256)
         (map mem_info (filter (\<lambda>(q, _). q \<noteq> ''/'' \<and> dir_name q = p) s))))
       else (s, Inl ErrNotExist)),
     fs_Remove = (\<lambda>s p. if map_of s p = None then (s, Some ErrNotExist) else (AList.delete p s, None)),
     fs_SetAttribute = (\<lambda>s p a. if map_of s p = None then (s, Some ErrNotExist) else (s, None)),
     fs_Stat = (\<lambda>s p. case map_of s p of
         None \<Rightarrow> (s, Inl ErrNotExist) | Some nd \<Rightarrow> (s, Inr (mem_info (p, nd))))\<rparr>"

lemma mem_fs_ok: "minfs_ok mem_fs"
  by (auto simp: minfs_ok_def mem_fs_def c_consts Let_def split: option.splits mem_node.splits if_splits)

text \<open>A root directory with a file \<open>a\<close> and a directory \<open>d\<close>.\<close>

definition mem_tree :: memfs where
  "mem_tree = [(''/'', Mem_dir), (''/a'', Mem_file [1, 2, 3]), (''/d'', Mem_dir), (''/d/b'', Mem_file [])]"

text \<open>
  An environment: the clock stands at 7, the stack is cleared, maps are walked as \<open>walk\<close> says, addresses are taken one after the other.
\<close>

definition env_with :: "((string \<rightharpoonup> int) \<Rightarrow> string list) \<Rightarrow> env" where
  "env_with walk = \<lparr>
     e_time = (\<lambda>_. 7),
     e_walk = (\<lambda>_. walk),
     e_after_fh = (\<lambda>_. 0),
     e_un_stat = (\<lambda>_. \<lparr>st_dev = 0, st_ino = 0, st_mode = 0, st_nlink = 0, st_uid = 0, st_gid = 0,
       st_rdev = 0, st_size = 0, st_blksize = 0, st_blocks = 0, st_atime = 0, st_mtime = 0, st_ctime = 0\<rparr>),
     e_un_sattr = (\<lambda>_. default),
     e_un_path = (\<lambda>_. ''''),
     e_un_pre = (\<lambda>_. default),
     e_un_post = (\<lambda>_. default),
     e_un_fh = (\<lambda>_. default),
     e_un_readdir = (\<lambda>_. default),
     e_malloc = (\<lambda>n used. if used n then None else Some n),
     e_malloc_str = (\<lambda>_. True)\<rparr>"

definition plain_env :: env where
  "plain_env = env_with sorted_walk"

lemma plain_env_ok: "env_ok plain_env"
  by (auto simp: env_ok_def plain_env_def env_with_def range_order_sorted_walk split: if_splits)

definition mem_world :: "memfs world" where
  "mem_world = \<lparr>w_fs = mem_tree, w_fddb = init_fdCache, w_env = plain_env, w_step = 0\<rparr>"

lemma mem_world_sel [simp]:
  "w_fs mem_world = mem_tree" "w_fddb mem_world = init_fdCache" "w_env mem_world = plain_env"
  "w_step mem_world = 0"
  by (simp_all add: mem_world_def)

lemma mem_Stat [simp]:
  "fs_Stat mem_fs s p = (s, case map_of s p of None \<Rightarrow> Inl ErrNotExist | Some nd \<Rightarrow> Inr (mem_info (p, nd)))"
  by (simp add: mem_fs_def split: option.split)

lemma mem_calls [simp]:
  "fs_CreateFile mem_fs s p = (if map_of s p = None then (s @ [(p, Mem_file [])], None) else (s, Some ErrExist))"
  "fs_CreateDirectory mem_fs s p = (if map_of s p = None then (s @ [(p, Mem_dir)], None) else (s, Some ErrExist))"
  "fs_SetAttribute mem_fs s p a = (if map_of s p = None then (s, Some ErrNotExist) else (s, None))"
  by (simp_all add: mem_fs_def)

lemma mem_tree_sel [simp]:
  "map_of mem_tree ''/'' = Some Mem_dir" "map_of mem_tree ''/a'' = Some (Mem_file [1, 2, 3])"
  "map_of mem_tree ''/d'' = Some Mem_dir" "map_of mem_tree ''/d/b'' = Some (Mem_file [])"
  "map_of mem_tree ''/x'' = None"
  by (simp_all add: mem_tree_def)

lemma FDcounter_init [simp]: "FDcounter init_fdCache = 100"
  by (simp add: init_fdCache_def)

end
