(* ===== verification/Objects.thy ===== *)
theory Objects
  imports Replies Mem_Fs
begin

text \<open>
  What the procedures do to the objects that clients name: a handle for a directory and a name
  in it. Paths are lists of names here, \<^const>\<open>abs_path\<close> of which is the cleaned path that the
  backend gets.
\<close>

section \<open>One stat call\<close>

lemma run_go_lstat:
  "run_state (go_lstat ns path buf) w =
    (case fs_Stat ns (w_fs w) (go_path path) of
       (s', Inl e) \<Rightarrow> ((errno (Some e), buf), w\<lparr>w_fs := s'\<rparr>)
     | (s', Inr fi) \<Rightarrow>
         ((NFS3_OK, statTranslator fi (snd (GetFD (w_fddb w) (go_path path)))
             (e_time (w_env w) (w_step w)) buf),
          w\<lparr>w_fs := s', w_fddb := fst (GetFD (w_fddb w) (go_path path)), w_step := Suc (w_step w)\<rparr>))"
  by (simp add: go_lstat_def run_act Let_def split: prod.split sum.split)

lemma GetFD_range:
  assumes "fd_strict t" and "GetFD t p = (t', fd)"
  shows "100 < fd" and "fd \<le> FDcounter t + 1" and "fd_strict t'"
proof -
  show "fd_strict t'" using GetFD_strict [OF assms(1), of p] assms(2) by simp
  have "100 < fd \<and> fd \<le> FDcounter t + 1"
  proof (cases "PathMapA t p")
    case None
    then show ?thesis
      using assms by (auto simp: GetFD_def Let_def fd_strict_def fd_inv_def)
  next
    case (Some i)
    then show ?thesis using assms(2) fd_strict_A [OF assms(1) Some] by (auto simp: GetFD_def)
  qed
  then show "100 < fd" and "fd \<le> FDcounter t + 1" by auto
qed

text \<open>The handle that a reply carries for a path leads back to it.\<close>

lemma new_handle_resolves:
  assumes "fd_strict t" and "FDcounter t < 2 ^ 31 - 1" and "GetFD t p = (t', fd)"
  shows "fh_path t' (handle_of fd b) = Some p"
  using GetFD_range [OF assms(1,3)] GetFD_resolves [OF assms(1,3)] assms(2) by simp

lemma st_ino_statTranslator [simp]: "st_ino (statTranslator fi fd now buf) = word_of_int fd"
  by (simp add: statTranslator_def)

lemma handle_of_fold: "\<lparr>nfs_fh3_data = \<lparr>counted_len = 10,
    counted_val = fh_bytes \<lparr>fh_ino = word_of_int fd, fh_len = 1\<rparr> @ [b]\<rparr>\<rparr> = handle_of fd b"
  by (simp add: handle_of_def)

section \<open>Names in directories\<close>

lemma cat_name_good:
  assumes "good_name n" and "length p + length n + 2 \<le> 1024"
  shows "cat_name (Some p) (Some n) un = (NFS3_OK, p @ ''/'' @ n)"
  using assms by (simp add: cat_name_def good_name_def c_consts)

lemma go_path_abs: "list_all good_name cs \<Longrightarrow> go_path (Some (abs_path cs)) = abs_path cs"
  by (rule go_path_id) (auto simp: clean_path_def)

lemma go_path_child:
  assumes "list_all good_name cs" and "good_name n"
  shows "go_path (Some (abs_path cs @ CHR ''/'' # n)) = abs_path (cs @ [n])"
proof -
  have "go_path (Some (abs_path cs @ CHR ''/'' # n)) = path_Clean (abs_path cs @ CHR ''/'' # n)"
    by (simp add: go_path_def GoString_def abs_path_def path_Clean_slash_slash)
  then show ?thesis using path_Clean_child_good [OF assms] by simp
qed

text \<open>What a name in a directory means to the handlers that take one.\<close>

definition names_child :: "fdCache \<Rightarrow> diropargs3 \<Rightarrow> string list \<Rightarrow> string \<Rightarrow> bool" where
  "names_child t what cs n \<longleftrightarrow> list_all good_name cs \<and> good_name n \<and>
     fh_path t (diropargs3_dir what) = Some (abs_path cs) \<and> diropargs3_name what = Some n \<and>
     length (abs_path cs) + length n + 2 \<le> 1024"

lemma names_child_cat:
  assumes "names_child t what cs n"
  shows "fh_path t (diropargs3_dir what) = Some (abs_path cs)"
    and "cat_name (Some (abs_path cs)) (diropargs3_name what) un =
      (NFS3_OK, abs_path cs @ CHR ''/'' # n)"
    and "go_path (Some (abs_path cs @ CHR ''/'' # n)) = abs_path (cs @ [n])"
    and "go_path (Some (abs_path cs)) = abs_path cs"
  using assms cat_name_good [of n "abs_path cs" un]
  by (simp_all add: names_child_def go_path_child go_path_abs)

section \<open>Objects as the backend has them\<close>

text \<open>
  Where a statement assumes \<open>pure_stat\<close>, the questions of the server do not change the
  backend; what a procedure does to it is then a function of the path alone.
\<close>

definition pure_stat :: "'fs minfs \<Rightarrow> bool" where
  "pure_stat ns \<longleftrightarrow> (\<forall>s p. fst (fs_Stat ns s p) = s)"

lemma pure_statD: "pure_stat ns \<Longrightarrow> fs_Stat ns s p = (s, snd (fs_Stat ns s p))"
  by (simp add: pure_stat_def prod_eq_iff)

lemma pure_stat_same: "fs_Stat ns s p = (s', r) \<Longrightarrow> pure_stat ns \<Longrightarrow> s' = s"
  by (metis pure_stat_def fst_conv)

lemma pure_stat_mem: "pure_stat mem_fs"
  by (simp add: pure_stat_def)

lemma go_lstat_fs:
  "pure_stat ns \<Longrightarrow> run_state (go_lstat ns path buf) w = (r, w') \<Longrightarrow>
   w_fs w' = w_fs w \<and> w_env w' = w_env w \<and>
   (w_fddb w' = w_fddb w \<or> w_fddb w' = fst (GetFD (w_fddb w) (go_path path)))"
  by (auto simp: run_go_lstat split: prod.splits sum.splits dest: pure_stat_same)

lemma get_post_fs:
  "pure_stat ns \<Longrightarrow> run_state (get_post ns path) w = (r, w') \<Longrightarrow>
   w_fs w' = w_fs w \<and> w_env w' = w_env w \<and>
   (w_fddb w' = w_fddb w \<or> w_fddb w' = fst (GetFD (w_fddb w) (go_path path)))"
  by (auto simp: get_post_def run_act run_go_lstat split: prod.splits sum.splits if_splits
      dest: pure_stat_same)

lemma get_pre_fs:
  "pure_stat ns \<Longrightarrow> run_state (get_pre ns path) w = (r, w') \<Longrightarrow>
   w_fs w' = w_fs w \<and> w_env w' = w_env w \<and>
   (w_fddb w' = w_fddb w \<or> w_fddb w' = fst (GetFD (w_fddb w) (go_path path)))"
  by (auto simp: get_pre_def run_act run_go_lstat split: prod.splits sum.splits if_splits
      dest: pure_stat_same)

section \<open>LOOKUP\<close>

lemma post_fields:
  assumes "go_mode fi"
  shows "fattr3_type (post_op_attr_attributes (get_post_buf (statTranslator fi fd now buf))) =
      (if fi_IsDir fi then NF3DIR else NF3REG)"
    and "fattr3_size (post_op_attr_attributes (get_post_buf (statTranslator fi fd now buf))) =
      word_of_int (fi_Size fi)"
    and "fattr3_fileid (post_op_attr_attributes (get_post_buf (statTranslator fi fd now buf))) =
      word_of_int fd"
  using post_type [OF assms] by (simp_all add: get_post_buf_def statTranslator_def Let_def)

lemma low_16_bits: "scast (ucast (m :: u32) :: u16) AND 0xFFFF = m AND (0xFFFF :: u32)"
proof (rule bit_word_eqI)
  fix n assume "n < LENGTH(32)"
  have "bit (0xFFFF :: u32) n \<longleftrightarrow> n < 16"
    using bit_mask_iff [where 'a = "32 word", of 16 n] \<open>n < LENGTH(32)\<close> by (simp add: mask_eq_exp_minus_1)
  then show "bit (scast (ucast m :: u16) AND 0xFFFF :: u32) n = bit (m AND 0xFFFF) n"
    by (auto simp: bit_simps)
qed

text \<open>The permission bits are those of the backend; above them is the type of the object.\<close>

lemma post_mode:
  assumes "go_mode fi"
  shows "fattr3_mode (post_op_attr_attributes (get_post_buf (statTranslator fi fd now buf))) =
    (fi_Mode fi AND 0x1FF) OR (if fi_IsDir fi then S_IFDIR else S_IFREG)"
proof -
  have "fi_Mode fi AND 0xFFFF = (fi_Mode fi AND 0xFE00) OR (fi_Mode fi AND 0x1FF)"
    unfolding bit.conj_disj_distrib [symmetric] by simp
  then have "fi_Mode fi AND 0xFFFF = fi_Mode fi AND 0x1FF" using assms by (simp add: go_mode_def)
  then show ?thesis
    by (simp add: get_post_buf_def statTranslator_def Let_def adapt_mode_def opt_readable_executables_def
        low_16_bits bit.conj_disj_distrib2) (simp add: c_consts)
qed

lemma lookup_resolves:
  assumes tab: "fd_strict (w_fddb w)" "FDcounter (w_fddb w) < 2 ^ 31 - 1"
    and what: "names_child (w_fddb w) (LOOKUP3args_what args) cs n"
    and stat: "snd (fs_Stat ns (w_fs w) (abs_path (cs @ [n]))) = Inr fi"
    and run: "run_state (nfsproc3_lookup_3_svc ns args result) w = (res, w')"
  shows "LOOKUP3res_status res = NFS3_OK \<and>
    (\<exists>fd b. LOOKUP3resok_object (LOOKUP3res_u res) = handle_of fd b \<and>
      fh_path (w_fddb w') (handle_of fd b) = Some (abs_path (cs @ [n])) \<and>
      LOOKUP3resok_obj_attributes (LOOKUP3res_u res) =
        get_post_buf (statTranslator fi fd (e_time (w_env w) (w_step w + 2)) (e_un_stat (w_env w) (w_step w + 1))))"
proof -
  note c = names_child_cat [OF what]
  obtain t fd where fd: "GetFD (w_fddb w) (abs_path (cs @ [n])) = (t, fd)" by fastforce
  note h = new_handle_resolves [OF tab fd] and inv = GetFD_range(3) [OF tab(1) fd]
  show ?thesis
    using run stat fd h fh_path_keeps [OF fd_strict_inv [OF inv] h]
    by (auto simp: nfsproc3_lookup_3_svc_def run_act c Let_def run_go_lstat get_post_def
        handle_of_fold split: prod.splits sum.splits intro!: exI [of _ fd])
qed

text \<open>
  C20: LOOKUP finds a name in a directory. When the table of identifiers is intact, the handle
  stands for the directory \<open>cs\<close>, the name is a proper one and the backend knows the object,
  the reply is OK; its handle stands for the path of the name in that directory, and its
  attributes are those of the object: its type and size, and the number in the handle as file
  id.
\<close>

theorem lookup_finds_child:
  assumes tab: "fd_strict (w_fddb w)" "FDcounter (w_fddb w) < 2 ^ 31 - 1"
    and what: "names_child (w_fddb w) (LOOKUP3args_what args) cs n"
    and stat: "snd (fs_Stat ns (w_fs w) (abs_path (cs @ [n]))) = Inr fi" and mode: "go_mode fi"
    and run: "run_state (nfsproc3_lookup_3_svc ns args result) w = (res, w')"
  shows "LOOKUP3res_status res = NFS3_OK \<and>
    (\<exists>fd b. LOOKUP3resok_object (LOOKUP3res_u res) = handle_of fd b \<and>
      fh_path (w_fddb w') (handle_of fd b) = Some (abs_path (cs @ [n])) \<and>
      (let attr = post_op_attr_attributes (LOOKUP3resok_obj_attributes (LOOKUP3res_u res)) in
        fattr3_fileid attr = word_of_int fd \<and> fattr3_size attr = word_of_int (fi_Size fi) \<and>
        fattr3_type attr = (if fi_IsDir fi then NF3DIR else NF3REG)))"
proof -
  obtain fd b where "LOOKUP3res_status res = NFS3_OK"
    "LOOKUP3resok_object (LOOKUP3res_u res) = handle_of fd b"
    "fh_path (w_fddb w') (handle_of fd b) = Some (abs_path (cs @ [n]))"
    "LOOKUP3resok_obj_attributes (LOOKUP3res_u res) = get_post_buf
       (statTranslator fi fd (e_time (w_env w) (w_step w + 2)) (e_un_stat (w_env w) (w_step w + 1)))"
    using lookup_resolves [OF tab what stat run] by blast
  then show ?thesis
    by (simp only: Let_def post_fields [OF mode] simp_thms) blast
qed

lemma lookup_fs:
  assumes "pure_stat ns" and "run_state (nfsproc3_lookup_3_svc ns args result) w = (res, w')"
  shows "w_fs w' = w_fs w"
  using assms(2) by (auto simp: nfsproc3_lookup_3_svc_def run_act Let_def
      split: prod.splits if_splits dest!: go_lstat_fs [OF assms(1)] get_post_fs [OF assms(1)])

definition root_handle :: nfs_fh3 where
  "root_handle = \<lparr>nfs_fh3_data = \<lparr>counted_len = 9, counted_val = fh_bytes \<lparr>fh_ino = 0, fh_len = 0\<rparr>\<rparr>\<rparr>"

definition in_root :: "string \<Rightarrow> diropargs3" where
  "in_root n = \<lparr>diropargs3_dir = root_handle, diropargs3_name = Some n\<rparr>"

lemma fh_path_root [simp]: "fh_path t root_handle = Some ''/''"
proof -
  have "fh_at (fh_bytes \<lparr>fh_ino = 0, fh_len = 0\<rparr>) = \<lparr>fh_ino = 0, fh_len = 0\<rparr>"
    using fh_at_bytes [of _ "[]"] by simp
  then show ?thesis
    by (simp add: fh_path_def root_handle_def nfh_valid_def fh_length_def c_consts Let_def)
qed

lemma names_in_root:
  assumes "good_name n" and "length n \<le> 1021"
  shows "names_child t (in_root n) [] n"
  using assms by (simp add: names_child_def in_root_def abs_path_def)

theorem lookup_finds_child_witness:
  "(let (res, w') = run_state (nfsproc3_lookup_3_svc mem_fs \<lparr>LOOKUP3args_what = in_root ''a''\<rparr> default) mem_world
    in LOOKUP3res_status res = NFS3_OK \<and>
      (\<exists>fd b. LOOKUP3resok_object (LOOKUP3res_u res) = handle_of fd b \<and>
        fh_path (w_fddb w') (handle_of fd b) = Some (abs_path ([] @ [''a'']))))"
proof -
  have "names_child (w_fddb mem_world) (LOOKUP3args_what \<lparr>LOOKUP3args_what = in_root ''a''\<rparr>) [] ''a''"
    using names_in_root [of "''a''"] by (simp add: good_name_def)
  then show ?thesis
    using lookup_finds_child [of mem_world "\<lparr>LOOKUP3args_what = in_root ''a''\<rparr>" "[]" "''a''" mem_fs]
    by (fastforce simp: fd_strict_init abs_path_def go_mode_def split: prod.split)
qed

section \<open>REMOVE and RMDIR\<close>

definition remove_spec :: "bool \<Rightarrow> 'fs minfs \<Rightarrow> 'fs \<Rightarrow> string \<Rightarrow> 'fs \<times> nfsstat3" where
  "remove_spec dir ns s p =
     (case snd (fs_Stat ns s p) of
        Inl e \<Rightarrow> (s, errno (Some e))
      | Inr fi \<Rightarrow>
          if fi_IsDir fi = dir then (case fs_Remove ns s p of (s', err) \<Rightarrow> (s', errno err))
          else (s, if dir then NFS3ERR_NOTDIR else NFS3ERR_ISDIR))"

lemma run_go_remove:
  assumes "pure_stat ns"
  shows "run_state (go_remove ns path) w =
      (case remove_spec False ns (w_fs w) (go_path path) of (s', st) \<Rightarrow> (st, w\<lparr>w_fs := s'\<rparr>))"
    and "run_state (go_rmdir ns path) w =
      (case remove_spec True ns (w_fs w) (go_path path) of (s', st) \<Rightarrow> (st, w\<lparr>w_fs := s'\<rparr>))"
proof -
  obtain r where "fs_Stat ns (w_fs w) (go_path path) = (w_fs w, r)" using pure_statD [OF assms] by blast
  then show "run_state (go_remove ns path) w =
      (case remove_spec False ns (w_fs w) (go_path path) of (s', st) \<Rightarrow> (st, w\<lparr>w_fs := s'\<rparr>))"
    and "run_state (go_rmdir ns path) w =
      (case remove_spec True ns (w_fs w) (go_path path) of (s', st) \<Rightarrow> (st, w\<lparr>w_fs := s'\<rparr>))"
    by (auto simp: go_remove_def go_rmdir_def run_act Let_def remove_spec_def
        split: sum.split prod.split)
qed

text \<open>
  C24: REMOVE removes files and only files. For a proper name in the directory \<open>cs\<close> the
  backend's \<open>Remove\<close> is called on the path of the name when it is a file; when it is a
  directory or unknown, the backend stays as it is and the status says so.
\<close>

theorem remove_correct:
  assumes "pure_stat ns" and "names_child (w_fddb w) (REMOVE3args_object args) cs n"
    and "run_state (nfsproc3_remove_3_svc ns args result) w = (res, w')"
  shows "(w_fs w', REMOVE3res_status res) = remove_spec False ns (w_fs w) (abs_path (cs @ [n]))"
  using assms(3) names_child_cat [OF assms(2)]
  by (auto simp: nfsproc3_remove_3_svc_def run_act Let_def run_go_remove [OF assms(1)]
      split: prod.splits dest!: get_post_fs [OF assms(1)] get_pre_fs [OF assms(1)])

text \<open>
  C25: RMDIR removes directories and only directories, in the same way.
\<close>

theorem rmdir_correct:
  assumes "pure_stat ns" and "names_child (w_fddb w) (RMDIR3args_object args) cs n"
    and "run_state (nfsproc3_rmdir_3_svc ns args result) w = (res, w')"
  shows "(w_fs w', RMDIR3res_status res) = remove_spec True ns (w_fs w) (abs_path (cs @ [n]))"
  using assms(3) names_child_cat [OF assms(2)]
  by (auto simp: nfsproc3_rmdir_3_svc_def run_act Let_def run_go_remove [OF assms(1)]
      split: prod.splits dest!: get_post_fs [OF assms(1)] get_pre_fs [OF assms(1)])

theorem remove_correct_witness:
  "(case run_state (nfsproc3_remove_3_svc mem_fs \<lparr>REMOVE3args_object = in_root ''d''\<rparr> default) mem_world
    of (res, w') \<Rightarrow> (w_fs w', REMOVE3res_status res) = (mem_tree, NFS3ERR_ISDIR))"
proof -
  let ?args = "\<lparr>REMOVE3args_object = in_root ''d''\<rparr>"
  obtain res w' where run: "run_state (nfsproc3_remove_3_svc mem_fs ?args default) mem_world = (res, w')"
    by fastforce
  have "names_child (w_fddb mem_world) (REMOVE3args_object ?args) [] ''d''"
    using names_in_root [of "''d''"] by (simp add: good_name_def)
  from remove_correct [OF pure_stat_mem this run] show ?thesis
    using run by (simp add: remove_spec_def abs_path_def)
qed

theorem rmdir_correct_witness:
  "(case run_state (nfsproc3_rmdir_3_svc mem_fs \<lparr>RMDIR3args_object = in_root ''a''\<rparr> default) mem_world
    of (res, w') \<Rightarrow> (w_fs w', RMDIR3res_status res) = (mem_tree, NFS3ERR_NOTDIR))"
proof -
  let ?args = "\<lparr>RMDIR3args_object = in_root ''a''\<rparr>"
  obtain res w' where run: "run_state (nfsproc3_rmdir_3_svc mem_fs ?args default) mem_world = (res, w')"
    by fastforce
  have "names_child (w_fddb mem_world) (RMDIR3args_object ?args) [] ''a''"
    using names_in_root [of "''a''"] by (simp add: good_name_def)
  from rmdir_correct [OF pure_stat_mem this run] show ?thesis
    using run by (simp add: remove_spec_def abs_path_def)
qed

section \<open>GETATTR\<close>

text \<open>
  C27: GETATTR reports the object. For a handle that stands for the path \<open>p\<close>, a backend that
  knows the path and has nothing but the nine permission bits in the low half of a mode, the
  reply has the type, the permissions, the size and the time of change that the backend
  reports, and as file id the identifier that leads to the path.
\<close>

theorem getattr_reports:
  assumes tab: "fd_strict (w_fddb w)"
    and path: "fh_path (w_fddb w) (GETATTR3args_object args) = Some p" "clean_path p"
    and stat: "snd (fs_Stat ns (w_fs w) p) = Inr fi" and mode: "go_mode fi"
    and run: "run_state (nfsproc3_getattr_3_svc ns args result) w = (res, w')"
  shows "GETATTR3res_status res = NFS3_OK \<and>
    (let attr = GETATTR3resok_obj_attributes (GETATTR3res_u res) in
      fattr3_type attr = (if fi_IsDir fi then NF3DIR else NF3REG) \<and>
      fattr3_mode attr = (fi_Mode fi AND 0x1FF) OR (if fi_IsDir fi then S_IFDIR else S_IFREG) \<and>
      fattr3_size attr = word_of_int (fi_Size fi) \<and>
      nfstime3_seconds (fattr3_mtime attr) = word_of_int (fi_ModTime fi) \<and>
      (\<exists>fd. fattr3_fileid attr = word_of_int fd \<and> GetPath (w_fddb w') fd = Some p))"
proof -
  have p: "go_path (Some p) = p" by (rule go_path_id [OF path(2)])
  obtain t fd where fd: "GetFD (w_fddb w) p = (t, fd)" by fastforce
  have st: "stat_of ns w (Some p) = Inr fi" using stat p by (simp add: stat_of_def)
  obtain post where post: "run_state (get_post ns (Some p)) w = (post, w')"
    and res: "res = result\<lparr>GETATTR3res_status := NFS3_OK, GETATTR3res_u := (GETATTR3res_u result)\<lparr>
      GETATTR3resok_obj_attributes := post_op_attr_attributes post\<rparr>\<rparr>"
    using run path(1) by (auto simp: nfsproc3_getattr_3_svc_def run_act split: prod.splits)
  note found = get_post_found [OF st post, unfolded p fd]
  have "fattr3_type (post_op_attr_attributes post) = (if fi_IsDir fi then NF3DIR else NF3REG)"
    "fattr3_mode (post_op_attr_attributes post) =
      (fi_Mode fi AND 0x1FF) OR (if fi_IsDir fi then S_IFDIR else S_IFREG)"
    using post st p post_type [OF mode] post_mode [OF mode]
    by (auto simp: get_post_def run_act run_go_lstat stat_of_def split: prod.splits sum.splits)
  then show ?thesis
    using res found GetFD_resolves [OF tab fd] by (auto simp: Let_def)
qed

theorem getattr_reports_witness:
  "(case run_state (nfsproc3_getattr_3_svc mem_fs \<lparr>GETATTR3args_object = root_handle\<rparr> default) mem_world
    of (res, w') \<Rightarrow> fattr3_type (GETATTR3resok_obj_attributes (GETATTR3res_u res)) = NF3DIR)"
proof -
  let ?args = "\<lparr>GETATTR3args_object = root_handle\<rparr>"
  obtain res w' where run: "run_state (nfsproc3_getattr_3_svc mem_fs ?args default) mem_world = (res, w')"
    by fastforce
  have path: "fh_path (w_fddb mem_world) (GETATTR3args_object ?args) = Some ''/''" by simp
  have root: "clean_path ''/''" unfolding clean_path_def by (rule exI [of _ "[]"]) (simp add: abs_path_def)
  show ?thesis
    using getattr_reports [OF _ path root _ _ run, of "mem_info (''/'', Mem_dir)"] run
    by (simp add: fd_strict_init go_mode_def Let_def)
qed

text \<open>
  What the code does with a path that the backend does not know: the reply says OK.
\<close>

lemma getattr_hides_errors:
  assumes "fh_path (w_fddb w) (GETATTR3args_object args) = Some p"
    and "stat_of ns w (Some p) = Inl e"
  shows "GETATTR3res_status (fst (run_state (nfsproc3_getattr_3_svc ns args result) w)) = NFS3_OK"
  using assms by (simp add: nfsproc3_getattr_3_svc_def run_act split: prod.split)

section \<open>SETATTR\<close>

text \<open>
  The changes that a SETATTR asks for, in the order in which the code makes them, and what a
  backend makes of a list of changes: all are attempted, the first failure is the status.
\<close>

definition modtime_requests :: "set_mtime \<Rightarrow> int \<Rightarrow> fattribute list" where
  "modtime_requests mt now =
     (if set_mtime_set_it mt = DONT_CHANGE then []
      else if set_mtime_set_it mt = SET_TO_SERVER_TIME then [Attr_modtime (uint (word_of_int now :: u32))]
      else [Attr_modtime (uint (nfstime3_seconds (set_mtime_mtime mt)))])"

definition setattr_requests :: "sattr3 \<Rightarrow> int \<Rightarrow> fattribute list" where
  "setattr_requests new now =
     (if set_size3_set_it (sattr3_size new) = TRUE
      then [Attr_size (sint (set_size3_size (sattr3_size new)))] else []) @
     (if set_mode3_set_it (sattr3_mode new) = TRUE
      then [Attr_mode (set_mode3_mode (sattr3_mode new))] else []) @
     modtime_requests (sattr3_mtime new) now"

fun set_attributes :: "'fs minfs \<Rightarrow> 'fs \<Rightarrow> string \<Rightarrow> fattribute list \<Rightarrow> 'fs \<times> nfsstat3" where
  "set_attributes ns s p [] = (s, NFS3_OK)"
| "set_attributes ns s p (a # as) =
     (let (s1, err) = fs_SetAttribute ns s p a; (s2, st) = set_attributes ns s1 p as
      in (s2, if err = None then st else errno err))"

lemma set_attributes_append:
  "set_attributes ns s p (as @ bs) =
     (let (s1, st1) = set_attributes ns s p as; (s2, st2) = set_attributes ns s1 p bs
      in (s2, if st1 = NFS3_OK then st2 else st1))"
  by (induction as arbitrary: s) (auto simp: Let_def split: prod.splits)

lemma set_attributes_3:
  assumes "r1 = set_attributes ns s p as" and "r2 = set_attributes ns (fst r1) p bs"
    and "r3 = set_attributes ns (fst r2) p cs"
  shows "set_attributes ns s p (as @ bs @ cs) =
    (fst r3, if snd r1 \<noteq> NFS3_OK then snd r1 else if snd r2 \<noteq> NFS3_OK then snd r2 else snd r3)"
  unfolding set_attributes_append Let_def case_prod_beta assms [symmetric] by simp

lemma run_setters:
  assumes "go_path path = p"
  shows "run_state (if c then go_truncate ns path off else ret NFS3_OK) w =
      (case set_attributes ns (w_fs w) p (if c then [Attr_size (sint off)] else []) of
         (s', st) \<Rightarrow> (st, w\<lparr>w_fs := s'\<rparr>))"
    and "run_state (if c then go_chmod ns path m else ret NFS3_OK) w =
      (case set_attributes ns (w_fs w) p (if c then [Attr_mode m] else []) of
         (s', st) \<Rightarrow> (st, w\<lparr>w_fs := s'\<rparr>))"
    and "run_state (go_modtime ns path t) w =
      (case set_attributes ns (w_fs w) p [Attr_modtime (uint t)] of (s', st) \<Rightarrow> (st, w\<lparr>w_fs := s'\<rparr>))"
  using assms
  by (auto simp: go_truncate_def go_chmod_def go_modtime_def run_act Let_def split: prod.split)

lemma run_modtime:
  assumes "go_path path = p"
  shows "\<exists>w'. run_state (if set_mtime_set_it mt \<noteq> DONT_CHANGE
        then (if set_mtime_set_it mt = SET_TO_SERVER_TIME
              then do { now \<leftarrow> choice e_time; go_modtime ns path (word_of_int now) }
              else go_modtime ns path (nfstime3_seconds (set_mtime_mtime mt)))
        else ret NFS3_OK) w =
      (snd (set_attributes ns (w_fs w) p (modtime_requests mt (e_time (w_env w) (w_step w)))), w') \<and>
    w_fs w' = fst (set_attributes ns (w_fs w) p (modtime_requests mt (e_time (w_env w) (w_step w))))"
  by (cases "set_mtime_set_it mt = DONT_CHANGE"; cases "set_mtime_set_it mt = SET_TO_SERVER_TIME")
    (simp_all add: run_act modtime_requests_def run_setters(3) [OF assms] case_prod_beta)

lemma setattr_ignores:
  "nfsproc3_setattr_3_svc ns (args\<lparr>SETATTR3args_guard := g, SETATTR3args_new_attributes :=
      (SETATTR3args_new_attributes args)\<lparr>sattr3_uid := u, sattr3_gid := gr, sattr3_atime := at\<rparr>\<rparr>) =
    nfsproc3_setattr_3_svc ns args"
  by (rule ext) (simp add: nfsproc3_setattr_3_svc_def Let_def cong: if_cong)

text \<open>
  C26: SETATTR makes the changes of size, mode and time of modification that it is asked for,
  and no others. On the object of its handle the backend's \<open>SetAttribute\<close> runs for the size,
  then the mode, then the time of modification, where the request has them; the status is OK
  when all of these succeed and else that of the first failure. Owner, group, time of access
  and the guard are ignored: with any other values of them the procedure does and answers the
  same, so a request for one of them alone is answered OK and changes nothing.
\<close>

theorem setattr_correct:
  assumes pure: "pure_stat ns"
    and path: "fh_path (w_fddb w) (SETATTR3args_object args) = Some p" "clean_path p"
    and run: "run_state (nfsproc3_setattr_3_svc ns args result) w = (res, w')"
  shows "(\<exists>k. (w_fs w', SETATTR3res_status res) = set_attributes ns (w_fs w) p
      (setattr_requests (SETATTR3args_new_attributes args) (e_time (w_env w) k))) \<and>
    run_state (nfsproc3_setattr_3_svc ns (args\<lparr>SETATTR3args_guard := g, SETATTR3args_new_attributes :=
      (SETATTR3args_new_attributes args)\<lparr>sattr3_uid := u, sattr3_gid := gr, sattr3_atime := at\<rparr>\<rparr>) result) w =
      (res, w')"
proof -
  let ?new = "SETATTR3args_new_attributes args"
  have p: "go_path (Some p) = p" by (rule go_path_id [OF path(2)])
  obtain pre w1 where pre: "run_state (get_pre ns (Some p)) w = (pre, w1)" by fastforce
  note eq = get_pre_fs [OF pure pre]
  define r1 where "r1 = set_attributes ns (w_fs w) p (if set_size3_set_it (sattr3_size ?new) = TRUE
      then [Attr_size (sint (set_size3_size (sattr3_size ?new)))] else [])"
  define r2 where "r2 = set_attributes ns (fst r1) p (if set_mode3_set_it (sattr3_mode ?new) = TRUE
      then [Attr_mode (set_mode3_mode (sattr3_mode ?new))] else [])"
  let ?w3 = "w1\<lparr>w_fs := fst r2\<rparr>"
  define r3 where "r3 = set_attributes ns (fst r2) p
      (modtime_requests (sattr3_mtime ?new) (e_time (w_env w) (w_step w1)))"
  have s1: "run_state (if set_size3_set_it (sattr3_size ?new) = TRUE
      then go_truncate ns (Some p) (set_size3_size (sattr3_size ?new)) else ret NFS3_OK) w1 =
      (snd r1, w1\<lparr>w_fs := fst r1\<rparr>)"
    unfolding run_setters(1) [OF p] r1_def using eq by (simp add: case_prod_beta)
  have s2: "run_state (if set_mode3_set_it (sattr3_mode ?new) = TRUE
      then go_chmod ns (Some p) (set_mode3_mode (sattr3_mode ?new)) else ret NFS3_OK)
      (w1\<lparr>w_fs := fst r1\<rparr>) = (snd r2, ?w3)"
    unfolding run_setters(2) [OF p] r2_def by (simp add: case_prod_beta)
  obtain w4 where mt: "run_state (if set_mtime_set_it (sattr3_mtime ?new) \<noteq> DONT_CHANGE
        then (if set_mtime_set_it (sattr3_mtime ?new) = SET_TO_SERVER_TIME
              then do { now \<leftarrow> choice e_time; go_modtime ns (Some p) (word_of_int now) }
              else go_modtime ns (Some p) (nfstime3_seconds (set_mtime_mtime (sattr3_mtime ?new))))
        else ret NFS3_OK) ?w3 = (snd r3, w4)" and w4: "w_fs w4 = fst r3"
    using run_modtime [OF p, of "sattr3_mtime ?new" ns ?w3] eq by (auto simp: r3_def)
  obtain post w5 where post5: "run_state (get_post ns (Some p)) w4 = (post, w5)" by fastforce
  note run [unfolded nfsproc3_setattr_3_svc_def Let_def run_bind run_fh_decomp path(1) prod.case pre
      s1 s2 mt post5 run_return]
  then have post: "run_state (get_post ns (Some p)) w4 = (post, w')"
    and st: "SETATTR3res_status res = (if snd r1 \<noteq> NFS3_OK then snd r1
      else if snd r2 \<noteq> NFS3_OK then snd r2 else snd r3)"
    using post5 by auto
  have "w_fs w' = fst r3" using get_post_fs [OF pure post] w4 by simp
  moreover have "set_attributes ns (w_fs w) p (setattr_requests ?new (e_time (w_env w) (w_step w1))) =
      (fst r3, if snd r1 \<noteq> NFS3_OK then snd r1 else if snd r2 \<noteq> NFS3_OK then snd r2 else snd r3)"
    unfolding setattr_requests_def by (rule set_attributes_3 [OF r1_def r2_def r3_def])
  ultimately have "(w_fs w', SETATTR3res_status res) =
      set_attributes ns (w_fs w) p (setattr_requests ?new (e_time (w_env w) (w_step w1)))"
    using st by simp
  then show ?thesis using run by (auto simp: setattr_ignores)
qed

theorem setattr_correct_witness:
  "(case run_state (nfsproc3_setattr_3_svc mem_fs \<lparr>SETATTR3args_object = root_handle,
      SETATTR3args_new_attributes = default\<lparr>sattr3_mode := \<lparr>set_mode3_set_it = TRUE, set_mode3_mode = 0x1ED\<rparr>\<rparr>,
      SETATTR3args_guard = default\<rparr> default) mem_world of (res, w') \<Rightarrow>
    \<exists>k. (w_fs w', SETATTR3res_status res) = set_attributes mem_fs mem_tree ''/''
      (setattr_requests (default\<lparr>sattr3_mode := \<lparr>set_mode3_set_it = TRUE, set_mode3_mode = 0x1ED\<rparr>\<rparr>)
        (e_time plain_env k)))"
proof -
  let ?args = "\<lparr>SETATTR3args_object = root_handle,
      SETATTR3args_new_attributes = default\<lparr>sattr3_mode := \<lparr>set_mode3_set_it = TRUE, set_mode3_mode = 0x1ED\<rparr>\<rparr>,
      SETATTR3args_guard = default\<rparr>"
  obtain res w' where run: "run_state (nfsproc3_setattr_3_svc mem_fs ?args default) mem_world = (res, w')"
    by fastforce
  have path: "fh_path (w_fddb mem_world) (SETATTR3args_object ?args) = Some ''/''" by simp
  have root: "clean_path ''/''" unfolding clean_path_def by (rule exI [of _ "[]"]) (simp add: abs_path_def)
  show ?thesis using setattr_correct [OF pure_stat_mem path root run] run by simp
qed

section \<open>RENAME\<close>

text \<open>A stat call leaves the table as it is or adds one identifier.\<close>

definition grown :: "fdCache \<Rightarrow> fdCache \<Rightarrow> bool" where
  "grown t t' \<longleftrightarrow> t' = t \<or> (\<exists>p. t' = fst (GetFD t p))"

lemma grown_strict: "grown t t' \<Longrightarrow> fd_strict t \<Longrightarrow> fd_strict t'"
  by (auto simp: grown_def GetFD_strict)

lemma grown_GetPath: "grown t t' \<Longrightarrow> fd_inv t \<Longrightarrow> GetPath t fd = Some q \<Longrightarrow> GetPath t' fd = Some q"
  by (auto simp: grown_def GetFD_keeps)

lemma grown_inv: "grown t t' \<Longrightarrow> fd_inv t \<Longrightarrow> fd_inv t'"
  by (auto simp: grown_def GetFD_inv)

lemma grown_fh_path: "grown t t' \<Longrightarrow> fd_inv t \<Longrightarrow> fh_path t h = Some q \<Longrightarrow> fh_path t' h = Some q"
  by (auto simp: grown_def fh_path_keeps)

text \<open>An identifier that leads somewhere is filed under its path after a stat call if it was before.\<close>

lemma grown_filed:
  assumes "grown t t'" and "fd_inv t" and "GetPath t fd = Some q"
  shows "PathMapA t' q = Some fd \<longleftrightarrow> PathMapA t q = Some fd"
proof -
  have "100 \<le> fd" "PathMapB t fd = Some q"
    using assms(3) by (auto simp: GetPath_def split: if_splits option.splits)
  then have "fd \<noteq> FDcounter t + 1" using fd_inv_B [OF assms(2), of fd q] by auto
  with assms(1) show ?thesis
    by (auto simp: grown_def GetFD_def Let_def split: option.splits if_splits)
qed

lemma stats_grow:
  assumes "pure_stat ns"
  shows "run_state (get_post ns path) w = (r, w') \<Longrightarrow>
      w_fs w' = w_fs w \<and> w_env w' = w_env w \<and> grown (w_fddb w) (w_fddb w')"
    and "run_state (get_pre ns path) w = (r', w') \<Longrightarrow>
      w_fs w' = w_fs w \<and> w_env w' = w_env w \<and> grown (w_fddb w) (w_fddb w')"
  using get_post_fs [OF assms] get_pre_fs [OF assms] unfolding grown_def by blast+

lemma run_go_rename:
  assumes "fs_Stat ns (w_fs w) (go_path op) = (w_fs w, Inr fi)"
    and "fs_Move ns (w_fs w) (go_path op) (go_path np) = (s', None)"
  shows "run_state (go_rename ns op np) w = (NFS3_OK, w\<lparr>w_fs := s', w_step := Suc (w_step w),
    w_fddb := ReplacePath (e_walk (w_env w) (w_step w)) (w_fddb w) (go_path op) (go_path np) (fi_IsDir fi)\<rparr>)"
  using assms by (simp add: go_rename_def run_act Let_def)

lemma child_not_root: "good_name n \<Longrightarrow> abs_path (cs @ [n]) \<noteq> ''/''"
  by (induction cs rule: join_slash.induct) (auto simp: abs_path_def good_name_def)

lemma rename_runs:
  assumes pure: "pure_stat ns" and tab: "fd_inv (w_fddb w)"
    and from_child: "names_child (w_fddb w) (RENAME3args_from args) cs n"
    and to_child: "names_child (w_fddb w) (RENAME3args_to args) ds m"
    and stat: "snd (fs_Stat ns (w_fs w) (abs_path (cs @ [n]))) = Inr fi"
    and move: "fs_Move ns (w_fs w) (abs_path (cs @ [n])) (abs_path (ds @ [m])) = (s', None)"
    and run: "run_state (nfsproc3_rename_3_svc ns args result) w = (res, w')"
  obtains t k t' where "RENAME3res_status res = NFS3_OK" and "w_fs w' = s'"
    and "fd_inv t" and "\<And>fd q. GetPath (w_fddb w) fd = Some q \<Longrightarrow> GetPath t fd = Some q \<and>
      (PathMapA t q = Some fd \<longleftrightarrow> PathMapA (w_fddb w) q = Some fd)"
    and "t' = ReplacePath (e_walk (w_env w) k) t (abs_path (cs @ [n])) (abs_path (ds @ [m])) (fi_IsDir fi)"
    and "\<And>fd q. GetPath t' fd = Some q \<Longrightarrow> GetPath (w_fddb w') fd = Some q"
proof -
  let ?old = "abs_path (cs @ [n])" and ?new = "abs_path (ds @ [m])"
  let ?from = "Some (abs_path cs)" and ?to = "Some (abs_path ds)"
  let ?op = "Some (abs_path cs @ CHR ''/'' # n)" and ?np = "Some (abs_path ds @ CHR ''/'' # m)"
  note cf = names_child_cat [OF from_child] and ct = names_child_cat [OF to_child]
  let ?w0 = "w\<lparr>w_step := Suc (Suc (w_step w))\<rparr>"
  obtain pre w1 where pre: "run_state (get_pre ns ?from) ?w0 = (pre, w1)" by fastforce
  obtain tpre w2 where tpre: "run_state (get_pre ns ?to) w1 = (tpre, w2)" by fastforce
  have 1: "w_fs w1 = w_fs w" "w_env w1 = w_env w" "grown (w_fddb w) (w_fddb w1)"
    using stats_grow(2) [OF pure pre] by auto
  have 2: "w_fs w2 = w_fs w" "w_env w2 = w_env w" "grown (w_fddb w1) (w_fddb w2)"
    using stats_grow(2) [OF pure tpre] 1 by auto
  have inv1: "fd_inv (w_fddb w1)" by (rule grown_inv [OF 1(3) tab])
  have inv2: "fd_inv (w_fddb w2)" by (rule grown_inv [OF 2(3) inv1])
  have to1: "fh_path (w_fddb w1) (diropargs3_dir (RENAME3args_to args)) = ?to"
    by (rule grown_fh_path [OF 1(3) tab ct(1)])
  let ?t = "ReplacePath (e_walk (w_env w) (w_step w2)) (w_fddb w2) ?old ?new (fi_IsDir fi)"
  let ?w3 = "w2\<lparr>w_fs := s', w_step := Suc (w_step w2), w_fddb := ?t\<rparr>"
  have st: "fs_Stat ns (w_fs w2) (go_path ?op) = (w_fs w2, Inr fi)"
    using pure_statD [OF pure, of "w_fs w2" "go_path ?op"] stat 2(1) cf(3) by simp
  have mv: "fs_Move ns (w_fs w2) (go_path ?op) (go_path ?np) = (s', None)"
    using move 2(1) cf(3) ct(3) by simp
  note ren = run_go_rename [OF st mv, unfolded cf(3) ct(3) 2(2)]
  obtain post w4 where post: "run_state (get_post ns ?from) ?w3 = (post, w4)" by fastforce
  obtain tpost w5 where tpost: "run_state (get_post ns ?to) w4 = (tpost, w5)" by fastforce
  have w': "RENAME3res_status res = NFS3_OK" "w' = w5"
    using run by (auto simp: nfsproc3_rename_3_svc_def run_act Let_def cf(1,2) ct(2) pre to1 tpre
        ren post tpost split: prod.splits)
  have 4: "w_fs w4 = s'" "grown ?t (w_fddb w4)" using stats_grow(1) [OF pure post] by simp_all
  have 5: "w_fs w5 = s'" "grown (w_fddb w4) (w_fddb w5)" using stats_grow(1) [OF pure tpost] 4 by simp_all
  have inv: "fd_inv ?t" by (rule ReplacePath_inv [OF inv2])
  show ?thesis
  proof (rule that [OF w'(1) _ inv2 _ refl])
    show "w_fs w' = s'" using w' 5(1) by simp
    show "GetPath (w_fddb w2) fd = Some q \<and>
        (PathMapA (w_fddb w2) q = Some fd \<longleftrightarrow> PathMapA (w_fddb w) q = Some fd)"
      if "GetPath (w_fddb w) fd = Some q" for fd q
      using grown_GetPath [OF 1(3) tab that] grown_GetPath [OF 2(3) inv1] grown_filed [OF 1(3) tab that]
        grown_filed [OF 2(3) inv1] by blast
    show "GetPath (w_fddb w') fd = Some q" if "GetPath ?t fd = Some q" for fd q
      using w'(2) grown_GetPath [OF 5(2) grown_inv [OF 4(2) inv] grown_GetPath [OF 4(2) inv that]] by simp
  qed
qed

text \<open>
  C7: RENAME moves the object and every handle that goes with it. When the backend moves the
  object \<open>n\<close> of the directory \<open>cs\<close> to the name \<open>m\<close> of the directory \<open>ds\<close>, the status is OK, and
  any handle, whatever its bytes, that stands for a path \<open>q\<close> afterwards stands for the path that
  \<open>q\<close> has become, when \<open>q\<close> is the object or inside it, and for \<open>q\<close> otherwise. The exception is a
  handle whose identifier \<open>q\<close> is not filed under, because an earlier rename put another object in
  the place of its own: it stays behind with \<open>q\<close>. The object need not have an identifier; a
  directory is not moved into itself.
\<close>

theorem rename_moves_handles:
  assumes pure: "pure_stat ns" and tab: "fd_inv (w_fddb w)" and env: "env_ok (w_env w)"
    and from_child: "names_child (w_fddb w) (RENAME3args_from args) cs n"
    and to_child: "names_child (w_fddb w) (RENAME3args_to args) ds m"
    and stat: "snd (fs_Stat ns (w_fs w) (abs_path (cs @ [n]))) = Inr fi"
    and move: "fs_Move ns (w_fs w) (abs_path (cs @ [n])) (abs_path (ds @ [m])) = (s', None)"
    and apart: "fi_IsDir fi \<Longrightarrow> apart (abs_path (cs @ [n]) @ ''/'') (abs_path (ds @ [m]) @ ''/'')"
    and held: "fh_path (w_fddb w) h = Some q"
    and run: "run_state (nfsproc3_rename_3_svc ns args result) w = (res, w')"
  shows "RENAME3res_status res = NFS3_OK \<and> w_fs w' = s' \<and>
    fh_path (w_fddb w') h =
      Some (if PathMapA (w_fddb w) q = Some (handle_id h)
            then renamed_path (abs_path (cs @ [n])) (abs_path (ds @ [m])) (fi_IsDir fi) q else q)"
proof -
  let ?old = "abs_path (cs @ [n])" and ?new = "abs_path (ds @ [m])"
  obtain t k t' where moved: "RENAME3res_status res = NFS3_OK" "w_fs w' = s'"
    and t: "fd_inv t" "\<And>fd q. GetPath (w_fddb w) fd = Some q \<Longrightarrow> GetPath t fd = Some q \<and>
        (PathMapA t q = Some fd \<longleftrightarrow> PathMapA (w_fddb w) q = Some fd)"
    and t': "t' = ReplacePath (e_walk (w_env w) k) t ?old ?new (fi_IsDir fi)"
    and keep: "\<And>fd q. GetPath t' fd = Some q \<Longrightarrow> GetPath (w_fddb w') fd = Some q"
    by (rule rename_runs [OF pure tab from_child to_child stat move run], rule that; assumption)
  have order: "range_order (e_walk (w_env w) k)" using env by (simp add: env_ok_def)
  show ?thesis
  proof (cases "fh_len (fh_at (counted_val (nfs_fh3_data h))) = 0")
    case True
    then have "q = ''/''" using held by (simp add: fh_path_id split: if_splits)
    moreover have "?old \<noteq> ''/''" using from_child by (simp add: names_child_def child_not_root)
    then have "renamed_path ?old ?new (fi_IsDir fi) ''/'' = ''/''"
      by (auto simp: renamed_path_def renamed_def abs_path_def dest: prefix_length_le)
    ultimately show ?thesis using True held moved by (simp add: fh_path_id split: if_splits)
  next
    case False
    then have id: "GetPath (w_fddb w) (handle_id h) = Some q" and valid: "nfh_valid h \<noteq> FALSE"
      using held by (auto simp: fh_path_id split: if_splits)
    have "GetPath t' (handle_id h) = Some (if PathMapA t q = Some (handle_id h)
        then renamed_path ?old ?new (fi_IsDir fi) q else q)"
      unfolding t' using ReplacePath_GetPath [OF t(1) apart order] t(2) [OF id] by simp
    from keep [OF this] show ?thesis using t(2) [OF id] False valid moved by (simp add: fh_path_id)
  qed
qed

definition held_world :: "memfs world" where
  "held_world = mem_world\<lparr>w_fddb := fst (GetFDs init_fdCache [''/d'', ''/d/b''])\<rparr>"

lemma held_table:
  "w_fddb held_world = \<lparr>PathMapA = [''/d'' \<mapsto> 101, ''/d/b'' \<mapsto> 102],
    PathMapB = [101 \<mapsto> ''/d'', 102 \<mapsto> ''/d/b''], FDcounter = 102\<rparr>"
  by (simp add: held_world_def init_fdCache_def GetFD_def)

lemma held_strict: "fd_strict (w_fddb held_world)"
  unfolding held_world_def
  by (simp add: case_prod_beta Let_def GetFD_strict fd_strict_init del: FDcounter_init)

theorem rename_moves_handles_witness:
  "(case run_state (nfsproc3_rename_3_svc mem_fs \<lparr>RENAME3args_from = in_root ''d'', RENAME3args_to = in_root ''e''\<rparr>
      default) held_world of (res, w') \<Rightarrow>
    RENAME3res_status res = NFS3_OK \<and> fh_path (w_fddb w') (handle_of 102 0) = Some ''/e/b'')"
proof -
  let ?args = "\<lparr>RENAME3args_from = in_root ''d'', RENAME3args_to = in_root ''e''\<rparr>"
  obtain res w' where run: "run_state (nfsproc3_rename_3_svc mem_fs ?args default) held_world = (res, w')"
    by fastforce
  have names: "names_child (w_fddb held_world) (RENAME3args_from ?args) [] ''d''"
    "names_child (w_fddb held_world) (RENAME3args_to ?args) [] ''e''"
    using names_in_root [of "''d''"] names_in_root [of "''e''"] by (simp_all add: good_name_def)
  have d: "w_fs held_world = mem_tree" "w_env held_world = plain_env"
    by (simp_all add: held_world_def)
  have move: "fs_Move mem_fs (w_fs held_world) (abs_path ([] @ [''d''])) (abs_path ([] @ [''e''])) =
      (fst (fs_Move mem_fs mem_tree ''/d'' ''/e''), None)"
    by (simp add: d abs_path_def) (simp add: mem_fs_def)
  have held: "fh_path (w_fddb held_world) (handle_of 102 0) = Some ''/d/b''" "handle_id (handle_of 102 0) = 102"
    by (simp_all add: held_table GetPath_def handle_id_handle_of)
  have "RENAME3res_status res = NFS3_OK \<and> w_fs w' = fst (fs_Move mem_fs mem_tree ''/d'' ''/e'') \<and>
    fh_path (w_fddb w') (handle_of 102 0) =
      Some (if PathMapA (w_fddb held_world) ''/d/b'' = Some (handle_id (handle_of 102 0))
        then renamed_path (abs_path ([] @ [''d''])) (abs_path ([] @ [''e''])) (fi_IsDir (mem_info (''/d'', Mem_dir))) ''/d/b''
        else ''/d/b'')"
    by (rule rename_moves_handles [OF pure_stat_mem fd_strict_inv [OF held_strict] _ names _ move _ held(1) run])
      (simp_all add: d plain_env_ok abs_path_def apart_def)
  then show ?thesis using run by (simp add: abs_path_def renamed_path_def renamed_def held_table held(2))
qed

section \<open>ACCESS\<close>

text \<open>
  C28: ACCESS grants everything that makes sense for the type. On an object that the backend
  knows, the reply is OK; a directory gets all rights but execution, any other object those to
  read, modify, extend and execute. On an error of the backend no right is granted and the
  status is the translated error.
\<close>

theorem access_rights:
  assumes path: "fh_path (w_fddb w) (ACCESS3args_object args) = Some p"
    and modes: "\<And>fi. stat_of ns w (Some p) = Inr fi \<Longrightarrow> go_mode fi"
    and run: "run_state (nfsproc3_access_3_svc ns args result) w = (res, w')"
  shows "case stat_of ns w (Some p) of
      Inl e \<Rightarrow> ACCESS3res_status res = errno (Some e) \<and> ACCESS3resok_access (ACCESS3res_u res) = 0
    | Inr fi \<Rightarrow> ACCESS3res_status res = NFS3_OK \<and> ACCESS3resok_access (ACCESS3res_u res) =
        (if fi_IsDir fi
         then ACCESS3_READ OR ACCESS3_LOOKUP OR ACCESS3_MODIFY OR ACCESS3_EXTEND OR ACCESS3_DELETE
         else ACCESS3_READ OR ACCESS3_MODIFY OR ACCESS3_EXTEND OR ACCESS3_EXECUTE)"
proof (cases "stat_of ns w (Some p)")
  case (Inl e)
  then show ?thesis
    using run path by (auto simp: nfsproc3_access_3_svc_def run_act run_go_lstat stat_of_def Let_def
        split: prod.splits sum.splits)
next
  case (Inr fi)
  note type = post_type [OF modes [OF Inr]]
  show ?thesis
    using run path Inr by (auto simp: nfsproc3_access_3_svc_def run_act run_go_lstat stat_of_def Let_def
        type c_consts split: prod.splits sum.splits if_splits)
qed

theorem access_rights_witness:
  "(case run_state (nfsproc3_access_3_svc mem_fs \<lparr>ACCESS3args_object = root_handle, ACCESS3args_access = 63\<rparr>
      default) mem_world of (res, w') \<Rightarrow>
    ACCESS3res_status res = NFS3_OK \<and> ACCESS3resok_access (ACCESS3res_u res) = 31)"
proof -
  let ?args = "\<lparr>ACCESS3args_object = root_handle, ACCESS3args_access = 63\<rparr>"
  obtain res w' where run: "run_state (nfsproc3_access_3_svc mem_fs ?args default) mem_world = (res, w')"
    by fastforce
  have path: "fh_path (w_fddb mem_world) (ACCESS3args_object ?args) = Some ''/''" by simp
  have st: "stat_of mem_fs mem_world (Some ''/'') = Inr (mem_info (''/'', Mem_dir))"
    using go_path_abs [of "[]"] by (simp add: stat_of_def abs_path_def)
  show ?thesis
    using access_rights [OF path _ run] run st by (simp add: go_mode_def c_consts)
qed

section \<open>CREATE and MKDIR\<close>

lemma run_go_create:
  assumes "go_path path = p"
  shows "run_state (go_create ns path mode) w =
    (case fs_CreateFile ns (w_fs w) p of
       (s1, Some e) \<Rightarrow> (errno (Some e), w\<lparr>w_fs := s1\<rparr>)
     | (s1, None) \<Rightarrow> (case fs_SetAttribute ns s1 p (Attr_mode mode) of
         (s2, err) \<Rightarrow> (errno err, w\<lparr>w_fs := s2\<rparr>)))"
  using assms by (auto simp: go_create_def run_act Let_def split: prod.split option.split)

lemma run_go_createover:
  assumes "pure_stat ns" and "go_path path = p"
  shows "run_state (go_createover ns path mode) w =
    (case snd (fs_Stat ns (w_fs w) p) of
       Inl _ \<Rightarrow> run_state (go_create ns path mode) w
     | Inr fi \<Rightarrow>
         if fi_IsDir fi then (NFS3ERR_ISDIR, w)
         else (case fs_Remove ns (w_fs w) p of
            (s1, Some e) \<Rightarrow> (errno (Some e), w\<lparr>w_fs := s1\<rparr>)
          | (s1, None) \<Rightarrow> run_state (go_create ns path mode) (w\<lparr>w_fs := s1\<rparr>)))"
proof -
  obtain r where "fs_Stat ns (w_fs w) p = (w_fs w, r)" using pure_statD [OF assms(1)] by blast
  moreover have "NFS3ERR_ISDIR \<noteq> NFS3_OK" by (simp add: c_consts)
  ultimately show ?thesis
    using assms(2)
    by (auto simp: go_createover_def go_create_def run_act Let_def split: prod.split option.split sum.split)
qed

text \<open>
  C22: CREATE refuses to destroy. A guarded CREATE of a name for which the backend says that it
  exists, and an unchecked CREATE of the name of a directory, fail with the status for that,
  and the backend stays as it is.
\<close>

theorem create_refuses:
  assumes pure: "pure_stat ns" and child: "names_child (w_fddb w) (CREATE3args_where args) cs n"
    and why: "createhow3_mode (CREATE3args_how args) = GUARDED \<and> st = NFS3ERR_EXIST \<and>
        fs_CreateFile ns (w_fs w) (abs_path (cs @ [n])) = (w_fs w, Some ErrExist) \<or>
      createhow3_mode (CREATE3args_how args) = UNCHECKED \<and> st = NFS3ERR_ISDIR \<and>
        snd (fs_Stat ns (w_fs w) (abs_path (cs @ [n]))) = Inr fi \<and> fi_IsDir fi"
    and run: "run_state (nfsproc3_create_3_svc ns args result) w = (res, w')"
  shows "CREATE3res_status res = st \<and> w_fs w' = w_fs w"
proof -
  note c = names_child_cat [OF child]
  let ?w0 = "w\<lparr>w_step := Suc (Suc (Suc (w_step w)))\<rparr>"
  obtain pre w1 where pre: "run_state (get_pre ns (Some (abs_path cs))) ?w0 = (pre, w1)" by fastforce
  have fs1: "w_fs w1 = w_fs w" using get_pre_fs [OF pure pre] by simp
  obtain post w2 where post: "run_state (get_post ns (Some (abs_path cs))) w1 = (post, w2)" by fastforce
  have fs2: "w_fs w2 = w_fs w1" using get_post_fs [OF pure post] by simp
  have errs: "errno (Some ErrExist) = NFS3ERR_EXIST" by (simp add: errno_def errTranslator_def)
  have same: "w1\<lparr>w_fs := w_fs w\<rparr> = w1" using fs1 by simp
  show ?thesis
    using why run fs1 fs2
    by (auto simp: nfsproc3_create_3_svc_def run_act Let_def c pre post run_go_create [OF c(3)]
        run_go_createover [OF pure c(3)] errs same c_consts)
qed

lemma create_resolves:
  assumes pure: "pure_stat ns" and tab: "fd_strict (w_fddb w)" "FDcounter (w_fddb w) < 2 ^ 31 - 2"
    and child: "names_child (w_fddb w) (CREATE3args_where args) cs n"
    and mode: "createhow3_mode (CREATE3args_how args) = GUARDED \<or>
      createhow3_mode (CREATE3args_how args) = UNCHECKED \<and>
        snd (fs_Stat ns (w_fs w) (abs_path (cs @ [n]))) = Inl e"
    and made: "fs_CreateFile ns (w_fs w) (abs_path (cs @ [n])) = (s1, None)"
      "fs_SetAttribute ns s1 (abs_path (cs @ [n]))
         (Attr_mode (create_mode (createhow3_obj_attributes (CREATE3args_how args)))) = (s2, None)"
      "snd (fs_Stat ns s2 (abs_path (cs @ [n]))) = Inr fi"
    and run: "run_state (nfsproc3_create_3_svc ns args result) w = (res, w')"
  shows "CREATE3res_status res = NFS3_OK \<and> w_fs w' = s2 \<and>
    post_op_fh3_handle_follows (CREATE3resok_obj (CREATE3res_u res)) = TRUE \<and>
    fh_path (w_fddb w') (post_op_fh3_handle (CREATE3resok_obj (CREATE3res_u res))) =
      Some (abs_path (cs @ [n]))"
proof -
  note c = names_child_cat [OF child]
  let ?p = "abs_path (cs @ [n])"
  let ?w0 = "w\<lparr>w_step := Suc (Suc (Suc (w_step w)))\<rparr>"
  obtain pre w1 where pre: "run_state (get_pre ns (Some (abs_path cs))) ?w0 = (pre, w1)" by fastforce
  have 1: "w_fs w1 = w_fs w" "grown (w_fddb w) (w_fddb w1)" using stats_grow(2) [OF pure pre] by auto
  have tab1: "fd_strict (w_fddb w1)" by (rule grown_strict [OF 1(2) tab(1)])
  have cnt: "FDcounter (w_fddb w1) < 2 ^ 31 - 1"
    using tab(2) 1(2) by (auto simp: grown_def GetFD_def Let_def split: option.splits)
  obtain t fd where fd: "GetFD (w_fddb w1) ?p = (t, fd)" by fastforce
  have st: "fs_Stat ns s2 ?p = (s2, Inr fi)" using pure_statD [OF pure, of s2 ?p] made(3) by simp
  let ?w2 = "w1\<lparr>w_fs := s2, w_fddb := t, w_step := Suc (Suc (Suc (w_step w1)))\<rparr>"
  obtain post w3 where post: "run_state (get_post ns (Some (abs_path cs))) ?w2 = (post, w3)" by fastforce
  have 3: "w_fs w3 = s2" "grown t (w_fddb w3)" using stats_grow(1) [OF pure post] by auto
  have "fh_path (w_fddb w3) (handle_of fd b) = Some ?p" for b
    by (rule grown_fh_path [OF 3(2) fd_strict_inv [OF GetFD_range(3) [OF tab1 fd]]
          new_handle_resolves [OF tab1 cnt fd]])
  moreover have "createhow3_mode (CREATE3args_how args) \<noteq> EXCLUSIVE" using mode by (auto simp: c_consts)
  ultimately show ?thesis
    using mode run 3(1) made(1,2) st fd post 1(1)
    by (auto simp: nfsproc3_create_3_svc_def run_act Let_def c pre run_go_create [OF c(3)]
        run_go_createover [OF pure c(3)] run_go_lstat fh_comp_post_def handle_of_fold c_consts)
qed

text \<open>
  C21: CREATE makes a file and a handle for it. When the name is free for an unchecked CREATE,
  or the CREATE is guarded, and the backend creates the file with the mode and finds it
  afterwards, the status is OK and the handle of the reply stands for the path of the name.
\<close>

theorem create_makes_file:
  assumes pure: "pure_stat ns" and tab: "fd_strict (w_fddb w)" "FDcounter (w_fddb w) < 2 ^ 31 - 2"
    and child: "names_child (w_fddb w) (CREATE3args_where args) cs n"
    and mode: "createhow3_mode (CREATE3args_how args) = GUARDED \<or>
      createhow3_mode (CREATE3args_how args) = UNCHECKED \<and>
        snd (fs_Stat ns (w_fs w) (abs_path (cs @ [n]))) = Inl e"
    and made: "fs_CreateFile ns (w_fs w) (abs_path (cs @ [n])) = (s1, None)"
      "fs_SetAttribute ns s1 (abs_path (cs @ [n]))
         (Attr_mode (create_mode (createhow3_obj_attributes (CREATE3args_how args)))) = (s2, None)"
      "snd (fs_Stat ns s2 (abs_path (cs @ [n]))) = Inr fi"
    and run: "run_state (nfsproc3_create_3_svc ns args result) w = (res, w')"
  shows "CREATE3res_status res = NFS3_OK \<and> w_fs w' = s2 \<and>
    post_op_fh3_handle_follows (CREATE3resok_obj (CREATE3res_u res)) = TRUE \<and>
    fh_path (w_fddb w') (post_op_fh3_handle (CREATE3resok_obj (CREATE3res_u res))) =
      Some (abs_path (cs @ [n]))"
  using create_resolves [OF assms] .

text \<open>
  C23: MKDIR makes a directory and a handle for it, or reports the error. When the backend
  creates the directory and then reports it as one, the status is OK and the handle of the
  reply stands for the new path; when the backend fails, the status is the translated error.
\<close>

theorem mkdir_correct:
  assumes pure: "pure_stat ns" and tab: "fd_strict (w_fddb w)" "FDcounter (w_fddb w) < 2 ^ 31 - 2"
    and child: "names_child (w_fddb w) (MKDIR3args_where args) cs n"
    and made: "fs_CreateDirectory ns (w_fs w) (abs_path (cs @ [n])) = (s1, err)"
    and found: "err = None \<Longrightarrow> snd (fs_Stat ns s1 (abs_path (cs @ [n]))) = Inr fi \<and> fi_IsDir fi \<and> go_mode fi"
    and run: "run_state (nfsproc3_mkdir_3_svc ns args result) w = (res, w')"
  shows "MKDIR3res_status res = errno err \<and> w_fs w' = s1 \<and>
    (err = None \<longrightarrow> post_op_fh3_handle_follows (MKDIR3resok_obj (MKDIR3res_u res)) = TRUE \<and>
      fh_path (w_fddb w') (post_op_fh3_handle (MKDIR3resok_obj (MKDIR3res_u res))) =
        Some (abs_path (cs @ [n])))"
proof -
  note c = names_child_cat [OF child]
  let ?p = "abs_path (cs @ [n])" and ?dir = "Some (abs_path cs)"
  let ?obj = "Some (abs_path cs @ CHR ''/'' # n)"
  obtain pre w1 where pre: "run_state (get_pre ns ?dir) (w\<lparr>w_step := Suc (w_step w)\<rparr>) = (pre, w1)"
    by fastforce
  have 1: "w_fs w1 = w_fs w" "grown (w_fddb w) (w_fddb w1)" using stats_grow(2) [OF pure pre] by auto
  show ?thesis
  proof (cases err)
    case (Some e)
    obtain post w2 where post: "run_state (get_post ns ?dir) (w1\<lparr>w_fs := s1\<rparr>) = (post, w2)" by fastforce
    then show ?thesis
      using run Some 1(1) made stats_grow(1) [OF pure post]
      by (auto simp: nfsproc3_mkdir_3_svc_def run_act Let_def c pre go_mkdir_def)
  next
    case None
    have tab1: "fd_strict (w_fddb w1)" by (rule grown_strict [OF 1(2) tab(1)])
    have cnt: "FDcounter (w_fddb w1) < 2 ^ 31 - 1"
      using tab(2) 1(2) by (auto simp: grown_def GetFD_def Let_def split: option.splits)
    obtain t fd where fd: "GetFD (w_fddb w1) ?p = (t, fd)" by fastforce
    have st: "fs_Stat ns s1 ?p = (s1, Inr fi)" using pure_statD [OF pure, of s1 ?p] found None by simp
    let ?w2 = "w1\<lparr>w_fs := s1, w_fddb := t, w_step := w_step w1 + 5\<rparr>"
    obtain opost w3 where opost: "run_state (get_post ns ?obj) ?w2 = (opost, w3)" by fastforce
    obtain post w4 where post: "run_state (get_post ns ?dir) w3 = (post, w4)" by fastforce
    have 3: "w_fs w3 = s1" "grown t (w_fddb w3)" using stats_grow(1) [OF pure opost] by auto
    have 4: "w_fs w4 = s1" "grown (w_fddb w3) (w_fddb w4)" using stats_grow(1) [OF pure post] 3 by auto
    have inv: "fd_inv t" by (rule fd_strict_inv [OF GetFD_range(3) [OF tab1 fd]])
    have "fh_path (w_fddb w4) (handle_of fd b) = Some ?p" for b
      by (rule grown_fh_path [OF 4(2) grown_inv [OF 3(2) inv]
            grown_fh_path [OF 3(2) inv new_handle_resolves [OF tab1 cnt fd]]])
    moreover have "scast (st_mode (statTranslator fi fd now buf)) AND S_IFDIR = S_IFDIR" for now buf
      using st_mode_dir(1) [of fi fd now buf] found None unfolding S_ISDIR_def
      by (metis (no_types, lifting) S_IFDIR_def S_IFMT_def and.assoc and.commute and.idem word_and_max)
    ultimately show ?thesis
      using None run 1(1) made st fd opost post 4(1)
      by (auto simp: nfsproc3_mkdir_3_svc_def run_act Let_def c pre go_mkdir_def fh_comp_type_def
          run_go_lstat fh_comp_post_def handle_of_fold eval_nat_numeral)
  qed
qed

lemma x_child: "names_child t (in_root ''x'') [] ''x''"
  using names_in_root [of "''x''"] by (simp add: good_name_def)

theorem create_refuses_witness:
  "(case run_state (nfsproc3_create_3_svc mem_fs \<lparr>CREATE3args_where = in_root ''a'',
      CREATE3args_how = default\<lparr>createhow3_mode := GUARDED\<rparr>\<rparr> default) mem_world of (res, w') \<Rightarrow>
    CREATE3res_status res = NFS3ERR_EXIST \<and> w_fs w' = mem_tree)"
proof -
  let ?args = "\<lparr>CREATE3args_where = in_root ''a'', CREATE3args_how = default\<lparr>createhow3_mode := GUARDED\<rparr>\<rparr>"
  obtain res w' where run: "run_state (nfsproc3_create_3_svc mem_fs ?args default) mem_world = (res, w')"
    by fastforce
  have "names_child (w_fddb mem_world) (CREATE3args_where ?args) [] ''a''"
    using names_in_root [of "''a''"] by (simp add: good_name_def)
  from create_refuses [OF pure_stat_mem this _ run, where st = NFS3ERR_EXIST] show ?thesis using run by (simp add: abs_path_def)
qed

theorem create_makes_file_witness:
  "(case run_state (nfsproc3_create_3_svc mem_fs \<lparr>CREATE3args_where = in_root ''x'',
      CREATE3args_how = default\<lparr>createhow3_mode := UNCHECKED\<rparr>\<rparr> default) mem_world of (res, w') \<Rightarrow>
    CREATE3res_status res = NFS3_OK \<and> w_fs w' = mem_tree @ [(''/x'', Mem_file [])])"
proof -
  let ?args = "\<lparr>CREATE3args_where = in_root ''x'', CREATE3args_how = default\<lparr>createhow3_mode := UNCHECKED\<rparr>\<rparr>"
  obtain res w' where run: "run_state (nfsproc3_create_3_svc mem_fs ?args default) mem_world = (res, w')"
    by fastforce
  have "names_child (w_fddb mem_world) (CREATE3args_where ?args) [] ''x''" by (simp add: x_child)
  from create_makes_file [OF pure_stat_mem _ _ this _ _ _ _ run, of ErrNotExist
      "mem_tree @ [(''/x'', Mem_file [])]" "mem_tree @ [(''/x'', Mem_file [])]"]
  show ?thesis using run by (simp add: abs_path_def fd_strict_init map_add_def)
qed

theorem mkdir_correct_witness:
  "(case run_state (nfsproc3_mkdir_3_svc mem_fs \<lparr>MKDIR3args_where = in_root ''x'', MKDIR3args_attributes = default\<rparr>
      default) mem_world of (res, w') \<Rightarrow>
    MKDIR3res_status res = NFS3_OK \<and> w_fs w' = mem_tree @ [(''/x'', Mem_dir)])"
proof -
  let ?args = "\<lparr>MKDIR3args_where = in_root ''x'', MKDIR3args_attributes = default\<rparr>"
  obtain res w' where run: "run_state (nfsproc3_mkdir_3_svc mem_fs ?args default) mem_world = (res, w')"
    by fastforce
  have "names_child (w_fddb mem_world) (MKDIR3args_where ?args) [] ''x''" by (simp add: x_child)
  from mkdir_correct [OF pure_stat_mem _ _ this _ _ run, of "mem_tree @ [(''/x'', Mem_dir)]" None
      "mem_info (''/x'', Mem_dir)"]
  show ?thesis using run by (simp add: abs_path_def fd_strict_init map_add_def go_mode_def)
qed

end
