(* ===== verification/Wire.thy ===== *)
theory Wire
  imports Sessions Objects
begin

text \<open>
  The service as a client on the network sees it: the arguments of a call are encoded into the
  body of a message, the reply is decoded. What the handlers do is seen through both filters.
\<close>

section \<open>The client's side\<close>

definition encode :: "'a xdrproc \<Rightarrow> 'a \<Rightarrow> byte list" where
  "encode f x = (case f (encoder [] []) x of Some (xdrs, _) \<Rightarrow> x_out xdrs | None \<Rightarrow> [])"

lemma rtrip_encode:
  assumes "rtrip f default x v"
  shows "f (encoder [] []) x = Some (encoder (encode f x) [], x)"
    and "f (decoder [] (encode f x)) default = Some (decoder [] [], v)"
    and "decode f (encode f x) = Some v"
proof -
  obtain bs where "\<And>out inp. f (encoder out inp) x = Some (encoder (out @ bs) inp, x)"
    and "\<And>out rest. f (decoder out (bs @ rest)) default = Some (decoder out rest, v)"
    using assms by (rule rtripE) auto
  from this(1) [of "[]" "[]"] this(2) [of "[]" "[]"]
  show "f (encoder [] []) x = Some (encoder (encode f x) [], x)"
    and "f (decoder [] (encode f x)) default = Some (decoder [] [], v)"
    and "decode f (encode f x) = Some v"
    by (simp_all add: encode_def decode_def)
qed

lemma serve_wire:
  assumes "rtrip fA default a a" and "proc a srv = Some (r, srv')" and "rtrip fR default r v"
  shows "serve fA fR proc (encode fA a) srv = Some (Sendreply (encode fR r), srv')"
    and "decode fR (encode fR r) = Some v"
  using rtrip_encode(2) [OF assms(1)] assms(2) rtrip_encode(1,3) [OF assms(3)]
  by (simp_all add: serve_def)

text \<open>One call of a client: the reply as it decodes, and the server afterwards.\<close>

definition client_call :: "'fs minfs \<Rightarrow> svc_req \<Rightarrow> 'a xdrproc \<Rightarrow> 'r::default xdrproc \<Rightarrow> 'a \<Rightarrow>
    'fs server \<Rightarrow> ('r \<times> 'fs server) option" where
  "client_call ns rqstp fA fR a srv =
     (case nfs3_program_3 ns rqstp (encode fA a) srv of
        Some (Sendreply bs, srv') \<Rightarrow> (case decode fR bs of Some r \<Rightarrow> Some (r, srv') | None \<Rightarrow> None)
      | _ \<Rightarrow> None)"

lemma local_opt_wire:
  assumes prog: "nfs3_program_3 ns rqstp = serve fA fR (local_opt sel upd h)"
    and args: "rtrip fA default a a"
    and run: "run_state (h a (sel (srv_statics srv))) (srv_world srv) = (Some res, w')"
    and res: "rtrip fR default res v"
  shows "client_call ns rqstp fA fR a srv =
    Some (v, srv\<lparr>srv_world := w', srv_statics := upd (\<lambda>_. res) (srv_statics srv)\<rparr>)"
proof -
  have "local_opt sel upd h a srv =
      Some (res, srv\<lparr>srv_world := w', srv_statics := upd (\<lambda>_. res) (srv_statics srv)\<rparr>)"
    by (simp add: local_opt_def run)
  with serve_wire [where proc = "local_opt sel upd h", OF args this res] show ?thesis
    by (simp add: client_call_def prog)
qed

lemma local_act_wire:
  assumes "nfs3_program_3 ns rqstp = serve fA fR (local_act sel upd h)"
    and "rtrip fA default a a"
    and "run_state (h a (sel (srv_statics srv))) (srv_world srv) = (res, w')"
    and "rtrip fR default res v"
  shows "client_call ns rqstp fA fR a srv =
    Some (v, srv\<lparr>srv_world := w', srv_statics := upd (\<lambda>_. res) (srv_statics srv)\<rparr>)"
  by (rule local_opt_wire [OF assms(1) [unfolded local_act_def] assms(2) _ assms(4)])
    (simp add: run_act assms(3))

section \<open>READ on the network\<close>

lemma read_wire:
  assumes "minfs_ok ns" and "length (s_read_buf (srv_statics srv)) = unat NFS_MAXDATA_TCP + 1"
    and "rq_proc rqstp = NFSPROC3_READ" and "ok_READ3args args"
    and "read_call ns rqstp args (s_read_buf (srv_statics srv)) (srv_world srv) = (s', out, n, err)"
    and "length out = unat (read_count rqstp args) + 1"
  shows "\<exists>r srv'. client_call ns rqstp xdr_READ3args xdr_READ3res args srv = Some (r, srv') \<and>
    (if err = None \<or> is_eof (the err)
     then (let m = min n (uint (read_count rqstp args)) in
       READ3res_status r = NFS3_OK \<and>
       READ3resok_eof (READ3res_u r) = (if n \<le> uint (read_count rqstp args) then TRUE else FALSE) \<and>
       counted_val (READ3resok_data (READ3res_u r)) = take (nat m) out)
     else READ3res_status r = errno err)"
proof -
  let ?st = "srv_statics srv"
  obtain res buf' w' where run: "run_state (nfsproc3_read_3_svc ns rqstp args (s_read ?st, s_read_buf ?st))
      (srv_world srv) = (Some (res, buf'), w')"
    and val: "if err = None \<or> is_eof (the err)
     then (let m = min n (uint (read_count rqstp args)) in
       READ3res_status res = NFS3_OK \<and>
       READ3resok_eof (READ3res_u res) = (if n \<le> uint (read_count rqstp args) then TRUE else FALSE) \<and>
       uint (READ3resok_count (READ3res_u res)) = m \<and>
       counted_vis (READ3resok_data (READ3res_u res)) =
         \<lparr>counted_len = word_of_int m, counted_val = take (nat m) out\<rparr>)
     else READ3res_status res = errno err"
    using read_correct [OF assms(1,2,5,6), of "s_read ?st"] by blast
  have ok: "ok_READ3res res"
    using read_total [OF assms(2), of ns rqstp args "s_read ?st" "srv_world srv"] assms(1) run
    by (fastforce simp: minfs_ok_def)
  let ?srv' = "srv\<lparr>srv_world := w', srv_statics := ?st\<lparr>s_read := res, s_read_buf := buf'\<rparr>\<rparr>"
  have loc: "local_read ns rqstp args srv = Some (res, ?srv')" by (simp add: local_read_def run)
  have "nfs3_program_3 ns rqstp = serve xdr_READ3args xdr_READ3res (local_read ns rqstp)"
    by (intro ext) (simp add: nfs3_program_3_def assms(3) c_consts)
  with serve_wire [where proc = "local_read ns rqstp", OF xdr_READ3args_rtrip [OF assms(4)] loc
      xdr_READ3res_rtrip [OF ok]]
  have "client_call ns rqstp xdr_READ3args xdr_READ3res args srv = Some (vis_READ3res res, ?srv')"
    by (simp add: client_call_def)
  then show ?thesis
    using val by (cases "err = None \<or> is_eof (the err)")
      (auto simp: vis_READ3res_def vis_READ3resok_def Let_def)
qed

section \<open>LOOKUP on the network\<close>

lemma lookup_wire:
  assumes "rq_proc rqstp = NFSPROC3_LOOKUP" and "ok_LOOKUP3args args"
    and "run_state (nfsproc3_lookup_3_svc ns args (s_lookup (srv_statics srv))) (srv_world srv) = (res, w')"
  shows "client_call ns rqstp xdr_LOOKUP3args xdr_LOOKUP3res args srv =
    Some (vis_LOOKUP3res res, srv\<lparr>srv_world := w',
      srv_statics := (srv_statics srv)\<lparr>s_lookup := res\<rparr>\<rparr>)"
proof -
  have prog: "nfs3_program_3 ns rqstp = serve xdr_LOOKUP3args xdr_LOOKUP3res
      (local_act s_lookup s_lookup_update (nfsproc3_lookup_3_svc ns))"
    by (intro ext) (simp add: nfs3_program_3_def assms(1) c_consts)
  have "ok_LOOKUP3res res"
    using lookup_returns [unfolded returns_def, rule_format, of ns args "s_lookup (srv_statics srv)"
        "srv_world srv"] assms(3) by simp
  from local_act_wire [OF prog xdr_LOOKUP3args_rtrip [OF assms(2)] assms(3) xdr_LOOKUP3res_rtrip [OF this]]
  show ?thesis .
qed

section \<open>A client reads a file\<close>

text \<open>
  C3: A client that looks up a file and reads it gets its contents. On an intact table, with a
  backend that keeps to its documented bounds and does not change when asked, the client sends
  LOOKUP with a handle of the directory \<open>cs\<close> and the name \<open>n\<close>, takes the handle out of the
  reply, and sends READ with it. Both replies decode and say OK, and the data of the second are
  the bytes that the backend reads at that offset of the file \<open>cs / n\<close>, at most as many as
  asked for; the flag at the end says that there were no more.
\<close>

theorem client_reads_file:
  assumes ok: "minfs_ok ns" and pure: "pure_stat ns"
    and buf: "length (s_read_buf (srv_statics srv)) = unat NFS_MAXDATA_TCP + 1"
    and tab: "fd_strict (w_fddb (srv_world srv))" "FDcounter (w_fddb (srv_world srv)) < 2 ^ 31 - 1"
    and what: "names_child (w_fddb (srv_world srv)) what cs n" and sent: "ok_diropargs3 what"
    and stat: "snd (fs_Stat ns (w_fs (srv_world srv)) (abs_path (cs @ [n]))) = Inr fi"
    and procs: "rq_proc rq1 = NFSPROC3_LOOKUP" "rq_proc rq2 = NFSPROC3_READ"
    and count: "count \<le> maxdata_of rq2"
    and read: "fs_ReadFile ns (w_fs (srv_world srv)) (abs_path (cs @ [n]))
      (take (unat count + 1) (s_read_buf (srv_statics srv))) (sint offset) = (s', out, k, None)"
      "length out = unat count + 1"
  shows "\<exists>r1 srv1 r2 srv2.
    client_call ns rq1 xdr_LOOKUP3args xdr_LOOKUP3res \<lparr>LOOKUP3args_what = what\<rparr> srv = Some (r1, srv1) \<and>
    client_call ns rq2 xdr_READ3args xdr_READ3res
      \<lparr>READ3args_file = LOOKUP3resok_object (LOOKUP3res_u r1), READ3args_offset = offset,
       READ3args_count = count\<rparr> srv1 = Some (r2, srv2) \<and>
    LOOKUP3res_status r1 = NFS3_OK \<and> READ3res_status r2 = NFS3_OK \<and>
    counted_val (READ3resok_data (READ3res_u r2)) = take (nat (min k (uint count))) out \<and>
    READ3resok_eof (READ3res_u r2) = (if k \<le> uint count then TRUE else FALSE)"
proof -
  let ?args1 = "\<lparr>LOOKUP3args_what = what\<rparr>" and ?w = "srv_world srv" and ?p = "abs_path (cs @ [n])"
  obtain res w1 where run: "run_state (nfsproc3_lookup_3_svc ns ?args1 (s_lookup (srv_statics srv))) ?w =
      (res, w1)" by fastforce
  obtain fd b where res: "LOOKUP3res_status res = NFS3_OK"
      "LOOKUP3resok_object (LOOKUP3res_u res) = handle_of fd b"
    and h: "fh_path (w_fddb w1) (handle_of fd b) = Some ?p"
    using lookup_resolves [OF tab _ stat run] what by auto
  let ?srv1 = "srv\<lparr>srv_world := w1, srv_statics := (srv_statics srv)\<lparr>s_lookup := res\<rparr>\<rparr>"
  have call1: "client_call ns rq1 xdr_LOOKUP3args xdr_LOOKUP3res ?args1 srv =
      Some (vis_LOOKUP3res res, ?srv1)"
    by (rule lookup_wire [OF procs(1) _ run]) (simp add: ok_LOOKUP3args_def sent)
  have obj: "LOOKUP3resok_object (LOOKUP3res_u (vis_LOOKUP3res res)) = handle_of fd b"
    using res by (simp add: vis_LOOKUP3res_def vis_LOOKUP3resok_def)
  let ?args2 = "\<lparr>READ3args_file = handle_of fd b, READ3args_offset = offset, READ3args_count = count\<rparr>"
  have fs1: "w_fs w1 = w_fs ?w" by (rule lookup_fs [OF pure run])
  have cnt: "read_count rq2 ?args2 = count" using count by (simp add: read_count_def)
  have p: "go_path (Some ?p) = ?p"
    using what go_path_abs [of "cs @ [n]"] by (simp add: names_child_def)
  have call2: "read_call ns rq2 ?args2 (s_read_buf (srv_statics ?srv1)) (srv_world ?srv1) =
      (s', out, k, None)"
    using read(1) by (simp add: read_call_def h p fs1 cnt)
  have "length (s_read_buf (srv_statics ?srv1)) = unat NFS_MAXDATA_TCP + 1" using buf by simp
  from read_wire [OF ok this procs(2) _ call2] read(2) cnt
  obtain r2 srv2 where "client_call ns rq2 xdr_READ3args xdr_READ3res ?args2 ?srv1 = Some (r2, srv2)"
    "READ3res_status r2 = NFS3_OK" "READ3resok_eof (READ3res_u r2) = (if k \<le> uint count then TRUE else FALSE)"
    "counted_val (READ3resok_data (READ3res_u r2)) = take (nat (min k (uint count))) out"
    by (auto simp: ok_READ3args_def Let_def)
  then show ?thesis
    using call1 obj res(1) by (auto simp: vis_LOOKUP3res_def)
qed

definition demo_req :: "u32 \<Rightarrow> svc_req" where
  "demo_req proc = \<lparr>rq_vers = 3, rq_proc = proc, rq_caller = localhost, rq_so_type = Some SOCK_STREAM\<rparr>"

lemma demo_req_sel [simp]:
  "rq_proc (demo_req p) = p" "rq_caller (demo_req p) = localhost" "maxdata_of (demo_req p) = 0x80000"
  by (simp_all add: demo_req_def maxdata_of_def get_socket_type_def c_consts)

abbreviation demo_server :: "memfs server" where
  "demo_server \<equiv> init_server mem_tree plain_env"

lemma demo_server_sel [simp]:
  "w_fs (srv_world demo_server) = mem_tree" "w_fddb (srv_world demo_server) = init_fdCache"
  "w_env (srv_world demo_server) = plain_env" "srv_mount demo_server = init_mount"
  "s_read_buf (srv_statics demo_server) = replicate (unat NFS_MAXDATA_TCP + 1) 0"
  by (simp_all add: init_server_def go_init_def run_act init_statics_def)

lemma ok_root: "ok_diropargs3 (in_root ''a'')"
  by (simp add: ok_diropargs3_def in_root_def ok_nfs_fh3_def root_handle_def counted_ok_def fh_bytes_def
      ok_name_def str_ok_def c_consts NUL_def unsigned_minus_1_eq_mask mask_eq_exp_minus_1)

theorem client_reads_file_witness:
  "\<exists>r1 srv1 r2 srv2.
    client_call mem_fs (demo_req NFSPROC3_LOOKUP) xdr_LOOKUP3args xdr_LOOKUP3res
      \<lparr>LOOKUP3args_what = in_root ''a''\<rparr> demo_server = Some (r1, srv1) \<and>
    client_call mem_fs (demo_req NFSPROC3_READ) xdr_READ3args xdr_READ3res
      \<lparr>READ3args_file = LOOKUP3resok_object (LOOKUP3res_u r1), READ3args_offset = 0,
       READ3args_count = 2\<rparr> srv1 = Some (r2, srv2) \<and>
    LOOKUP3res_status r1 = NFS3_OK \<and> READ3res_status r2 = NFS3_OK \<and>
    counted_val (READ3resok_data (READ3res_u r2)) = take (nat (min 3 (uint (2 :: u32)))) [1, 2, 3] \<and>
    READ3resok_eof (READ3res_u r2) = (if 3 \<le> uint (2 :: u32) then TRUE else FALSE)"
proof (rule client_reads_file [OF mem_fs_ok pure_stat_mem])
  show "names_child (w_fddb (srv_world demo_server)) (in_root ''a'') [] ''a''"
    using names_in_root [of "''a''"] by (simp add: good_name_def)
  have "min 3 (unat NFS_MAXDATA_TCP + 1) = 3" by (simp add: unat_maxdata)
  then have "take 3 (replicate (unat NFS_MAXDATA_TCP + 1) 0) = [0, 0, 0 :: byte]"
    by (simp only: take_replicate) (simp add: numeral_3_eq_3)
  then show "fs_ReadFile mem_fs (w_fs (srv_world demo_server)) (abs_path ([] @ [''a'']))
      (take (unat (2 :: u32) + 1) (s_read_buf (srv_statics demo_server))) (sint (0 :: u64)) =
      (mem_tree, [1, 2, 3], 3, None)"
    by (simp add: abs_path_def) (simp add: mem_fs_def)
qed (simp_all add: fd_strict_init ok_root abs_path_def)

end
