(* ===== verification/Clients.thy ===== *)
theory Clients
  imports Wire
begin

text \<open>
  What a client does with several calls: it makes a file, writes to it and reads it back, over
  the network. What the backend has to do for this is stated as the law of a file store.
\<close>

section \<open>Backends that store data\<close>

text \<open>
  What \<open>WriteFile\<close> has stored, a \<open>ReadFile\<close> at the same offset returns when its buffer has room
  for it; the buffer keeps its length.
\<close>

definition stores_data :: "'fs minfs \<Rightarrow> bool" where
  "stores_data ns \<longleftrightarrow> (\<forall>s p bs off s1 b s2 out k e.
     fs_WriteFile ns s p bs off = (s1, int (length bs), None) \<longrightarrow> length bs \<le> length b \<longrightarrow>
     fs_ReadFile ns s1 p b off = (s2, out, k, e) \<longrightarrow>
       (e = None \<or> is_eof (the e)) \<and> int (length bs) \<le> k \<and> length out = length b \<and>
       take (length bs) out = bs)"

lemma stores_dataD:
  assumes "stores_data ns" and "fs_WriteFile ns s p bs off = (s1, int (length bs), None)"
    and "length bs \<le> length b" and "fs_ReadFile ns s1 p b off = (s2, out, k, e)"
  shows "(e = None \<or> is_eof (the e)) \<and> int (length bs) \<le> k \<and> length out = length b \<and>
    take (length bs) out = bs"
  using assms unfolding stores_data_def by blast

lemma is_eof_EOF: "is_eof (OtherErr ''EOF'')"
  by code_simp

lemma stores_data_mem: "stores_data mem_fs"
  unfolding stores_data_def
  by (auto simp: mem_fs_def update_conv Let_def is_eof_EOF split: option.splits mem_node.splits if_splits)

section \<open>CREATE and WRITE on the network\<close>

lemma create_wire:
  assumes "rq_proc rqstp = NFSPROC3_CREATE" and "ok_CREATE3args args"
    and "run_state (nfsproc3_create_3_svc ns args (s_create (srv_statics srv))) (srv_world srv) = (res, w')"
  shows "ok_CREATE3res res \<and> client_call ns rqstp xdr_CREATE3args xdr_CREATE3res args srv =
    Some (vis_CREATE3res res, srv\<lparr>srv_world := w',
      srv_statics := (srv_statics srv)\<lparr>s_create := res\<rparr>\<rparr>)"
proof -
  have prog: "nfs3_program_3 ns rqstp = serve xdr_CREATE3args xdr_CREATE3res
      (local_act s_create s_create_update (nfsproc3_create_3_svc ns))"
    by (intro ext) (simp add: nfs3_program_3_def assms(1) c_consts)
  have "ok_CREATE3res res"
    using create_returns [unfolded returns_def, rule_format, of ns args "s_create (srv_statics srv)"
        "srv_world srv"] assms(3) by simp
  from local_act_wire [OF prog xdr_CREATE3args_rtrip [OF assms(2)] assms(3) xdr_CREATE3res_rtrip [OF this]] this
  show ?thesis by simp
qed

lemma write_world:
  assumes pure: "pure_stat ns" and data: "counted_fits (NOT 0) (WRITE3args_data args)"
    and path: "fh_path (w_fddb w) (WRITE3args_file args) = Some p" and inv: "fd_inv (w_fddb w)"
    and stored: "fs_WriteFile ns (w_fs w) (go_path (Some p)) (counted_val (counted_vis (WRITE3args_data args)))
      (sint (WRITE3args_offset args)) = (s', n, None)"
    and n: "0 \<le> n" "n < 2 ^ 31"
  shows "\<exists>res w'. run_state (nfsproc3_write_3_svc ns args result) w = (Some res, w') \<and>
    WRITE3res_status res = NFS3_OK \<and> uint (WRITE3resok_count (WRITE3res_u res)) = n \<and>
    w_fs w' = s' \<and> fh_path (w_fddb w') (WRITE3args_file args) = Some p"
proof -
  obtain pre w1 where pre: "run_state (get_pre ns (Some p)) w = (pre, w1)" by fastforce
  note g1 = stats_grow(2) [OF pure pre]
  obtain post w2 where post: "run_state (get_post ns (Some p)) (w1\<lparr>w_fs := s'\<rparr>) = (post, w2)" by fastforce
  note g2 = stats_grow(1) [OF pure post, simplified]
  have call: "write_call ns args w = (s', n, None)"
    using g1 stored by (simp add: write_call_def path pre Let_def)
  have len: "unat (counted_len (WRITE3args_data args)) \<le> length (counted_val (WRITE3args_data args))"
    using data by (simp add: counted_fits_def)
  have "fs_WriteFile ns (w_fs w1) (go_path (Some p))
      (take (unat (counted_len (WRITE3args_data args))) (counted_val (WRITE3args_data args)))
      (sint (WRITE3args_offset args)) = (s', n, None)"
    using stored g1 by (simp add: counted_vis_def)
  note run = run_go_pwrite [OF len this]
  obtain res w' where res: "run_state (nfsproc3_write_3_svc ns args result) w = (Some res, w')"
    "WRITE3res_status res = NFS3_OK" "uint (WRITE3resok_count (WRITE3res_u res)) = n"
    using write_correct [OF data call n, of result] by auto
  have "w' = w2"
    using res(1) by (simp add: nfsproc3_write_3_svc_def run_act Let_def path pre run post)
  moreover have "fh_path (w_fddb w2) (WRITE3args_file args) = Some p"
    using grown_fh_path [OF _ _ grown_fh_path [OF _ inv path]] g1 g2 grown_inv [OF _ inv] by blast
  ultimately show ?thesis using res g2 by auto
qed

lemma write_wire:
  assumes "rq_proc rqstp = NFSPROC3_WRITE" and "ok_WRITE3args args"
    and "run_state (nfsproc3_write_3_svc ns args (s_write (srv_statics srv))) (srv_world srv) = (Some res, w')"
  shows "client_call ns rqstp xdr_WRITE3args xdr_WRITE3res args srv =
    Some (vis_WRITE3res res, srv\<lparr>srv_world := w',
      srv_statics := (srv_statics srv)\<lparr>s_write := res\<rparr>\<rparr>)"
proof -
  have prog: "nfs3_program_3 ns rqstp = serve xdr_WRITE3args xdr_WRITE3res
      (local_opt s_write s_write_update (nfsproc3_write_3_svc ns))"
    by (intro ext) (simp add: nfs3_program_3_def assms(1) c_consts)
  have "ok_WRITE3res res"
    using write_returns [unfolded returns_def, rule_format, of ns args "s_write (srv_statics srv)"
        "srv_world srv"] assms(3) by simp
  from local_opt_wire [OF prog xdr_WRITE3args_rtrip [OF assms(2)] assms(3) xdr_WRITE3res_rtrip [OF this]]
  show ?thesis .
qed

section \<open>A client writes and reads back\<close>

lemma written_data_read:
  assumes ok: "minfs_ok ns" "pure_stat ns" "stores_data ns"
    and buf: "length (s_read_buf (srv_statics srv)) = unat NFS_MAXDATA_TCP + 1"
    and inv: "fd_inv (w_fddb (srv_world srv))"
    and h: "ok_nfs_fh3 h" "fh_path (w_fddb (srv_world srv)) h = Some p" "go_path (Some p) = p"
    and stored: "fs_WriteFile ns (w_fs (srv_world srv)) p bs (sint offset) = (s3, int (length bs), None)"
    and procs: "rq_proc rq2 = NFSPROC3_WRITE" "rq_proc rq3 = NFSPROC3_READ"
    and count: "length bs = unat count" "count \<le> maxdata_of rq3"
  shows "\<exists>r2 srv2 r3 srv3.
    client_call ns rq2 xdr_WRITE3args xdr_WRITE3res
      \<lparr>WRITE3args_file = h, WRITE3args_offset = offset, WRITE3args_count = count,
       WRITE3args_stable = sync, WRITE3args_data = \<lparr>counted_len = count, counted_val = bs\<rparr>\<rparr> srv =
      Some (r2, srv2) \<and>
    client_call ns rq3 xdr_READ3args xdr_READ3res
      \<lparr>READ3args_file = h, READ3args_offset = offset, READ3args_count = count\<rparr> srv2 = Some (r3, srv3) \<and>
    WRITE3res_status r2 = NFS3_OK \<and> READ3res_status r3 = NFS3_OK \<and>
    WRITE3resok_count (WRITE3res_u r2) = count \<and> counted_val (READ3resok_data (READ3res_u r3)) = bs"
proof -
  let ?st = "srv_statics srv"
  let ?args2 = "\<lparr>WRITE3args_file = h, WRITE3args_offset = offset, WRITE3args_count = count,
    WRITE3args_stable = sync, WRITE3args_data = \<lparr>counted_len = count, counted_val = bs\<rparr>\<rparr> :: WRITE3args"
  let ?args3 = "\<lparr>READ3args_file = h, READ3args_offset = offset, READ3args_count = count\<rparr>"
  have data: "counted_ok (NOT 0) (WRITE3args_data ?args2)" using count by (simp add: counted_ok_def)
  have len: "int (length bs) = uint count" using count(1) uint_nat [of count] by linarith
  have small: "uint count \<le> 524288"
    using count(2) maxdata_bounds [of rq3] by (simp add: word_le_def)
  obtain res2 w2 where run2: "run_state (nfsproc3_write_3_svc ns ?args2 (s_write ?st)) (srv_world srv) =
      (Some res2, w2)"
    and c2: "WRITE3res_status res2 = NFS3_OK" "uint (WRITE3resok_count (WRITE3res_u res2)) = uint count"
      "w_fs w2 = s3" "fh_path (w_fddb w2) h = Some p"
    using write_world [OF ok(2) conjunct1 [OF counted_ok_fits [OF data]] _ inv, of p s3 "uint count" "s_write ?st"]
      stored h small counted_ok_fits [OF data] unfolding len by auto
  let ?srv2 = "srv\<lparr>srv_world := w2, srv_statics := ?st\<lparr>s_write := res2\<rparr>\<rparr>"
  have call2: "client_call ns rq2 xdr_WRITE3args xdr_WRITE3res ?args2 srv = Some (vis_WRITE3res res2, ?srv2)"
    by (rule write_wire [OF procs(1) _ run2]) (use h data in \<open>simp add: ok_WRITE3args_def\<close>)
  have cnt: "read_count rq3 ?args3 = count" using count(2) by (simp add: read_count_def)
  obtain s4 out k err where rd: "fs_ReadFile ns s3 p (take (unat count + 1) (s_read_buf ?st)) (sint offset) =
      (s4, out, k, err)"
    by (cases "fs_ReadFile ns s3 p (take (unat count + 1) (s_read_buf ?st)) (sint offset)") auto
  have "unat count \<le> 524288" using small uint_nat [of count] by linarith
  then have room: "length (take (unat count + 1) (s_read_buf ?st)) = unat count + 1"
    unfolding length_take buf unat_maxdata by simp
  have got: "err = None \<or> is_eof (the err)" "int (length bs) \<le> k" "length out = unat count + 1"
    "take (length bs) out = bs"
    using stores_dataD [OF ok(3) stored _ rd] room count(1) by auto
  have "read_call ns rq3 ?args3 (s_read_buf (srv_statics ?srv2)) (srv_world ?srv2) = (s4, out, k, err)"
    using rd c2 h by (simp add: read_call_def cnt)
  from read_wire [OF ok(1) _ procs(2) _ this] got(3) cnt buf h
  obtain r3 srv3 where call3: "client_call ns rq3 xdr_READ3args xdr_READ3res ?args3 ?srv2 = Some (r3, srv3)"
    and c3: "READ3res_status r3 = NFS3_OK"
      "counted_val (READ3resok_data (READ3res_u r3)) = take (nat (min k (uint count))) out"
    using got(1) by (auto simp: ok_READ3args_def Let_def)
  have "nat (min k (uint count)) = length bs" using got(2) len count(1) by simp
  then show ?thesis
    using call2 call3 c2(1,2) c3 got(4)
    by (fastforce simp: vis_WRITE3res_def vis_WRITE3resok_def word_uint_eq_iff)
qed

section \<open>A client makes a file\<close>

text \<open>
  C4: A client that makes a file, writes to it and reads it back gets what it wrote. On an
  intact table, with a backend that stores data, the client sends CREATE for a name in the
  directory \<open>cs\<close>, sends WRITE with the handle from the reply, and READ of as many bytes at the
  same offset. When the backend creates the file and takes all the bytes, all three replies
  decode and say OK, WRITE reports the number of bytes, and READ returns exactly them, provided
  they fit what the transport allows for one call.
\<close>

theorem client_reads_what_it_wrote:
  assumes ok: "minfs_ok ns" "pure_stat ns" "stores_data ns"
    and buf: "length (s_read_buf (srv_statics srv)) = unat NFS_MAXDATA_TCP + 1"
    and tab: "fd_strict (w_fddb (srv_world srv))" "FDcounter (w_fddb (srv_world srv)) < 2 ^ 31 - 2"
    and child: "names_child (w_fddb (srv_world srv)) (CREATE3args_where args) cs n"
    and sent: "ok_CREATE3args args"
    and mode: "createhow3_mode (CREATE3args_how args) = GUARDED \<or>
      createhow3_mode (CREATE3args_how args) = UNCHECKED \<and>
        snd (fs_Stat ns (w_fs (srv_world srv)) (abs_path (cs @ [n]))) = Inl e"
    and made: "fs_CreateFile ns (w_fs (srv_world srv)) (abs_path (cs @ [n])) = (s1, None)"
      "fs_SetAttribute ns s1 (abs_path (cs @ [n]))
         (Attr_mode (create_mode (createhow3_obj_attributes (CREATE3args_how args)))) = (s2, None)"
      "snd (fs_Stat ns s2 (abs_path (cs @ [n]))) = Inr fi"
    and stored: "fs_WriteFile ns s2 (abs_path (cs @ [n])) bs (sint offset) = (s3, int (length bs), None)"
    and procs: "rq_proc rq1 = NFSPROC3_CREATE" "rq_proc rq2 = NFSPROC3_WRITE" "rq_proc rq3 = NFSPROC3_READ"
    and count: "length bs = unat count" "count \<le> maxdata_of rq3"
  shows "\<exists>r1 srv1 r2 srv2 r3 srv3 h.
    client_call ns rq1 xdr_CREATE3args xdr_CREATE3res args srv = Some (r1, srv1) \<and>
    h = post_op_fh3_handle (CREATE3resok_obj (CREATE3res_u r1)) \<and>
    client_call ns rq2 xdr_WRITE3args xdr_WRITE3res
      \<lparr>WRITE3args_file = h, WRITE3args_offset = offset, WRITE3args_count = count,
       WRITE3args_stable = sync, WRITE3args_data = \<lparr>counted_len = count, counted_val = bs\<rparr>\<rparr> srv1 =
      Some (r2, srv2) \<and>
    client_call ns rq3 xdr_READ3args xdr_READ3res
      \<lparr>READ3args_file = h, READ3args_offset = offset, READ3args_count = count\<rparr> srv2 = Some (r3, srv3) \<and>
    CREATE3res_status r1 = NFS3_OK \<and> WRITE3res_status r2 = NFS3_OK \<and> READ3res_status r3 = NFS3_OK \<and>
    WRITE3resok_count (WRITE3res_u r2) = count \<and> counted_val (READ3resok_data (READ3res_u r3)) = bs"
proof -
  let ?w = "srv_world srv" and ?st = "srv_statics srv" and ?p = "abs_path (cs @ [n])"
  have p: "go_path (Some ?p) = ?p" using child go_path_abs [of "cs @ [n]"] by (simp add: names_child_def)
  obtain res1 w1 where run1: "run_state (nfsproc3_create_3_svc ns args (s_create ?st)) ?w = (res1, w1)"
    by fastforce
  let ?h = "post_op_fh3_handle (CREATE3resok_obj (CREATE3res_u res1))"
  let ?srv1 = "srv\<lparr>srv_world := w1, srv_statics := ?st\<lparr>s_create := res1\<rparr>\<rparr>"
  note c1 = create_resolves [OF ok(2) tab child mode made run1]
  note call1 = create_wire [OF procs(1) sent run1]
  have h: "post_op_fh3_handle (CREATE3resok_obj (CREATE3res_u (vis_CREATE3res res1))) = ?h"
    using c1 by (simp add: vis_CREATE3res_def vis_CREATE3resok_def vis_post_op_fh3_def)
  have okh: "ok_nfs_fh3 ?h"
    using c1 call1 by (auto simp: ok_CREATE3res_def ok_CREATE3resok_def ok_post_op_fh3_def c_consts)
  have inv1: "fd_inv (w_fddb w1)"
    using keepsD [OF strict.nfsproc3_writer_keeps(3), of ?w ns args "s_create ?st"] tab(1) run1
    by (simp add: strict_table_def fd_strict_inv)
  from written_data_read [OF ok _ _ okh _ p _ procs(2,3) count, of ?srv1 offset s3 sync]
  show ?thesis
    using c1 call1 h buf inv1 stored by (fastforce simp: vis_CREATE3res_def)
qed

lemma ok_root_x: "ok_CREATE3args \<lparr>CREATE3args_where = in_root ''x'', CREATE3args_how = default\<rparr>"
proof -
  have "ok_diropargs3 (in_root ''x'')" using ok_root by (simp add: ok_diropargs3_def in_root_def ok_name_def str_ok_def NUL_def)
  then show ?thesis
    by (simp add: ok_CREATE3args_def ok_createhow3_def zero_mem ok_sattr3_def ok_set_mode3_def ok_set_uid3_def
        ok_set_gid3_def ok_set_size3_def ok_set_atime_def ok_set_mtime_def c_consts)
qed

theorem client_reads_what_it_wrote_witness:
  "\<exists>r1 srv1 r2 srv2 r3 srv3 h.
    client_call mem_fs (demo_req NFSPROC3_CREATE) xdr_CREATE3args xdr_CREATE3res
      \<lparr>CREATE3args_where = in_root ''x'', CREATE3args_how = default\<rparr> demo_server = Some (r1, srv1) \<and>
    h = post_op_fh3_handle (CREATE3resok_obj (CREATE3res_u r1)) \<and>
    client_call mem_fs (demo_req NFSPROC3_WRITE) xdr_WRITE3args xdr_WRITE3res
      \<lparr>WRITE3args_file = h, WRITE3args_offset = 4, WRITE3args_count = 2,
       WRITE3args_stable = 0, WRITE3args_data = \<lparr>counted_len = 2, counted_val = [8, 9]\<rparr>\<rparr> srv1 =
      Some (r2, srv2) \<and>
    client_call mem_fs (demo_req NFSPROC3_READ) xdr_READ3args xdr_READ3res
      \<lparr>READ3args_file = h, READ3args_offset = 4, READ3args_count = 2\<rparr> srv2 = Some (r3, srv3) \<and>
    CREATE3res_status r1 = NFS3_OK \<and> WRITE3res_status r2 = NFS3_OK \<and> READ3res_status r3 = NFS3_OK \<and>
    WRITE3resok_count (WRITE3res_u r2) = 2 \<and> counted_val (READ3resok_data (READ3res_u r3)) = [8, 9]"
proof (rule client_reads_what_it_wrote [OF mem_fs_ok pure_stat_mem stores_data_mem])
  show "names_child (w_fddb (srv_world demo_server))
      (CREATE3args_where \<lparr>CREATE3args_where = in_root ''x'', CREATE3args_how = default\<rparr>) [] ''x''"
    by (simp add: x_child)
  show "fs_WriteFile mem_fs (mem_tree @ [(''/x'', Mem_file [])]) (abs_path ([] @ [''x''])) [8, 9] (sint (4 :: u64)) =
      (AList.update ''/x'' (Mem_file [0, 0, 0, 0, 8, 9]) (mem_tree @ [(''/x'', Mem_file [])]),
       int (length [8, 9 :: byte]), None)"
    by (simp add: abs_path_def) (simp add: mem_fs_def map_add_def numeral_eq_Suc)
  show "fs_SetAttribute mem_fs (mem_tree @ [(''/x'', Mem_file [])]) (abs_path ([] @ [''x''])) a =
      (mem_tree @ [(''/x'', Mem_file [])], None)" for a
    by (simp add: abs_path_def map_add_def)
  show "snd (fs_Stat mem_fs (mem_tree @ [(''/x'', Mem_file [])]) (abs_path ([] @ [''x'']))) =
      Inr (mem_info (''/x'', Mem_file []))"
    by (simp add: abs_path_def map_add_def)
  show "createhow3_mode (CREATE3args_how \<lparr>CREATE3args_where = in_root ''x'', CREATE3args_how = default\<rparr>) =
        GUARDED \<or>
      createhow3_mode (CREATE3args_how \<lparr>CREATE3args_where = in_root ''x'', CREATE3args_how = default\<rparr>) =
        UNCHECKED \<and>
      snd (fs_Stat mem_fs (w_fs (srv_world demo_server)) (abs_path ([] @ [''x'']))) = Inl ErrNotExist"
    by (simp add: abs_path_def zero_mem c_consts)
qed (simp_all add: fd_strict_init ok_root_x abs_path_def c_consts)

end
