(* ===== verification/Mount_Props.thy ===== *)
theory Mount_Props
  imports Wire
begin

text \<open>
  What the MOUNT service promises: who gets a handle, and that the linked list on the heap is
  the list of mounts.
\<close>

section \<open>MNT\<close>

text \<open>
  C18: Only the local host can mount. Whatever the path, the backend and the memory, MNT
  returns; its status is OK only for a caller at 127.0.0.1, and then the mount is appended to
  the list, unless memory for the entry is missing; on any other status the list is as before.
\<close>

theorem mnt_only_localhost:
  assumes "env_ok (w_env w)" and "mount_rel ms xs" and "length p \<le> 1024"
  shows "\<exists>r ms' w'. run_state (mountproc_mnt_3_svc ns rqstp (Some p) (result, ms)) w = (Some (r, ms'), w') \<and>
    (if mountres3_fhs_status r = MNT3_OK
     then rq_caller rqstp = localhost \<and>
       (mount_rel ms' xs \<or> mount_rel ms' (xs @ [(inet_ntoa (get_remote rqstp), p)]))
     else ms' = ms)"
  using mnt_total [OF assms, of ns rqstp result] by fastforce

theorem mnt_only_localhost_witness:
  "\<exists>r ms' w'. run_state (mountproc_mnt_3_svc mem_fs ((demo_req 1)\<lparr>rq_caller := 5\<rparr>) (Some ''/'') (default, init_mount))
      mem_world = (Some (r, ms'), w') \<and> mountres3_fhs_status r \<noteq> MNT3_OK \<and> ms' = init_mount"
proof -
  have "(5 :: u32) \<noteq> localhost" by (simp add: localhost_def)
  then show ?thesis
    using mnt_only_localhost [of mem_world init_mount "[]" "''/''" mem_fs "(demo_req 1)\<lparr>rq_caller := 5\<rparr>" default]
    by (auto simp: plain_env_ok mount_rel_init split: if_splits)
qed

lemma go_lstat_dir:
  assumes "fs_Stat ns (w_fs w) (go_path (Some p)) = (s', Inr fi)" and "go_mode fi" and "fi_IsDir fi"
    and "GetFD (w_fddb w) (go_path (Some p)) = (t, fd)"
  shows "\<exists>buf. run_state (go_lstat ns (Some p) un) w =
      ((NFS3_OK, buf), w\<lparr>w_fs := s', w_fddb := t, w_step := Suc (w_step w)\<rparr>) \<and>
    S_ISDIR (st_mode buf) \<and> st_ino buf = word_of_int fd"
  using assms st_mode_dir(1) [OF assms(2)] by (simp add: run_go_lstat)

text \<open>The three requests for memory that \<open>add_mount\<close> makes, from step \<open>k\<close> on.\<close>

definition memory_for_entry :: "env \<Rightarrow> nat \<Rightarrow> mount_state \<Rightarrow> bool" where
  "memory_for_entry e k ms \<longleftrightarrow> e_malloc e k (\<lambda>a. mount_mem ms a \<noteq> None) \<noteq> None \<and>
     e_malloc_str e (Suc k) \<and> e_malloc_str e (Suc (Suc k))"

text \<open>
  C17: MNT gives the local host a handle for a directory and records the mount. When a caller at
  127.0.0.1 speaks version 3, the path is short enough and the backend knows it as a directory,
  the status is OK and the handle of the reply stands for the cleaned path; the one flavour of
  authentication offered is \<open>AUTH_UNIX\<close>. The mount is appended to the list as an entry of
  127.0.0.1 for the path as it was sent; only when memory for it is missing, the list is as
  before.
\<close>

theorem mnt_gives_handle:
  assumes tab: "fd_strict (w_fddb w)" "FDcounter (w_fddb w) < 2 ^ 31 - 1" and env: "env_ok (w_env w)"
    and rel: "mount_rel ms xs" and len: "length p < 1024"
    and req: "rq_vers rqstp = 3" "rq_caller rqstp = localhost"
    and stat: "snd (fs_Stat ns (w_fs w) (go_path (Some p))) = Inr fi" "go_mode fi" "fi_IsDir fi"
  shows "\<exists>r ms' w'. run_state (mountproc_mnt_3_svc ns rqstp (Some p) (result, ms)) w = (Some (r, ms'), w') \<and>
    mountres3_fhs_status r = MNT3_OK \<and>
    counted_val (mountres3_ok_auth_flavors (mountres3_mountinfo r)) = [AUTH_UNIX] \<and>
    fh_path (w_fddb w') \<lparr>nfs_fh3_data = mountres3_ok_fhandle (mountres3_mountinfo r)\<rparr> = Some (go_path (Some p)) \<and>
    mount_rel ms' (if memory_for_entry (w_env w) (w_step w + 2) ms then xs @ [(''127.0.0.1'', p)] else xs)"
proof -
  obtain s' where st: "fs_Stat ns (w_fs w) (go_path (Some p)) = (s', Inr fi)"
    using stat(1) by (metis prod.collapse)
  obtain t fd where fd: "GetFD (w_fddb w) (go_path (Some p)) = (t, fd)" by fastforce
  let ?w1 = "w\<lparr>w_step := Suc (w_step w)\<rparr>" and ?un = "e_un_stat (w_env w) (w_step w)"
  let ?w2 = "w\<lparr>w_step := Suc (Suc (w_step w)), w_fs := s', w_fddb := t\<rparr>"
  obtain buf where ls: "run_state (go_lstat ns (Some p) ?un) ?w1 = ((NFS3_OK, buf), ?w2)"
    and dir: "S_ISDIR (st_mode buf)" "st_ino buf = word_of_int fd"
    using go_lstat_dir [of ns ?w1 p s' fi t fd ?un] st stat fd by auto
  let ?new = "e_malloc (w_env w) (w_step ?w2) (\<lambda>a. mount_mem ms a \<noteq> None)"
  let ?host = "e_malloc_str (w_env w) (Suc (w_step ?w2))"
  let ?dir = "e_malloc_str (w_env w) (Suc (Suc (w_step ?w2)))"
  have fresh: "mount_mem ms a = None" if "?new = Some a" for a
    using env that unfolding env_ok_def by blast
  have host: "inet_ntoa (get_remote rqstp) = ''127.0.0.1''"
    using req(2) by (simp add: inet_ntoa_def get_remote_def dotted_quad_localhost)
  obtain ms' where add: "add_mount ?new ?host ?dir p rqstp ms = Some ms'"
    and listed: "mount_rel ms' (if ?new \<noteq> None \<and> ?host \<and> ?dir then xs @ [(''127.0.0.1'', p)] else xs)"
    using add_mount_refines [OF rel fresh, where mem_host = ?host and mem_dir = ?dir and path = p and
        rqstp = rqstp]
    unfolding host by blast
  have "mount_rel ms' (if memory_for_entry (w_env w) (w_step w + 2) ms then xs @ [(''127.0.0.1'', p)] else xs)"
    using listed by (simp add: memory_for_entry_def eval_nat_numeral)
  note listed = this
  have ok: "go_accept_mount (rq_caller rqstp) (Some p) = NFS3_OK"
    using go_accept_mount_iff req(2) by blast
  have "\<not> PATH_MAX < Suc (length p)" "\<not> unat NFS_MAXPATHLEN < Suc (length p)"
    using len by (simp_all add: PATH_MAX_def c_consts)
  then show ?thesis
    using ls dir add ok req(1) new_handle_resolves [OF tab fd] listed
    by (simp add: mountproc_mnt_3_svc_def run_act Let_def handle_of_fold)
qed

theorem mnt_gives_handle_witness:
  "\<exists>r ms' w'. run_state (mountproc_mnt_3_svc mem_fs (demo_req 1) (Some ''/d/../d'') (default, init_mount))
      mem_world = (Some (r, ms'), w') \<and> mountres3_fhs_status r = MNT3_OK \<and>
    fh_path (w_fddb w') \<lparr>nfs_fh3_data = mountres3_ok_fhandle (mountres3_mountinfo r)\<rparr> = Some ''/d'' \<and>
    mount_rel ms' [(''127.0.0.1'', ''/d/../d'')]"
proof -
  have p: "go_path (Some ''/d/../d'') = ''/d''" by code_simp
  have mem: "memory_for_entry plain_env (Suc (Suc 0)) init_mount"
    by (simp add: memory_for_entry_def plain_env_def env_with_def init_mount_def)
  show ?thesis
    using mem mnt_gives_handle [of mem_world init_mount "[]" "''/d/../d''" "demo_req 1" mem_fs
        "mem_info (''/d'', Mem_dir)" default]
    by (auto simp: fd_strict_init plain_env_ok mount_rel_init p go_mode_def demo_req_def)
qed

section \<open>UMNT, UMNTALL and DUMP\<close>

text \<open>
  C19: UMNT and UMNTALL remove the caller's mounts. On a heap that holds the list \<open>xs\<close>, both
  walk it to its end without touching memory that was freed; afterwards the heap holds \<open>xs\<close>
  without the entries of the caller's host for that directory, or without all entries of the
  host, in the same order, and \<open>mount_cnt\<close> is the length of the list.
\<close>

theorem umnt_removes:
  assumes "mount_rel ms xs"
  shows "(\<exists>ms'. mountproc_umnt_3_svc (Some p) rqstp ms = Some ms' \<and>
      mount_rel ms' (filter (\<lambda>e. e \<noteq> (inet_ntoa (get_remote rqstp), p)) xs) \<and>
      mount_cnt ms' = int (length (filter (\<lambda>e. e \<noteq> (inet_ntoa (get_remote rqstp), p)) xs))) \<and>
    (\<exists>ms'. mountproc_umntall_3_svc rqstp ms = Some ms' \<and>
      mount_rel ms' (filter (\<lambda>e. fst e \<noteq> inet_ntoa (get_remote rqstp)) xs))"
proof -
  have hit: "mount_hit (Some p) host e \<longleftrightarrow> e = (host, p)" "mount_hit None host e \<longleftrightarrow> fst e = host" for host e
    by (auto simp: mount_hit_def)
  show ?thesis
    using remove_mount_refines [OF assms, of "Some p" rqstp] remove_mount_refines [OF assms, of None rqstp]
    by (auto simp: mountproc_umnt_3_svc_def mountproc_umntall_3_svc_def hit mount_rel_unique)
qed

definition two_mounts :: mount_state where
  "two_mounts = \<lparr>mount_list = Some 4,
     mount_mem = [4 \<mapsto> \<lparr>cell_hostname = ''127.0.0.1'', cell_directory = ''/a'', cell_next = Some 2\<rparr>,
       2 \<mapsto> \<lparr>cell_hostname = ''10.0.0.1'', cell_directory = ''/'', cell_next = None\<rparr>],
     mount_cnt = 2\<rparr>"

lemma two_mounts_rel: "mount_rel two_mounts [(''127.0.0.1'', ''/a''), (''10.0.0.1'', ''/'')]"
  by (auto simp: mount_rel_def two_mounts_def mount_entry_def intro!: exI [of _ "[4, 2]"])

theorem umnt_removes_witness:
  "\<exists>ms'. mountproc_umnt_3_svc (Some ''/a'') (demo_req 3) two_mounts = Some ms' \<and>
    mount_rel ms' [(''10.0.0.1'', ''/'')] \<and> mount_cnt ms' = 1"
proof -
  have "inet_ntoa (get_remote (demo_req 3)) = ''127.0.0.1''"
    by (simp add: inet_ntoa_def get_remote_def dotted_quad_localhost)
  then show ?thesis
    using umnt_removes [OF two_mounts_rel, of "''/a''" "demo_req 3"] by auto
qed



end
