(* ===== verification/Listing_Props.thy ===== *)
theory Listing_Props
  imports Listing Objects
begin

text \<open>
  What a client sees of a directory: the page that one READDIR lists, and the walk over a whole
  directory that follows the cookies.
\<close>

section \<open>The entries of a reply\<close>

fun entry_list :: "entry3 option \<Rightarrow> (u64 \<times> charptr \<times> u64) list" where
  "entry_list None = []"
| "entry_list (Some (Entry3 fid name cookie nx)) = (fid, name, cookie) # entry_list nx"

lemma make_entries_list:
  "length fds = length fis \<Longrightarrow> entry_list (make_entries fds fis i) =
     map (\<lambda>k. (word_of_int (fds ! k), Some (cstr (fi_Name (fis ! k))), word_of_int (i + int k + 1)))
       [0..<length fis]"
proof (induction fds fis i rule: make_entries.induct)
  case (1 fd fds fi fis i)
  then show ?case
    by (simp add: map_upt_Suc ac_simps del: upt_Suc)
qed auto

lemma GetFDs_length: "GetFDs t ps = (t', ids) \<Longrightarrow> length ids = length ps"
  by (induction ps arbitrary: t t' ids) (auto simp: Let_def split: prod.splits)

lemma GetFDs_grows:
  "fd_inv t \<Longrightarrow> GetFDs t ps = (t', ids) \<Longrightarrow> fd_inv t' \<and> (\<forall>h q. fh_path t h = Some q \<longrightarrow> fh_path t' h = Some q)"
proof (induction ps arbitrary: t ids)
  case (Cons p ps)
  obtain t1 fd where g: "GetFD t p = (t1, fd)" by fastforce
  obtain ids1 where i: "GetFDs t1 ps = (t', ids1)" using Cons.prems(2) g by (auto simp: Let_def split: prod.splits)
  have "fd_inv t1" using GetFD_inv [OF Cons.prems(1), of p] g by simp
  from Cons.IH [OF this i] fh_path_keeps [OF Cons.prems(1), of _ _ p] g show ?case by simp
qed simp

lemma readdir_page:
  assumes tab: "fd_strict (w_fddb w)" and path: "fh_path (w_fddb w) (READDIR3args_dir args) = Some p"
    and dir: "fs_ReadDirectory ns (w_fs w) (go_path (Some p)) = (s', Inr arr)"
    and names: "\<forall>fi \<in> set arr. length (fi_Name fi) < unat NFS_MAXPATHLEN"
    and cookie: "sint (READDIR3args_cookie args) = int c" "c \<le> length arr"
    and pg: "pg = page (unat MAX_ENTRIES) (uint (readdir_count (READDIR3args_count args))) (drop c arr)"
  shows "\<exists>res w' ids. run_state (nfsproc3_readdir_3_svc ns args result) w = (Some res, w') \<and>
    READDIR3res_status res = NFS3_OK \<and>
    entry_list (dirlist3_entries (READDIR3resok_reply (READDIR3res_u res))) =
      map (\<lambda>k. (word_of_int (ids ! k), Some (cstr (fi_Name (pg ! k))), word_of_int (int c + int k + 1)))
        [0..<length pg] \<and>
    map (GetPath (w_fddb w')) ids = map (\<lambda>fi. Some (child_path (go_path (Some p)) fi)) pg \<and>
    dirlist3_eof (READDIR3resok_reply (READDIR3res_u res)) =
      (if c + length pg = length arr then TRUE else FALSE) \<and>
    (pure_stat ns \<longrightarrow> w_fs w' = s')"
proof -
  obtain t ids where ids: "GetFDs (w_fddb w) (map (child_path (go_path (Some p))) pg) = (t, ids)"
    by fastforce
  have len: "length ids = length pg" using GetFDs_length [OF ids] by simp
  have inv: "fd_inv t" using GetFDs_grows [OF fd_strict_inv [OF tab] ids] by simp
  have c: "(length pg = length arr - c) = (c + length pg = length arr)" using cookie(2) by auto
  obtain post resok w' where run: "run_state (nfsproc3_readdir_3_svc ns args result) w =
    (Some (result\<lparr>READDIR3res_status := NFS3_OK, READDIR3res_u := resok\<lparr>
       READDIR3resok_reply := \<lparr>dirlist3_entries = make_entries ids pg (int c),
         dirlist3_eof = (if length pg = length arr - c then TRUE else FALSE)\<rparr>,
       READDIR3resok_cookieverf := replicate 8 0,
       READDIR3resfail_dir_attributes := post\<rparr>\<rparr>), w')"
    and post: "run_state (get_post ns (Some p)) (w\<lparr>w_step := Suc (w_step w), w_fs := s', w_fddb := t\<rparr>) = (post, w')"
    using readdir_runs [OF dir [folded path] names cookie pg ids [folded path], of result] path by auto
  have "GetPath (w_fddb w') fd = Some q" if "GetPath t fd = Some q" for fd q
    using keepsD [OF resolving.get_post_keeps, of fd q "w\<lparr>w_step := Suc (w_step w), w_fs := s', w_fddb := t\<rparr>" ns
        "Some p"] inv that post
    by (simp add: resolves_def)
  moreover have "map (GetPath t) ids = map (\<lambda>fi. Some (child_path (go_path (Some p)) fi)) pg"
    using fds.issue_resolves [OF tab] ids by (simp add: issue_GetFDs comp_def)
  ultimately have "map (GetPath (w_fddb w')) ids = map (\<lambda>fi. Some (child_path (go_path (Some p)) fi)) pg"
    by (auto simp: list_eq_iff_nth_eq)
  then show ?thesis
    using run get_post_fs [OF _ post] by (intro exI conjI) (auto simp: make_entries_list [OF len] c)
qed

text \<open>
  C13: READDIR lists a page of the directory. For a cookie \<open>c\<close> within the directory the reply is
  OK; its entries are, in order, the longest run of entries from number \<open>c\<close> on that fits
  the slots and the bytes asked for; each has the name, the number after it as cookie, and as
  file id an identifier that stands for the path of the entry; the end is flagged exactly when
  the run reaches it.
\<close>

theorem readdir_lists_page:
  assumes tab: "fd_strict (w_fddb w)" and path: "fh_path (w_fddb w) (READDIR3args_dir args) = Some p"
    and dir: "fs_ReadDirectory ns (w_fs w) (go_path (Some p)) = (s', Inr arr)"
    and names: "\<forall>fi \<in> set arr. length (fi_Name fi) < unat NFS_MAXPATHLEN"
    and cookie: "sint (READDIR3args_cookie args) = int c" "c \<le> length arr"
    and pg: "pg = page (unat MAX_ENTRIES) (uint (readdir_count (READDIR3args_count args))) (drop c arr)"
  shows "\<exists>res w' ids. run_state (nfsproc3_readdir_3_svc ns args result) w = (Some res, w') \<and>
    READDIR3res_status res = NFS3_OK \<and>
    entry_list (dirlist3_entries (READDIR3resok_reply (READDIR3res_u res))) =
      map (\<lambda>k. (word_of_int (ids ! k), Some (cstr (fi_Name (pg ! k))), word_of_int (int c + int k + 1)))
        [0..<length pg] \<and>
    map (GetPath (w_fddb w')) ids = map (\<lambda>fi. Some (child_path (go_path (Some p)) fi)) pg \<and>
    dirlist3_eof (READDIR3resok_reply (READDIR3res_u res)) =
      (if c + length pg = length arr then TRUE else FALSE)"
  using readdir_page [OF assms] by blast

section \<open>Reading a whole directory\<close>

text \<open>
  A client that follows the cookies: it asks from cookie to cookie until the end is flagged.
  The fuel is the number of calls it makes at most.
\<close>

fun readdir_walk :: "nat \<Rightarrow> 'fs minfs \<Rightarrow> nfs_fh3 \<Rightarrow> u32 \<Rightarrow> u64 \<Rightarrow> 'fs world \<Rightarrow> charptr list option" where
  "readdir_walk 0 ns dir count cookie w = None"
| "readdir_walk (Suc fuel) ns dir count cookie w =
     (case run_state (nfsproc3_readdir_3_svc ns \<lparr>READDIR3args_dir = dir, READDIR3args_cookie = cookie,
         READDIR3args_cookieverf = replicate 8 0, READDIR3args_count = count\<rparr> default) w of
        (None, _) \<Rightarrow> None
      | (Some res, w') \<Rightarrow>
          if READDIR3res_status res \<noteq> NFS3_OK then None
          else (let reply = READDIR3resok_reply (READDIR3res_u res);
                    es = entry_list (dirlist3_entries reply);
                    names = map (\<lambda>(_, name, _). name) es
                in if dirlist3_eof reply = TRUE then Some names
                   else if es = [] then None
                   else map_option (append names) (readdir_walk fuel ns dir count (snd (snd (last es))) w')))"

lemma page_progress: "fis \<noteq> [] \<Longrightarrow> entry_cost (hd fis) \<le> b \<Longrightarrow> page (Suc r) b fis \<noteq> []"
  by (cases fis) auto

lemma readdir_count_enough:
  assumes "1160 \<le> count"
  shows "1056 \<le> uint (readdir_count count)"
proof -
  have "uint (count - 104 :: u32) = uint count - 104" if "104 \<le> count"
    using that by (simp add: uint_minus_simple_alt)
  moreover have "104 \<le> count" "1160 \<le> uint count" using assms by (simp_all add: word_le_def)
  ultimately show ?thesis by (simp add: readdir_count_def Let_def c_consts)
qed

lemma sint_cookie: "int c < 2 ^ 63 \<Longrightarrow> sint (word_of_int (int c) :: u64) = int c"
  using signed_take_bit_int_eq_self [of 63 "int c"] unfolding signed_of_int by simp

lemma readdir_walk_from:
  assumes pure: "pure_stat ns" and path: "clean_path p" and count: "1160 \<le> count"
    and names: "\<forall>fi \<in> set arr. length (fi_Name fi) < unat NFS_MAXPATHLEN"
    and small: "int (length arr) < 2 ^ 63"
  shows "fd_strict (w_fddb w) \<Longrightarrow> fh_path (w_fddb w) dir = Some p \<Longrightarrow>
    fs_ReadDirectory ns (w_fs w) p = (w_fs w, Inr arr) \<Longrightarrow> c \<le> length arr \<Longrightarrow> length arr - c < fuel \<Longrightarrow>
    readdir_walk fuel ns dir count (word_of_int (int c)) w =
      Some (map (\<lambda>fi. Some (cstr (fi_Name fi))) (drop c arr))"
proof (induction fuel arbitrary: c w)
  case (Suc fuel)
  let ?args = "\<lparr>READDIR3args_dir = dir, READDIR3args_cookie = word_of_int (int c),
    READDIR3args_cookieverf = replicate 8 0, READDIR3args_count = count\<rparr>"
  define pg where "pg = page (unat MAX_ENTRIES) (uint (readdir_count count)) (drop c arr)"
  have p: "go_path (Some p) = p" by (rule go_path_id [OF path])
  have cookie: "sint (word_of_int (int c) :: u64) = int c" using Suc.prems(4) small by (intro sint_cookie) linarith
  have path2: "fh_path (w_fddb w) (READDIR3args_dir ?args) = Some p" using Suc.prems(2) by simp
  have dir2: "fs_ReadDirectory ns (w_fs w) (go_path (Some p)) = (w_fs w, Inr arr)" using Suc.prems(3) p by simp
  have ck2: "sint (READDIR3args_cookie ?args) = int c" using cookie by simp
  have pg2: "pg = page (unat MAX_ENTRIES) (uint (readdir_count (READDIR3args_count ?args))) (drop c arr)"
    by (simp add: pg_def)
  obtain res w' ids where run: "run_state (nfsproc3_readdir_3_svc ns ?args default) w = (Some res, w')"
    and ok: "READDIR3res_status res = NFS3_OK"
    and es: "entry_list (dirlist3_entries (READDIR3resok_reply (READDIR3res_u res))) =
      map (\<lambda>k. (word_of_int (ids ! k), Some (cstr (fi_Name (pg ! k))), word_of_int (int c + int k + 1)))
        [0..<length pg]"
    and eof: "dirlist3_eof (READDIR3resok_reply (READDIR3res_u res)) =
      (if c + length pg = length arr then TRUE else FALSE)"
    and fs: "w_fs w' = w_fs w"
    using readdir_page [OF Suc.prems(1) path2 dir2 names ck2 Suc.prems(4) pg2, of default] pure by blast
  have "take (length pg) (drop c arr) = pg" unfolding pg_def by (rule page_prefix [symmetric])
  then have split: "drop c arr = pg @ drop (c + length pg) arr"
    by (metis append_take_drop_id drop_drop add.commute)
  have nm: "map (\<lambda>(_, name, _). name) (map (\<lambda>k. (word_of_int (ids ! k) :: u64, Some (cstr (fi_Name (pg ! k))),
      word_of_int (int c + int k + 1) :: u64)) [0..<length pg]) = map (\<lambda>fi. Some (cstr (fi_Name fi))) pg"
    by (rule nth_equalityI) auto
  show ?case
  proof (cases "c + length pg = length arr")
    case True
    then show ?thesis using run ok es eof nm split by (simp add: Let_def)
  next
    case False
    have "drop c arr \<noteq> []" using False Suc.prems(4) page_length(2) [of _ _ "drop c arr"]
      by (auto simp: pg_def)
    moreover have "entry_cost (hd (drop c arr)) \<le> uint (readdir_count count)"
    proof -
      have "hd (drop c arr) \<in> set arr" using calculation by (meson hd_in_set in_set_dropD)
      then have "length (fi_Name (hd (drop c arr))) < 1024" using names by (simp add: unat_dirconsts)
      then show ?thesis using readdir_count_enough [OF count] by (simp add: entry_cost_def)
    qed
    ultimately have ne: "pg \<noteq> []"
      unfolding pg_def using page_progress [of "drop c arr" _ 169] by (simp add: unat_dirconsts eval_nat_numeral)
    have le: "c + length pg \<le> length arr"
      using page_length(2) [of "unat MAX_ENTRIES" "uint (readdir_count count)" "drop c arr"] Suc.prems(4)
      by (simp add: pg_def)
    have lastc: "snd (snd (last (map (\<lambda>k. (word_of_int (ids ! k) :: u64, Some (cstr (fi_Name (pg ! k))),
        word_of_int (int c + int k + 1) :: u64)) [0..<length pg]))) = word_of_int (int (c + length pg))"
      using ne by (simp add: last_map last_upt of_nat_diff Suc_leI)
    have tab': "fd_strict (w_fddb w')"
      using keepsD [OF strict.nfsproc3_readdir_keeps, of w ns ?args default] Suc.prems(1) run
      by (simp add: strict_table_def)
    have path': "fh_path (w_fddb w') dir = Some p"
      using keepsD [OF standing.nfsproc3_readdir_keeps, of dir p w ns ?args default] Suc.prems(1,2) run
      by (simp add: stands_for_def fd_strict_inv)
    have "readdir_walk fuel ns dir count (word_of_int (int (c + length pg))) w' =
        Some (map (\<lambda>fi. Some (cstr (fi_Name fi))) (drop (c + length pg) arr))"
      by (rule Suc.IH [OF tab' path']) (use Suc.prems fs le ne in \<open>auto simp: neq_Nil_conv\<close>)
    moreover have "map (\<lambda>fi. Some (cstr (fi_Name fi))) (drop c arr) = map (\<lambda>fi. Some (cstr (fi_Name fi))) pg @
        map (\<lambda>fi. Some (cstr (fi_Name fi))) (drop (c + length pg) arr)"
      using split by (metis map_append)
    moreover have "FALSE \<noteq> TRUE" by (simp add: TRUE_def FALSE_def)
    ultimately show ?thesis
      using run ok es eof nm lastc ne False by (simp add: Let_def del: of_nat_add)
  qed
qed simp

text \<open>
  C5: Following the cookies lists the whole directory once. When the directory does not change,
  the client asks for at least 1160 bytes, and the backend's names are shorter than the path
  limit, the client that starts with cookie 0 and continues with the last cookie of each reply
  reaches the end after at most as many calls as there are entries, plus one, and has seen
  every entry exactly once, in the order of the backend.
\<close>

theorem readdir_walk_complete:
  assumes "pure_stat ns" and "clean_path p" and "1160 \<le> count"
    and "\<forall>fi \<in> set arr. length (fi_Name fi) < unat NFS_MAXPATHLEN" and "int (length arr) < 2 ^ 63"
    and "fd_strict (w_fddb w)" and "fh_path (w_fddb w) dir = Some p"
    and "fs_ReadDirectory ns (w_fs w) p = (w_fs w, Inr arr)"
  shows "readdir_walk (Suc (length arr)) ns dir count 0 w = Some (map (\<lambda>fi. Some (cstr (fi_Name fi))) arr)"
  using readdir_walk_from [OF assms(1-5) assms(6-8), of 0 "Suc (length arr)"] by simp

lemma mem_ReadDirectory_root:
  "fs_ReadDirectory mem_fs mem_tree ''/'' =
    (mem_tree, Inr [mem_info (''/a'', Mem_file [1, 2, 3]), mem_info (''/d'', Mem_dir)])"
  by code_simp

lemma root_clean: "clean_path ''/''"
  unfolding clean_path_def by (rule exI [of _ "[]"]) (simp add: abs_path_def)

lemma page_one: "page r b [fi] = (if r = 0 \<or> b < entry_cost fi then [] else [fi])"
  by (cases r) auto

lemma base_names: "base_name ''/a'' = ''a''" "base_name ''/d'' = ''d''"
  by (simp_all add: base_name_def)

theorem readdir_walk_complete_witness:
  "readdir_walk 3 mem_fs root_handle 1160 0 mem_world = Some [Some ''a'', Some ''d'']"
proof -
  let ?arr = "[mem_info (''/a'', Mem_file [1, 2, 3]), mem_info (''/d'', Mem_dir)]"
  have "readdir_walk (Suc (length ?arr)) mem_fs root_handle 1160 0 mem_world =
      Some (map (\<lambda>fi. Some (cstr (fi_Name fi))) ?arr)"
    by (rule readdir_walk_complete [OF pure_stat_mem root_clean])
      (simp_all add: fd_strict_init mem_ReadDirectory_root base_names unat_dirconsts)
  moreover have "Suc (length ?arr) = 3" by simp
  ultimately show ?thesis by (simp only:) (simp add: base_names cstr_def NUL_def)
qed

theorem readdir_lists_page_witness:
  "\<exists>res w' ids. run_state (nfsproc3_readdir_3_svc mem_fs \<lparr>READDIR3args_dir = root_handle,
      READDIR3args_cookie = 1, READDIR3args_cookieverf = replicate 8 0, READDIR3args_count = 4096\<rparr> default)
      mem_world = (Some res, w') \<and>
    entry_list (dirlist3_entries (READDIR3resok_reply (READDIR3res_u res))) =
      [(word_of_int (ids ! 0), Some ''d'', 2)] \<and>
    map (GetPath (w_fddb w')) ids = [Some ''/d''] \<and>
    dirlist3_eof (READDIR3resok_reply (READDIR3res_u res)) = TRUE"
proof -
  let ?args = "\<lparr>READDIR3args_dir = root_handle, READDIR3args_cookie = 1,
    READDIR3args_cookieverf = replicate 8 0, READDIR3args_count = 4096\<rparr>"
  let ?d = "mem_info (''/d'', Mem_dir)" and ?arr = "[mem_info (''/a'', Mem_file [1, 2, 3]), mem_info (''/d'', Mem_dir)]"
  have p: "go_path (Some ''/'') = ''/''" by (rule go_path_id [OF root_clean])
  have pg: "[?d] = page (unat MAX_ENTRIES) (uint (readdir_count (READDIR3args_count ?args))) (drop 1 ?arr)"
    by (simp add: page_one readdir_count_def Let_def c_consts entry_cost_def base_names)
  have names: "\<forall>fi \<in> set ?arr. length (fi_Name fi) < unat NFS_MAXPATHLEN"
    by (simp add: base_names unat_dirconsts)
  have "child_path ''/'' ?d = ''/d''"
    using path_Clean_child_good [of "[]" "''d''"]
    by (simp add: child_path_def base_names abs_path_def good_name_def)
  then show ?thesis
    using readdir_lists_page [OF _ _ _ names _ _ pg, of mem_world "''/''" mem_fs mem_tree default]
    by (fastforce simp: fd_strict_init p mem_ReadDirectory_root base_names cstr_def NUL_def)
qed

end
