(* ===== verification/Data_Props.thy ===== *)
theory Data_Props
  imports Wire Xdr_Codec_Results Listing_Props
begin

text \<open>
  Properties of the building blocks: names and their buffers, handles, error codes, data
  transfer, what FSINFO says of it, the hosts, and the encodings.
\<close>

section \<open>Names, handles, hosts\<close>

text \<open>
  C38: A path made of a directory and a name fits its buffer. Whenever \<open>cat_name\<close> says OK, the
  name has no slash and is not empty, and the path it leaves, with its terminating NUL, is at
  most \<open>NFS_MAXPATHLEN\<close> long, provided the path of the directory was.
\<close>

theorem cat_name_fits:
  assumes "cat_name path name obj = (NFS3_OK, res)"
    and "\<And>p. path = Some p \<Longrightarrow> length p + 1 \<le> unat NFS_MAXPATHLEN"
  shows "length res + 1 \<le> unat NFS_MAXPATHLEN \<and>
    (\<exists>p n. path = Some p \<and> name = Some n \<and> n \<noteq> [] \<and> CHR ''/'' \<notin> set n \<and>
      res = (if n = ''.'' then p else p @ ''/'' @ n))"
  using assms by (auto simp: cat_name_def c_consts split: option.splits if_splits)

theorem cat_name_fits_witness:
  "length ''/d/b'' + 1 \<le> unat NFS_MAXPATHLEN \<and>
    (\<exists>p n. Some ''/d'' = Some p \<and> Some ''b'' = Some n \<and> n \<noteq> [] \<and> CHR ''/'' \<notin> set n \<and>
      ''/d/b'' = (if n = ''.'' then p else p @ ''/'' @ n))"
  by (rule cat_name_fits [of "Some ''/d''" "Some ''b''" "''''"]) (simp_all add: cat_name_def c_consts)

text \<open>
  C36: Handles and identifiers correspond. What \<open>fh_comp_post\<close> puts into a reply for an
  identifier, and what LOOKUP and MNT make of the result of \<open>fh_comp\<close>, is a handle that the
  protocol can carry and \<open>nfh_valid\<close> accepts; \<open>fh_decomp\<close> takes it, in any state, to the path that
  the identifier leads to there, and never to the root instead; and handles of different
  identifiers differ, whatever byte follows the structure in memory.
\<close>

theorem handle_round_trip:
  assumes "0 \<le> fd" "fd < 2 ^ 31" "0 \<le> fd'" "fd' < 2 ^ 31"
    and "run_state (fh_comp_post (word_of_int fd) path) w = (post, w1)"
    and "run_state (fh_data (fh_comp (word_of_int fd') path')) w' = (data, w1')"
  shows "post_op_fh3_handle_follows post = TRUE \<and>
    nfh_valid (post_op_fh3_handle post) = TRUE \<and> ok_nfs_fh3 (post_op_fh3_handle post) \<and>
    run_state (fh_decomp (post_op_fh3_handle post)) v = (GetPath (w_fddb v) fd, v) \<and>
    nfh_valid \<lparr>nfs_fh3_data = data\<rparr> = TRUE \<and> ok_nfs_fh3 \<lparr>nfs_fh3_data = data\<rparr> \<and>
    run_state (fh_decomp \<lparr>nfs_fh3_data = data\<rparr>) v = (GetPath (w_fddb v) fd', v) \<and>
    (post_op_fh3_handle post = \<lparr>nfs_fh3_data = data\<rparr> \<longrightarrow> fd = fd')"
proof -
  obtain b where post: "post_op_fh3_handle_follows post = TRUE" "post_op_fh3_handle post = handle_of fd b"
    using assms(5) by (auto simp: fh_comp_post_def run_act Let_def handle_of_fold)
  obtain b' where data: "\<lparr>nfs_fh3_data = data\<rparr> = handle_of fd' b'"
    using assms(6) by (auto simp: run_act handle_of_fold)
  show ?thesis
    unfolding post data using assms(1-4) handle_of_inject [of fd b fd' b'] by (auto simp: run_fh_decomp)
qed

theorem handle_round_trip_witness:
  "\<exists>post w1. run_state (fh_comp_post 102 (Some ''/d/b'')) held_world = (post, w1) \<and>
    nfh_valid (post_op_fh3_handle post) = TRUE \<and>
    run_state (fh_decomp (post_op_fh3_handle post)) held_world = (Some ''/d/b'', held_world)"
proof -
  obtain post w1 where post: "run_state (fh_comp_post (word_of_int 102) (Some ''/d/b'')) held_world = (post, w1)"
    by fastforce
  obtain data w2 where data: "run_state (fh_data (fh_comp (word_of_int 101) (Some ''/d''))) held_world = (data, w2)"
    by fastforce
  have "GetPath (w_fddb held_world) 102 = Some ''/d/b''" by (simp add: held_table GetPath_def)
  then show ?thesis
    using handle_round_trip [OF _ _ _ _ post data, of held_world] post by auto
qed

text \<open>
  Only the local host is accepted. The function that prints the address of the caller and
  compares it, without case, with \<open>127.0.0.1\<close> accepts exactly that address, because the
  printed form determines the address.
\<close>

lemma accept_mount_exact:
  "(go_accept_mount addr path = NFS3_OK \<longleftrightarrow> addr = localhost) \<and>
   (inet_ntoa addr = inet_ntoa addr' \<longleftrightarrow> addr = addr')"
  by (simp add: go_accept_mount_iff inet_ntoa_def dotted_quad_inject)

section \<open>Errors\<close>

text \<open>
  Errors are never taken for results. The status of an error is none that says OK; negated,
  as \<open>go_pread\<close> and \<open>go_pwrite\<close> return it, it is negative as an \<open>int\<close>, so it is no byte count,
  and READ's reply carries the status of the error again.
\<close>

lemma errors_are_errors:
  "errno (Some e) \<noteq> NFS3_OK \<and> sint (- errno (Some e)) < 0 \<and>
   READ3res_status (read_reply result count (- errno (Some e)) buf) = errno (Some e)"
  using negated_errno [of e] by (simp add: read_reply_error)

section \<open>READ and WRITE\<close>

text \<open>
  C11: READ returns what the backend reads. The backend is asked for one byte more than the
  client, to learn whether the file goes on; the static buffer has room for it whatever the
  client asks. On success the reply has the bytes read, at most as many as asked for and as
  the transport allows, their number, and the end flag when there were no more; on an error
  its status.
\<close>

theorem read_answers:
  assumes "minfs_ok ns" and "length buf = unat NFS_MAXDATA_TCP + 1"
    and "read_call ns rqstp args buf w = (s', out, n, err)"
    and "length out = unat (read_count rqstp args) + 1"
  shows "\<exists>res buf' w'. run_state (nfsproc3_read_3_svc ns rqstp args (result, buf)) w =
      (Some (res, buf'), w') \<and> length buf' = length buf \<and>
    (if err = None \<or> is_eof (the err)
     then (let m = min n (uint (read_count rqstp args)) in
       READ3res_status res = NFS3_OK \<and>
       READ3resok_eof (READ3res_u res) = (if n \<le> uint (read_count rqstp args) then TRUE else FALSE) \<and>
       uint (READ3resok_count (READ3res_u res)) = m \<and>
       counted_vis (READ3resok_data (READ3res_u res)) =
         \<lparr>counted_len = word_of_int m, counted_val = take (nat m) out\<rparr>)
     else READ3res_status res = errno err)"
  using read_correct [OF assms] .

text \<open>The file \<open>/a\<close>, of which identifier 101 is the number.\<close>

definition a_world :: "memfs world" where
  "a_world = mem_world\<lparr>w_fddb := fst (GetFDs init_fdCache [''/a''])\<rparr>"

lemma a_world_sel [simp]:
  "w_fs a_world = mem_tree" "w_env a_world = plain_env"
  "GetPath (w_fddb a_world) 101 = Some ''/a''"
  by (simp_all add: a_world_def init_fdCache_def GetFD_def GetPath_def)

lemma go_path_a: "go_path (Some ''/a'') = ''/a''"
  using go_path_abs [of "[''a'']"] by (simp add: abs_path_def good_name_def)

lemma a_read_count: "read_count (demo_req 6)
    \<lparr>READ3args_file = handle_of 101 0, READ3args_offset = 1, READ3args_count = 4\<rparr> = 4"
  by (simp add: read_count_def)

lemma a_read_call: "read_call mem_fs (demo_req 6)
    \<lparr>READ3args_file = handle_of 101 0, READ3args_offset = 1, READ3args_count = 4\<rparr>
    (replicate (unat NFS_MAXDATA_TCP + 1) 0) a_world = (mem_tree, [2, 3, 0, 0, 0], 2, Some (OtherErr ''EOF''))"
proof -
  have "min 5 (unat NFS_MAXDATA_TCP + 1) = 5" by (simp add: unat_maxdata)
  then have "take 5 (replicate (unat NFS_MAXDATA_TCP + 1) 0) = [0, 0, 0, 0, 0 :: byte]"
    by (simp only: take_replicate) (simp add: numeral_eq_Suc)
  then show ?thesis
    by (simp add: read_call_def a_read_count go_path_a) (simp add: mem_fs_def)
qed

theorem read_answers_witness:
  "\<exists>res buf' w'. run_state (nfsproc3_read_3_svc mem_fs (demo_req 6)
      \<lparr>READ3args_file = handle_of 101 0, READ3args_offset = 1, READ3args_count = 4\<rparr>
      (default, replicate (unat NFS_MAXDATA_TCP + 1) 0)) a_world = (Some (res, buf'), w') \<and>
    READ3res_status res = NFS3_OK \<and> READ3resok_eof (READ3res_u res) = TRUE \<and>
    counted_vis (READ3resok_data (READ3res_u res)) = \<lparr>counted_len = 2, counted_val = [2, 3]\<rparr>"
proof -
  have "is_eof (OtherErr ''EOF'')" by code_simp
  then show ?thesis
    using read_answers [OF mem_fs_ok _ a_read_call, of default] by (fastforce simp: a_read_count)
qed

text \<open>
  C12: WRITE stores what the client sent. The backend's \<open>WriteFile\<close> gets the bytes of the
  request at its offset; on success the reply has the number of bytes the backend wrote and
  says that they are stable, on an error it has the status of the error.
\<close>

theorem write_answers:
  assumes "counted_fits (NOT 0) (WRITE3args_data args)"
    and "write_call ns args w = (s', n, err)" and "0 \<le> n" "n < 2 ^ 31"
  shows "\<exists>res w'. run_state (nfsproc3_write_3_svc ns args result) w = (Some res, w') \<and>
    (if err = None \<or> is_eof (the err)
     then WRITE3res_status res = NFS3_OK \<and> uint (WRITE3resok_count (WRITE3res_u res)) = n \<and>
       WRITE3resok_committed (WRITE3res_u res) = FILE_SYNC
     else WRITE3res_status res = errno err)"
  using write_correct [OF assms] .

theorem write_answers_witness:
  "\<exists>res w'. run_state (nfsproc3_write_3_svc mem_fs \<lparr>WRITE3args_file = root_handle, WRITE3args_offset = 0,
      WRITE3args_count = 1, WRITE3args_stable = 0, WRITE3args_data = \<lparr>counted_len = 1, counted_val = [9]\<rparr>\<rparr>
      default) mem_world = (Some res, w') \<and> WRITE3res_status res = NFS3ERR_INVAL"
proof -
  let ?args = "\<lparr>WRITE3args_file = root_handle, WRITE3args_offset = 0, WRITE3args_count = 1,
    WRITE3args_stable = 0, WRITE3args_data = \<lparr>counted_len = 1, counted_val = [9]\<rparr>\<rparr> :: WRITE3args"
  have p: "go_path (Some ''/'') = ''/''" by (rule go_path_id [OF root_clean])
  have fits: "counted_fits (NOT 0) (WRITE3args_data ?args)"
    by (simp add: counted_fits_def)
  have "w_fs (snd (run_state (get_pre mem_fs (Some ''/'')) mem_world)) = mem_tree"
    using get_pre_fs [OF pure_stat_mem, of "Some ''/''" mem_world] by (metis mem_world_sel(1) prod.collapse)
  then have call: "write_call mem_fs ?args mem_world = (mem_tree, 0, Some ErrInvalid)"
    by (simp add: write_call_def Let_def p) (simp add: mem_fs_def)
  have "\<not> is_eof ErrInvalid" by code_simp
  then show ?thesis
    using write_answers [OF fits call, of default] by (auto simp: errno_def errTranslator_def)
qed

text \<open>
  C35: READ keeps to what FSINFO advertises. Whatever count a client asks for, the bytes that
  the reply sends are exactly as many as its count says, all of them lie in the static buffer,
  and they are at most the \<open>rtmax\<close> of FSINFO for the same transport, which is half a megabyte
  on a stream and 32 kilobytes otherwise.
\<close>

theorem read_within_rtmax:
  assumes "minfs_ok ns" and "length buf = unat NFS_MAXDATA_TCP + 1"
    and "run_state (nfsproc3_fsinfo_3_svc ns rqstp fargs fresult) w0 = (info, w1)"
    and "run_state (nfsproc3_read_3_svc ns rqstp args (result, buf)) w = (Some (res, buf'), w')"
    and "READ3res_status res = NFS3_OK"
  shows "READ3resok_count (READ3res_u res) \<le> FSINFO3resok_rtmax (FSINFO3res_u info) \<and>
    counted_len (READ3resok_data (READ3res_u res)) = READ3resok_count (READ3res_u res) \<and>
    length (counted_val (counted_vis (READ3resok_data (READ3res_u res)))) =
      unat (READ3resok_count (READ3res_u res)) \<and>
    FSINFO3resok_rtmax (FSINFO3res_u info) =
      (if get_socket_type rqstp = SOCK_STREAM then NFS_MAXDATA_TCP else NFS_MAXDATA_UDP)"
proof -
  have info: "FSINFO3resok_rtmax (FSINFO3res_u info) = maxdata_of rqstp"
    using assms(3) by (auto simp: nfsproc3_fsinfo_3_svc_def run_act Let_def split: prod.splits)
  have "READ3resok_count (READ3res_u res) \<le> read_count rqstp args"
    by (rule read_count_bound(1) [OF assms(1,2,4,5)])
  also have "\<dots> \<le> maxdata_of rqstp" by (simp add: read_count_def)
  finally show ?thesis
    using info read_count_bound(2,3) [OF assms(1,2,4,5)] by (simp add: maxdata_of_def counted_vis_def)
qed

theorem read_within_rtmax_witness:
  "\<exists>info w1 res buf' w'.
    run_state (nfsproc3_fsinfo_3_svc mem_fs (demo_req 6) \<lparr>FSINFO3args_fsroot = root_handle\<rparr> default) a_world =
      (info, w1) \<and>
    run_state (nfsproc3_read_3_svc mem_fs (demo_req 6)
      \<lparr>READ3args_file = handle_of 101 0, READ3args_offset = 1, READ3args_count = 4\<rparr>
      (default, replicate (unat NFS_MAXDATA_TCP + 1) 0)) a_world = (Some (res, buf'), w') \<and>
    READ3resok_count (READ3res_u res) \<le> FSINFO3resok_rtmax (FSINFO3res_u info)"
proof -
  obtain info w1 where info: "run_state (nfsproc3_fsinfo_3_svc mem_fs (demo_req 6)
      \<lparr>FSINFO3args_fsroot = root_handle\<rparr> default) a_world = (info, w1)" by fastforce
  have eof: "is_eof (OtherErr ''EOF'')" by code_simp
  have len: "length [2, 3, 0, 0, 0 :: byte] = unat (read_count (demo_req 6)
      \<lparr>READ3args_file = handle_of 101 0, READ3args_offset = 1, READ3args_count = 4\<rparr>) + 1"
    by (simp add: a_read_count)
  obtain res buf' w' where read: "run_state (nfsproc3_read_3_svc mem_fs (demo_req 6)
      \<lparr>READ3args_file = handle_of 101 0, READ3args_offset = 1, READ3args_count = 4\<rparr>
      (default, replicate (unat NFS_MAXDATA_TCP + 1) 0)) a_world = (Some (res, buf'), w')"
    and ok: "READ3res_status res = NFS3_OK"
    using read_correct [OF mem_fs_ok length_replicate a_read_call len, of default] eof
    unfolding Let_def by (elim exE conjE) (metis option.sel)
  show ?thesis
    using read_within_rtmax [OF mem_fs_ok length_replicate info read ok] info read by blast
qed

section \<open>Handles that stand for nothing\<close>

text \<open>
  A handle without a path becomes NULL, of which the Go functions make the empty string and so
  the root.
\<close>

lemma go_path_NULL: "go_path None = go_path (Some ''/'')"
  using go_path_id [OF root_clean] by (simp add: go_path_None)

lemma go_calls_NULL:
  "go_lstat ns None = go_lstat ns (Some ''/'')" "go_chmod ns None = go_chmod ns (Some ''/'')"
  "go_truncate ns None = go_truncate ns (Some ''/'')" "go_modtime ns None = go_modtime ns (Some ''/'')"
  "go_pread ns None = go_pread ns (Some ''/'')" "go_pwrite ns None = go_pwrite ns (Some ''/'')"
  "go_readdir_full ns None = go_readdir_full ns (Some ''/'')"
  by (simp_all add: fun_eq_iff go_lstat_def go_chmod_def go_truncate_def go_modtime_def go_pread_def
      go_pwrite_def go_readdir_full_def go_path_NULL)

lemma attributes_NULL:
  "get_post ns None = get_post ns (Some ''/'')" "get_pre ns None = get_pre ns (Some ''/'')"
  by (simp_all add: get_post_def get_pre_def go_calls_NULL)

text \<open>
  C30: A handle that stands for nothing is served as the root directory. The code does not look
  at the NULL that \<open>fh_decomp\<close> returns for a malformed handle or one that was never given out:
  GETATTR, SETATTR, ACCESS, READ, WRITE and READDIR do and answer exactly what they do and answer
  for a handle of the root, where the protocol has \<open>NFS3ERR_STALE\<close> and \<open>NFS3ERR_BADHANDLE\<close>.
\<close>

theorem stale_handle_is_root:
  assumes "fh_path (w_fddb w) h = None"
  shows "run_state (nfsproc3_getattr_3_svc ns \<lparr>GETATTR3args_object = h\<rparr> r1) w =
      run_state (nfsproc3_getattr_3_svc ns \<lparr>GETATTR3args_object = root_handle\<rparr> r1) w \<and>
    run_state (nfsproc3_setattr_3_svc ns (a2\<lparr>SETATTR3args_object := h\<rparr>) r2) w =
      run_state (nfsproc3_setattr_3_svc ns (a2\<lparr>SETATTR3args_object := root_handle\<rparr>) r2) w \<and>
    run_state (nfsproc3_access_3_svc ns (a3\<lparr>ACCESS3args_object := h\<rparr>) r3) w =
      run_state (nfsproc3_access_3_svc ns (a3\<lparr>ACCESS3args_object := root_handle\<rparr>) r3) w \<and>
    run_state (nfsproc3_read_3_svc ns rqstp (a4\<lparr>READ3args_file := h\<rparr>) r4) w =
      run_state (nfsproc3_read_3_svc ns rqstp (a4\<lparr>READ3args_file := root_handle\<rparr>) r4) w \<and>
    run_state (nfsproc3_write_3_svc ns (a5\<lparr>WRITE3args_file := h\<rparr>) r5) w =
      run_state (nfsproc3_write_3_svc ns (a5\<lparr>WRITE3args_file := root_handle\<rparr>) r5) w \<and>
    run_state (nfsproc3_readdir_3_svc ns (a6\<lparr>READDIR3args_dir := h\<rparr>) r6) w =
      run_state (nfsproc3_readdir_3_svc ns (a6\<lparr>READDIR3args_dir := root_handle\<rparr>) r6) w"
  by (cases r4; intro conjI)
    (simp_all add: assms nfsproc3_getattr_3_svc_def nfsproc3_setattr_3_svc_def
      nfsproc3_access_3_svc_def nfsproc3_read_3_svc_def nfsproc3_write_3_svc_def
      nfsproc3_readdir_3_svc_def run_act Let_def go_calls_NULL attributes_NULL cong: option.case_cong)

theorem stale_handle_is_root_witness:
  "run_state (nfsproc3_getattr_3_svc mem_fs \<lparr>GETATTR3args_object = handle_of 999 0\<rparr> default) mem_world =
   run_state (nfsproc3_getattr_3_svc mem_fs \<lparr>GETATTR3args_object = root_handle\<rparr> default) mem_world"
proof -
  have "fh_path (w_fddb mem_world) (handle_of 999 0) = None"
    by (simp add: GetPath_def init_fdCache_def)
  from stale_handle_is_root [OF this, THEN conjunct1] show ?thesis .
qed

end
