(* ===== verification/Xdr_Props.thy ===== *)
theory Xdr_Props
  imports Wire Xdr_Codec_Results
begin

text \<open>
  The round trips of the encodings of all procedures: what one side encodes the other decodes to
  the same value.
\<close>

text \<open>
  C14: The arguments of every procedure survive the network. Whatever value a client has that
  the protocol can express, the bytes that the filter makes of it are accepted by the same
  filter on the server, are used up, and give the same value; so no two values share an
  encoding.
\<close>

theorem arguments_round_trip:
  "(ok_GETATTR3args a_getattr \<longrightarrow> decode xdr_GETATTR3args (encode xdr_GETATTR3args a_getattr) = Some a_getattr) \<and>
   (ok_SETATTR3args a_setattr \<longrightarrow> decode xdr_SETATTR3args (encode xdr_SETATTR3args a_setattr) = Some a_setattr) \<and>
   (ok_LOOKUP3args a_lookup \<longrightarrow> decode xdr_LOOKUP3args (encode xdr_LOOKUP3args a_lookup) = Some a_lookup) \<and>
   (ok_ACCESS3args a_access \<longrightarrow> decode xdr_ACCESS3args (encode xdr_ACCESS3args a_access) = Some a_access) \<and>
   (ok_READLINK3args a_readlink \<longrightarrow> decode xdr_READLINK3args (encode xdr_READLINK3args a_readlink) = Some a_readlink) \<and>
   (ok_READ3args a_read \<longrightarrow> decode xdr_READ3args (encode xdr_READ3args a_read) = Some a_read) \<and>
   (ok_WRITE3args a_write \<longrightarrow> decode xdr_WRITE3args (encode xdr_WRITE3args a_write) = Some a_write) \<and>
   (ok_CREATE3args a_create \<longrightarrow> decode xdr_CREATE3args (encode xdr_CREATE3args a_create) = Some a_create) \<and>
   (ok_MKDIR3args a_mkdir \<longrightarrow> decode xdr_MKDIR3args (encode xdr_MKDIR3args a_mkdir) = Some a_mkdir) \<and>
   (ok_SYMLINK3args a_symlink \<longrightarrow> decode xdr_SYMLINK3args (encode xdr_SYMLINK3args a_symlink) = Some a_symlink) \<and>
   (ok_MKNOD3args a_mknod \<longrightarrow> decode xdr_MKNOD3args (encode xdr_MKNOD3args a_mknod) = Some a_mknod) \<and>
   (ok_REMOVE3args a_remove \<longrightarrow> decode xdr_REMOVE3args (encode xdr_REMOVE3args a_remove) = Some a_remove) \<and>
   (ok_RMDIR3args a_rmdir \<longrightarrow> decode xdr_RMDIR3args (encode xdr_RMDIR3args a_rmdir) = Some a_rmdir) \<and>
   (ok_RENAME3args a_rename \<longrightarrow> decode xdr_RENAME3args (encode xdr_RENAME3args a_rename) = Some a_rename) \<and>
   (ok_LINK3args a_link \<longrightarrow> decode xdr_LINK3args (encode xdr_LINK3args a_link) = Some a_link) \<and>
   (ok_READDIR3args a_readdir \<longrightarrow> decode xdr_READDIR3args (encode xdr_READDIR3args a_readdir) = Some a_readdir) \<and>
   (ok_READDIRPLUS3args a_readdirplus \<longrightarrow> decode xdr_READDIRPLUS3args (encode xdr_READDIRPLUS3args a_readdirplus) = Some a_readdirplus) \<and>
   (ok_FSSTAT3args a_fsstat \<longrightarrow> decode xdr_FSSTAT3args (encode xdr_FSSTAT3args a_fsstat) = Some a_fsstat) \<and>
   (ok_FSINFO3args a_fsinfo \<longrightarrow> decode xdr_FSINFO3args (encode xdr_FSINFO3args a_fsinfo) = Some a_fsinfo) \<and>
   (ok_PATHCONF3args a_pathconf \<longrightarrow> decode xdr_PATHCONF3args (encode xdr_PATHCONF3args a_pathconf) = Some a_pathconf) \<and>
   (ok_COMMIT3args a_commit \<longrightarrow> decode xdr_COMMIT3args (encode xdr_COMMIT3args a_commit) = Some a_commit) \<and>
   (str_ok MNTPATHLEN a_path \<longrightarrow> decode xdr_dirpath (encode xdr_dirpath a_path) = Some a_path)"
  by (intro conjI impI rtrip_encode(3); simp only: default_option_def xdr_rt)

lemma ok_root_handle: "ok_nfs_fh3 root_handle"
  using ok_root by (simp add: ok_diropargs3_def in_root_def)

theorem arguments_round_trip_witness:
  "decode xdr_LOOKUP3args (encode xdr_LOOKUP3args \<lparr>LOOKUP3args_what = in_root ''a''\<rparr>) =
     Some \<lparr>LOOKUP3args_what = in_root ''a''\<rparr> \<and>
   decode xdr_READ3args (encode xdr_READ3args
     \<lparr>READ3args_file = root_handle, READ3args_offset = 2 ^ 40, READ3args_count = 5\<rparr>) =
     Some \<lparr>READ3args_file = root_handle, READ3args_offset = 2 ^ 40, READ3args_count = 5\<rparr> \<and>
   decode xdr_dirpath (encode xdr_dirpath (Some ''/d'')) = Some (Some ''/d'')"
proof -
  have "ok_LOOKUP3args \<lparr>LOOKUP3args_what = in_root ''a''\<rparr>"
    by (simp add: ok_LOOKUP3args_def ok_root)
  moreover have "ok_READ3args
      \<lparr>READ3args_file = root_handle, READ3args_offset = 2 ^ 40, READ3args_count = 5\<rparr>"
    by (simp add: ok_READ3args_def ok_root_handle)
  moreover have "str_ok MNTPATHLEN (Some ''/d'')" by (simp add: str_ok_def c_consts NUL_def)
  moreover note arguments_round_trip [where a_lookup = "\<lparr>LOOKUP3args_what = in_root ''a''\<rparr>" and
      a_read = "\<lparr>READ3args_file = root_handle, READ3args_offset = 2 ^ 40, READ3args_count = 5\<rparr>" and
      a_path = "Some ''/d''"]
  ultimately show ?thesis
    by (simp only: simp_thms)
qed

text \<open>
  C15: The results of every procedure survive the network. A result union is sent by the arm
  that its status selects, a counted array up to its count; whatever else the structure holds
  in memory is not sent. What arrives is that visible part, and all of the message is used up.
\<close>

theorem results_round_trip:
  "(ok_GETATTR3res r_getattr \<longrightarrow> decode xdr_GETATTR3res (encode xdr_GETATTR3res r_getattr) = Some (vis_GETATTR3res r_getattr)) \<and>
   (ok_SETATTR3res r_setattr \<longrightarrow> decode xdr_SETATTR3res (encode xdr_SETATTR3res r_setattr) = Some (vis_SETATTR3res r_setattr)) \<and>
   (ok_LOOKUP3res r_lookup \<longrightarrow> decode xdr_LOOKUP3res (encode xdr_LOOKUP3res r_lookup) = Some (vis_LOOKUP3res r_lookup)) \<and>
   (ok_ACCESS3res r_access \<longrightarrow> decode xdr_ACCESS3res (encode xdr_ACCESS3res r_access) = Some (vis_ACCESS3res r_access)) \<and>
   (ok_READLINK3res r_readlink \<longrightarrow> decode xdr_READLINK3res (encode xdr_READLINK3res r_readlink) = Some (vis_READLINK3res r_readlink)) \<and>
   (ok_READ3res r_read \<longrightarrow> decode xdr_READ3res (encode xdr_READ3res r_read) = Some (vis_READ3res r_read)) \<and>
   (ok_WRITE3res r_write \<longrightarrow> decode xdr_WRITE3res (encode xdr_WRITE3res r_write) = Some (vis_WRITE3res r_write)) \<and>
   (ok_CREATE3res r_create \<longrightarrow> decode xdr_CREATE3res (encode xdr_CREATE3res r_create) = Some (vis_CREATE3res r_create)) \<and>
   (ok_MKDIR3res r_mkdir \<longrightarrow> decode xdr_MKDIR3res (encode xdr_MKDIR3res r_mkdir) = Some (vis_MKDIR3res r_mkdir)) \<and>
   (ok_SYMLINK3res r_symlink \<longrightarrow> decode xdr_SYMLINK3res (encode xdr_SYMLINK3res r_symlink) = Some (vis_SYMLINK3res r_symlink)) \<and>
   (ok_MKNOD3res r_mknod \<longrightarrow> decode xdr_MKNOD3res (encode xdr_MKNOD3res r_mknod) = Some (vis_MKNOD3res r_mknod)) \<and>
   (ok_REMOVE3res r_remove \<longrightarrow> decode xdr_REMOVE3res (encode xdr_REMOVE3res r_remove) = Some (vis_REMOVE3res r_remove)) \<and>
   (ok_RMDIR3res r_rmdir \<longrightarrow> decode xdr_RMDIR3res (encode xdr_RMDIR3res r_rmdir) = Some (vis_RMDIR3res r_rmdir)) \<and>
   (ok_RENAME3res r_rename \<longrightarrow> decode xdr_RENAME3res (encode xdr_RENAME3res r_rename) = Some (vis_RENAME3res r_rename)) \<and>
   (ok_LINK3res r_link \<longrightarrow> decode xdr_LINK3res (encode xdr_LINK3res r_link) = Some (vis_LINK3res r_link)) \<and>
   (ok_READDIR3res r_readdir \<longrightarrow> decode xdr_READDIR3res (encode xdr_READDIR3res r_readdir) = Some (vis_READDIR3res r_readdir)) \<and>
   (ok_READDIRPLUS3res r_readdirplus \<longrightarrow> decode xdr_READDIRPLUS3res (encode xdr_READDIRPLUS3res r_readdirplus) = Some (vis_READDIRPLUS3res r_readdirplus)) \<and>
   (ok_FSSTAT3res r_fsstat \<longrightarrow> decode xdr_FSSTAT3res (encode xdr_FSSTAT3res r_fsstat) = Some (vis_FSSTAT3res r_fsstat)) \<and>
   (ok_FSINFO3res r_fsinfo \<longrightarrow> decode xdr_FSINFO3res (encode xdr_FSINFO3res r_fsinfo) = Some (vis_FSINFO3res r_fsinfo)) \<and>
   (ok_PATHCONF3res r_pathconf \<longrightarrow> decode xdr_PATHCONF3res (encode xdr_PATHCONF3res r_pathconf) = Some (vis_PATHCONF3res r_pathconf)) \<and>
   (ok_COMMIT3res r_commit \<longrightarrow> decode xdr_COMMIT3res (encode xdr_COMMIT3res r_commit) = Some (vis_COMMIT3res r_commit)) \<and>
   (ok_mountres3 r_mnt \<longrightarrow> decode xdr_mountres3 (encode xdr_mountres3 r_mnt) = Some (vis_mountres3 r_mnt)) \<and>
   (pred_option ok_mountbody r_dump \<longrightarrow> decode xdr_mountlist (encode xdr_mountlist r_dump) = Some r_dump) \<and>
   (pred_option ok_exportnode r_exp \<longrightarrow> decode xdr_exports (encode xdr_exports r_exp) = Some r_exp)"
  by (intro conjI impI rtrip_encode(3); simp only: default_option_def xdr_rt)

theorem results_round_trip_witness:
  "decode xdr_READ3res (encode xdr_READ3res
     (default\<lparr>READ3res_u := default\<lparr>READ3resok_count := 2,
        READ3resok_data := \<lparr>counted_len = 2, counted_val = [2, 3, 9]\<rparr>\<rparr>\<rparr>)) =
   Some (vis_READ3res (default\<lparr>READ3res_u := default\<lparr>READ3resok_count := 2,
        READ3resok_data := \<lparr>counted_len = 2, counted_val = [2, 3, 9]\<rparr>\<rparr>\<rparr>))"
proof -
  have "ok_READ3res (default\<lparr>READ3res_u := default\<lparr>READ3resok_count := 2,
      READ3resok_data := \<lparr>counted_len = 2, counted_val = [2, 3, 9]\<rparr>\<rparr>\<rparr>)"
    by (simp add: ok_READ3res_def ok_READ3resok_def ok_post_op_attr_def counted_fits_def ok_bool_def c_consts
        zero_mem)
  moreover note results_round_trip [where r_read = "default\<lparr>READ3res_u := default\<lparr>READ3resok_count := 2,
      READ3resok_data := \<lparr>counted_len = 2, counted_val = [2, 3, 9]\<rparr>\<rparr>\<rparr>"]
  ultimately show ?thesis by (simp only: simp_thms)
qed

end
