(* ===== verification/Wire_Layout.thy ===== *)
theory Wire_Layout
  imports Wire Xdr_Codec_Results
begin

text \<open>
  The bytes of messages, written down from the description of the protocol (RFC 1813 over
  RFC 4506) and not from the filters: integers big end first, data padded to units of four,
  optional parts behind a flag, the members of a structure in the order of the protocol. A round
  trip does not see two members exchanged in a filter; the comparison with these layouts does.
\<close>

section \<open>Layouts\<close>

definition lay64 :: "u64 \<Rightarrow> byte list" where
  "lay64 w = be32 (ucast (drop_bit 32 w)) @ be32 (ucast w)"

definition lay_bool :: "bool_t \<Rightarrow> byte list" where
  "lay_bool b = be32 (if b = FALSE then 0 else 1)"

definition lay_data :: "byte list \<Rightarrow> byte list" where
  "lay_data bs = be32 (word_of_nat (length bs)) @ bs @ replicate (xdr_pad (length bs)) 0"

definition lay_name :: "charptr \<Rightarrow> byte list" where
  "lay_name p = lay_data (map byte_of_char (the p))"

definition lay_time :: "nfstime3 \<Rightarrow> byte list" where
  "lay_time t = be32 (nfstime3_seconds t) @ be32 (nfstime3_nseconds t)"

definition lay_fattr :: "fattr3 \<Rightarrow> byte list" where
  "lay_fattr a =
     be32 (fattr3_type a) @ be32 (fattr3_mode a) @ be32 (fattr3_nlink a) @ be32 (fattr3_uid a) @
     be32 (fattr3_gid a) @ lay64 (fattr3_size a) @ lay64 (fattr3_used a) @
     be32 (specdata3_specdata1 (fattr3_rdev a)) @ be32 (specdata3_specdata2 (fattr3_rdev a)) @
     lay64 (fattr3_fsid a) @ lay64 (fattr3_fileid a) @
     lay_time (fattr3_atime a) @ lay_time (fattr3_mtime a) @ lay_time (fattr3_ctime a)"

definition lay_post :: "post_op_attr \<Rightarrow> byte list" where
  "lay_post a = lay_bool (post_op_attr_attributes_follow a) @
     (if post_op_attr_attributes_follow a = TRUE then lay_fattr (post_op_attr_attributes a) else [])"

definition lay_handle :: "nfs_fh3 \<Rightarrow> byte list" where
  "lay_handle h = lay_data (counted_val (nfs_fh3_data h))"

definition lay_dirop :: "diropargs3 \<Rightarrow> byte list" where
  "lay_dirop d = lay_handle (diropargs3_dir d) @ lay_name (diropargs3_name d)"

definition lay_sattr :: "sattr3 \<Rightarrow> byte list" where
  "lay_sattr s =
     lay_bool (set_mode3_set_it (sattr3_mode s)) @
       (if set_mode3_set_it (sattr3_mode s) = TRUE then be32 (set_mode3_mode (sattr3_mode s)) else []) @
     lay_bool (set_uid3_set_it (sattr3_uid s)) @
       (if set_uid3_set_it (sattr3_uid s) = TRUE then be32 (set_uid3_uid (sattr3_uid s)) else []) @
     lay_bool (set_gid3_set_it (sattr3_gid s)) @
       (if set_gid3_set_it (sattr3_gid s) = TRUE then be32 (set_gid3_gid (sattr3_gid s)) else []) @
     lay_bool (set_size3_set_it (sattr3_size s)) @
       (if set_size3_set_it (sattr3_size s) = TRUE then lay64 (set_size3_size (sattr3_size s)) else []) @
     be32 (set_atime_set_it (sattr3_atime s)) @
       (if set_atime_set_it (sattr3_atime s) = SET_TO_CLIENT_TIME
        then lay_time (set_atime_atime (sattr3_atime s)) else []) @
     be32 (set_mtime_set_it (sattr3_mtime s)) @
       (if set_mtime_set_it (sattr3_mtime s) = SET_TO_CLIENT_TIME
        then lay_time (set_mtime_mtime (sattr3_mtime s)) else [])"

fun lay_entry :: "entry3 \<Rightarrow> byte list" where
  "lay_entry (Entry3 fileid name cookie next) =
     lay64 fileid @ lay_name name @ lay64 cookie @
     (case next of None \<Rightarrow> be32 0 | Some e \<Rightarrow> be32 1 @ lay_entry e)"

definition lay_listing :: "READDIR3resok \<Rightarrow> byte list" where
  "lay_listing r =
     lay_post (READDIR3resfail_dir_attributes r) @ READDIR3resok_cookieverf r @
     (case dirlist3_entries (READDIR3resok_reply r) of None \<Rightarrow> be32 0 | Some e \<Rightarrow> be32 1 @ lay_entry e) @
     lay_bool (dirlist3_eof (READDIR3resok_reply r))"

definition lay_read :: "READ3resok \<Rightarrow> byte list" where
  "lay_read r = lay_post (READ3resfail_file_attributes r) @ be32 (READ3resok_count r) @
     lay_bool (READ3resok_eof r) @ lay_data (counted_val (counted_vis (READ3resok_data r)))"

section \<open>Filters encode layouts\<close>

lemma encodes_eq: "encodes f x bs' \<Longrightarrow> bs' = bs \<Longrightarrow> encodes f x bs"
  by simp

lemma encodes_encode: "encodes f x bs \<Longrightarrow> encode f x = bs"
  by (simp add: encodes_def encode_def)

lemma encodes_field: "encodes f (sel x) bs \<Longrightarrow> upd (\<lambda>_. sel x) x = x \<Longrightarrow> encodes (field f sel upd) x bs"
  by (simp add: encodes_def field_def)

lemma encodes_Nil: "encodes (xseq []) x []"
  by (simp add: encodes_def)

lemma encodes_Cons: "encodes f x bs \<Longrightarrow> encodes (xseq fs) x cs \<Longrightarrow> encodes (xseq (f # fs)) x (bs @ cs)"
  by (simp add: encodes_def)

lemma encodes_switch: "encodes (k x) x bs \<Longrightarrow> encodes (xdr_switch k) x bs"
  by (simp add: encodes_def xdr_switch_def)

lemma encodes_break: "encodes xdr_break x []"
  by (simp add: encodes_def xdr_break_def)

lemma encodes_u32:
  "encodes xdr_u_int x (be32 x)" "encodes xdr_uint32 x (be32 x)" "encodes xdr_enum x (be32 x)"
  "encodes xdr_bool x (lay_bool x)"
  by (simp_all add: encodes_def xdr_u_int_def xdr_uint32_def xdr_uint32_t_def xdr_enum_def xdr_bool_def
      lay_bool_def)

lemma encodes_u64: "encodes xdr_uint64 x (lay64 x)"
proof -
  have "bit (0xFF :: u64) k \<longleftrightarrow> k < 8" for k
    using bit_mask_iff [where 'a = "64 word", of 8 k] by (auto simp: mask_eq_exp_minus_1)
  then have b: "ucast (drop_bit n x AND 0xFF) = (ucast (drop_bit n x) :: byte)" for n
    by (intro bit_word_eqI) (auto simp: bit_simps)
  have b0: "ucast (x AND 0xFF) = (ucast x :: byte)" using b [of 0] by simp
  have l: "[ucast (drop_bit 56 x), ucast (drop_bit 48 x), ucast (drop_bit 40 x), ucast (drop_bit 32 x),
      ucast (drop_bit 24 x), ucast (drop_bit 16 x), ucast (drop_bit 8 x), ucast x :: byte] = lay64 x"
    unfolding lay64_def be32_def by (simp, intro conjI; rule bit_word_eqI; auto simp: bit_simps)
  have "length (lay64 x) = 8" "xdr_pad 8 = 0" by (simp_all add: lay64_def xdr_pad_def)
  then show ?thesis by (simp add: encodes_def xdr_uint64_def Let_def b b0 l xdr_opaque_encode)
qed

lemma encodes_bytes:
  assumes "counted_ok m c" shows "encodes (xdr_bytes m) c (lay_data (counted_val c))"
  using assms
  by (auto simp: encodes_def xdr_bytes_def xdr_u_int_def counted_ok_def xdr_opaque_encode lay_data_def)

lemma encodes_bytes_vis:
  assumes "counted_fits m c" shows "encodes (xdr_bytes m) c (lay_data (counted_val (counted_vis c)))"
  using assms
  by (auto simp: encodes_def xdr_bytes_def xdr_u_int_def counted_fits_def counted_vis_def xdr_opaque_encode
      lay_data_def min_absorb2)

lemma encodes_name:
  assumes "ok_name p" shows "encodes (xdr_string (NOT 0)) p (lay_name p)"
proof -
  obtain s where s: "p = Some s" "length s < 0xFFFFFFFF" and le: "length s \<le> unat (NOT 0 :: u32)"
    using assms by (auto simp: ok_name_def str_ok_def split: option.splits)
  note nz = word_length_add_1_neq_0 [OF s(2)]
  have "\<not> (NOT 0 :: u32) < word_of_nat (length s)" using le nz(2) by (simp add: word_less_nat_alt)
  then show ?thesis
    using s(1) nz by (simp add: encodes_def xdr_string_def Let_def xdr_u_int_def xdr_opaque_encode
        lay_name_def lay_data_def)
qed

lemmas encodes_rules =
  encodes_Cons encodes_Nil encodes_field encodes_switch encodes_break encodes_u32 encodes_u64

lemmas scalar_filters =
  xdr_ftype3_def xdr_mode3_def xdr_uid3_def xdr_gid3_def xdr_size3_def xdr_fileid3_def xdr_count3_def
  xdr_offset3_def xdr_cookie3_def xdr_nfsstat3_def xdr_time_how_def xdr_filename3_def

lemmas union_defs = field_def xdr_switch_def xdr_break_def

lemma encodes_time: "encodes xdr_nfstime3 t (lay_time t)"
  unfolding xdr_nfstime3_def lay_time_def
  by (rule encodes_eq, (rule encodes_rules | simp)+)

lemma encodes_specdata:
  "encodes xdr_specdata3 d (be32 (specdata3_specdata1 d) @ be32 (specdata3_specdata2 d))"
  unfolding xdr_specdata3_def by (rule encodes_eq, (rule encodes_rules | simp)+)

lemma encodes_fattr: "encodes xdr_fattr3 a (lay_fattr a)"
  unfolding xdr_fattr3_def lay_fattr_def scalar_filters
  by (rule encodes_eq, (rule encodes_rules encodes_time encodes_specdata | simp)+)

lemma encodes_post: "ok_post_op_attr a \<Longrightarrow> encodes xdr_post_op_attr a (lay_post a)"
  using encodes_fattr [of "post_op_attr_attributes a"] encodes_u32(4) [of "post_op_attr_attributes_follow a"]
  by (auto simp: encodes_def xdr_post_op_attr_def union_defs lay_post_def ok_post_op_attr_def c_consts)

lemma encodes_handle: "ok_nfs_fh3 h \<Longrightarrow> encodes xdr_nfs_fh3 h (lay_handle h)"
  unfolding xdr_nfs_fh3_def lay_handle_def ok_nfs_fh3_def
  by (rule encodes_eq, (rule encodes_rules encodes_bytes | simp)+)

lemma encodes_dirop: "ok_diropargs3 d \<Longrightarrow> encodes xdr_diropargs3 d (lay_dirop d)"
  unfolding xdr_diropargs3_def lay_dirop_def ok_diropargs3_def scalar_filters
  by (rule encodes_eq, (rule encodes_rules encodes_handle encodes_name | simp)+)

lemma encodes_set_parts:
  "encodes xdr_set_mode3 m (lay_bool (set_mode3_set_it m) @
    (if set_mode3_set_it m = TRUE then be32 (set_mode3_mode m) else []))"
  "encodes xdr_set_uid3 u (lay_bool (set_uid3_set_it u) @
    (if set_uid3_set_it u = TRUE then be32 (set_uid3_uid u) else []))"
  "encodes xdr_set_gid3 g (lay_bool (set_gid3_set_it g) @
    (if set_gid3_set_it g = TRUE then be32 (set_gid3_gid g) else []))"
  "encodes xdr_set_size3 z (lay_bool (set_size3_set_it z) @
    (if set_size3_set_it z = TRUE then lay64 (set_size3_size z) else []))"
  "encodes xdr_set_atime a (be32 (set_atime_set_it a) @
    (if set_atime_set_it a = SET_TO_CLIENT_TIME then lay_time (set_atime_atime a) else []))"
  "encodes xdr_set_mtime mt (be32 (set_mtime_set_it mt) @
    (if set_mtime_set_it mt = SET_TO_CLIENT_TIME then lay_time (set_mtime_mtime mt) else []))"
  using encodes_u32 encodes_u64 encodes_time
  by (simp_all add: encodes_def xdr_set_mode3_def xdr_set_uid3_def xdr_set_gid3_def xdr_set_size3_def
      xdr_set_atime_def xdr_set_mtime_def union_defs scalar_filters)

lemma encodes_sattr: "encodes xdr_sattr3 s (lay_sattr s)"
  unfolding xdr_sattr3_def lay_sattr_def
  by (rule encodes_eq, (rule encodes_rules encodes_set_parts | simp)+)

lemma encodes_entry: "ok_entry3 e \<Longrightarrow> encodes xdr_entry3 e (lay_entry e)"
proof (induction e rule: ok_entry3.induct)
  case (1 fileid name cookie)
  then show ?case
    using encodes_u64 [of fileid] encodes_u64 [of cookie] encodes_name [of name]
    by (simp add: encodes_def xdr_entry3.simps scalar_filters xdr_pointer_def xdr_bool_def)
next
  case (2 fileid name cookie e)
  then show ?case
    using encodes_u64 [of fileid] encodes_u64 [of cookie] encodes_name [of name]
    by (simp add: encodes_def xdr_entry3.simps [of _ "Entry3 _ _ _ _"] scalar_filters xdr_pointer_def
        xdr_bool_def c_consts)
qed

lemma encodes_entries:
  "pred_option ok_entry3 p \<Longrightarrow>
   encodes (xdr_pointer xdr_entry3) p (case p of None \<Rightarrow> be32 0 | Some e \<Rightarrow> be32 1 @ lay_entry e)"
  using encodes_entry [of "the p"]
  by (cases p) (auto simp: encodes_def xdr_pointer_def xdr_bool_def TRUE_def FALSE_def)

lemma encodes_listing:
  assumes "ok_post_op_attr (READDIR3resfail_dir_attributes r)"
    and "length (READDIR3resok_cookieverf r) = 8"
    and "pred_option ok_entry3 (dirlist3_entries (READDIR3resok_reply r))"
  shows "encodes xdr_READDIR3resok r (lay_listing r)"
proof -
  have "encodes xdr_cookieverf3 (READDIR3resok_cookieverf r) (READDIR3resok_cookieverf r)"
    using assms(2) by (simp add: encodes_def xdr_cookieverf3_def c_consts xdr_opaque_encode xdr_pad_def)
  note verf = this
  show ?thesis
    unfolding xdr_READDIR3resok_def xdr_dirlist3_def lay_listing_def
    by (rule encodes_eq, (rule encodes_rules encodes_post encodes_entries verf assms | simp)+)
qed

section \<open>Messages\<close>

lemma encodes_calls:
  "ok_diropargs3 (RENAME3args_from n) \<Longrightarrow> ok_diropargs3 (RENAME3args_to n) \<Longrightarrow>
    encodes xdr_RENAME3args n (lay_dirop (RENAME3args_from n) @ lay_dirop (RENAME3args_to n))"
  "ok_nfs_fh3 (READ3args_file r) \<Longrightarrow>
    encodes xdr_READ3args r (lay_handle (READ3args_file r) @ lay64 (READ3args_offset r) @ be32 (READ3args_count r))"
  "ok_WRITE3args w \<Longrightarrow>
    encodes xdr_WRITE3args w (lay_handle (WRITE3args_file w) @ lay64 (WRITE3args_offset w) @
      be32 (WRITE3args_count w) @ be32 (WRITE3args_stable w) @ lay_data (counted_val (WRITE3args_data w)))"
  using encodes_dirop [of "RENAME3args_from n"] encodes_dirop [of "RENAME3args_to n"]
    encodes_handle [of "READ3args_file r"] encodes_handle [of "WRITE3args_file w"] encodes_u32 encodes_u64
    encodes_bytes [of "NOT 0" "WRITE3args_data w"]
  by (simp_all add: encodes_def xdr_RENAME3args_def xdr_READ3args_def xdr_WRITE3args_def xdr_stable_how_def
      field_def scalar_filters ok_WRITE3args_def)

lemma encodes_replies:
  "GETATTR3res_status g = NFS3_OK \<Longrightarrow>
    encodes xdr_GETATTR3res g (be32 0 @ lay_fattr (GETATTR3resok_obj_attributes (GETATTR3res_u g)))"
  "READDIR3res_status d = NFS3_OK \<Longrightarrow> encodes xdr_READDIR3resok (READDIR3res_u d) bs \<Longrightarrow>
    encodes xdr_READDIR3res d (be32 0 @ bs)"
  "READ3res_status q = NFS3_OK \<Longrightarrow> ok_READ3res q \<Longrightarrow>
    encodes xdr_READ3res q (be32 0 @ lay_read (READ3res_u q))"
  using encodes_u32 [of "0 :: u32"] encodes_fattr [of "GETATTR3resok_obj_attributes (GETATTR3res_u g)"]
    encodes_u32(2) [of "READ3resok_count (READ3res_u q)"] encodes_u32(4) [of "READ3resok_eof (READ3res_u q)"]
    encodes_post [of "READ3resfail_file_attributes (READ3res_u q)"]
    encodes_bytes_vis [of "NOT 0" "READ3resok_data (READ3res_u q)"]
  by (auto simp: encodes_def xdr_GETATTR3res_def xdr_GETATTR3resok_def xdr_READDIR3res_def xdr_READ3res_def
      xdr_READ3resok_def ok_READ3res_def ok_READ3resok_def lay_read_def union_defs scalar_filters NFS3_OK_def)

text \<open>
  C37: Messages look as the protocol says. The attributes of an object are 84 bytes in the order
  of RFC 1813; the attributes of a SETATTR or CREATE, the arguments of RENAME, READ and WRITE and
  the replies of GETATTR, READ and READDIR, the last with the chain of its entries, are the
  layouts above, for all values that the protocol can express.
\<close>

theorem messages_layout:
  assumes "ok_RENAME3args n" and "ok_READ3args r" and "ok_WRITE3args w"
    and "GETATTR3res_status g = NFS3_OK" and "READ3res_status q = NFS3_OK" and "ok_READ3res q"
    and "READDIR3res_status d = NFS3_OK" and "ok_READDIR3res d"
  shows "encode xdr_fattr3 a = lay_fattr a \<and> length (lay_fattr a) = 84 \<and>
    encode xdr_sattr3 s = lay_sattr s \<and>
    encode xdr_RENAME3args n = lay_dirop (RENAME3args_from n) @ lay_dirop (RENAME3args_to n) \<and>
    encode xdr_READ3args r =
      lay_handle (READ3args_file r) @ lay64 (READ3args_offset r) @ be32 (READ3args_count r) \<and>
    encode xdr_WRITE3args w = lay_handle (WRITE3args_file w) @ lay64 (WRITE3args_offset w) @
      be32 (WRITE3args_count w) @ be32 (WRITE3args_stable w) @ lay_data (counted_val (WRITE3args_data w)) \<and>
    encode xdr_GETATTR3res g = be32 0 @ lay_fattr (GETATTR3resok_obj_attributes (GETATTR3res_u g)) \<and>
    encode xdr_READ3res q = be32 0 @ lay_read (READ3res_u q) \<and>
    encode xdr_READDIR3res d = be32 0 @ lay_listing (READDIR3res_u d)"
proof -
  have "encodes xdr_READDIR3resok (READDIR3res_u d) (lay_listing (READDIR3res_u d))"
    by (rule encodes_listing) (use assms(7,8) in \<open>simp_all add: ok_READDIR3res_def ok_READDIR3resok_def
      ok_dirlist3_def ok_verf_def\<close>)
  then show ?thesis
    using assms encodes_fattr [of a] encodes_sattr [of s] encodes_calls(1) [of n] encodes_calls(2) [of r]
      encodes_calls(3) [of w] encodes_replies(1) [of g] encodes_replies(2) [of d] encodes_replies(3) [of q]
    by (simp add: encodes_encode lay_fattr_def lay64_def lay_time_def ok_RENAME3args_def ok_READ3args_def)
qed

theorem messages_layout_witness:
  "encode xdr_READ3args \<lparr>READ3args_file = root_handle, READ3args_offset = 5, READ3args_count = 7\<rparr> =
      lay_handle root_handle @ [0, 0, 0, 0, 0, 0, 0, 5, 0, 0, 0, 7] \<and>
    length (encode xdr_GETATTR3res default) = 88 \<and>
    encode xdr_READDIR3res default = be32 0 @ lay_listing (READDIR3res_u (default :: READDIR3res))"
proof -
  let ?n = "\<lparr>RENAME3args_from = in_root ''a'', RENAME3args_to = in_root ''a''\<rparr>"
  let ?r = "\<lparr>READ3args_file = root_handle, READ3args_offset = 5, READ3args_count = 7\<rparr>"
  let ?w = "default\<lparr>WRITE3args_file := root_handle\<rparr>"
  have h: "ok_nfs_fh3 root_handle" using ok_root by (simp add: ok_diropargs3_def in_root_def)
  have n: "ok_RENAME3args ?n" by (simp add: ok_RENAME3args_def ok_root)
  have r: "ok_READ3args ?r" by (simp add: ok_READ3args_def h)
  have w: "ok_WRITE3args ?w" by (simp add: ok_WRITE3args_def h counted_ok_def zero_mem)
  have g: "GETATTR3res_status default = NFS3_OK" by (simp add: zero_mem c_consts)
  have q: "READ3res_status default = NFS3_OK" "ok_READ3res default"
    by (simp_all add: ok_READ3res_def ok_READ3resok_def ok_post_op_attr_def counted_fits_def ok_bool_def
        c_consts zero_mem)
  have d: "READDIR3res_status default = NFS3_OK" "ok_READDIR3res default"
    by (simp_all add: ok_READDIR3res_def ok_READDIR3resok_def ok_dirlist3_def ok_verf_def ok_post_op_attr_def
        ok_bool_def c_consts zero_mem)
  show ?thesis
    using messages_layout [OF n r w g q d] messages_layout [OF n r w g q d,
        where a = "GETATTR3resok_obj_attributes (GETATTR3res_u default)"]
    by (simp add: lay64_def be32_def)
qed

end
